(* ===== verification/Prelude.thy ===== *)
theory Prelude
  imports Main "HOL-Library.Word"
begin

text \<open>
  Shared vocabulary of the development: Go's machine integers, instants and durations,
  the byte-string operations of the standard library the program calls, error results,
  and the generic lemmas (on row updates, selections and two's-complement wrap-around)
  that the component theories use through the collections declared here.
\<close>

named_theorems go_arith \<open>two's-complement and duration arithmetic\<close>
named_theorems go_str \<open>defining equations of the string helpers\<close>

section \<open>Integers, instants and durations\<close>

text \<open>
  \<open>uint32\<close> and \<open>uint64\<close> are words (they wrap); \<open>int64\<close> is an \<open>int\<close> brought back into
  range by \<open>wrap64\<close> after every operation that can leave it. \<open>time.Duration\<close> is an
  \<open>int64\<close> number of nanoseconds; \<open>time.Time\<close> is the number of nanoseconds since the Unix
  epoch, an \<open>int\<close> (Go's representation does not overflow on the sums the program forms).
\<close>

type_synonym uint32 = "32 word"
type_synonym uint64 = "64 word"
type_synonym duration = int
type_synonym instant = int
type_synonym uuid = "128 word"

definition max_int64 :: int where
  "max_int64 = 9223372036854775807"

definition min_int64 :: int where
  "min_int64 = - 9223372036854775808"

definition wrap64 :: "int \<Rightarrow> int" where
  "wrap64 x = (x + 9223372036854775808) mod 18446744073709551616 - 9223372036854775808"

definition is_int64 :: "int \<Rightarrow> bool" where
  "is_int64 x \<longleftrightarrow> min_int64 \<le> x \<and> x \<le> max_int64"

definition second :: duration where
  "second = 1000000000"

definition millisecond :: duration where
  "millisecond = 1000000"

text \<open>Go's integer division truncates towards zero; \<open>Time.Sub\<close> saturates.\<close>

definition quot :: "int \<Rightarrow> int \<Rightarrow> int" where
  "quot a b = (if b = 0 then 0 else sgn a * sgn b * (\<bar>a\<bar> div \<bar>b\<bar>))"

definition time_sub :: "instant \<Rightarrow> instant \<Rightarrow> duration" where
  "time_sub a b = max min_int64 (min max_int64 (a - b))"

definition milliseconds :: "duration \<Rightarrow> int" where
  "milliseconds d = quot d millisecond"

lemmas int64_bounds [go_arith] = max_int64_def min_int64_def is_int64_def

lemma wrap64_id [simp]: "is_int64 x \<Longrightarrow> wrap64 x = x"
  by (simp add: wrap64_def go_arith)

lemma is_int64_wrap64 [simp]: "is_int64 (wrap64 x)"
proof -
  have "0 \<le> (x + 9223372036854775808) mod 18446744073709551616"
    and "(x + 9223372036854775808) mod 18446744073709551616 < 18446744073709551616"
    by simp_all
  then show ?thesis by (simp add: wrap64_def go_arith)
qed

lemma quot_pos: "0 \<le> a \<Longrightarrow> 0 < b \<Longrightarrow> quot a b = a div b"
  by (auto simp: quot_def sgn_if)

lemma time_sub_pos: "b < a \<Longrightarrow> 0 < time_sub a b"
  by (simp add: time_sub_def go_arith)

lemma word_of_nat_less_unat: "n < unat x \<Longrightarrow> (of_nat n :: 'a::len word) < x"
  unfolding word_less_nat_alt unat_of_nat by (rule le_less_trans[OF mod_less_eq_dividend])

lemma word_of_nat_Suc_pred: "Suc m = unat x \<Longrightarrow> (of_nat m + 1 :: 'a::len word) = x"
  by (metis of_nat_Suc add.commute of_nat_unat ucast_id)

section \<open>Errors as values\<close>

type_synonym ('e, 'a) result = "'e + 'a"

section \<open>Byte strings\<close>

text \<open>
  A Go string is a sequence of bytes, here a \<open>char list\<close>. The helpers follow package
  strings: \<open>TrimSpace\<close> removes Unicode white space (given by its UTF-8 encodings),
  \<open>ToLower\<close> is modelled on the ASCII letters. \<open>EqualFold\<close> (and the folding of JSON member
  names) also takes the two other characters that fold to an ASCII letter, the long s
  (U+017F) and the Kelvin sign (U+212A); one side is always an ASCII constant.
\<close>

definition byte :: "nat \<Rightarrow> char" where
  "byte n = char_of n"

definition HasPrefix :: "string \<Rightarrow> string \<Rightarrow> bool" where
  "HasPrefix s p \<longleftrightarrow> take (length p) s = p"

definition HasSuffix :: "string \<Rightarrow> string \<Rightarrow> bool" where
  "HasSuffix s p \<longleftrightarrow> length p \<le> length s \<and> drop (length s - length p) s = p"

definition TrimPrefix :: "string \<Rightarrow> string \<Rightarrow> string" where
  "TrimPrefix s p = (if HasPrefix s p then drop (length p) s else s)"

fun Contains :: "string \<Rightarrow> string \<Rightarrow> bool" where
  "Contains [] p = (p = [])"
| "Contains (c # s) p = (HasPrefix (c # s) p \<or> Contains s p)"

definition ContainsAny :: "string \<Rightarrow> string \<Rightarrow> bool" where
  "ContainsAny s cs = list_ex (\<lambda>c. c \<in> set cs) s"

fun Split_char :: "char \<Rightarrow> string \<Rightarrow> string list" where
  "Split_char d [] = [[]]"
| "Split_char d (c # s) =
     (if c = d then [] # Split_char d s
      else case Split_char d s of [] \<Rightarrow> [[c]] | w # ws \<Rightarrow> (c # w) # ws)"

definition white_runes :: "string list" where
  "white_runes =
     map (map byte)
       ([[9], [10], [11], [12], [13], [32], [194, 133], [194, 160], [225, 154, 128],
         [226, 128, 168], [226, 128, 169], [226, 128, 175], [226, 129, 159], [227, 128, 128]]
        @ map (\<lambda>n. [226, 128, 128 + n]) [0..<11])"

definition white_prefix :: "string \<Rightarrow> string option" where
  "white_prefix s = List.find (HasPrefix s) white_runes"

fun TrimLeftSpace_fuel :: "nat \<Rightarrow> string \<Rightarrow> string" where
  "TrimLeftSpace_fuel 0 s = s"
| "TrimLeftSpace_fuel (Suc n) s =
     (case white_prefix s of None \<Rightarrow> s | Some w \<Rightarrow> TrimLeftSpace_fuel n (drop (length w) s))"

fun TrimRightSpace_fuel :: "nat \<Rightarrow> string \<Rightarrow> string" where
  "TrimRightSpace_fuel 0 s = s"
| "TrimRightSpace_fuel (Suc n) s =
     (case List.find (HasSuffix s) white_runes of
        None \<Rightarrow> s
      | Some w \<Rightarrow> TrimRightSpace_fuel n (take (length s - length w) s))"

text \<open>Each round removes at least one byte, so the length of the string is enough fuel.\<close>

definition TrimSpace :: "string \<Rightarrow> string" where
  "TrimSpace s =
     (let l = TrimLeftSpace_fuel (length s) s in TrimRightSpace_fuel (length l) l)"

definition lower_char :: "char \<Rightarrow> char" where
  "lower_char c =
     (if 65 \<le> (of_char c :: nat) \<and> (of_char c :: nat) \<le> 90
      then char_of ((of_char c :: nat) + 32) else c)"

definition ToLower :: "string \<Rightarrow> string" where
  "ToLower s = map lower_char s"

fun fold_runes :: "string \<Rightarrow> string" where
  "fold_runes [] = []"
| "fold_runes (c # s) =
     (if c = CHR 0xC5 \<and> take 1 s = [CHR 0xBF] then CHR ''s'' # fold_runes (drop 1 s)
      else if c = CHR 0xE2 \<and> take 2 s = [CHR 0x84, CHR 0xAA] then CHR ''k'' # fold_runes (drop 2 s)
      else lower_char c # fold_runes s)"

definition EqualFold :: "string \<Rightarrow> string \<Rightarrow> bool" where
  "EqualFold a b \<longleftrightarrow> fold_runes a = fold_runes b"

text \<open>Decimal rendering (\<open>strconv.Itoa\<close>, the \<open>%d\<close> verb).\<close>

fun nat_digits :: "nat \<Rightarrow> string" where
  "nat_digits n =
     (if n < 10 then [char_of (48 + n)] else nat_digits (n div 10) @ [char_of (48 + n mod 10)])"

declare nat_digits.simps [simp del]

definition Itoa :: "int \<Rightarrow> string" where
  "Itoa n = (if n < 0 then CHR ''-'' # nat_digits (nat (- n)) else nat_digits (nat n))"

fun Join :: "string list \<Rightarrow> string \<Rightarrow> string" where
  "Join [] sep = []"
| "Join [x] sep = x"
| "Join (x # y # xs) sep = x @ sep @ Join (y # xs) sep"

text \<open>The \<open>%q\<close> verb, exact for printable ASCII without quotes and backslashes.\<close>

definition go_q :: "string \<Rightarrow> string" where
  "go_q s = [CHR 0x22] @ s @ [CHR 0x22]"

lemma HasPrefix_iff [go_str]: "HasPrefix s p \<longleftrightarrow> (\<exists>r. s = p @ r)"
  unfolding HasPrefix_def by (metis append_eq_conv_conj append_take_drop_id)

text \<open>A text that begins and ends with a visible ASCII character has nothing to trim.\<close>

definition visible :: "char \<Rightarrow> bool" where
  "visible c \<longleftrightarrow> 33 \<le> (of_char c :: nat) \<and> (of_char c :: nat) \<le> 126"

lemma white_runes_invisible:
  "w \<in> set white_runes \<Longrightarrow> w \<noteq> [] \<and> \<not> visible (hd w) \<and> \<not> visible (last w)"
  by (auto simp: white_runes_def byte_def visible_def)

lemma TrimSpace_visible:
  assumes "s \<noteq> []" and "visible (hd s)" and "visible (last s)"
  shows "TrimSpace s = s"
proof -
  have "\<not> HasPrefix s w \<and> \<not> HasSuffix s w" if "w \<in> set white_runes" for w
  proof -
    note w = white_runes_invisible[OF that]
    have "hd s = hd w" if "HasPrefix s w" using that w by (auto simp: HasPrefix_iff)
    moreover have "last s = last w" if "HasSuffix s w"
      using that w assms(1) unfolding HasSuffix_def by (metis last_appendR append_take_drop_id)
    ultimately show ?thesis using w assms by auto
  qed
  then have "white_prefix s = None" "List.find (HasSuffix s) white_runes = None"
    by (auto simp: white_prefix_def find_None_iff)
  then show ?thesis by (cases s) (simp_all add: TrimSpace_def)
qed

lemma HasPrefix_append [simp]: "HasPrefix (p @ s) p"
  by (simp add: HasPrefix_def)

lemma TrimPrefix_append [simp]: "TrimPrefix (p @ s) p = s"
  by (simp add: TrimPrefix_def)

section \<open>Guarded updates of a list of rows\<close>

text \<open>
  \<open>update_where p f t\<close> is SQL's \<open>UPDATE ... SET f WHERE p\<close> on the rows \<open>t\<close>;
  \<open>count_where p t\<close> is the number of affected rows.
\<close>

definition update_where :: "('r \<Rightarrow> bool) \<Rightarrow> ('r \<Rightarrow> 'r) \<Rightarrow> 'r list \<Rightarrow> 'r list" where
  "update_where p f t = map (\<lambda>r. if p r then f r else r) t"

definition count_where :: "('r \<Rightarrow> bool) \<Rightarrow> 'r list \<Rightarrow> nat" where
  "count_where p t = length (filter p t)"

lemma length_update_where [simp]: "length (update_where p f t) = length t"
  by (simp add: update_where_def)

lemma map_update_where [simp]:
  "(\<And>r. p r \<Longrightarrow> k (f r) = k r) \<Longrightarrow> map k (update_where p f t) = map k t"
  by (auto simp: update_where_def)

lemma update_where_none: "count_where p t = 0 \<Longrightarrow> update_where p f t = t"
  by (auto simp: update_where_def count_where_def filter_empty_conv intro: map_idI)

lemma count_where_pos: "0 < count_where p t \<longleftrightarrow> (\<exists>r \<in> set t. p r)"
  by (auto simp: count_where_def filter_empty_conv)

lemma ball_update_where:
  assumes "\<And>r. r \<in> set t \<Longrightarrow> Q r" and "\<And>r. r \<in> set t \<Longrightarrow> p r \<Longrightarrow> Q r \<Longrightarrow> Q (f r)"
  shows "\<forall>r \<in> set (update_where p f t). Q r"
  using assms by (auto simp: update_where_def)

end
