(* ===== verification/Mq.thy ===== *)
theory Mq
  imports Prelude
begin

text \<open>
  internal/mq/mq.go: the retry policy every message-queue backend shares. A delivery
  carries the broker's attempt counter and the configured policy; the handler answers
  with an error that may carry an exact requeue directive.
\<close>

section \<open>Configuration (internal/config/mq.go)\<close>

record RequeueConfig =
  rq_DefaultRequeueDelay :: duration
  rq_MaxRequeueDelay :: duration
  rq_MaxAttempts :: uint32

section \<open>Deliveries and handler errors\<close>

record Delivery =
  dl_EventID :: uuid
  dl_Attempts :: uint32
  dl_MaxAttempts :: uint32
  dl_RequeueDelay :: duration
  dl_defaultRequeueDelay :: duration
  dl_maxRequeueDelay :: duration

text \<open>
  What a handler returns: nil (acknowledge), a typed requeue directive, or any other
  error. \<open>errors.As\<close> finds the directive only in the second case.
\<close>

datatype handler_error =
    RequeueError (re_cause: string) (re_delay: duration) (re_backoff: bool)
  | OtherError string

type_synonym handler_result = "handler_error option"

definition RequestRequeue :: "string \<Rightarrow> duration \<Rightarrow> bool \<Rightarrow> handler_error" where
  "RequestRequeue cause delay backoff =
     RequeueError cause (if delay < 0 then 0 else delay) backoff"

fun requestedRequeue :: "handler_error \<Rightarrow> duration \<Rightarrow> duration \<times> bool \<times> bool" where
  "requestedRequeue (RequeueError c d b) fallback = (d, b, True)"
| "requestedRequeue (OtherError e) fallback = (fallback, True, False)"

section \<open>The linear policy\<close>

definition linearRequeueDelay :: "uint32 \<Rightarrow> duration \<Rightarrow> duration \<Rightarrow> duration" where
  "linearRequeueDelay attempts0 defaultDelay maxDelay =
     (let attempts = (if attempts0 = 0 then 1 else attempts0) in
      if defaultDelay \<le> 0 then 0
      else if 0 < maxDelay \<and> uint attempts > quot maxDelay defaultDelay then maxDelay
      else (let delay = wrap64 (defaultDelay * uint attempts) in
            if 0 < maxDelay \<and> delay > maxDelay then maxDelay else delay))"

definition RequeueDelayFor :: "Delivery \<Rightarrow> uint32 \<Rightarrow> duration" where
  "RequeueDelayFor d attempt =
     (if 0 < dl_defaultRequeueDelay d
      then linearRequeueDelay attempt (dl_defaultRequeueDelay d) (dl_maxRequeueDelay d)
      else dl_RequeueDelay d)"

definition validateRequeueConfig :: "string \<Rightarrow> RequeueConfig \<Rightarrow> (string, unit) result" where
  "validateRequeueConfig driver cfg =
     (if rq_DefaultRequeueDelay cfg \<le> 0 then
        Inl (''mq: '' @ driver @ '' default_requeue_delay must be greater than zero'')
      else if rq_MaxRequeueDelay cfg < rq_DefaultRequeueDelay cfg then
        Inl (''mq: '' @ driver @ '' max_requeue_delay must be greater than or equal to default_requeue_delay'')
      else if 32767 < rq_MaxAttempts cfg then
        Inl (''mq: '' @ driver @ '' max_attempts must not exceed notification_event.attempt_count limit 32767'')
      else Inr ())"

text \<open>The delivery every consumer builds from its configuration and the broker's counter.\<close>

definition mk_delivery :: "RequeueConfig \<Rightarrow> uuid \<Rightarrow> uint32 \<Rightarrow> Delivery" where
  "mk_delivery cfg i attempts =
     \<lparr>dl_EventID = i, dl_Attempts = attempts, dl_MaxAttempts = rq_MaxAttempts cfg,
      dl_RequeueDelay =
        linearRequeueDelay attempts (rq_DefaultRequeueDelay cfg) (rq_MaxRequeueDelay cfg),
      dl_defaultRequeueDelay = rq_DefaultRequeueDelay cfg,
      dl_maxRequeueDelay = rq_MaxRequeueDelay cfg\<rparr>"

text \<open>
  The counter a consumer puts on the redelivered message: plus one, kept where it is when
  the 32-bit counter would wrap to zero.
\<close>

definition next_attempts :: "uint32 \<Rightarrow> uint32" where
  "next_attempts a = (if a + 1 = 0 then a else a + 1)"

lemma next_attempts_pos: "0 < next_attempts a"
  by (auto simp: next_attempts_def word_neq_0_conv[symmetric])

section \<open>Properties of the policy\<close>

definition spec_delay :: "nat \<Rightarrow> duration \<Rightarrow> duration \<Rightarrow> duration" where
  "spec_delay attempts defaultDelay maxDelay = min (defaultDelay * int (max 1 attempts)) maxDelay"

lemma validate_ok_iff:
  "validateRequeueConfig driver cfg = Inr () \<longleftrightarrow>
     0 < rq_DefaultRequeueDelay cfg \<and> rq_DefaultRequeueDelay cfg \<le> rq_MaxRequeueDelay cfg
     \<and> rq_MaxAttempts cfg \<le> 32767"
  by (auto simp: validateRequeueConfig_def not_less)

lemma linearRequeueDelay_spec:
  assumes "0 < d" and "0 < m" and "m \<le> max_int64"
  shows "linearRequeueDelay a d m = spec_delay (unat a) d m"
proof -
  define n where "n = (if a = 0 then (1::uint32) else a)"
  have n: "int (max 1 (unat a)) = uint n"
    by (cases "a = 0") (auto simp: n_def unat_gt_0 max_def Suc_le_eq)
  have q: "quot m d = m div d" using assms by (simp add: quot_pos)
  show ?thesis
  proof (cases "uint n > m div d")
    case True
    then have "d * (m div d + 1) \<le> d * uint n" using assms by (intro mult_left_mono) auto
    then have "m < d * uint n"
      using mult_div_mod_eq[of d m] pos_mod_bound[OF assms(1), of m]
      unfolding distrib_left by linarith
    with True assms q n show ?thesis
      by (simp add: linearRequeueDelay_def spec_delay_def Let_def flip: n_def)
  next
    case False
    have "d * uint n \<le> d * (m div d)" using False assms by simp
    also have "\<dots> \<le> m"
      using mult_div_mod_eq[of d m] pos_mod_sign[OF assms(1), of m] by linarith
    finally have le: "d * uint n \<le> m" .
    have "is_int64 (d * uint n)"
      using le assms by (simp add: go_arith order_trans[of _ 0])
    with le False assms q n show ?thesis
      by (simp add: linearRequeueDelay_def spec_delay_def Let_def flip: n_def)
  qed
qed

section \<open>What every backend promises its handler\<close>

text \<open>
  The decision a consumer takes on one message once the handler has answered: the message
  is done with, or it comes back for the same event after a delay.
\<close>

datatype disposition = Acknowledged | RedeliverAfter uuid duration

text \<open>
  The rule the backends share. A message that names no event is given up, as is one the
  handler is done with; a requeue directive is followed to the letter; after any other error
  the message comes back after the consumer's own delay.
\<close>

definition redelivery_rule ::
  "RequeueConfig \<Rightarrow> duration \<Rightarrow> uuid option \<Rightarrow> uint32 \<Rightarrow> (Delivery \<Rightarrow> handler_result) \<Rightarrow> disposition" where
  "redelivery_rule cfg own_delay event attempts h =
     (case event of
        None \<Rightarrow> Acknowledged
      | Some i \<Rightarrow>
        (case h (mk_delivery cfg i attempts) of
           None \<Rightarrow> Acknowledged
         | Some (RequeueError c delay b) \<Rightarrow> RedeliverAfter i delay
         | Some (OtherError e) \<Rightarrow> RedeliverAfter i own_delay))"

locale broker_consumer =
  fixes cfg :: RequeueConfig
    and event_of :: "'msg \<Rightarrow> uuid option"
    and attempts_of :: "'msg \<Rightarrow> uint32"
    and own_delay :: "'msg \<Rightarrow> duration"
    and dispose :: "'msg \<Rightarrow> (Delivery \<Rightarrow> handler_result) \<Rightarrow> disposition"
  assumes malformed: "event_of m = None \<Longrightarrow> dispose m h = Acknowledged"
    and handled: "event_of m = Some i \<Longrightarrow> h (mk_delivery cfg i (attempts_of m)) = None \<Longrightarrow>
      dispose m h = Acknowledged"
    and directed: "event_of m = Some i \<Longrightarrow>
      h (mk_delivery cfg i (attempts_of m)) = Some (RequeueError c d b) \<Longrightarrow>
      dispose m h = RedeliverAfter i d"
    and failed: "event_of m = Some i \<Longrightarrow> h (mk_delivery cfg i (attempts_of m)) = Some (OtherError e) \<Longrightarrow>
      dispose m h = RedeliverAfter i (own_delay m)"
begin

lemma follows_rule: "dispose m h = redelivery_rule cfg (own_delay m) (event_of m) (attempts_of m) h"
proof (cases "event_of m")
  case (Some i)
  show ?thesis
  proof (cases "h (mk_delivery cfg i (attempts_of m))")
    case err: (Some e)
    with Some directed failed show ?thesis by (cases e) (simp_all add: redelivery_rule_def)
  qed (use Some handled in \<open>simp add: redelivery_rule_def\<close>)
qed (simp add: malformed redelivery_rule_def)

end

section \<open>The requeue policy\<close>

text \<open>
  C23: Under a configuration the brokers accept, the delay before attempt \<open>a\<close> comes back is
  the default delay times \<open>a\<close>, capped at the maximum: it is never below the default or above
  the maximum, it never shrinks as attempts grow, and the 64-bit product never wraps.
\<close>

theorem requeue_delay_policy:
  assumes "validateRequeueConfig driver cfg = Inr ()" and "rq_MaxRequeueDelay cfg \<le> max_int64"
  shows "linearRequeueDelay a (rq_DefaultRequeueDelay cfg) (rq_MaxRequeueDelay cfg) =
           min (rq_DefaultRequeueDelay cfg * int (max 1 (unat a))) (rq_MaxRequeueDelay cfg)
    \<and> rq_DefaultRequeueDelay cfg \<le>
        linearRequeueDelay a (rq_DefaultRequeueDelay cfg) (rq_MaxRequeueDelay cfg)
    \<and> linearRequeueDelay a (rq_DefaultRequeueDelay cfg) (rq_MaxRequeueDelay cfg)
        \<le> rq_MaxRequeueDelay cfg
    \<and> (a \<le> b \<longrightarrow> linearRequeueDelay a (rq_DefaultRequeueDelay cfg) (rq_MaxRequeueDelay cfg)
        \<le> linearRequeueDelay b (rq_DefaultRequeueDelay cfg) (rq_MaxRequeueDelay cfg))"
proof -
  let ?d = "rq_DefaultRequeueDelay cfg" and ?m = "rq_MaxRequeueDelay cfg"
  have d: "0 < ?d" "?d \<le> ?m" using assms(1) by (simp_all add: validate_ok_iff)
  have eq: "linearRequeueDelay x ?d ?m = min (?d * int (max 1 (unat x))) ?m" for x
    using linearRequeueDelay_spec[of ?d ?m x] d assms(2) by (simp add: spec_delay_def)
  have "?d * 1 \<le> ?d * int (max 1 (unat a))" using d by (intro mult_left_mono) auto
  moreover have "?d * int (max 1 (unat a)) \<le> ?d * int (max 1 (unat b))" if "a \<le> b"
    using d that by (intro mult_left_mono) (auto simp: word_le_nat_alt)
  then have "linearRequeueDelay a ?d ?m \<le> linearRequeueDelay b ?d ?m" if "a \<le> b"
    using that unfolding eq by (intro min.mono) simp_all
  ultimately show ?thesis using d by (simp add: eq)
qed

end
