(* ===== verification/Memory_Broker.thy ===== *)
theory Memory_Broker
  imports Mq
begin

text \<open>
  internal/mq/memory.go: the in-process broker. Its state is the buffered channel, the
  requeues that sleep until their timer fires, the pool of consumers with the messages whose
  handler runs, and the started and closed flags; each operation that runs under the mutex or
  on the channel is one step. Waiting for the goroutines in \<open>Close\<close> has no effect on the state.
\<close>

record memoryMessage =
  mm_eventID :: uuid
  mm_attempts :: uint32

record MemoryConfig =
  mc_BufferSize :: int
  mc_RequeueConfig :: RequeueConfig

record MemoryBroker =
  mb_jobs :: "memoryMessage list"
  mb_capacity :: nat
  mb_config :: RequeueConfig
  mb_started :: bool
  mb_closed :: bool
  mb_requeues :: "(memoryMessage \<times> duration) list"
  mb_workers :: nat
  mb_running :: "memoryMessage list"

datatype memory_error = ErrMemoryQueueFull | ErrMemoryClosed | MemoryError string

definition NewMemoryBroker :: "MemoryConfig \<Rightarrow> (memory_error, MemoryBroker) result" where
  "NewMemoryBroker cfg =
     (if mc_BufferSize cfg \<le> 0
      then Inl (MemoryError ''mq: memory buffer_size must be greater than zero'')
      else
        case validateRequeueConfig ''memory'' (mc_RequeueConfig cfg) of
          Inl e \<Rightarrow> Inl (MemoryError e)
        | Inr _ \<Rightarrow>
          Inr \<lparr>mb_jobs = [], mb_capacity = nat (mc_BufferSize cfg), mb_config = mc_RequeueConfig cfg,
               mb_started = False, mb_closed = False, mb_requeues = [], mb_workers = 0, mb_running = []\<rparr>)"

section \<open>Intake\<close>

text \<open>
  The environment of a send: the error of a context that is done, and which of two ready
  cases \<open>select\<close> takes. The default case is taken when none is ready.
\<close>

record send_env =
  sd_done :: "string option"
  sd_pick_done :: bool

definition publishMessage ::
  "send_env \<Rightarrow> memoryMessage \<Rightarrow> MemoryBroker \<Rightarrow> (memory_error, bool) result \<times> MemoryBroker" where
  "publishMessage env m b =
     (if mb_closed b then (Inl ErrMemoryClosed, b)
      else
        let room = (length (mb_jobs b) < mb_capacity b) in
        case sd_done env of
          Some e \<Rightarrow>
            if \<not> room \<or> sd_pick_done env then (Inl (MemoryError e), b)
            else (Inr False, b\<lparr>mb_jobs := mb_jobs b @ [m]\<rparr>)
        | None \<Rightarrow>
            if room then (Inr False, b\<lparr>mb_jobs := mb_jobs b @ [m]\<rparr>)
            else (Inl ErrMemoryQueueFull, b))"

definition Publish :: "send_env \<Rightarrow> uuid \<Rightarrow> MemoryBroker \<Rightarrow> (memory_error, bool) result \<times> MemoryBroker" where
  "Publish env i b = publishMessage env \<lparr>mm_eventID = i, mm_attempts = 1\<rparr> b"

section \<open>Consumption\<close>

text \<open>The number of goroutines \<open>Start\<close> launches.\<close>

definition pool_size :: "int \<Rightarrow> int" where
  "pool_size concurrency = (if concurrency < 1 then 1 else concurrency)"

definition Start :: "bool \<Rightarrow> int \<Rightarrow> MemoryBroker \<Rightarrow> memory_error option \<times> MemoryBroker" where
  "Start handler_nil concurrency b =
     (if handler_nil then (Some (MemoryError ''mq: memory handler must not be nil''), b)
      else if mb_closed b then (Some ErrMemoryClosed, b)
      else if mb_started b then (Some (MemoryError ''mq: memory consumer already started''), b)
      else (None, b\<lparr>mb_started := True, mb_workers := nat (pool_size concurrency)\<rparr>))"

definition scheduleRequeue :: "memoryMessage \<Rightarrow> duration \<Rightarrow> MemoryBroker \<Rightarrow> MemoryBroker" where
  "scheduleRequeue m delay b =
     (if mb_closed b then b else b\<lparr>mb_requeues := mb_requeues b @ [(m, delay)]\<rparr>)"

text \<open>
  One round of \<open>consume\<close> is two steps: a goroutine of the pool that runs no handler takes the
  oldest job, and later its handler returns and the message is settled.
\<close>

definition memory_delivery :: "RequeueConfig \<Rightarrow> memoryMessage \<Rightarrow> Delivery" where
  "memory_delivery cfg m = mk_delivery cfg (mm_eventID m) (mm_attempts m)"

definition memory_dispose ::
  "RequeueConfig \<Rightarrow> memoryMessage \<Rightarrow> (Delivery \<Rightarrow> handler_result) \<Rightarrow> disposition" where
  "memory_dispose cfg m handler =
     (case handler (memory_delivery cfg m) of
        None \<Rightarrow> Acknowledged
      | Some e \<Rightarrow>
          RedeliverAfter (mm_eventID m)
            (fst (requestedRequeue e (dl_RequeueDelay (memory_delivery cfg m)))))"

definition consume :: "MemoryBroker \<Rightarrow> MemoryBroker option" where
  "consume b =
     (case mb_jobs b of
        [] \<Rightarrow> None
      | m # rest \<Rightarrow>
        if length (mb_running b) < mb_workers b
        then Some (b\<lparr>mb_jobs := rest, mb_running := mb_running b @ [m]\<rparr>) else None)"

definition consumed :: "(Delivery \<Rightarrow> handler_result) \<Rightarrow> nat \<Rightarrow> MemoryBroker \<Rightarrow> MemoryBroker option" where
  "consumed handler j b =
     (if j < length (mb_running b) then
        let m = mb_running b ! j;
            b' = b\<lparr>mb_running := take j (mb_running b) @ drop (Suc j) (mb_running b)\<rparr> in
        Some (case memory_dispose (mb_config b) m handler of
                Acknowledged \<Rightarrow> b'
              | RedeliverAfter i delay \<Rightarrow> scheduleRequeue m delay b')
      else None)"

text \<open>
  The timer of the sleeping requeue number \<open>j\<close> fires, unless the broker is closed or the
  context is done first; a message that does not fit is dropped and left to the database.
\<close>

definition requeueAfter :: "send_env \<Rightarrow> bool \<Rightarrow> nat \<Rightarrow> MemoryBroker \<Rightarrow> MemoryBroker option" where
  "requeueAfter env cancelled j b =
     (if j < length (mb_requeues b) then
        let m = fst (mb_requeues b ! j);
            b' = b\<lparr>mb_requeues := take j (mb_requeues b) @ drop (Suc j) (mb_requeues b)\<rparr> in
        Some (if cancelled \<or> mb_closed b then b'
              else snd (publishMessage env (m\<lparr>mm_attempts := next_attempts (mm_attempts m)\<rparr>) b'))
      else None)"

definition Ready :: "MemoryBroker \<Rightarrow> memory_error option" where
  "Ready b =
     (if mb_closed b then Some ErrMemoryClosed
      else if \<not> mb_started b then Some (MemoryError ''mq: memory consumer has not started'')
      else None)"

definition Close :: "MemoryBroker \<Rightarrow> MemoryBroker" where
  "Close b = b\<lparr>mb_closed := True\<rparr>"

section \<open>Executions\<close>

inductive memory_step :: "MemoryBroker \<Rightarrow> MemoryBroker \<Rightarrow> bool" where
  publish: "memory_step b (snd (Publish env i b))"
| start: "memory_step b (snd (Start nil n b))"
| takes: "consume b = Some b' \<Longrightarrow> memory_step b b'"
| settles: "consumed h j b = Some b' \<Longrightarrow> memory_step b b'"
| requeued: "requeueAfter env c j b = Some b' \<Longrightarrow> memory_step b b'"
| close: "memory_step b (Close b)"

inductive memory_reachable :: "MemoryConfig \<Rightarrow> MemoryBroker \<Rightarrow> bool" for cfg where
  fresh: "NewMemoryBroker cfg = Inr b \<Longrightarrow> memory_reachable cfg b"
| later: "memory_reachable cfg b \<Longrightarrow> memory_step b b' \<Longrightarrow> memory_reachable cfg b'"

inductive_cases memory_stepE: "memory_step b b'"

definition memory_inv :: "MemoryConfig \<Rightarrow> MemoryBroker \<Rightarrow> bool" where
  "memory_inv cfg b \<longleftrightarrow> mb_capacity b = nat (mc_BufferSize cfg) \<and> mb_config b = mc_RequeueConfig cfg
     \<and> length (mb_jobs b) \<le> mb_capacity b
     \<and> length (mb_running b) \<le> mb_workers b \<and> (\<not> mb_started b \<longrightarrow> mb_workers b = 0)
     \<and> (\<forall>m \<in> set (mb_running b). 0 < mm_attempts m)
     \<and> (\<forall>m \<in> set (mb_jobs b). 0 < mm_attempts m) \<and> (\<forall>q \<in> set (mb_requeues b). 0 < mm_attempts (fst q))
     \<and> validateRequeueConfig ''memory'' (mb_config b) = Inr () \<and> 0 < mb_capacity b"

lemma memory_inv_publish:
  assumes "memory_inv cfg b" and "0 < mm_attempts m"
  shows "memory_inv cfg (snd (publishMessage env m b))"
  using assms by (auto simp: memory_inv_def publishMessage_def Let_def split: option.splits)

lemma memory_inv_consume:
  "memory_inv cfg b \<Longrightarrow> consume b = Some b' \<Longrightarrow> memory_inv cfg b'"
  by (auto simp: memory_inv_def consume_def split: list.splits if_splits)

lemma memory_inv_consumed:
  assumes inv: "memory_inv cfg b" and r: "consumed h j b = Some b'"
  shows "memory_inv cfg b'"
proof -
  let ?b = "b\<lparr>mb_running := take j (mb_running b) @ drop (Suc j) (mb_running b)\<rparr>"
  from r have j: "j < length (mb_running b)" by (auto simp: consumed_def split: if_splits)
  then have "0 < mm_attempts (mb_running b ! j)" using inv by (auto simp: memory_inv_def)
  moreover have "memory_inv cfg ?b"
    using inv j by (auto simp: memory_inv_def dest!: in_set_takeD in_set_dropD)
  ultimately show ?thesis
    using r j by (auto simp: consumed_def scheduleRequeue_def Let_def memory_inv_def
        split: disposition.splits if_splits)
qed

lemma memory_inv_requeue:
  assumes inv: "memory_inv cfg b" and r: "requeueAfter env c j b = Some b'"
  shows "memory_inv cfg b'"
proof -
  let ?q = "mb_requeues b" let ?m = "fst (mb_requeues b ! j)"
  let ?b = "b\<lparr>mb_requeues := take j ?q @ drop (Suc j) ?q\<rparr>"
  from r have j: "j < length ?q" by (auto simp: requeueAfter_def split: if_splits)
  then have "mb_requeues b ! j \<in> set ?q" by simp
  with inv have pos: "0 < mm_attempts ?m" by (auto simp: memory_inv_def)
  have "memory_inv cfg ?b"
    using inv by (auto simp: memory_inv_def dest!: in_set_takeD in_set_dropD)
  with pos j r show ?thesis
    by (auto simp: requeueAfter_def Let_def next_attempts_pos split: if_splits
        intro!: memory_inv_publish)
qed

lemma memory_inv_step: "memory_step b b' \<Longrightarrow> memory_inv cfg b \<Longrightarrow> memory_inv cfg b'"
  by (auto elim!: memory_stepE intro: memory_inv_consume memory_inv_consumed memory_inv_requeue
      simp: Publish_def memory_inv_publish)
    (auto simp: Start_def Close_def memory_inv_def)

lemma memory_reachable_inv: "memory_reachable cfg b \<Longrightarrow> memory_inv cfg b"
proof (induction rule: memory_reachable.induct)
  case (fresh b)
  then show ?case
    by (auto simp: NewMemoryBroker_def memory_inv_def split: if_splits sum.splits)
qed (rule memory_inv_step)

text \<open>
  C27: The memory queue never holds more messages than its buffer, never more handlers run
  than the pool has goroutines, every message in the queue, in a handler or waiting to be
  requeued carries an attempt counter of at least one, and publishing never blocks: it
  succeeds exactly when the broker is open and there is room, refuses a full or closed
  queue by name without changing it, and never claims durability.
\<close>

theorem memory_queue_bounded:
  assumes "memory_reachable cfg b"
  shows "length (mb_jobs b) \<le> nat (mc_BufferSize cfg)
    \<and> length (mb_running b) \<le> mb_workers b \<and> (\<forall>m \<in> set (mb_running b). 0 < mm_attempts m)
    \<and> (\<forall>m \<in> set (mb_jobs b). 0 < mm_attempts m) \<and> (\<forall>q \<in> set (mb_requeues b). 0 < mm_attempts (fst q))
    \<and> Publish \<lparr>sd_done = None, sd_pick_done = pick\<rparr> i b =
        (if mb_closed b then (Inl ErrMemoryClosed, b)
         else if length (mb_jobs b) < nat (mc_BufferSize cfg)
         then (Inr False, b\<lparr>mb_jobs := mb_jobs b @ [\<lparr>mm_eventID = i, mm_attempts = 1\<rparr>]\<rparr>)
         else (Inl ErrMemoryQueueFull, b))"
  using memory_reachable_inv[OF assms]
  by (simp add: memory_inv_def Publish_def publishMessage_def)

lemma closed_step:
  assumes "memory_step b b'" and "mb_closed b"
  shows "mb_closed b' \<and> set (mb_jobs b') \<subseteq> set (mb_jobs b)
     \<and> set (mb_requeues b') \<subseteq> set (mb_requeues b)"
  using assms(1)
proof cases
  case (requeued env c j)
  with assms(2) show ?thesis
    by (auto simp: requeueAfter_def Let_def split: if_splits dest: in_set_takeD in_set_dropD)
qed (use assms(2) in \<open>auto simp: Publish_def publishMessage_def Start_def consume_def consumed_def
       scheduleRequeue_def Close_def Let_def split: list.splits disposition.splits if_splits\<close>)

text \<open>
  Once closed the broker stays closed and takes nothing in: no later step adds a job or
  a requeue, and it reports itself as not ready.
\<close>

lemma memory_closed_is_final:
  assumes "memory_step\<^sup>*\<^sup>* b b'" and "mb_closed b"
  shows "mb_closed b' \<and> set (mb_jobs b') \<subseteq> set (mb_jobs b)
     \<and> set (mb_requeues b') \<subseteq> set (mb_requeues b) \<and> Ready b' = Some ErrMemoryClosed"
  using assms(1)
proof (induction rule: rtranclp_induct)
  case base
  with assms(2) show ?case by (simp add: Ready_def)
next
  case (step y z)
  then show ?case using closed_step[OF step.hyps(2)] by (auto simp: Ready_def)
qed

section \<open>The memory consumer keeps the contract\<close>

interpretation memory: broker_consumer cfg "\<lambda>m. Some (mm_eventID m)" mm_attempts
    "\<lambda>m. linearRequeueDelay (mm_attempts m) (rq_DefaultRequeueDelay cfg) (rq_MaxRequeueDelay cfg)"
    "memory_dispose cfg"
  for cfg
  by unfold_locales (auto simp: memory_dispose_def memory_delivery_def mk_delivery_def)

text \<open>
  A message whose timer fires goes to the end of the queue, for the same event and with the
  counter moved on, when the broker is open and has room.
\<close>

lemma memory_comes_back:
  assumes "j < length (mb_requeues b)" and "mb_requeues b ! j = (m, delay)" and "\<not> mb_closed b"
    and "length (mb_jobs b) < mb_capacity b" and "sd_done env = None"
  shows "\<exists>b'. requeueAfter env False j b = Some b'
    \<and> mb_jobs b' = mb_jobs b @ [m\<lparr>mm_attempts := next_attempts (mm_attempts m)\<rparr>]"
  using assms by (simp add: requeueAfter_def publishMessage_def Let_def)

end
