(* ===== verification/Json.thy ===== *)
theory Json
  imports Prelude
begin

text \<open>
  JSON values as package encoding/json and the jsonb columns hold them, the field access
  the program performs on them (\<open>->>\<close> in SQL, decoding into a struct with one string
  field in Go), and the rendering of a \<open>time.Time\<close> as a JSON string (RFC 3339).
\<close>

datatype json =
    JNull
  | JBool bool
  | JNumber string
  | JString string
  | JArray "json list"
  | JObject "(string \<times> json) list"

abbreviation JInt :: "int \<Rightarrow> json" where
  "JInt n \<equiv> JNumber (Itoa n)"

section \<open>Field access\<close>

text \<open>
  \<open>v ->> k\<close>: the member \<open>k\<close> of an object as text, \<open>None\<close> (SQL NULL) when the value is
  not an object, has no such member, or the member is JSON null. Only the string case is
  ever compared with a constant by the program's statements.
\<close>

definition json_text :: "json \<Rightarrow> string option" where
  "json_text v =
     (case v of JString s \<Rightarrow> Some s | JNumber s \<Rightarrow> Some s
      | JBool b \<Rightarrow> Some (if b then ''true'' else ''false'')
      | JArray _ \<Rightarrow> Some ''[...]'' | JObject _ \<Rightarrow> Some ''{...}'' | JNull \<Rightarrow> None)"

definition member_text :: "json option \<Rightarrow> string \<Rightarrow> string option" where
  "member_text v k =
     (case v of
        Some (JObject ms) \<Rightarrow> Option.bind (map_of ms k) json_text
      | _ \<Rightarrow> None)"

text \<open>
  Decoding into a Go struct with one string field: keys match without regard to case, a
  later member wins, null leaves the field alone, any other type is an error
  (\<open>None\<close>). JSON null as a whole leaves the struct at its zero value.
\<close>

fun decode_members :: "string \<Rightarrow> (string \<times> json) list \<Rightarrow> string \<Rightarrow> string option" where
  "decode_members k [] acc = Some acc"
| "decode_members k ((n, v) # ms) acc =
     (if EqualFold n k
      then (case v of
              JString s \<Rightarrow> decode_members k ms s
            | JNull \<Rightarrow> decode_members k ms acc
            | _ \<Rightarrow> None)
      else decode_members k ms acc)"

definition decode_string_field :: "string \<Rightarrow> json \<Rightarrow> string option" where
  "decode_string_field k v =
     (case v of JObject ms \<Rightarrow> decode_members k ms [] | JNull \<Rightarrow> Some [] | _ \<Rightarrow> None)"

section \<open>Struct marshalling with omitempty\<close>

definition omitempty :: "bool \<Rightarrow> string \<Rightarrow> json \<Rightarrow> (string \<times> json) list" where
  "omitempty is_zero k v = (if is_zero then [] else [(k, v)])"

section \<open>RFC 3339 instants\<close>

definition pad :: "nat \<Rightarrow> int \<Rightarrow> string" where
  "pad n x = (let d = Itoa x in replicate (n - length d) (CHR ''0'') @ d)"

definition civil_from_days :: "int \<Rightarrow> int \<times> int \<times> int" where
  "civil_from_days days =
     (let z = days + 719468;
          era = z div 146097;
          doe = z mod 146097;
          yoe = (doe - doe div 1460 + doe div 36524 - doe div 146096) div 365;
          doy = doe - (365 * yoe + yoe div 4 - yoe div 100);
          mp = (5 * doy + 2) div 153;
          d = doy - (153 * mp + 2) div 5 + 1;
          m = (if mp < 10 then mp + 3 else mp - 9);
          y = yoe + era * 400 + (if m \<le> 2 then 1 else 0)
      in (y, m, d))"

definition fraction :: "int \<Rightarrow> string" where
  "fraction ns =
     (if ns = 0 then [] else CHR ''.'' # rev (dropWhile (\<lambda>c. c = CHR ''0'') (rev (pad 9 ns))))"

definition rfc3339 :: "instant \<Rightarrow> string" where
  "rfc3339 t =
     (let secs = t div second; ns = t mod second;
          (y, m, d) = civil_from_days (secs div 86400);
          s = secs mod 86400
      in pad 4 y @ ''-'' @ pad 2 m @ ''-'' @ pad 2 d @ ''T'' @
         pad 2 (s div 3600) @ '':'' @ pad 2 (s mod 3600 div 60) @ '':'' @ pad 2 (s mod 60) @
         fraction ns @ ''Z'')"

abbreviation JTime :: "instant \<Rightarrow> json" where
  "JTime t \<equiv> JString (rfc3339 t)"

end
