(* ===== verification/Json_Text.thy ===== *)
theory Json_Text
  imports Json "HOL-Library.Char_ord" "HOL-Library.List_Lexorder"
begin

text \<open>
  The JSON texts the program reads and writes: the grammar package encoding/json accepts,
  decoding of the first value of a text with numbers kept as written (\<open>UseNumber\<close>), and
  \<open>Marshal\<close> of the decoded value with sorted keys and HTML-safe escapes.
\<close>

section \<open>UTF-8\<close>

definition code :: "char \<Rightarrow> nat" where
  "code c = of_char c"

definition is_cont :: "char \<Rightarrow> bool" where
  "is_cont c \<longleftrightarrow> 128 \<le> code c \<and> code c \<le> 191"

text \<open>The length of the well-formed encoding at the head of a text, 0 when there is none.\<close>

fun rune_length :: "string \<Rightarrow> nat" where
  "rune_length [] = 0"
| "rune_length (a # s) =
     (let n = code a in
      if n < 128 then 1
      else if n < 194 then 0
      else if n < 224 then (case s of b # _ \<Rightarrow> if is_cont b then 2 else 0 | [] \<Rightarrow> 0)
      else if n < 240 then
        (case s of b # c # _ \<Rightarrow>
           if is_cont b \<and> is_cont c \<and> (n = 224 \<longrightarrow> 160 \<le> code b) \<and> (n = 237 \<longrightarrow> code b < 160)
           then 3 else 0
         | _ \<Rightarrow> 0)
      else if n < 245 then
        (case s of b # c # d # _ \<Rightarrow>
           if is_cont b \<and> is_cont c \<and> is_cont d \<and> (n = 240 \<longrightarrow> 144 \<le> code b)
              \<and> (n = 244 \<longrightarrow> code b < 144)
           then 4 else 0
         | _ \<Rightarrow> 0)
      else 0)"

definition utf8_encode :: "nat \<Rightarrow> string" where
  "utf8_encode r = map char_of
     (if r < 128 then [r]
      else if r < 2048 then [192 + r div 64, 128 + r mod 64]
      else if r < 65536 then [224 + r div 4096, 128 + r div 64 mod 64, 128 + r mod 64]
      else [240 + r div 262144, 128 + r div 4096 mod 64, 128 + r div 64 mod 64, 128 + r mod 64])"

definition replacement :: string where
  "replacement = utf8_encode 65533"

section \<open>Strings\<close>

definition hex_digit :: "char \<Rightarrow> nat option" where
  "hex_digit c =
     (let n = code c in
      if 48 \<le> n \<and> n \<le> 57 then Some (n - 48)
      else if 97 \<le> n \<and> n \<le> 102 then Some (n - 87)
      else if 65 \<le> n \<and> n \<le> 70 then Some (n - 55)
      else None)"

fun hex4 :: "string \<Rightarrow> nat option" where
  "hex4 (a # b # c # d # _) =
     (case (hex_digit a, hex_digit b, hex_digit c, hex_digit d) of
        (Some x, Some y, Some z, Some u) \<Rightarrow> Some (4096 * x + 256 * y + 16 * z + u)
      | _ \<Rightarrow> None)"
| "hex4 _ = None"

text \<open>
  The rune of a \<open>\u\<close> escape and how many bytes after the \<open>u\<close> it takes: a surrogate pair
  counts as one rune, a lone surrogate becomes the replacement character.
\<close>

definition escape_rune :: "string \<Rightarrow> (nat \<times> nat) option" where
  "escape_rune s =
     (case hex4 s of
        None \<Rightarrow> None
      | Some r \<Rightarrow>
        if 55296 \<le> r \<and> r < 57344 then
          (case (if take 2 (drop 4 s) = [CHR 0x5C, CHR ''u''] then hex4 (drop 6 s) else None) of
             Some r2 \<Rightarrow>
               if r < 56320 \<and> 56320 \<le> r2 \<and> r2 < 57344
               then Some ((r - 55296) * 1024 + (r2 - 56320) + 65536, 10)
               else Some (65533, 4)
           | None \<Rightarrow> Some (65533, 4))
        else Some (r, 4))"

definition simple_escape :: "char \<Rightarrow> char option" where
  "simple_escape c =
     map_of [(CHR 0x22, CHR 0x22), (CHR 0x5C, CHR 0x5C), (CHR ''/'', CHR ''/''),
             (CHR ''b'', CHR 0x08), (CHR ''f'', CHR 0x0C), (CHR ''n'', CHR 0x0A),
             (CHR ''r'', CHR 0x0D), (CHR ''t'', CHR 0x09)] c"

text \<open>The text of a string literal after its opening quote: the decoded bytes and the rest.\<close>

function str_body :: "string \<Rightarrow> (string \<times> string) option" where
  "str_body [] = None"
| "str_body (c # s) =
     (if c = CHR 0x22 then Some ([], s)
      else if code c < 32 then None
      else if c = CHR 0x5C then
        (case s of
           [] \<Rightarrow> None
         | e # s' \<Rightarrow>
           if e = CHR ''u'' then
             (case escape_rune s' of
                None \<Rightarrow> None
              | Some (r, n) \<Rightarrow> map_option (apfst ((@) (utf8_encode r))) (str_body (drop n s')))
           else
             (case simple_escape e of
                None \<Rightarrow> None
              | Some x \<Rightarrow> map_option (apfst ((#) x)) (str_body s')))
      else if rune_length (c # s) = 0
      then map_option (apfst ((@) replacement)) (str_body s)
      else map_option (apfst ((@) (take (rune_length (c # s)) (c # s))))
             (str_body (drop (rune_length (c # s)) (c # s))))"
  by pat_completeness auto
termination
proof (relation "measure length", goal_cases)
  case (5 c s)
  then show ?case by (cases "rune_length (c # s)") auto
qed auto

section \<open>Numbers\<close>

definition is_digit :: "char \<Rightarrow> bool" where
  "is_digit c \<longleftrightarrow> 48 \<le> code c \<and> code c \<le> 57"

definition digits1 :: "string \<Rightarrow> (string \<times> string) option" where
  "digits1 s =
     (if takeWhile is_digit s = [] then None else Some (takeWhile is_digit s, dropWhile is_digit s))"

definition num_int :: "string \<Rightarrow> (string \<times> string) option" where
  "num_int s =
     (case s of
        c # r \<Rightarrow> if c = CHR ''0'' then Some ([c], r) else digits1 s
      | [] \<Rightarrow> None)"

definition num_frac :: "string \<Rightarrow> (string \<times> string) option" where
  "num_frac s =
     (case s of
        c # r \<Rightarrow> if c = CHR ''.'' then map_option (apfst ((#) c)) (digits1 r) else Some ([], s)
      | [] \<Rightarrow> Some ([], s))"

definition num_exp :: "string \<Rightarrow> (string \<times> string) option" where
  "num_exp s =
     (case s of
        c # r \<Rightarrow>
          if c = CHR ''e'' \<or> c = CHR ''E'' then
            (case r of
               g # r' \<Rightarrow>
                 if g = CHR ''+'' \<or> g = CHR ''-''
                 then map_option (apfst (\<lambda>d. c # g # d)) (digits1 r')
                 else map_option (apfst ((#) c)) (digits1 r)
             | [] \<Rightarrow> None)
          else Some ([], s)
      | [] \<Rightarrow> Some ([], s))"

definition parse_number :: "string \<Rightarrow> (string \<times> string) option" where
  "parse_number s =
     (let (sign, s1) = (case s of c # r \<Rightarrow> if c = CHR ''-'' then ([c], r) else ([], s) | [] \<Rightarrow> ([], s)) in
      case num_int s1 of None \<Rightarrow> None
      | Some (i, s2) \<Rightarrow>
        (case num_frac s2 of None \<Rightarrow> None
         | Some (f, s3) \<Rightarrow>
           (case num_exp s3 of None \<Rightarrow> None
            | Some (e, s4) \<Rightarrow> Some (sign @ i @ f @ e, s4))))"

section \<open>Values\<close>

definition is_ws :: "char \<Rightarrow> bool" where
  "is_ws c \<longleftrightarrow> code c \<in> {32, 9, 10, 13}"

definition skip_ws :: "string \<Rightarrow> string" where
  "skip_ws s = dropWhile is_ws s"

text \<open>
  The scanner refuses nesting deeper than 10000. Every value, element and member consumes
  at least one byte, so the length of the text is enough fuel for \<open>parse\<close>.
\<close>

definition max_depth :: nat where
  "max_depth = 10000"

fun parse_value :: "nat \<Rightarrow> nat \<Rightarrow> string \<Rightarrow> (json \<times> string) option"
  and parse_elems :: "nat \<Rightarrow> nat \<Rightarrow> string \<Rightarrow> (json list \<times> string) option"
  and parse_members :: "nat \<Rightarrow> nat \<Rightarrow> string \<Rightarrow> ((string \<times> json) list \<times> string) option" where
  "parse_value 0 d s = None"
| "parse_value (Suc n) d s =
     (case skip_ws s of
        [] \<Rightarrow> None
      | c # r \<Rightarrow>
        if c = CHR 0x22 then map_option (apfst JString) (str_body r)
        else if c = CHR ''{'' then
          if max_depth \<le> d then None
          else (case skip_ws r of
             c' # r' \<Rightarrow> if c' = CHR ''}'' then Some (JObject [], r')
                        else map_option (apfst JObject) (parse_members n (Suc d) r)
           | [] \<Rightarrow> None)
        else if c = CHR ''['' then
          if max_depth \<le> d then None
          else (case skip_ws r of
             c' # r' \<Rightarrow> if c' = CHR '']'' then Some (JArray [], r')
                        else map_option (apfst JArray) (parse_elems n (Suc d) r)
           | [] \<Rightarrow> None)
        else if HasPrefix (c # r) ''null'' then Some (JNull, drop 4 (c # r))
        else if HasPrefix (c # r) ''true'' then Some (JBool True, drop 4 (c # r))
        else if HasPrefix (c # r) ''false'' then Some (JBool False, drop 5 (c # r))
        else map_option (apfst JNumber) (parse_number (c # r)))"
| "parse_elems 0 d s = None"
| "parse_elems (Suc n) d s =
     (case parse_value n d s of
        None \<Rightarrow> None
      | Some (v, r) \<Rightarrow>
        (case skip_ws r of
           c # r' \<Rightarrow>
             if c = CHR '']'' then Some ([v], r')
             else if c = CHR '','' then map_option (apfst ((#) v)) (parse_elems n d r')
             else None
         | [] \<Rightarrow> None))"
| "parse_members 0 d s = None"
| "parse_members (Suc n) d s =
     (case skip_ws s of
        [] \<Rightarrow> None
      | q # r0 \<Rightarrow>
        if q \<noteq> CHR 0x22 then None
        else (case str_body r0 of
          None \<Rightarrow> None
        | Some (k, r1) \<Rightarrow>
          (case skip_ws r1 of
             [] \<Rightarrow> None
           | c0 # r2 \<Rightarrow>
             if c0 \<noteq> CHR '':'' then None
             else (case parse_value n d r2 of
               None \<Rightarrow> None
             | Some (v, r) \<Rightarrow>
               (case skip_ws r of
                  c # r' \<Rightarrow>
                    if c = CHR ''}'' then Some ([(k, v)], r')
                    else if c = CHR '','' then map_option (apfst ((#) (k, v))) (parse_members n d r')
                    else None
                | [] \<Rightarrow> None)))))"

definition parse :: "string \<Rightarrow> (json \<times> string) option" where
  "parse s = parse_value (Suc (2 * length s)) 0 s"

text \<open>\<open>json.Valid\<close>, \<open>json.Unmarshal\<close> of a whole text, and \<open>Decoder.Decode\<close> of the first value.\<close>

definition unmarshal :: "string \<Rightarrow> json option" where
  "unmarshal s = (case parse s of Some (v, r) \<Rightarrow> if skip_ws r = [] then Some v else None | None \<Rightarrow> None)"

definition json_valid :: "string \<Rightarrow> bool" where
  "json_valid s \<longleftrightarrow> unmarshal s \<noteq> None"

definition decode_first :: "string \<Rightarrow> json option" where
  "decode_first s = map_option fst (parse s)"

section \<open>Raw members\<close>

text \<open>
  The members of an object with the text of each value, as decoding into
  \<open>json.RawMessage\<close> fields or map values keeps it.
\<close>

definition raw_prefix :: "string \<Rightarrow> string \<Rightarrow> string" where
  "raw_prefix s rest = take (length s - length rest) s"

fun raw_members :: "nat \<Rightarrow> string \<Rightarrow> (string \<times> string) list option" where
  "raw_members 0 s = None"
| "raw_members (Suc n) s =
     (case skip_ws s of
        [] \<Rightarrow> None
      | q # r0 \<Rightarrow>
        (case str_body r0 of
          None \<Rightarrow> None
        | Some (k, r1) \<Rightarrow>
          let v = skip_ws (drop 1 (skip_ws r1)) in
          (case parse v of
             None \<Rightarrow> None
           | Some (_, r) \<Rightarrow>
             (case skip_ws r of
                c # r' \<Rightarrow>
                  if c = CHR '','' then map_option ((#) (k, raw_prefix v r)) (raw_members n r')
                  else Some [(k, raw_prefix v r)]
              | [] \<Rightarrow> None))))"

text \<open>
  \<open>json.Unmarshal\<close> into a struct or map of raw values: \<open>None\<close> for an error, \<open>Some None\<close>
  for JSON null, which leaves the target as it is.
\<close>

definition raw_object :: "string \<Rightarrow> (string \<times> string) list option option" where
  "raw_object s =
     (case unmarshal s of
        Some JNull \<Rightarrow> Some None
      | Some (JObject []) \<Rightarrow> Some (Some [])
      | Some (JObject ms) \<Rightarrow> map_option Some (raw_members (length s) (drop 1 (skip_ws s)))
      | _ \<Rightarrow> None)"

text \<open>A string field and a raw field of a struct; a later member wins.\<close>

fun raw_string_field :: "string \<Rightarrow> (string \<times> string) list \<Rightarrow> string \<Rightarrow> string option" where
  "raw_string_field name [] acc = Some acc"
| "raw_string_field name ((k, raw) # ms) acc =
     (if EqualFold k name
      then (case unmarshal raw of
              Some (JString s) \<Rightarrow> raw_string_field name ms s
            | Some JNull \<Rightarrow> raw_string_field name ms acc
            | _ \<Rightarrow> None)
      else raw_string_field name ms acc)"

fun raw_field :: "string \<Rightarrow> (string \<times> string) list \<Rightarrow> string \<Rightarrow> string" where
  "raw_field name [] acc = acc"
| "raw_field name ((k, raw) # ms) acc = raw_field name ms (if EqualFold k name then raw else acc)"

text \<open>An entry of a decoded map: the last member with exactly this name.\<close>

definition map_entry :: "string \<Rightarrow> (string \<times> string) list \<Rightarrow> string option" where
  "map_entry name ms = map_of (rev ms) name"

text \<open>A number decoded into an \<open>int\<close>: an integer literal in range.\<close>

fun digits_value :: "string \<Rightarrow> int \<Rightarrow> int" where
  "digits_value [] acc = acc"
| "digits_value (c # s) acc = digits_value s (acc * 10 + (int (code c) - 48))"

definition parse_int64 :: "string \<Rightarrow> int option" where
  "parse_int64 s =
     (let neg = (s \<noteq> [] \<and> hd s = CHR ''-''); ds = (if neg then tl s else s) in
      if ds = [] \<or> \<not> list_all is_digit ds then None
      else let v = (if neg then - digits_value ds 0 else digits_value ds 0) in
           if is_int64 v then Some v else None)"

section \<open>Marshalling\<close>

definition hex_char :: "nat \<Rightarrow> char" where
  "hex_char n = (''0123456789abcdef'' ! (n mod 16))"

definition u00 :: "char \<Rightarrow> string" where
  "u00 c = [CHR 0x5C, CHR ''u'', CHR ''0'', CHR ''0'', hex_char (code c div 16), hex_char (code c)]"

definition escape_byte :: "char \<Rightarrow> string" where
  "escape_byte c =
     (if c = CHR 0x22 \<or> c = CHR 0x5C then [CHR 0x5C, c]
      else if c = CHR 0x08 then [CHR 0x5C, CHR ''b'']
      else if c = CHR 0x0C then [CHR 0x5C, CHR ''f'']
      else if c = CHR 0x0A then [CHR 0x5C, CHR ''n'']
      else if c = CHR 0x0D then [CHR 0x5C, CHR ''r'']
      else if c = CHR 0x09 then [CHR 0x5C, CHR ''t'']
      else if code c < 32 \<or> c = CHR ''<'' \<or> c = CHR ''>'' \<or> c = CHR ''&'' then u00 c
      else [c])"

text \<open>Invalid bytes become \<open>\ufffd\<close>; the line separators U+2028 and U+2029 are escaped.\<close>

function escape_text :: "string \<Rightarrow> string" where
  "escape_text [] = []"
| "escape_text (c # s) =
     (let n = rune_length (c # s) in
      if n = 0 then [CHR 0x5C, CHR ''u'', CHR ''f'', CHR ''f'', CHR ''f'', CHR ''d''] @ escape_text s
      else if n = 1 then escape_byte c @ escape_text s
      else if take n (c # s) = utf8_encode 8232
      then [CHR 0x5C, CHR ''u'', CHR ''2'', CHR ''0'', CHR ''2'', CHR ''8''] @ escape_text (drop n (c # s))
      else if take n (c # s) = utf8_encode 8233
      then [CHR 0x5C, CHR ''u'', CHR ''2'', CHR ''0'', CHR ''2'', CHR ''9''] @ escape_text (drop n (c # s))
      else take n (c # s) @ escape_text (drop n (c # s)))"
  by pat_completeness auto
termination
  by (relation "measure length") (auto simp: Let_def)

definition quote :: "string \<Rightarrow> string" where
  "quote s = [CHR 0x22] @ escape_text s @ [CHR 0x22]"

primrec print_json :: "json \<Rightarrow> string" where
  "print_json JNull = ''null''"
| "print_json (JBool b) = (if b then ''true'' else ''false'')"
| "print_json (JNumber n) = n"
| "print_json (JString s) = quote s"
| "print_json (JArray vs) = ''['' @ Join (map print_json vs) '','' @ '']''"
| "print_json (JObject ms) =
     ''{'' @ Join (map (\<lambda>(k, t). quote k @ '':'' @ t) (map (map_prod id print_json) ms)) '','' @ ''}''"

text \<open>
  Decoding an object into a map keeps the last of several members with one name;
  marshalling the map sorts its keys.
\<close>

fun last_wins :: "(string \<times> 'a) list \<Rightarrow> (string \<times> 'a) list" where
  "last_wins [] = []"
| "last_wins ((k, v) # ms) = (if k \<in> fst ` set ms then last_wins ms else (k, v) # last_wins ms)"

primrec canon :: "json \<Rightarrow> json" where
  "canon JNull = JNull"
| "canon (JBool b) = JBool b"
| "canon (JNumber n) = JNumber n"
| "canon (JString s) = JString s"
| "canon (JArray vs) = JArray (map canon vs)"
| "canon (JObject ms) = JObject (sort_key fst (last_wins (map (map_prod id canon) ms)))"

definition Marshal :: "json \<Rightarrow> string" where
  "Marshal v = print_json (canon v)"

end
