(* ===== verification/Envelope.thy ===== *)
theory Envelope
  imports Json_Text
begin

text \<open>
  The wire format of internal/mq/mq.go: a JSON object that carries only the event id. The
  text of a uuid and its parser are package github.com/google/uuid, the parameters
  \<open>uuid_String\<close> and \<open>uuid_Parse\<close>.
\<close>

definition encode :: "(uuid \<Rightarrow> string) \<Rightarrow> uuid \<Rightarrow> string" where
  "encode uuid_String i = print_json (JObject [(''event_id'', JString (uuid_String i))])"

definition decode :: "(string \<Rightarrow> uuid option) \<Rightarrow> string \<Rightarrow> (string, uuid) result" where
  "decode uuid_Parse body =
     (case Option.bind (unmarshal body) (decode_string_field ''event_id'') of
        None \<Rightarrow> Inl ''decode mq envelope''
      | Some s \<Rightarrow>
        (case uuid_Parse s of None \<Rightarrow> Inl ''decode mq envelope event_id'' | Some i \<Rightarrow> Inr i))"

section \<open>Plain texts\<close>

text \<open>Characters that stand for themselves in a JSON string literal.\<close>

definition plain_char :: "char \<Rightarrow> bool" where
  "plain_char c \<longleftrightarrow> 32 \<le> code c \<and> code c < 128 \<and> c \<noteq> CHR 0x22 \<and> c \<noteq> CHR 0x5C
     \<and> c \<noteq> CHR ''<'' \<and> c \<noteq> CHR ''>'' \<and> c \<noteq> CHR ''&''"

lemma code_controls:
  "code CHR 0x08 = 8" "code CHR 0x0C = 12" "code CHR 0x0A = 10" "code CHR 0x0D = 13"
  "code CHR 0x09 = 9"
  by (simp_all add: code_def)

lemma plain_escape_byte:
  assumes "plain_char c"
  shows "escape_byte c = [c]"
proof -
  have "32 \<le> code c" using assms by (simp add: plain_char_def)
  then have "c \<noteq> CHR 0x08 \<and> c \<noteq> CHR 0x0C \<and> c \<noteq> CHR 0x0A \<and> c \<noteq> CHR 0x0D \<and> c \<noteq> CHR 0x09"
    using code_controls by (metis numeral_le_iff not_le semiring_norm(68-73))
  with assms show ?thesis unfolding plain_char_def escape_byte_def by simp
qed

lemma plain_rune: "plain_char c \<Longrightarrow> rune_length (c # s) = 1"
  by (simp add: plain_char_def)

lemma plain_escape_text: "list_all plain_char s \<Longrightarrow> escape_text s = s"
  by (induction s) (simp_all add: plain_rune plain_escape_byte Let_def del: rune_length.simps)

lemma plain_str_body:
  "list_all plain_char s \<Longrightarrow> str_body (s @ CHR 0x22 # r) = Some (s, r)"
proof (induction s)
  case (Cons c s)
  then have "plain_char c" by simp
  moreover from this have "c \<noteq> CHR 0x22" "\<not> code c < 32" "c \<noteq> CHR 0x5C"
    by (simp_all add: plain_char_def not_less)
  moreover have "rune_length (c # s @ CHR 0x22 # r) = 1" by (rule plain_rune) fact
  ultimately have *: "c \<noteq> CHR 0x22" "\<not> code c < 32" "c \<noteq> CHR 0x5C"
    "rune_length (c # s @ CHR 0x22 # r) = 1" by blast+
  from Cons have "str_body (s @ CHR 0x22 # r) = Some (s, r)" by simp
  with * show ?case by (simp del: rune_length.simps)
qed simp

text \<open>The text of a uuid: lower-case hexadecimal digits and dashes, read back by the parser.\<close>

definition uuid_text :: "(uuid \<Rightarrow> string) \<Rightarrow> (string \<Rightarrow> uuid option) \<Rightarrow> bool" where
  "uuid_text us up \<longleftrightarrow> (\<forall>i. set (us i) \<subseteq> set ''0123456789abcdef-'' \<and> up (us i) = Some i)"

lemma uuid_text_plain:
  assumes "uuid_text us up"
  shows "list_all plain_char (us i)"
proof -
  have "list_all plain_char ''0123456789abcdef-''" by code_simp
  moreover have "set (us i) \<subseteq> set ''0123456789abcdef-''"
    using assms unfolding uuid_text_def by blast
  ultimately show ?thesis unfolding list_all_iff by blast
qed

lemma str_body_quoted:
  assumes "list_all plain_char s"
  shows "quote s = CHR 0x22 # s @ [CHR 0x22]"
  using assms by (simp add: quote_def plain_escape_text)

text \<open>An object with one plain string member is read back as it was written.\<close>

lemma unmarshal_single:
  assumes "list_all plain_char k" and "list_all plain_char s"
  shows "unmarshal (print_json (JObject [(k, JString s)])) = Some (JObject [(k, JString s)])"
proof -
  let ?r1 = "CHR '':'' # CHR 0x22 # s @ CHR 0x22 # ''}''"
  have wire: "print_json (JObject [(k, JString s)]) =
      CHR ''{'' # CHR 0x22 # k @ CHR 0x22 # ?r1"
    using assms by (simp add: str_body_quoted)
  have k: "str_body (k @ CHR 0x22 # ?r1) = Some (k, ?r1)"
    using assms(1) by (rule plain_str_body)
  have s: "str_body (s @ CHR 0x22 # ''}'') = Some (s, ''}'')"
    using assms(2) by (rule plain_str_body)
  have ws: "skip_ws (CHR 0x22 # x) = CHR 0x22 # x" "skip_ws (CHR ''{'' # x) = CHR ''{'' # x"
    "skip_ws (CHR '':'' # x) = CHR '':'' # x" "skip_ws (CHR ''}'' # x) = CHR ''}'' # x"
    "skip_ws [] = []" for x
    by (simp_all add: skip_ws_def is_ws_def code_def)
  obtain n where n: "Suc (2 * length (print_json (JObject [(k, JString s)]))) = Suc (Suc (Suc n))"
    by (simp add: wire)
  have "parse_value (Suc (Suc (Suc n))) 0 (print_json (JObject [(k, JString s)]))
      = Some (JObject [(k, JString s)], [])"
    unfolding wire by (simp add: ws k s max_depth_def)
  then show ?thesis unfolding unmarshal_def parse_def n by (simp add: ws)
qed

lemma decode_encode:
  assumes "uuid_text us up"
  shows "decode up (encode us i) = Inr i"
proof -
  have "list_all plain_char ''event_id''" by code_simp
  then have "unmarshal (encode us i) = Some (JObject [(''event_id'', JString (us i))])"
    unfolding encode_def using uuid_text_plain[OF assms] by (rule unmarshal_single)
  moreover have "up (us i) = Some i" using assms by (simp only: uuid_text_def)
  ultimately show ?thesis
    by (simp add: decode_def decode_string_field_def EqualFold_def)
qed

text \<open>
  C25: What a publisher puts on the wire a consumer reads back: decoding an encoded envelope
  gives the event id, for every id.
\<close>

theorem envelope_round_trip:
  assumes "uuid_text us up"
  shows "decode up (encode us i) = Inr i"
  by (rule decode_encode[OF assms])

end
