(* ===== verification/RabbitMQ.thy ===== *)
theory RabbitMQ
  imports Mq Envelope "HOL-Library.AList"
begin

text \<open>
  internal/mq/rabbitmq.go: the publisher and the consumer on the channels of package
  github.com/rabbitmq/amqp091-go. What the broker and the connection answer is the
  environment's input; what the code sends, confirms, acknowledges and rejects, and in
  which order, is the model.
\<close>

record RabbitMQConfig =
  rc_URL :: string
  rc_Exchange :: string
  rc_ExchangeType :: string
  rc_RoutingKey :: string
  rc_Queue :: string
  rc_Durable :: bool
  rc_PrefetchCount :: int
  rc_ReconnectDelay :: duration
  rc_RequeueConfig :: RequeueConfig

text \<open>The integer types an AMQP header field can carry, and everything else.\<close>

datatype amqp_field =
    AInt8 "8 word" | AInt16 "16 word" | AInt32 "32 word" | AInt64 "64 word"
  | AUint8 "8 word" | AUint16 "16 word" | AUint32 "32 word"
  | AOther string

type_synonym amqp_table = "(string \<times> amqp_field) list"

text \<open>The properties of a message that a delivery and a publishing share.\<close>

record amqp_properties =
  am_ContentType :: string
  am_ContentEncoding :: string
  am_Priority :: "8 word"
  am_CorrelationId :: string
  am_ReplyTo :: string
  am_Timestamp :: instant
  am_Type :: string
  am_UserId :: string
  am_AppId :: string

definition no_properties :: amqp_properties where
  "no_properties = \<lparr>am_ContentType = [], am_ContentEncoding = [], am_Priority = 0,
     am_CorrelationId = [], am_ReplyTo = [], am_Timestamp = 0, am_Type = [], am_UserId = [],
     am_AppId = []\<rparr>"

record amqp_delivery =
  ad_Headers :: "amqp_table option"
  ad_Body :: string
  ad_Properties :: amqp_properties

definition rabbitAttemptsHeader :: string where
  "rabbitAttemptsHeader = ''x-notification-delivery-attempts''"

section \<open>Topology\<close>

datatype topology_call =
    ExchangeDeclare string string bool
  | QueueDeclare string bool
  | QueueBind string string string

text \<open>The declarations, in order; the first one that fails ends the function.\<close>

definition topology_calls :: "RabbitMQConfig \<Rightarrow> topology_call list" where
  "topology_calls cfg =
     (if rc_Exchange cfg \<noteq> [] then
        [ExchangeDeclare (rc_Exchange cfg)
           (if rc_ExchangeType cfg = [] then ''direct'' else rc_ExchangeType cfg) (rc_Durable cfg)]
      else [])
     @ [QueueDeclare (rc_Queue cfg) (rc_Durable cfg)]
     @ (if rc_Exchange cfg \<noteq> [] then [QueueBind (rc_Queue cfg) (rc_RoutingKey cfg) (rc_Exchange cfg)]
        else [])"

fun topology_error :: "topology_call \<Rightarrow> string \<Rightarrow> string" where
  "topology_error (ExchangeDeclare a b c) e = ''rabbitmq exchange declare: '' @ e"
| "topology_error (QueueDeclare a b) e = ''rabbitmq queue declare: '' @ e"
| "topology_error (QueueBind a b c) e = ''rabbitmq queue bind: '' @ e"

fun run_calls :: "(topology_call \<Rightarrow> string option) \<Rightarrow> topology_call list \<Rightarrow> string option \<times> topology_call list" where
  "run_calls broker [] = (None, [])"
| "run_calls broker (c # cs) =
     (case broker c of
        Some e \<Rightarrow> (Some (topology_error c e), [c])
      | None \<Rightarrow> (let (err, made) = run_calls broker cs in (err, c # made)))"

definition declareTopology ::
  "(topology_call \<Rightarrow> string option) \<Rightarrow> RabbitMQConfig \<Rightarrow> string option \<times> topology_call list" where
  "declareTopology broker cfg = run_calls broker (topology_calls cfg)"

definition routingKey :: "RabbitMQConfig \<Rightarrow> string" where
  "routingKey cfg = (if rc_Exchange cfg = [] then rc_Queue cfg else rc_RoutingKey cfg)"

definition exchange :: "RabbitMQConfig \<Rightarrow> string" where
  "exchange cfg = rc_Exchange cfg"

definition prefetch :: "RabbitMQConfig \<Rightarrow> int \<Rightarrow> int" where
  "prefetch cfg concurrency =
     (let p = (if rc_PrefetchCount cfg < concurrency then concurrency else rc_PrefetchCount cfg)
      in if p \<le> 0 then 1 else p)"

definition reconnectDelay :: "RabbitMQConfig \<Rightarrow> duration" where
  "reconnectDelay cfg = (if rc_ReconnectDelay cfg \<le> 0 then 5 * second else rc_ReconnectDelay cfg)"

section \<open>Publishing\<close>

record publishing =
  pb_Exchange :: string
  pb_RoutingKey :: string
  pb_Mandatory :: bool
  pb_Headers :: amqp_table
  pb_Properties :: amqp_properties
  pb_Persistent :: bool
  pb_MessageId :: string
  pb_Body :: string

text \<open>
  The outcome of a publish in confirm mode: the call fails, waiting for the confirmation
  fails, or the broker answers with an ack or a nack.
\<close>

datatype confirm_env = SendFails string | ConfirmFails string | Confirmed bool

definition rabbit_Publish ::
  "(uuid \<Rightarrow> string) \<Rightarrow> RabbitMQConfig \<Rightarrow> confirm_env \<Rightarrow> uuid \<Rightarrow> publishing \<times> (string, bool) result" where
  "rabbit_Publish uuid_String cfg env i =
     (\<lparr>pb_Exchange = exchange cfg, pb_RoutingKey = routingKey cfg, pb_Mandatory = True,
       pb_Headers = [(rabbitAttemptsHeader, AInt64 1)],
       pb_Properties = no_properties\<lparr>am_ContentType := ''application/json''\<rparr>,
       pb_Persistent = True, pb_MessageId = uuid_String i, pb_Body = encode uuid_String i\<rparr>,
      case env of
        SendFails e \<Rightarrow> Inl (''rabbitmq publish: '' @ e)
      | ConfirmFails e \<Rightarrow> Inl (''rabbitmq publish confirm: '' @ e)
      | Confirmed ok \<Rightarrow>
          if ok then Inr True else Inl ''rabbitmq publish: broker nacked delivery'')"

section \<open>Delivery attempts\<close>

definition rabbitDeliveryAttempts :: "amqp_table option \<Rightarrow> uint32" where
  "rabbitDeliveryAttempts headers =
     (case headers of
        None \<Rightarrow> 1
      | Some h \<Rightarrow>
        (case map_of h rabbitAttemptsHeader of
           None \<Rightarrow> 1
         | Some (AInt8 v) \<Rightarrow> if 0 < sint v then of_int (sint v) else 1
         | Some (AInt16 v) \<Rightarrow> if 0 < sint v then of_int (sint v) else 1
         | Some (AInt32 v) \<Rightarrow> if 0 < sint v then of_int (sint v) else 1
         | Some (AInt64 v) \<Rightarrow> if 0 < sint v \<and> sint v \<le> 4294967295 then of_int (sint v) else 1
         | Some (AUint8 v) \<Rightarrow> of_int (uint v)
         | Some (AUint16 v) \<Rightarrow> of_int (uint v)
         | Some (AUint32 v) \<Rightarrow> if 0 < v then v else 1
         | Some (AOther s) \<Rightarrow> 1))"

text \<open>\<open>headers[rabbitAttemptsHeader] = int64(attempts)\<close> on a clone of the table.\<close>

definition retry_headers :: "amqp_table option \<Rightarrow> uint32 \<Rightarrow> amqp_table" where
  "retry_headers headers attempts =
     AList.update rabbitAttemptsHeader (AInt64 (of_int (uint attempts)))
       (case headers of None \<Rightarrow> [] | Some h \<Rightarrow> h)"

section \<open>Consuming\<close>

text \<open>What the consumer does to a delivery, in order.\<close>

datatype rabbit_action =
    Ack
  | NackRequeue
  | PublishRetry publishing

definition retry_publishing ::
  "(uuid \<Rightarrow> string) \<Rightarrow> RabbitMQConfig \<Rightarrow> amqp_delivery \<Rightarrow> uuid \<Rightarrow> uint32 \<Rightarrow> publishing" where
  "retry_publishing uuid_String cfg d i attempts =
     \<lparr>pb_Exchange = exchange cfg, pb_RoutingKey = routingKey cfg, pb_Mandatory = True,
      pb_Headers = retry_headers (ad_Headers d) attempts, pb_Properties = ad_Properties d,
      pb_Persistent = True, pb_MessageId = uuid_String i, pb_Body = ad_Body d\<rparr>"

text \<open>\<open>None\<close> as the channel: the retry channel is gone.\<close>

definition publishRetry ::
  "(uuid \<Rightarrow> string) \<Rightarrow> RabbitMQConfig \<Rightarrow> confirm_env option \<Rightarrow> amqp_delivery \<Rightarrow> uuid \<Rightarrow> uint32 \<Rightarrow>
   string option \<times> rabbit_action list" where
  "publishRetry uuid_String cfg channel d i attempts =
     (case channel of
        None \<Rightarrow> (Some ''rabbitmq retry channel is unavailable'', [])
      | Some env \<Rightarrow>
        (case env of
           SendFails e \<Rightarrow> Some (''publish retry: '' @ e)
         | ConfirmFails e \<Rightarrow> Some (''confirm retry: '' @ e)
         | Confirmed ok \<Rightarrow> if ok then None else Some ''broker nacked retry publish'',
         [PublishRetry (retry_publishing uuid_String cfg d i attempts)]))"

definition requeueAfter ::
  "(uuid \<Rightarrow> string) \<Rightarrow> RabbitMQConfig \<Rightarrow> bool \<Rightarrow> confirm_env option \<Rightarrow> amqp_delivery \<Rightarrow> uuid \<Rightarrow>
   uint32 \<Rightarrow> rabbit_action list" where
  "requeueAfter uuid_String cfg cancelled channel d i attempts =
     (if cancelled then []
      else
        let (err, made) = publishRetry uuid_String cfg channel d i (next_attempts attempts)
        in made @ [if err = None then Ack else NackRequeue])"

definition rabbit_event :: "(string \<Rightarrow> uuid option) \<Rightarrow> amqp_delivery \<Rightarrow> uuid option" where
  "rabbit_event uuid_Parse d = (case decode uuid_Parse (ad_Body d) of Inl e \<Rightarrow> None | Inr i \<Rightarrow> Some i)"

definition handleDelivery ::
  "(string \<Rightarrow> uuid option) \<Rightarrow> RequeueConfig \<Rightarrow> amqp_delivery \<Rightarrow> (Delivery \<Rightarrow> handler_result) \<Rightarrow> disposition" where
  "handleDelivery uuid_Parse cfg d handler =
     (case decode uuid_Parse (ad_Body d) of
        Inl e \<Rightarrow> Acknowledged
      | Inr i \<Rightarrow>
        let attempts = rabbitDeliveryAttempts (ad_Headers d);
            delivery = mk_delivery cfg i attempts in
        case handler delivery of
          Some err \<Rightarrow> RedeliverAfter i (fst (requestedRequeue err (dl_RequeueDelay delivery)))
        | None \<Rightarrow> Acknowledged)"

interpretation rabbit: broker_consumer cfg "rabbit_event up" "\<lambda>d. rabbitDeliveryAttempts (ad_Headers d)"
  "\<lambda>d. linearRequeueDelay (rabbitDeliveryAttempts (ad_Headers d)) (rq_DefaultRequeueDelay cfg) (rq_MaxRequeueDelay cfg)"
  "handleDelivery up cfg" for cfg up
  by unfold_locales
    (auto simp: rabbit_event_def handleDelivery_def mk_delivery_def Let_def split: sum.splits)

section \<open>Counting attempts across redeliveries\<close>

lemma sint_int64_of_uint32: "sint (ucast (a :: uint32) :: 64 word) = uint a"
proof -
  have *: "sint (word_of_int x :: 64 word) = x" if "0 \<le> x" "x < 2 ^ 32" for x
    using that by (simp add: signed_of_int signed_take_bit_int_eq_self)
  have "sint (word_of_int (uint a) :: 64 word) = uint a"
    by (rule *) (use uint_lt2p[of a] in simp_all)
  then show ?thesis by simp
qed

text \<open>
  The attempts counter survives the wire: the number a retry writes into the header is
  the number the next consumer reads, for every counter that is at least one, whatever other
  headers the message carries.
\<close>

lemma rabbit_attempts_round_trip:
  assumes "0 < attempts"
  shows "rabbitDeliveryAttempts (Some (retry_headers h attempts)) = attempts
    \<and> (\<forall>k. k \<noteq> rabbitAttemptsHeader \<longrightarrow>
        map_of (retry_headers h attempts) k = Option.bind h (\<lambda>t. map_of t k))"
proof -
  have pos: "0 < uint attempts" using assms by (simp add: word_less_def)
  have le: "uint attempts \<le> 4294967295" using uint_lt2p[of attempts] by simp
  from pos le sint_int64_of_uint32[of attempts] have "rabbitDeliveryAttempts (Some (retry_headers h attempts)) = attempts"
    by (simp add: rabbitDeliveryAttempts_def retry_headers_def update_conv')
  moreover have "\<forall>k. k \<noteq> rabbitAttemptsHeader \<longrightarrow>
      map_of (retry_headers h attempts) k = Option.bind h (\<lambda>t. map_of t k)"
    by (simp add: retry_headers_def update_conv' split: option.split)
  ultimately show ?thesis by blast
qed

text \<open>The delivery a consumer gets of a published replacement.\<close>

definition received :: "publishing \<Rightarrow> amqp_delivery" where
  "received m = \<lparr>ad_Headers = Some (pb_Headers m), ad_Body = pb_Body m, ad_Properties = pb_Properties m\<rparr>"

lemma rabbit_comes_back:
  "rabbit_event up (received (retry_publishing us cfg d i (next_attempts a))) = rabbit_event up d"
  "rabbitDeliveryAttempts (ad_Headers (received (retry_publishing us cfg d i (next_attempts a)))) = next_attempts a"
  using rabbit_attempts_round_trip[OF next_attempts_pos]
  by (simp_all add: received_def retry_publishing_def rabbit_event_def)

text \<open>
  C26: A delayed requeue never loses the message: the original is acknowledged only after
  the broker has confirmed a persistent replacement with the same body and properties, one
  more attempt and the same event; in every other case it is rejected back into the queue or left
  unacknowledged.
\<close>

theorem rabbit_requeue_no_loss:
  "Ack \<in> set (requeueAfter us cfg cancelled channel d i attempts) \<longrightarrow>
     channel = Some (Confirmed True) \<and>
     requeueAfter us cfg cancelled channel d i attempts =
       [PublishRetry (retry_publishing us cfg d i (next_attempts attempts)), Ack] \<and>
     pb_Body (retry_publishing us cfg d i (next_attempts attempts)) = ad_Body d \<and>
     pb_Properties (retry_publishing us cfg d i (next_attempts attempts)) = ad_Properties d \<and>
     pb_MessageId (retry_publishing us cfg d i (next_attempts attempts)) = us i \<and>
     pb_Persistent (retry_publishing us cfg d i (next_attempts attempts))"
  by (auto simp: requeueAfter_def publishRetry_def retry_publishing_def Let_def
      split: option.splits confirm_env.splits if_splits)

end
