(* ===== verification/NSQ.thy ===== *)
theory NSQ
  imports Mq Envelope
begin

text \<open>
  internal/mq/nsq.go on package github.com/nsqio/go-nsq: a message handler that returns nil
  finishes the message unless it has already asked for a requeue, and one that returns an
  error makes the library requeue it after a delay of its own (\<open>library_delay\<close>).
\<close>

record NSQConfig =
  nq_NSQDAddr :: string
  nq_LookupdAddrs :: "string list"
  nq_Topic :: string
  nq_Channel :: string
  nq_RequeueConfig :: RequeueConfig

record nsq_message =
  nm_Body :: string
  nm_Attempts :: "16 word"

text \<open>What the handler asks of the library, and the error it returns to it.\<close>

datatype nsq_response =
    Finish
  | Requeue duration
  | RequeueWithoutBackoff duration
  | LibraryRequeue string

definition nsq_Publish ::
  "(uuid \<Rightarrow> string) \<Rightarrow> NSQConfig \<Rightarrow> string option \<Rightarrow> uuid \<Rightarrow> (string \<times> string) \<times> (string, bool) result" where
  "nsq_Publish uuid_String cfg err i =
     ((nq_Topic cfg, encode uuid_String i),
      case err of Some e \<Rightarrow> Inl (''nsq publish: '' @ e) | None \<Rightarrow> Inr True)"

text \<open>
  The library's own attempt limit is switched off: zero means no limit. \<open>err\<close> is what the
  library's constructor answers.
\<close>

definition newNSQConsumer :: "string option \<Rightarrow> NSQConfig \<Rightarrow> (string, RequeueConfig \<times> uint32) result" where
  "newNSQConsumer err cfg =
     (case validateRequeueConfig ''nsq'' (nq_RequeueConfig cfg) of
        Inl e \<Rightarrow> Inl e
      | Inr _ \<Rightarrow>
        (case err of
           Some e \<Rightarrow> Inl (''nsq consumer: '' @ e)
         | None \<Rightarrow> Inr (nq_RequeueConfig cfg, 0)))"

definition nsq_attempts :: "nsq_message \<Rightarrow> uint32" where
  "nsq_attempts m = of_int (uint (nm_Attempts m))"

definition HandleMessage ::
  "(string \<Rightarrow> uuid option) \<Rightarrow> RequeueConfig \<Rightarrow> nsq_message \<Rightarrow> (Delivery \<Rightarrow> handler_result) \<Rightarrow> nsq_response" where
  "HandleMessage uuid_Parse cfg m handler =
     (case decode uuid_Parse (nm_Body m) of
        Inl e \<Rightarrow> Finish
      | Inr i \<Rightarrow>
        let delivery = mk_delivery cfg i (nsq_attempts m);
            fallbackDelay = dl_RequeueDelay delivery in
        case handler delivery of
          None \<Rightarrow> Finish
        | Some err \<Rightarrow>
          let (delay, backoff, explicit) = requestedRequeue err fallbackDelay in
          if \<not> explicit then LibraryRequeue (case err of RequeueError c d b \<Rightarrow> c | OtherError e \<Rightarrow> e)
          else if backoff then Requeue delay
          else RequeueWithoutBackoff delay)"

definition nsq_event :: "(string \<Rightarrow> uuid option) \<Rightarrow> nsq_message \<Rightarrow> uuid option" where
  "nsq_event uuid_Parse m = (case decode uuid_Parse (nm_Body m) of Inl e \<Rightarrow> None | Inr i \<Rightarrow> Some i)"

definition nsq_dispose ::
  "(nsq_message \<Rightarrow> duration) \<Rightarrow> (string \<Rightarrow> uuid option) \<Rightarrow> RequeueConfig \<Rightarrow> nsq_message \<Rightarrow>
   (Delivery \<Rightarrow> handler_result) \<Rightarrow> disposition" where
  "nsq_dispose library_delay uuid_Parse cfg m handler =
     (case nsq_event uuid_Parse m of
        None \<Rightarrow> Acknowledged
      | Some i \<Rightarrow>
        (case HandleMessage uuid_Parse cfg m handler of
           Finish \<Rightarrow> Acknowledged
         | Requeue d \<Rightarrow> RedeliverAfter i d
         | RequeueWithoutBackoff d \<Rightarrow> RedeliverAfter i d
         | LibraryRequeue e \<Rightarrow> RedeliverAfter i (library_delay m)))"

interpretation nsq: broker_consumer cfg "nsq_event up" nsq_attempts ld "nsq_dispose ld up cfg" for cfg up ld
  by unfold_locales
    (auto simp: nsq_dispose_def nsq_event_def HandleMessage_def Let_def split: sum.splits)

end
