(* ===== verification/Domain.thy ===== *)
theory Domain
  imports Json
begin

text \<open>
  internal/domain/event.go: the notification_event row, its lifecycle status and the
  three shapes of the last_result column, with the JSON each of them marshals to.
\<close>

text \<open>The status column; the CHECK constraint of the schema admits exactly these five.\<close>

datatype Status = PENDING | PROCESSING | SUCCEEDED | FAILED | UNKNOWN

fun status_string :: "Status \<Rightarrow> string" where
  "status_string PENDING = ''PENDING''"
| "status_string PROCESSING = ''PROCESSING''"
| "status_string SUCCEEDED = ''SUCCEEDED''"
| "status_string FAILED = ''FAILED''"
| "status_string UNKNOWN = ''UNKNOWN''"

record Event =
  ev_ID :: uuid
  ev_SourceSystem :: string
  ev_SourceRequestID :: string
  ev_ProviderCode :: string
  ev_ProviderAction :: string
  ev_Payload :: string
  ev_Status :: Status
  ev_AttemptCount :: int
  ev_NextAttemptAt :: instant
  ev_EnqueuedAt :: "instant option"
  ev_LeaseToken :: "uuid option"
  ev_LeaseUntil :: "instant option"
  ev_LastResult :: "json option"
  ev_ProviderResponse :: "string option"
  ev_CreatedAt :: instant
  ev_UpdatedAt :: instant

definition PhaseClaimed :: string where "PhaseClaimed = ''CLAIMED''"
definition PhaseRequesting :: string where "PhaseRequesting = ''REQUESTING''"

definition OutcomeRequeueRequested :: string where
  "OutcomeRequeueRequested = ''REQUEUE_REQUESTED''"
definition OutcomeSucceeded :: string where "OutcomeSucceeded = ''SUCCEEDED''"
definition OutcomeFailed :: string where "OutcomeFailed = ''FAILED''"

definition LastResultClaimed :: "instant \<Rightarrow> json" where
  "LastResultClaimed at = JObject [(''phase'', JString PhaseClaimed), (''claimed_at'', JTime at)]"

definition LastResultRequesting :: "instant \<Rightarrow> json" where
  "LastResultRequesting at =
     JObject [(''phase'', JString PhaseRequesting), (''started_at'', JTime at)]"

record LastResultFinished =
  lr_Outcome :: string
  lr_HTTPStatus :: int
  lr_ErrorClass :: string
  lr_Message :: string
  lr_RequestMayHaveBeenSent :: bool
  lr_Retryable :: bool
  lr_NextAttemptAt :: "instant option"
  lr_LatencyMs :: int
  lr_AttemptNumber :: int
  lr_FinishedAt :: instant

definition finished_zero :: LastResultFinished where
  "finished_zero =
     \<lparr>lr_Outcome = [], lr_HTTPStatus = 0, lr_ErrorClass = [], lr_Message = [],
      lr_RequestMayHaveBeenSent = False, lr_Retryable = False, lr_NextAttemptAt = None,
      lr_LatencyMs = 0, lr_AttemptNumber = 0, lr_FinishedAt = 0\<rparr>"

definition marshal_finished :: "LastResultFinished \<Rightarrow> json" where
  "marshal_finished r = JObject (
     [(''outcome'', JString (lr_Outcome r))]
     @ omitempty (lr_HTTPStatus r = 0) ''http_status'' (JInt (lr_HTTPStatus r))
     @ omitempty (lr_ErrorClass r = []) ''error_class'' (JString (lr_ErrorClass r))
     @ omitempty (lr_Message r = []) ''message'' (JString (lr_Message r))
     @ omitempty (\<not> lr_RequestMayHaveBeenSent r) ''request_may_have_been_sent'' (JBool True)
     @ omitempty (\<not> lr_Retryable r) ''retryable'' (JBool True)
     @ (case lr_NextAttemptAt r of None \<Rightarrow> [] | Some t \<Rightarrow> [(''next_attempt_at'', JTime t)])
     @ omitempty (lr_LatencyMs r = 0) ''latency_ms'' (JInt (lr_LatencyMs r))
     @ [(''attempt_number'', JInt (lr_AttemptNumber r)),
        (''finished_at'', JTime (lr_FinishedAt r))])"

abbreviation outcome_of_column :: "json option \<Rightarrow> string option" where
  "outcome_of_column v \<equiv> member_text v ''outcome''"

text \<open>
  A column that asks for redelivery, whichever way the program reads it: by the SQL
  operator or by decoding it into a struct.
\<close>

definition requeue_requested :: "json option \<Rightarrow> bool" where
  "requeue_requested v \<longleftrightarrow> outcome_of_column v = Some OutcomeRequeueRequested
     \<and> Option.bind v (decode_string_field ''outcome'') = Some OutcomeRequeueRequested"

lemma outcome_marshal_finished [simp]:
  "outcome_of_column (Some (marshal_finished r)) = Some (lr_Outcome r)"
  by (simp add: member_text_def marshal_finished_def json_text_def)

lemma decode_members_append:
  "decode_members k (xs @ ys) acc = Option.bind (decode_members k xs acc) (decode_members k ys)"
  by (induction k xs acc rule: decode_members.induct) (auto split: json.split)

lemma decode_marshal_finished [simp]:
  "decode_string_field ''outcome'' (marshal_finished r) = Some (lr_Outcome r)"
  by (simp add: decode_string_field_def marshal_finished_def decode_members_append omitempty_def
      EqualFold_def lower_char_def split: option.split)

lemma requeue_requested_finished [simp]:
  "requeue_requested (Some (marshal_finished r)) \<longleftrightarrow> lr_Outcome r = OutcomeRequeueRequested"
  by (simp add: requeue_requested_def)

lemma outcome_claimed [simp]: "outcome_of_column (Some (LastResultClaimed at)) = None"
  by (simp add: member_text_def LastResultClaimed_def)

lemma outcome_requesting [simp]: "outcome_of_column (Some (LastResultRequesting at)) = None"
  by (simp add: member_text_def LastResultRequesting_def)

lemma outcome_distinct [simp]:
  "OutcomeSucceeded \<noteq> OutcomeRequeueRequested" "OutcomeFailed \<noteq> OutcomeRequeueRequested"
  "OutcomeRequeueRequested \<noteq> []"
  by (simp_all add: OutcomeSucceeded_def OutcomeFailed_def OutcomeRequeueRequested_def)

lemma status_string_inj: "status_string a = status_string b \<longleftrightarrow> a = b"
  by (cases a; cases b; simp)

end
