(* ===== verification/Store.thy ===== *)
theory Store
  imports Domain
begin

text \<open>
  internal/store/event_repo.go over the schema of migrations_sql/0001_init.sql: every
  statement of the repository as an operation on the list of rows of notification_event.

  A statement sees the database clock \<open>db_now\<close> and may fail: before taking effect, or
  after it (the connection is lost once the statement has committed), which the caller
  cannot tell apart. What PostgreSQL gives back when a text is written to a jsonb column
  is the parameter \<open>jsonb\<close> (\<open>None\<close>: the text is refused). In which order a query returns
  rows that its ORDER BY does not tell apart is the database's choice (\<open>db_tie\<close>). Durations
  are added exactly; the rounding of \<open>Duration.Seconds()\<close> to microseconds is not modelled.
  A text parameter with a NUL or with bytes that are not UTF-8 makes PostgreSQL refuse the
  statement, which is a fault before it; that a varchar column cuts surplus blanks off the end
  of a value that is too long is not modelled: such a value counts as too long.
\<close>

type_synonym table = "Event list"
type_synonym jsonb = "string \<Rightarrow> string option"

datatype store_error =
    ErrNotFound
  | ErrDuplicateSourceRequest
  | ErrNotClaimed
  | DbError string

fun store_error_text :: "store_error \<Rightarrow> string" where
  "store_error_text ErrNotFound = ''store: not found''"
| "store_error_text ErrDuplicateSourceRequest = ''store: duplicate source request''"
| "store_error_text ErrNotClaimed = ''store: event not claimed''"
| "store_error_text (DbError e) = e"

datatype fault = NoFault | FaultBefore string | FaultAfter string

record db_env =
  db_now :: instant
  db_fault :: fault
  db_tie :: "uuid \<Rightarrow> int"

section \<open>Statements\<close>

definition exec_update ::
  "db_env \<Rightarrow> (Event \<Rightarrow> bool) \<Rightarrow> (Event \<Rightarrow> Event) \<Rightarrow> table \<Rightarrow> (store_error, nat) result \<times> table" where
  "exec_update env p f t =
     (case db_fault env of
        NoFault \<Rightarrow> (Inr (count_where p t), update_where p f t)
      | FaultBefore e \<Rightarrow> (Inl (DbError e), t)
      | FaultAfter e \<Rightarrow> (Inl (DbError e), update_where p f t))"

text \<open>The common tail of the guarded updates: zero affected rows is \<open>ErrNotClaimed\<close>.\<close>

definition claimed_or_error :: "(store_error, nat) result \<Rightarrow> store_error option" where
  "claimed_or_error r =
     (case r of Inl e \<Rightarrow> Some e | Inr n \<Rightarrow> if n = 0 then Some ErrNotClaimed else None)"

definition guarded_update ::
  "db_env \<Rightarrow> (Event \<Rightarrow> bool) \<Rightarrow> (Event \<Rightarrow> Event) \<Rightarrow> table \<Rightarrow> store_error option \<times> table" where
  "guarded_update env p f t =
     (let (r, t') = exec_update env p f t in (claimed_or_error r, t'))"

definition held_by :: "uuid \<Rightarrow> uuid \<Rightarrow> Event \<Rightarrow> bool" where
  "held_by i tok r \<longleftrightarrow> ev_ID r = i \<and> ev_Status r = PROCESSING \<and> ev_LeaseToken r = Some tok"

definition lease_expired :: "instant \<Rightarrow> Event \<Rightarrow> bool" where
  "lease_expired now r = (case ev_LeaseUntil r of None \<Rightarrow> False | Some u \<Rightarrow> u < now)"

definition waiting :: "Event \<Rightarrow> bool" where
  "waiting r \<longleftrightarrow> ev_Status r = PROCESSING \<and> ev_LeaseToken r = None
     \<and> outcome_of_column (ev_LastResult r) = Some OutcomeRequeueRequested"

section \<open>Insert and lookups\<close>

text \<open>Characters of a UTF-8 text: the bytes that do not continue one.\<close>

definition char_length :: "string \<Rightarrow> nat" where
  "char_length s =
     length (filter (\<lambda>c. \<not> (128 \<le> (of_char c :: nat) \<and> (of_char c :: nat) < 192)) s)"

definition columns_fit :: "Event \<Rightarrow> bool" where
  "columns_fit ev \<longleftrightarrow>
     char_length (ev_SourceSystem ev) \<le> 64 \<and> char_length (ev_SourceRequestID ev) \<le> 128
     \<and> char_length (ev_ProviderCode ev) \<le> 64 \<and> char_length (ev_ProviderAction ev) \<le> 64"

definition source_key :: "Event \<Rightarrow> string \<times> string" where
  "source_key r = (ev_SourceSystem r, ev_SourceRequestID r)"

definition violates_unique :: "Event \<Rightarrow> table \<Rightarrow> bool" where
  "violates_unique ev t =
     list_ex (\<lambda>r. ev_ID r = ev_ID ev \<or> source_key r = source_key ev) t"

definition new_row :: "instant \<Rightarrow> string \<Rightarrow> Event \<Rightarrow> Event" where
  "new_row now payload ev =
     \<lparr>ev_ID = ev_ID ev, ev_SourceSystem = ev_SourceSystem ev,
      ev_SourceRequestID = ev_SourceRequestID ev, ev_ProviderCode = ev_ProviderCode ev,
      ev_ProviderAction = ev_ProviderAction ev, ev_Payload = payload, ev_Status = PENDING,
      ev_AttemptCount = 0, ev_NextAttemptAt = now, ev_EnqueuedAt = None,
      ev_LeaseToken = None, ev_LeaseUntil = None, ev_LastResult = None,
      ev_ProviderResponse = None, ev_CreatedAt = now, ev_UpdatedAt = now\<rparr>"

definition Insert ::
  "jsonb \<Rightarrow> db_env \<Rightarrow> Event \<Rightarrow> table \<Rightarrow> (store_error, Event) result \<times> table" where
  "Insert jsonb env ev t =
     (case db_fault env of
        FaultBefore e \<Rightarrow> (Inl (DbError e), t)
      | flt \<Rightarrow>
        (case jsonb (ev_Payload ev) of
           None \<Rightarrow> (Inl (DbError ''invalid input syntax for type json''), t)
         | Some p \<Rightarrow>
           if \<not> columns_fit ev then (Inl (DbError ''value too long for type character varying''), t)
           else if violates_unique ev t then (Inl ErrDuplicateSourceRequest, t)
           else (case flt of
                   FaultAfter e \<Rightarrow> (Inl (DbError e), t @ [new_row (db_now env) p ev])
                 | _ \<Rightarrow> (Inr (ev\<lparr>ev_CreatedAt := db_now env, ev_UpdatedAt := db_now env,
                                ev_Status := PENDING\<rparr>),
                         t @ [new_row (db_now env) p ev]))))"

definition select_one :: "db_env \<Rightarrow> (Event \<Rightarrow> bool) \<Rightarrow> table \<Rightarrow> (store_error, Event) result" where
  "select_one env p t =
     (case db_fault env of
        NoFault \<Rightarrow> (case List.find p t of None \<Rightarrow> Inl ErrNotFound | Some r \<Rightarrow> Inr r)
      | FaultBefore e \<Rightarrow> Inl (DbError e)
      | FaultAfter e \<Rightarrow> Inl (DbError e))"

definition FindBySourceRequest ::
  "db_env \<Rightarrow> string \<Rightarrow> string \<Rightarrow> table \<Rightarrow> (store_error, Event) result" where
  "FindBySourceRequest env sys req t =
     select_one env (\<lambda>r. ev_SourceSystem r = sys \<and> ev_SourceRequestID r = req) t"

definition GetByID :: "db_env \<Rightarrow> uuid \<Rightarrow> table \<Rightarrow> (store_error, Event) result" where
  "GetByID env i t = select_one env (\<lambda>r. ev_ID r = i) t"

section \<open>Publishing and compensation scans\<close>

definition select_rows ::
  "db_env \<Rightarrow> (Event \<Rightarrow> bool) \<Rightarrow> (Event \<Rightarrow> instant) \<Rightarrow> nat \<Rightarrow> table \<Rightarrow> (store_error, Event list) result" where
  "select_rows env p key lim t =
     (case db_fault env of
        NoFault \<Rightarrow> Inr (take lim (sort_key key (sort_key (\<lambda>r. db_tie env (ev_ID r)) (filter p t))))
      | FaultBefore e \<Rightarrow> Inl (DbError e)
      | FaultAfter e \<Rightarrow> Inl (DbError e))"

definition pending_to_publish :: "instant \<Rightarrow> Event \<Rightarrow> bool" where
  "pending_to_publish now r \<longleftrightarrow>
     ev_Status r = PENDING \<and> ev_NextAttemptAt r \<le> now \<and> ev_EnqueuedAt r = None"

definition SelectPendingToPublish :: "db_env \<Rightarrow> nat \<Rightarrow> table \<Rightarrow> (store_error, uuid list) result" where
  "SelectPendingToPublish env lim t =
     map_sum id (map ev_ID)
       (select_rows env (pending_to_publish (db_now env)) ev_NextAttemptAt lim t)"

definition MarkEnqueued :: "db_env \<Rightarrow> uuid \<Rightarrow> table \<Rightarrow> store_error option \<times> table" where
  "MarkEnqueued env i t =
     (let (r, t') = exec_update env (\<lambda>r. ev_ID r = i \<and> ev_Status r = PENDING)
        (\<lambda>r. r\<lparr>ev_EnqueuedAt := Some (db_now env), ev_UpdatedAt := db_now env\<rparr>) t
      in (case r of Inl e \<Rightarrow> Some e | Inr _ \<Rightarrow> None, t'))"

section \<open>The atomic claim and the lease\<close>

definition claimable :: "instant \<Rightarrow> uuid \<Rightarrow> Event \<Rightarrow> bool" where
  "claimable now i r \<longleftrightarrow> ev_ID r = i
     \<and> ((ev_Status r = PENDING \<and> ev_NextAttemptAt r \<le> now) \<or> waiting r)"

definition claim_row :: "instant \<Rightarrow> uuid \<Rightarrow> duration \<Rightarrow> instant \<Rightarrow> Event \<Rightarrow> Event" where
  "claim_row now tok dur worker_now r =
     r\<lparr>ev_Status := PROCESSING, ev_AttemptCount := ev_AttemptCount r + 1,
       ev_LeaseToken := Some tok, ev_LeaseUntil := Some (now + dur),
       ev_LastResult := Some (LastResultClaimed worker_now),
       ev_ProviderResponse := None, ev_UpdatedAt := now\<rparr>"

text \<open>
  attempt_count is a SMALLINT: an increment past 32767 is a PostgreSQL error that aborts
  the statement.
\<close>

definition Claim ::
  "db_env \<Rightarrow> uuid \<Rightarrow> uuid \<Rightarrow> duration \<Rightarrow> instant \<Rightarrow> table \<Rightarrow> (store_error, Event) result \<times> table" where
  "Claim env i tok dur worker_now t =
     (let p = claimable (db_now env) i; f = claim_row (db_now env) tok dur worker_now in
      case db_fault env of
        FaultBefore e \<Rightarrow> (Inl (DbError e), t)
      | flt \<Rightarrow>
        if list_ex (\<lambda>r. p r \<and> ev_AttemptCount r = 32767) t
        then (Inl (DbError ''smallint out of range''), t)
        else (case flt of
                FaultAfter e \<Rightarrow> Inl (DbError e)
              | _ \<Rightarrow> (case List.find p t of None \<Rightarrow> Inl ErrNotClaimed | Some r \<Rightarrow> Inr (f r)),
              update_where p f t))"

definition RenewLease ::
  "db_env \<Rightarrow> uuid \<Rightarrow> uuid \<Rightarrow> duration \<Rightarrow> table \<Rightarrow> store_error option \<times> table" where
  "RenewLease env i tok dur t =
     guarded_update env (held_by i tok)
       (\<lambda>r. r\<lparr>ev_LeaseUntil := Some (db_now env + dur), ev_UpdatedAt := db_now env\<rparr>) t"

definition MarkRequesting ::
  "db_env \<Rightarrow> uuid \<Rightarrow> uuid \<Rightarrow> instant \<Rightarrow> table \<Rightarrow> store_error option \<times> table" where
  "MarkRequesting env i tok worker_now t =
     guarded_update env (held_by i tok)
       (\<lambda>r. r\<lparr>ev_LastResult := Some (LastResultRequesting worker_now),
              ev_UpdatedAt := db_now env\<rparr>) t"

section \<open>Attempt-result transitions\<close>

text \<open>
  Three statements store the provider's response, which they cast to jsonb. PostgreSQL stores
  the normalised text, and fails the statement before it runs when it refuses the text: a
  response is valid JSON, but jsonb also refuses a NUL escape and bytes that are not UTF-8.
\<close>

definition with_response ::
  "jsonb \<Rightarrow> string option \<Rightarrow> (string option \<Rightarrow> store_error option \<times> table) \<Rightarrow> table \<Rightarrow>
   store_error option \<times> table" where
  "with_response jsonb resp statement t =
     (case resp of
        None \<Rightarrow> statement None
      | Some text \<Rightarrow>
        (case jsonb text of
           None \<Rightarrow> (Some (DbError ''invalid input syntax for type json''), t)
         | Some p \<Rightarrow> statement (Some p)))"

definition MarkSucceeded ::
  "jsonb \<Rightarrow> db_env \<Rightarrow> uuid \<Rightarrow> uuid \<Rightarrow> json \<Rightarrow> string option \<Rightarrow> table \<Rightarrow> store_error option \<times> table" where
  "MarkSucceeded jsonb env i tok res resp t =
     with_response jsonb resp (\<lambda>resp. guarded_update env (held_by i tok)
       (\<lambda>r. r\<lparr>ev_Status := SUCCEEDED, ev_LeaseToken := None, ev_LeaseUntil := None,
              ev_LastResult := Some res, ev_ProviderResponse := resp,
              ev_UpdatedAt := db_now env\<rparr>) t) t"

definition MarkWaitingForRequeue ::
  "jsonb \<Rightarrow> db_env \<Rightarrow> uuid \<Rightarrow> uuid \<Rightarrow> instant \<Rightarrow> json \<Rightarrow> string option \<Rightarrow> table \<Rightarrow> store_error option \<times> table" where
  "MarkWaitingForRequeue jsonb env i tok until res resp t =
     with_response jsonb resp (\<lambda>resp. guarded_update env (held_by i tok)
       (\<lambda>r. r\<lparr>ev_LeaseToken := None, ev_LeaseUntil := Some until, ev_LastResult := Some res,
              ev_ProviderResponse := resp, ev_UpdatedAt := db_now env\<rparr>) t) t"

definition MarkCircuitOpenWaitingForRequeue ::
  "db_env \<Rightarrow> uuid \<Rightarrow> uuid \<Rightarrow> instant \<Rightarrow> json \<Rightarrow> table \<Rightarrow> store_error option \<times> table" where
  "MarkCircuitOpenWaitingForRequeue env i tok until res t =
     guarded_update env (held_by i tok)
       (\<lambda>r. r\<lparr>ev_AttemptCount := max (ev_AttemptCount r - 1) 0, ev_LeaseToken := None,
              ev_LeaseUntil := Some until, ev_LastResult := Some res,
              ev_ProviderResponse := None, ev_UpdatedAt := db_now env\<rparr>) t"

definition ReserveExpiredRequeue ::
  "db_env \<Rightarrow> uuid \<Rightarrow> duration \<Rightarrow> table \<Rightarrow> store_error option \<times> table" where
  "ReserveExpiredRequeue env i dur t =
     guarded_update env
       (\<lambda>r. ev_ID r = i \<and> ev_Status r = PROCESSING \<and> ev_LeaseToken r = None
            \<and> lease_expired (db_now env) r
            \<and> outcome_of_column (ev_LastResult r) = Some OutcomeRequeueRequested)
       (\<lambda>r. r\<lparr>ev_LeaseUntil := Some (db_now env + dur), ev_UpdatedAt := db_now env\<rparr>) t"

definition MarkFailed ::
  "jsonb \<Rightarrow> db_env \<Rightarrow> uuid \<Rightarrow> uuid \<Rightarrow> json \<Rightarrow> string option \<Rightarrow> table \<Rightarrow> store_error option \<times> table" where
  "MarkFailed jsonb env i tok res resp t =
     with_response jsonb resp (\<lambda>resp. guarded_update env (held_by i tok)
       (\<lambda>r. r\<lparr>ev_Status := FAILED, ev_LeaseToken := None, ev_LeaseUntil := None,
              ev_LastResult := Some res, ev_ProviderResponse := resp,
              ev_UpdatedAt := db_now env\<rparr>) t) t"

definition MarkFailedWithoutProviderAttempt ::
  "db_env \<Rightarrow> uuid \<Rightarrow> uuid \<Rightarrow> json \<Rightarrow> table \<Rightarrow> store_error option \<times> table" where
  "MarkFailedWithoutProviderAttempt env i tok res t =
     guarded_update env (held_by i tok)
       (\<lambda>r. r\<lparr>ev_Status := FAILED, ev_AttemptCount := max (ev_AttemptCount r - 1) 0,
              ev_LeaseToken := None, ev_LeaseUntil := None, ev_LastResult := Some res,
              ev_ProviderResponse := None, ev_UpdatedAt := db_now env\<rparr>) t"

section \<open>Crash recovery\<close>

definition SelectExpiredLeases :: "db_env \<Rightarrow> nat \<Rightarrow> table \<Rightarrow> (store_error, Event list) result" where
  "SelectExpiredLeases env lim t =
     select_rows env (\<lambda>r. ev_Status r = PROCESSING \<and> lease_expired (db_now env) r)
       (\<lambda>r. case ev_LeaseUntil r of Some u \<Rightarrow> u | None \<Rightarrow> 0) lim t"

definition RecoverExpiredToRequeue ::
  "db_env \<Rightarrow> uuid \<Rightarrow> uuid \<Rightarrow> instant \<Rightarrow> json \<Rightarrow> table \<Rightarrow> store_error option \<times> table" where
  "RecoverExpiredToRequeue env i tok deadline res t =
     guarded_update env (\<lambda>r. held_by i tok r \<and> lease_expired (db_now env) r)
       (\<lambda>r. r\<lparr>ev_LeaseToken := None, ev_LeaseUntil := Some deadline,
              ev_LastResult := Some res, ev_ProviderResponse := None,
              ev_UpdatedAt := db_now env\<rparr>) t"

section \<open>The repository's write operations as data\<close>

text \<open>
  Every operation that changes the table, with its arguments, so that a history of calls
  by any number of workers, servers and compensators is a list. \<open>op_ok\<close> is the callers'
  side of the contract: what is stored as the result of an attempt that waits for the
  broker says so in its outcome.
\<close>

datatype repo_op =
    OpInsert Event
  | OpMarkEnqueued uuid
  | OpClaim uuid uuid duration instant
  | OpRenewLease uuid uuid duration
  | OpMarkRequesting uuid uuid instant
  | OpMarkSucceeded uuid uuid json "string option"
  | OpMarkWaiting uuid uuid instant json "string option"
  | OpMarkCircuitOpen uuid uuid instant json
  | OpReserve uuid duration
  | OpMarkFailed uuid uuid json "string option"
  | OpMarkFailedUnused uuid uuid json
  | OpRecover uuid uuid instant json

fun op_ok :: "repo_op \<Rightarrow> bool" where
  "op_ok (OpMarkWaiting i tok until res resp) =
     requeue_requested (Some res)"
| "op_ok (OpMarkCircuitOpen i tok until res) =
     requeue_requested (Some res)"
| "op_ok (OpRecover i tok deadline res) =
     requeue_requested (Some res)"
| "op_ok _ = True"

definition error_of :: "(store_error, 'a) result \<times> table \<Rightarrow> store_error option \<times> table" where
  "error_of x = (case fst x of Inl e \<Rightarrow> Some e | Inr _ \<Rightarrow> None, snd x)"

fun repo_exec :: "jsonb \<Rightarrow> db_env \<Rightarrow> repo_op \<Rightarrow> table \<Rightarrow> store_error option \<times> table" where
  "repo_exec jsonb env (OpInsert ev) t = error_of (Insert jsonb env ev t)"
| "repo_exec jsonb env (OpMarkEnqueued i) t = MarkEnqueued env i t"
| "repo_exec jsonb env (OpClaim i tok dur now) t = error_of (Claim env i tok dur now t)"
| "repo_exec jsonb env (OpRenewLease i tok dur) t = RenewLease env i tok dur t"
| "repo_exec jsonb env (OpMarkRequesting i tok now) t = MarkRequesting env i tok now t"
| "repo_exec jsonb env (OpMarkSucceeded i tok res resp) t = MarkSucceeded jsonb env i tok res resp t"
| "repo_exec jsonb env (OpMarkWaiting i tok u res resp) t =
     MarkWaitingForRequeue jsonb env i tok u res resp t"
| "repo_exec jsonb env (OpMarkCircuitOpen i tok u res) t =
     MarkCircuitOpenWaitingForRequeue env i tok u res t"
| "repo_exec jsonb env (OpReserve i dur) t = ReserveExpiredRequeue env i dur t"
| "repo_exec jsonb env (OpMarkFailed i tok res resp) t = MarkFailed jsonb env i tok res resp t"
| "repo_exec jsonb env (OpMarkFailedUnused i tok res) t =
     MarkFailedWithoutProviderAttempt env i tok res t"
| "repo_exec jsonb env (OpRecover i tok d res) t = RecoverExpiredToRequeue env i tok d res t"

inductive db_step :: "jsonb \<Rightarrow> table \<Rightarrow> table \<Rightarrow> bool" for jsonb where
  repo_call: "op_ok oper \<Longrightarrow> db_step jsonb t (snd (repo_exec jsonb env oper t))"

inductive db_reachable :: "jsonb \<Rightarrow> table \<Rightarrow> bool" for jsonb where
  empty_table: "db_reachable jsonb []"
| one_more: "db_reachable jsonb t \<Longrightarrow> db_step jsonb t t' \<Longrightarrow> db_reachable jsonb t'"

inductive_cases db_stepE: "db_step jsonb t t'"

section \<open>The lifecycle of a row\<close>

datatype lifecycle =
    LPending
  | LLeased uuid int
  | LWaiting int
  | LSucceeded int
  | LFailed int
  | LUnknown

definition life :: "Event \<Rightarrow> lifecycle" where
  "life r =
     (case ev_Status r of
        PENDING \<Rightarrow> LPending
      | PROCESSING \<Rightarrow>
          (case ev_LeaseToken r of
             Some tok \<Rightarrow> LLeased tok (ev_AttemptCount r)
           | None \<Rightarrow> LWaiting (ev_AttemptCount r))
      | SUCCEEDED \<Rightarrow> LSucceeded (ev_AttemptCount r)
      | FAILED \<Rightarrow> LFailed (ev_AttemptCount r)
      | UNKNOWN \<Rightarrow> LUnknown)"

text \<open>The state machine the repository promises, one rule per kind of transition.\<close>

inductive life_step :: "lifecycle \<Rightarrow> lifecycle \<Rightarrow> bool" where
  stutter: "life_step l l"
| first_claim: "life_step LPending (LLeased tok 1)"
| next_claim: "life_step (LWaiting n) (LLeased tok (n + 1))"
| succeed: "life_step (LLeased tok n) (LSucceeded n)"
| fail: "life_step (LLeased tok n) (LFailed n)"
| fail_unused: "life_step (LLeased tok n) (LFailed (n - 1))"
| release: "life_step (LLeased tok n) (LWaiting n)"
| release_unused: "life_step (LLeased tok n) (LWaiting (n - 1))"

inductive_cases life_step_succeededE [elim!]: "life_step (LSucceeded n) l"
inductive_cases life_step_failedE [elim!]: "life_step (LFailed n) l"
inductive_cases life_step_pendingE: "life_step LPending l"
inductive_cases life_step_leasedE: "life_step (LLeased tok n) l"
inductive_cases life_step_waitingE: "life_step (LWaiting n) l"

declare life_step.intros [simp, intro]

definition row_wf :: "Event \<Rightarrow> bool" where
  "row_wf r \<longleftrightarrow> 0 \<le> ev_AttemptCount r \<and> ev_AttemptCount r \<le> 32767 \<and>
     (case ev_Status r of
        PENDING \<Rightarrow> ev_AttemptCount r = 0 \<and> ev_LeaseToken r = None \<and> ev_LeaseUntil r = None
                  \<and> ev_LastResult r = None
      | PROCESSING \<Rightarrow> ev_LeaseUntil r \<noteq> None \<and>
          (case ev_LeaseToken r of
             Some tok \<Rightarrow> 1 \<le> ev_AttemptCount r
                         \<and> outcome_of_column (ev_LastResult r) = None
           | None \<Rightarrow> requeue_requested (ev_LastResult r))
      | SUCCEEDED \<Rightarrow> 1 \<le> ev_AttemptCount r \<and> ev_LeaseToken r = None \<and> ev_LeaseUntil r = None
      | FAILED \<Rightarrow> ev_LeaseToken r = None \<and> ev_LeaseUntil r = None
      | UNKNOWN \<Rightarrow> False)"

definition table_wf :: "table \<Rightarrow> bool" where
  "table_wf t \<longleftrightarrow> (\<forall>r \<in> set t. row_wf r) \<and> distinct (map ev_ID t) \<and> distinct (map source_key t)"

end
