(* ===== verification/Store_Laws.thy ===== *)
theory Store_Laws
  imports Store
begin

text \<open>
  What the repository guarantees whoever calls it and in whatever order: the shape of the
  effect of every write operation, the well-formedness invariant, the lifecycle the rows
  follow, and the lease discipline, stated once as a locale and interpreted on the
  repository's own operations.
\<close>

section \<open>The effect of one write\<close>

definition row_effect :: "Event \<Rightarrow> Event \<Rightarrow> bool" where
  "row_effect r r' \<longleftrightarrow> row_wf r' \<and> ev_ID r' = ev_ID r \<and> source_key r' = source_key r
     \<and> ev_ProviderCode r' = ev_ProviderCode r \<and> ev_ProviderAction r' = ev_ProviderAction r
     \<and> ev_Payload r' = ev_Payload r \<and> ev_CreatedAt r' = ev_CreatedAt r
     \<and> ev_Status r \<noteq> SUCCEEDED \<and> ev_Status r \<noteq> FAILED
     \<and> life_step (life r) (life r')"

definition good_update :: "(Event \<Rightarrow> bool) \<Rightarrow> (Event \<Rightarrow> Event) \<Rightarrow> bool" where
  "good_update p f \<longleftrightarrow> (\<forall>r. p r \<longrightarrow> row_wf r \<longrightarrow> row_effect r (f r))"

inductive write_effect :: "table \<Rightarrow> table \<Rightarrow> bool" for t where
  unchanged: "write_effect t t"
| updated: "good_update p f \<Longrightarrow> write_effect t (update_where p f t)"
| inserted: "\<not> violates_unique ev t \<Longrightarrow> write_effect t (t @ [new_row now payload ev])"

lemma good_updateI:
  "(\<And>r. p r \<Longrightarrow> row_wf r \<Longrightarrow> row_effect r (f r)) \<Longrightarrow> good_update p f"
  by (simp add: good_update_def)

lemma guarded_update_effect:
  "good_update p f \<Longrightarrow> write_effect t (snd (guarded_update env p f t))"
  by (cases "db_fault env")
    (simp_all add: guarded_update_def exec_update_def write_effect.intros)

lemma row_wf_new_row [simp]: "row_wf (new_row now p ev)"
  by (simp add: row_wf_def new_row_def)

lemma new_row_keys [simp]:
  "ev_ID (new_row now p ev) = ev_ID ev" "source_key (new_row now p ev) = source_key ev"
  by (simp_all add: new_row_def source_key_def)

lemmas row_effect_defs = row_effect_def row_wf_def life_def source_key_def

lemma Insert_effect: "write_effect t (snd (Insert jsonb env ev t))"
  by (auto simp: Insert_def intro: write_effect.intros split: fault.splits option.splits)

lemma MarkEnqueued_effect: "write_effect t (snd (MarkEnqueued env i t))"
proof -
  have "good_update (\<lambda>r. ev_ID r = i \<and> ev_Status r = PENDING)
      (\<lambda>r. r\<lparr>ev_EnqueuedAt := Some (db_now env), ev_UpdatedAt := db_now env\<rparr>)"
    by (rule good_updateI) (simp add: row_effect_defs)
  then show ?thesis
    by (cases "db_fault env") (simp_all add: MarkEnqueued_def exec_update_def write_effect.intros)
qed

lemma claim_row_good:
  "good_update (\<lambda>r. claimable now i r \<and> ev_AttemptCount r \<noteq> 32767) (claim_row now tok dur wnow)"
  by (rule good_updateI)
    (auto simp: row_effect_defs claimable_def claim_row_def waiting_def split: option.splits)

lemma update_where_cong:
  "(\<And>r. r \<in> set t \<Longrightarrow> p r \<longleftrightarrow> q r) \<Longrightarrow> update_where p f t = update_where q f t"
  by (simp add: update_where_def)

lemma Claim_effect: "write_effect t (snd (Claim env i tok dur wnow t))"
proof (cases "list_ex (\<lambda>r. claimable (db_now env) i r \<and> ev_AttemptCount r = 32767) t")
  case True
  then show ?thesis
    by (cases "db_fault env") (auto simp: Claim_def Let_def intro: unchanged)
next
  case False
  then have "update_where (claimable (db_now env) i) f t =
      update_where (\<lambda>r. claimable (db_now env) i r \<and> ev_AttemptCount r \<noteq> 32767) f t" for f
    by (intro update_where_cong) (auto simp: list_ex_iff)
  with False show ?thesis
    by (cases "db_fault env")
      (auto simp: Claim_def Let_def intro: unchanged updated claim_row_good)
qed

lemma held_update_good:
  assumes "\<And>r. held_by i tok r \<Longrightarrow> row_wf r \<Longrightarrow> row_effect r (f r)"
  shows "write_effect t (snd (guarded_update env (held_by i tok) f t))"
  by (rule guarded_update_effect) (rule good_updateI, rule assms)

text \<open>A response is storable when PostgreSQL takes its text.\<close>

definition storable :: "jsonb \<Rightarrow> string option \<Rightarrow> bool" where
  "storable jsonb resp \<longleftrightarrow> (\<forall>text. resp = Some text \<longrightarrow> jsonb text \<noteq> None)"

lemma storable_None [simp]: "storable jsonb None"
  by (simp add: storable_def)

lemma with_response_storable:
  "storable jsonb resp \<Longrightarrow> with_response jsonb resp statement t = statement (Option.bind resp jsonb)"
  by (auto simp: storable_def with_response_def split: option.split)

lemma with_response_refused:
  "\<not> storable jsonb resp \<Longrightarrow>
   with_response jsonb resp statement t = (Some (DbError ''invalid input syntax for type json''), t)"
  by (auto simp: storable_def with_response_def split: option.splits)

text \<open>Whatever holds of the table before the statement and after it holds in both cases.\<close>

lemma with_response_cases:
  assumes "P t" and "\<And>p. P (snd (statement p))"
  shows "P (snd (with_response jsonb resp statement t))"
  using assms by (cases "storable jsonb resp")
    (simp_all add: with_response_storable with_response_refused)

lemma with_response_effect:
  assumes "\<And>p. write_effect t (snd (statement p))"
  shows "write_effect t (snd (with_response jsonb resp statement t))"
  by (rule with_response_cases[where P = "write_effect t", OF write_effect.unchanged assms])

lemmas held_ops = RenewLease_def MarkRequesting_def MarkSucceeded_def MarkWaitingForRequeue_def
  MarkCircuitOpenWaitingForRequeue_def MarkFailed_def MarkFailedWithoutProviderAttempt_def

lemma held_op_effects:
  "write_effect t (snd (RenewLease env i tok dur t))"
  "write_effect t (snd (MarkRequesting env i tok wnow t))"
  "write_effect t (snd (MarkSucceeded jsonb env i tok res resp t))"
  "write_effect t (snd (MarkFailed jsonb env i tok res resp t))"
  "write_effect t (snd (MarkFailedWithoutProviderAttempt env i tok res t))"
  unfolding held_ops
  by ((rule with_response_effect)?, rule held_update_good, auto simp: row_effect_defs held_by_def)+

lemma release_op_effects:
  assumes "requeue_requested (Some res)"
  shows "write_effect t (snd (MarkWaitingForRequeue jsonb env i tok u res resp t))"
    and "write_effect t (snd (MarkCircuitOpenWaitingForRequeue env i tok u res t))"
    and "write_effect t (snd (RecoverExpiredToRequeue env i tok u res t))"
  using assms unfolding held_ops RecoverExpiredToRequeue_def
  by (intro with_response_effect held_update_good guarded_update_effect good_updateI;
      auto simp: row_effect_defs held_by_def)+

lemma ReserveExpiredRequeue_effect: "write_effect t (snd (ReserveExpiredRequeue env i dur t))"
  unfolding ReserveExpiredRequeue_def
  by (intro guarded_update_effect good_updateI) (auto simp: row_effect_defs)

lemmas write_effects = Insert_effect MarkEnqueued_effect Claim_effect held_op_effects
  release_op_effects ReserveExpiredRequeue_effect

lemma repo_exec_effect:
  assumes "op_ok oper"
  shows "write_effect t (snd (repo_exec jsonb env oper t))"
  using assms by (cases oper) (simp_all add: error_of_def write_effects)

lemma db_step_effect: "db_step jsonb t t' \<Longrightarrow> write_effect t t'"
  by (auto elim: db_stepE intro: repo_exec_effect)

section \<open>The well-formedness invariant\<close>

lemma map_update_where_on:
  "(\<And>r. r \<in> set t \<Longrightarrow> p r \<Longrightarrow> k (f r) = k r) \<Longrightarrow> map k (update_where p f t) = map k t"
  by (simp add: update_where_def)

lemma write_effect_wf:
  assumes "write_effect t t'" and wf: "table_wf t"
  shows "table_wf t'"
  using assms(1)
proof cases
  case unchanged
  with wf show ?thesis by simp
next
  case (updated p f)
  then have eff: "row_effect r (f r)" if "r \<in> set t" "p r" for r
    using that wf by (auto simp: good_update_def table_wf_def)
  have "map ev_ID t' = map ev_ID t" "map source_key t' = map source_key t"
    unfolding updated by (rule map_update_where_on, use eff in \<open>simp add: row_effect_def\<close>)+
  moreover have "\<forall>r \<in> set t'. row_wf r"
    unfolding updated
    by (rule ball_update_where) (use eff wf in \<open>auto simp: row_effect_def table_wf_def\<close>)
  ultimately show ?thesis using wf by (simp add: table_wf_def)
next
  case (inserted ev now payload)
  with wf show ?thesis
    by (auto simp: table_wf_def violates_unique_def list_ex_iff)
qed

lemma db_reachable_wf: "db_reachable jsonb t \<Longrightarrow> table_wf t"
proof (induction rule: db_reachable.induct)
  case empty_table
  show ?case by (simp add: table_wf_def)
next
  case (one_more t t')
  then show ?case by (blast intro: write_effect_wf db_step_effect)
qed

section \<open>Rows keep their place, their identity and their lifecycle\<close>

definition same_or_effect :: "Event \<Rightarrow> Event \<Rightarrow> bool" where
  "same_or_effect r r' \<longleftrightarrow> r' = r \<or> row_effect r r'"

lemma write_effect_rows:
  assumes "write_effect t t'" and "table_wf t"
  shows "\<exists>old new. t' = old @ new \<and> list_all2 same_or_effect t old
           \<and> (\<forall>r \<in> set new. life r = LPending)"
  using assms(1)
proof cases
  case unchanged
  then show ?thesis
    by (intro exI[of _ t'] exI[of _ "[]"]) (auto simp: same_or_effect_def list_all2_same)
next
  case (updated p f)
  with assms(2) have "list_all2 same_or_effect t t'"
    by (auto simp: list_all2_conv_all_nth update_where_def same_or_effect_def good_update_def
        table_wf_def)
  then show ?thesis by (intro exI[of _ t'] exI[of _ "[]"]) simp
next
  case (inserted ev now payload)
  then show ?thesis
    by (intro exI[of _ t] exI[of _ "[new_row now payload ev]"])
      (auto simp: same_or_effect_def list_all2_same life_def new_row_def)
qed

lemma write_effect_lifecycle:
  assumes "write_effect t t'" and "table_wf t" and "r \<in> set t"
  shows "\<exists>r' \<in> set t'. ev_ID r' = ev_ID r \<and> source_key r' = source_key r
           \<and> ev_Payload r' = ev_Payload r \<and> life_step (life r) (life r')"
proof -
  obtain old new where t': "t' = old @ new" and rel: "list_all2 same_or_effect t old"
    using write_effect_rows[OF assms(1,2)] by blast
  from rel assms(3) obtain r' where "r' \<in> set old" "same_or_effect r r'"
    by (fastforce simp: list_all2_conv_all_nth in_set_conv_nth)
  then show ?thesis by (auto simp: t' same_or_effect_def row_effect_def)
qed

text \<open>A finished row is never written again: it stays in the table as it is.\<close>

lemma write_effect_terminal:
  assumes "write_effect t t'" and "table_wf t" and "r \<in> set t"
    and "ev_Status r = SUCCEEDED \<or> ev_Status r = FAILED"
  shows "r \<in> set t'"
proof -
  obtain old new where t': "t' = old @ new" and rel: "list_all2 same_or_effect t old"
    using write_effect_rows[OF assms(1,2)] by blast
  from rel assms(3) obtain r' where "r' \<in> set old" "same_or_effect r r'"
    by (fastforce simp: list_all2_conv_all_nth in_set_conv_nth)
  then show ?thesis using assms(4) by (auto simp: t' same_or_effect_def row_effect_def)
qed

abbreviation db_steps :: "jsonb \<Rightarrow> table \<Rightarrow> table \<Rightarrow> bool" where
  "db_steps jsonb \<equiv> (db_step jsonb)\<^sup>*\<^sup>*"

lemma db_steps_wf: "db_steps jsonb t t' \<Longrightarrow> table_wf t \<Longrightarrow> table_wf t'"
  by (induction rule: rtranclp_induct) (blast intro: write_effect_wf db_step_effect)+

lemma db_steps_terminal:
  assumes "db_steps jsonb t t'" and "table_wf t" and "r \<in> set t"
    and "ev_Status r = SUCCEEDED \<or> ev_Status r = FAILED"
  shows "r \<in> set t'"
  using assms(1)
proof (induction rule: rtranclp_induct)
  case base
  show ?case by (rule assms(3))
next
  case (step u v)
  from step.hyps(1) assms(2) have "table_wf u" by (rule db_steps_wf)
  with step assms(4) show ?case by (blast intro: write_effect_terminal db_step_effect)
qed

section \<open>Rows by id\<close>

definition lookup_row :: "uuid \<Rightarrow> table \<Rightarrow> Event option" where
  "lookup_row i t = List.find (\<lambda>r. ev_ID r = i) t"

lemma lookup_row_simps [simp]:
  "lookup_row i [] = None"
  "lookup_row i (r # t) = (if ev_ID r = i then Some r else lookup_row i t)"
  by (simp_all add: lookup_row_def)

lemma lookup_row_update_where:
  assumes "\<And>r. p r \<Longrightarrow> ev_ID (f r) = ev_ID r"
  shows "lookup_row i (update_where p f t) =
           map_option (\<lambda>r. if p r then f r else r) (lookup_row i t)"
  by (induction t) (auto simp: update_where_def assms)

lemma lookup_row_append:
  "lookup_row i (t @ u) = (case lookup_row i t of None \<Rightarrow> lookup_row i u | Some r \<Rightarrow> Some r)"
  by (induction t) auto

lemma lookup_row_SomeD: "lookup_row i t = Some r \<Longrightarrow> r \<in> set t \<and> ev_ID r = i"
  by (induction t) (auto split: if_splits)

lemma lookup_row_in_set:
  "distinct (map ev_ID t) \<Longrightarrow> lookup_row i t = Some r \<longleftrightarrow> r \<in> set t \<and> ev_ID r = i"
  by (induction t) (auto simp: image_iff)

lemma find_by_id:
  assumes "distinct (map ev_ID t)" and "\<And>r. p r \<Longrightarrow> ev_ID r = i"
  shows "List.find p t = (case lookup_row i t of Some r \<Rightarrow> if p r then Some r else None | None \<Rightarrow> None)"
  using assms(1)
proof (induction t)
  case (Cons r t)
  then show ?case
    using assms(2) by (auto simp: lookup_row_in_set split: option.splits)
      (metis find_None_iff image_eqI)
qed simp

lemma count_where_by_id:
  assumes "distinct (map ev_ID t)" and "\<And>r. p r \<Longrightarrow> ev_ID r = i"
  shows "count_where p t = 0 \<longleftrightarrow> (\<forall>r. lookup_row i t = Some r \<longrightarrow> \<not> p r)"
  using assms by (auto simp: lookup_row_in_set count_where_def filter_empty_conv)

section \<open>Guarded updates, row by row\<close>

lemma guarded_update_cases:
  assumes "distinct (map ev_ID t)" and "\<And>r. p r \<Longrightarrow> ev_ID r = i" and "db_fault env = NoFault"
  shows "guarded_update env p f t =
     (case lookup_row i t of
        Some r \<Rightarrow> if p r then (None, update_where p f t) else (Some ErrNotClaimed, t)
      | None \<Rightarrow> (Some ErrNotClaimed, t))"
proof (cases "count_where p t = 0")
  case True
  then show ?thesis
    using assms count_where_by_id[of t p i, OF assms(1,2)] update_where_none[OF True]
    by (auto simp: guarded_update_def exec_update_def claimed_or_error_def split: option.splits)
next
  case False
  with count_where_by_id[of t p i, OF assms(1,2)] obtain r where "lookup_row i t = Some r" "p r" by blast
  with False assms show ?thesis
    by (simp add: guarded_update_def exec_update_def claimed_or_error_def)
qed

lemma held_by_id: "held_by i tok r \<Longrightarrow> ev_ID r = i"
  by (simp add: held_by_def)

lemma lookup_guarded_update:
  assumes "\<And>r. p r \<Longrightarrow> ev_ID (f r) = ev_ID r"
  shows "lookup_row j (snd (guarded_update env p f t)) =
     (case db_fault env of
        FaultBefore e \<Rightarrow> lookup_row j t
      | _ \<Rightarrow> map_option (\<lambda>r. if p r then f r else r) (lookup_row j t))"
  by (cases "db_fault env")
    (simp_all add: guarded_update_def exec_update_def lookup_row_update_where assms)

section \<open>The lease discipline as an interface\<close>

text \<open>
  What the workers rely on: the lifecycle a call leaves an event in, as seen by id. An
  operation either asks for a lease (\<open>asks\<close>), presents one (\<open>presents\<close>: the guarded
  transitions of its holder, and the recovery of an expired lease), or does neither.
\<close>

locale lease_store =
  fixes wf :: "'db \<Rightarrow> bool"
    and view :: "'db \<Rightarrow> uuid \<Rightarrow> lifecycle option"
    and exec :: "'op \<Rightarrow> 'db \<Rightarrow> bool \<times> 'db"
    and asks :: "'op \<Rightarrow> (uuid \<times> uuid) option"
    and presents :: "'op \<Rightarrow> (uuid \<times> uuid) option"
  assumes wf_exec: "wf db \<Longrightarrow> wf (snd (exec oper db))"
    and asks_granted: "wf db \<Longrightarrow> asks oper = Some (i, tok) \<Longrightarrow> fst (exec oper db) \<Longrightarrow>
      \<exists>n. view (snd (exec oper db)) i = Some (LLeased tok n)"
    and asks_refused: "wf db \<Longrightarrow> asks oper = Some (i, tok') \<Longrightarrow> view db i = Some (LLeased tok n) \<Longrightarrow>
      \<not> fst (exec oper db)"
    and lease_kept: "wf db \<Longrightarrow> presents oper \<noteq> Some (i, tok) \<Longrightarrow> view db i = Some (LLeased tok n) \<Longrightarrow>
      view (snd (exec oper db)) i = Some (LLeased tok n)"
    and finished_kept: "wf db \<Longrightarrow> view db i = Some l \<Longrightarrow> l = LSucceeded n \<or> l = LFailed n \<Longrightarrow>
      view (snd (exec oper db)) i = Some l"
begin

fun run :: "'op list \<Rightarrow> 'db \<Rightarrow> (('op \<times> bool) list) \<times> 'db" where
  "run [] db = ([], db)"
| "run (x # xs) db =
     (let now = exec x db; later = run xs (snd now) in ((x, fst now) # fst later, snd later))"

lemma run_wf: "wf db \<Longrightarrow> wf (snd (run xs db))"
  by (induction xs arbitrary: db) (auto simp: Let_def wf_exec)

lemma run_lease_kept:
  assumes "wf db" and "view db i = Some (LLeased tok n)"
    and "\<forall>x \<in> set xs. presents x \<noteq> Some (i, tok)"
  shows "view (snd (run xs db)) i = Some (LLeased tok n)
         \<and> (\<forall>x tok'. (x, True) \<in> set (fst (run xs db)) \<longrightarrow> asks x \<noteq> Some (i, tok'))"
  using assms
proof (induction xs arbitrary: db)
  case (Cons x xs)
  from Cons.prems have kept: "view (snd (exec x db)) i = Some (LLeased tok n)"
    by (intro lease_kept) auto
  have "\<not> fst (exec x db)" if "asks x = Some (i, tok')" for tok'
    using Cons.prems that asks_refused by blast
  then show ?case
    using Cons.IH[OF wf_exec[OF Cons.prems(1)] kept] Cons.prems(3)
    by (auto simp: Let_def)
qed simp

lemma exclusive_lease:
  assumes "wf db" and "asks x = Some (i, tok)" and "fst (exec x db)"
    and "\<forall>y \<in> set xs. presents y \<noteq> Some (i, tok)"
  shows "\<forall>y tok'. (y, True) \<in> set (fst (run xs (snd (exec x db)))) \<longrightarrow> asks y \<noteq> Some (i, tok')"
  using asks_granted[OF assms(1-3)] run_lease_kept[OF wf_exec[OF assms(1)] _ assms(4)] by blast

lemma run_finished_kept:
  assumes "wf db" and "view db i = Some l" and "l = LSucceeded n \<or> l = LFailed n"
  shows "view (snd (run xs db)) i = Some l"
  using assms(1,2)
  by (induction xs arbitrary: db) (use assms(3) in \<open>auto simp: Let_def wf_exec finished_kept\<close>)

end

section \<open>The repository implements the interface\<close>

record repo_call =
  rc_env :: db_env
  rc_op :: repo_op

definition call_exec :: "jsonb \<Rightarrow> repo_call \<Rightarrow> table \<Rightarrow> bool \<times> table" where
  "call_exec jsonb c t =
     (if op_ok (rc_op c)
      then (let r = repo_exec jsonb (rc_env c) (rc_op c) t in (fst r = None, snd r))
      else (False, t))"

definition row_view :: "table \<Rightarrow> uuid \<Rightarrow> lifecycle option" where
  "row_view t i = map_option life (lookup_row i t)"

fun op_asks :: "repo_op \<Rightarrow> (uuid \<times> uuid) option" where
  "op_asks (OpClaim i tok dur now) = Some (i, tok)"
| "op_asks _ = None"

fun op_presents :: "repo_op \<Rightarrow> (uuid \<times> uuid) option" where
  "op_presents (OpRenewLease i tok dur) = Some (i, tok)"
| "op_presents (OpMarkRequesting i tok now) = Some (i, tok)"
| "op_presents (OpMarkSucceeded i tok res resp) = Some (i, tok)"
| "op_presents (OpMarkWaiting i tok u res resp) = Some (i, tok)"
| "op_presents (OpMarkCircuitOpen i tok u res) = Some (i, tok)"
| "op_presents (OpMarkFailed i tok res resp) = Some (i, tok)"
| "op_presents (OpMarkFailedUnused i tok res) = Some (i, tok)"
| "op_presents (OpRecover i tok d res) = Some (i, tok)"
| "op_presents _ = None"

lemma life_leased_iff:
  "life r = LLeased tok n \<longleftrightarrow>
     ev_Status r = PROCESSING \<and> ev_LeaseToken r = Some tok \<and> ev_AttemptCount r = n"
  by (auto simp: life_def split: Status.splits option.splits)

lemma call_exec_wf: "table_wf t \<Longrightarrow> table_wf (snd (call_exec jsonb c t))"
  by (auto simp: call_exec_def Let_def intro: repo_exec_effect write_effect_wf)

lemma claimable_id: "claimable now i r \<Longrightarrow> ev_ID r = i"
  by (simp add: claimable_def)

lemma claim_row_id [simp]: "ev_ID (claim_row now tok dur wnow r) = ev_ID r"
  by (simp add: claim_row_def)

lemma Claim_success:
  assumes "distinct (map ev_ID t)" and claim: "fst (Claim env i tok dur now t) = Inr ev"
  shows "\<exists>r. lookup_row i t = Some r \<and> claimable (db_now env) i r \<and> ev_AttemptCount r \<noteq> 32767
     \<and> ev = claim_row (db_now env) tok dur now r
     \<and> lookup_row i (snd (Claim env i tok dur now t)) = Some ev"
proof -
  let ?p = "claimable (db_now env) i" and ?f = "claim_row (db_now env) tok dur now"
  from claim obtain r where nf: "db_fault env = NoFault" and r: "List.find ?p t = Some r"
      and no: "\<not> list_ex (\<lambda>r. ?p r \<and> ev_AttemptCount r = 32767) t" and ev: "ev = ?f r"
    by (auto simp: Claim_def Let_def split: fault.splits option.splits if_splits)
  from r find_by_id[of t ?p i, OF assms(1) claimable_id]
  have l: "lookup_row i t = Some r" and p: "?p r"
    by (auto split: option.splits if_splits)
  then have "ev_AttemptCount r \<noteq> 32767" using no by (auto simp: list_ex_iff dest: lookup_row_SomeD)
  moreover have "lookup_row i (snd (Claim env i tok dur now t)) = Some ev"
    using nf no l p ev by (simp add: Claim_def Let_def lookup_row_update_where)
  ultimately show ?thesis using l p ev by blast
qed

lemma Claim_refused:
  assumes "lookup_row i t = Some r" and "life r = LLeased tok n" and "distinct (map ev_ID t)"
  shows "\<exists>e. fst (Claim env i tok' dur now t) = Inl e"
proof -
  have "\<not> claimable (db_now env) i r"
    using assms(2) by (simp add: life_leased_iff claimable_def waiting_def)
  with assms(1) find_by_id[of t "claimable (db_now env) i" i, OF assms(3) claimable_id] show ?thesis
    by (auto simp: Claim_def Let_def split: fault.splits)
qed

text \<open>The rows a call's guard selects; every other row it leaves as it is.\<close>

fun op_touches :: "db_env \<Rightarrow> repo_op \<Rightarrow> Event \<Rightarrow> bool" where
  "op_touches env (OpInsert ev) r = False"
| "op_touches env (OpMarkEnqueued i) r = (ev_ID r = i \<and> ev_Status r = PENDING)"
| "op_touches env (OpClaim i tok dur now) r = claimable (db_now env) i r"
| "op_touches env (OpReserve i dur) r = (ev_ID r = i \<and> waiting r \<and> lease_expired (db_now env) r)"
| "op_touches env (OpRecover i tok d res) r = (held_by i tok r \<and> lease_expired (db_now env) r)"
| "op_touches env x r = (case op_presents x of None \<Rightarrow> False | Some (i, tok) \<Rightarrow> held_by i tok r)"

lemma untouched_row:
  assumes "lookup_row i t = Some r" and "\<not> op_touches env x r"
  shows "lookup_row i (snd (repo_exec jsonb env x t)) = Some r"
proof (cases x)
  case (OpInsert ev)
  with assms show ?thesis
    by (auto simp: error_of_def Insert_def lookup_row_append split: fault.splits option.splits)
next
  case (OpMarkEnqueued j)
  with assms show ?thesis
    by (cases "db_fault env")
      (auto simp: MarkEnqueued_def exec_update_def Let_def lookup_row_update_where)
next
  case (OpClaim j tok dur now)
  with assms show ?thesis
    by (cases "db_fault env")
      (auto simp: error_of_def Claim_def Let_def lookup_row_update_where)
next
  case (OpReserve j dur)
  with assms show ?thesis
    by (cases "db_fault env")
      (auto simp: ReserveExpiredRequeue_def lookup_guarded_update waiting_def)
qed (use assms in \<open>auto simp: held_ops with_response_def RecoverExpiredToRequeue_def lookup_guarded_update
       split: fault.splits option.splits\<close>)

lemma touches_status:
  "op_touches env x r \<Longrightarrow> ev_Status r = PENDING \<or> ev_Status r = PROCESSING"
  by (cases x) (auto simp: claimable_def waiting_def held_by_def split: option.splits)

lemma touches_leased:
  "op_touches env x r \<Longrightarrow> life r = LLeased tok n \<Longrightarrow> op_presents x = Some (ev_ID r, tok)"
  by (cases x) (auto simp: life_leased_iff claimable_def waiting_def held_by_def)

lemma call_exec_untouched:
  "lookup_row i t = Some r \<Longrightarrow> \<not> op_touches (rc_env c) (rc_op c) r \<Longrightarrow>
   lookup_row i (snd (call_exec jsonb c t)) = Some r"
  by (simp add: call_exec_def Let_def untouched_row)

interpretation repo: lease_store table_wf row_view "call_exec jsonb"
  "\<lambda>c. op_asks (rc_op c)" "\<lambda>c. op_presents (rc_op c)" for jsonb
proof
  fix t c i tok tok' n l
  assume wf: "table_wf t"
  then have d: "distinct (map ev_ID t)" by (simp add: table_wf_def)
  show "table_wf (snd (call_exec jsonb c t))" using wf by (rule call_exec_wf)
  show "\<exists>n. row_view (snd (call_exec jsonb c t)) i = Some (LLeased tok n)"
    if "op_asks (rc_op c) = Some (i, tok)" and "fst (call_exec jsonb c t)"
  proof -
    from that(1) obtain dur now where op: "rc_op c = OpClaim i tok dur now"
      by (cases "rc_op c") auto
    with that(2) obtain ev where "fst (Claim (rc_env c) i tok dur now t) = Inr ev"
      by (auto simp: call_exec_def error_of_def split: sum.splits)
    with Claim_success[OF d this] op show ?thesis
      by (auto simp: row_view_def call_exec_def error_of_def life_leased_iff claim_row_def)
  qed
  show "\<not> fst (call_exec jsonb c t)"
    if "op_asks (rc_op c) = Some (i, tok')" and "row_view t i = Some (LLeased tok n)"
  proof -
    from that(1) obtain dur now where op: "rc_op c = OpClaim i tok' dur now"
      by (cases "rc_op c") auto
    from that(2) obtain r where "lookup_row i t = Some r" "life r = LLeased tok n"
      by (auto simp: row_view_def)
    then obtain e where "fst (Claim (rc_env c) i tok' dur now t) = Inl e"
      using Claim_refused[OF _ _ d] by blast
    with op show ?thesis by (simp add: call_exec_def error_of_def)
  qed
  show "row_view (snd (call_exec jsonb c t)) i = Some (LLeased tok n)"
    if "op_presents (rc_op c) \<noteq> Some (i, tok)" and "row_view t i = Some (LLeased tok n)"
  proof -
    from that(2) obtain r where r: "lookup_row i t = Some r" "life r = LLeased tok n"
      by (auto simp: row_view_def)
    with that(1) have "\<not> op_touches (rc_env c) (rc_op c) r"
      using touches_leased lookup_row_SomeD by blast
    with r show ?thesis by (simp add: row_view_def call_exec_untouched)
  qed
  show "row_view (snd (call_exec jsonb c t)) i = Some l"
    if "row_view t i = Some l" and "l = LSucceeded n \<or> l = LFailed n"
  proof -
    from that obtain r where r: "lookup_row i t = Some r" "life r = l"
      by (auto simp: row_view_def)
    with that(2) have "\<not> op_touches (rc_env c) (rc_op c) r"
      by (auto simp: life_def dest!: touches_status split: Status.splits option.splits)
    with r show ?thesis by (simp add: row_view_def call_exec_untouched)
  qed
qed


section \<open>Scans\<close>

lemma take_sorted_below:
  assumes "sorted (map k xs)" and "x \<in> set (take n xs)" and "y \<in> set (drop n xs)"
  shows "k x \<le> k y"
  using assms sorted_append[of "map k (take n xs)" "map k (drop n xs)"]
  by (metis append_take_drop_id image_eqI list.set_map map_append)

lemma select_rows_spec:
  assumes "db_fault env = NoFault"
  obtains rs where "select_rows env p k lim t = Inr rs" and "sorted (map k rs)"
    and "length rs = min lim (length (filter p t))" and "set rs \<subseteq> {r \<in> set t. p r}"
    and "\<And>r r'. r \<in> set rs \<Longrightarrow> r' \<in> set t \<Longrightarrow> p r' \<Longrightarrow> r' \<notin> set rs \<Longrightarrow> k r \<le> k r'"
    and "distinct (map g t) \<Longrightarrow> distinct (map g rs)"
proof
  let ?s = "sort_key k (sort_key (\<lambda>r. db_tie env (ev_ID r)) (filter p t))"
  show "select_rows env p k lim t = Inr (take lim ?s)" using assms by (simp add: select_rows_def)
  show "sorted (map k (take lim ?s))" by (simp flip: take_map add: sorted_wrt_take)
  show "length (take lim ?s) = min lim (length (filter p t))" by (simp add: min.commute)
  show "set (take lim ?s) \<subseteq> {r \<in> set t. p r}" by (auto dest!: in_set_takeD)
  show "k r \<le> k r'"
    if "r \<in> set (take lim ?s)" "r' \<in> set t" "p r'" "r' \<notin> set (take lim ?s)" for r r'
  proof -
    have "r' \<in> set (take lim ?s @ drop lim ?s)" using that(2,3) by simp
    with that(4) have "r' \<in> set (drop lim ?s)" unfolding set_append by blast
    with that(1) show ?thesis by (intro take_sorted_below[of k ?s]) simp_all
  qed
  show "distinct (map g (take lim ?s))" if "distinct (map g t)"
    using that by (auto simp: distinct_map intro: inj_on_subset dest!: in_set_takeD)
qed

section \<open>Properties of the repository\<close>

text \<open>
  C16: Whatever sequence of calls workers, servers and compensators make, statements that
  fail before or after taking effect included, the table is well formed: ids and source
  keys are unique, a PENDING row has no attempt and no lease, a PROCESSING row carries
  either a lease token with at least one attempt or a pending requeue, a finished row holds
  no lease, the attempt count stays in its column, and no row is UNKNOWN.
\<close>

theorem repository_invariant:
  assumes "db_reachable jsonb t"
  shows "table_wf t"
  using assms by (rule db_reachable_wf)

text \<open>
  C4: The repository refines the delivery lifecycle: every write, by any caller and under any
  fault, moves each stored row along the abstract state machine (pending, leased, waiting,
  succeeded, failed) or leaves it, and never changes its id, its source key or its payload.
\<close>

theorem repository_refines_lifecycle:
  assumes "db_reachable jsonb t" and "db_step jsonb t t'" and "r \<in> set t"
  shows "\<exists>r' \<in> set t'. ev_ID r' = ev_ID r \<and> source_key r' = source_key r
           \<and> ev_Payload r' = ev_Payload r \<and> life_step (life r) (life r')"
  by (rule write_effect_lifecycle[OF db_step_effect[OF assms(2)] db_reachable_wf[OF assms(1)] assms(3)])

text \<open>
  C15: SUCCEEDED and FAILED are final: after any further history the finished row is still in
  the table exactly as it was, and it is the only row with its id.
\<close>

theorem finished_rows_are_final:
  assumes "db_reachable jsonb t" and "(db_step jsonb)\<^sup>*\<^sup>* t t'" and "r \<in> set t"
    and "ev_Status r = SUCCEEDED \<or> ev_Status r = FAILED"
  shows "lookup_row (ev_ID r) t' = Some r"
proof -
  have "table_wf t'"
    by (rule db_steps_wf[OF assms(2) db_reachable_wf[OF assms(1)]])
  moreover have "r \<in> set t'" using db_steps_terminal[OF assms(2) _ assms(3,4)] assms(1) db_reachable_wf by blast
  ultimately show ?thesis by (simp add: lookup_row_in_set table_wf_def)
qed

lemma repo_run_fold: "snd (repo.run jsonb cs t) = fold (\<lambda>c t. snd (call_exec jsonb c t)) cs t"
  by (induction cs arbitrary: t) (simp_all add: Let_def)

text \<open>
  C3: A granted claim is exclusive. From the moment \<open>Claim\<close> hands out an event under a
  token, through any history of calls that do not present that token for that event, the
  row stays leased under it and every further claim of the event is refused: two workers
  never hold the same event.
\<close>

theorem claim_is_exclusive:
  assumes "table_wf t" and "fst (Claim env i tok dur now t) = Inr ev"
    and "\<forall>c \<in> set cs. op_presents (rc_op c) \<noteq> Some (i, tok)"
    and "t' = fold (\<lambda>c t. snd (call_exec jsonb c t)) cs (snd (Claim env i tok dur now t))"
  shows "row_view t' i = Some (LLeased tok (ev_AttemptCount ev))
         \<and> (\<exists>e. fst (Claim env' i tok' dur' now' t') = Inl e)"
proof -
  let ?c = "\<lparr>rc_env = env, rc_op = OpClaim i tok dur now\<rparr>"
  have d: "distinct (map ev_ID t)" using assms(1) by (simp add: table_wf_def)
  have snd: "snd (call_exec jsonb ?c t) = snd (Claim env i tok dur now t)"
    by (simp add: call_exec_def error_of_def)
  have "row_view (snd (call_exec jsonb ?c t)) i = Some (LLeased tok (ev_AttemptCount ev))"
    using Claim_success[OF d assms(2)] unfolding snd
    by (auto simp: row_view_def life_leased_iff claim_row_def)
  from repo.run_lease_kept[OF call_exec_wf[OF assms(1)] this assms(3)]
  have v: "row_view t' i = Some (LLeased tok (ev_AttemptCount ev))"
    by (simp add: repo_run_fold assms(4) snd)
  moreover have "table_wf t'"
    using repo.run_wf[OF call_exec_wf[OF assms(1)], of jsonb cs jsonb ?c]
    by (simp add: repo_run_fold assms(4) snd)
  then have "distinct (map ev_ID t')" by (simp add: table_wf_def)
  ultimately show ?thesis using Claim_refused by (fastforce simp: row_view_def)
qed

text \<open>
  The publish scan, over the abstract life cycle: it returns ids of rows nobody has claimed,
  that are due and not yet handed to the broker, each once, in order of due time, at most
  \<open>lim\<close> of them, and skips such a row only when the batch is full of rows due no later.
\<close>

definition unpublished :: "instant \<Rightarrow> Event \<Rightarrow> bool" where
  "unpublished now r \<longleftrightarrow> life r = LPending \<and> ev_EnqueuedAt r = None \<and> \<not> now < ev_NextAttemptAt r"

lemma life_pending_iff: "life r = LPending \<longleftrightarrow> ev_Status r = PENDING"
  by (simp add: life_def split: Status.split option.split)

lemma pending_is_unpublished: "pending_to_publish now = unpublished now"
  by (auto simp: fun_eq_iff pending_to_publish_def unpublished_def life_pending_iff not_less)

lemma pending_scan:
  assumes "table_wf t" and "db_fault env = NoFault"
  obtains rs where "SelectPendingToPublish env lim t = Inr (map ev_ID rs)" and "distinct (map ev_ID rs)"
    and "sorted (map ev_NextAttemptAt rs)" and "length rs \<le> lim"
    and "\<forall>r \<in> set rs. r \<in> set t \<and> unpublished (db_now env) r"
    and "\<forall>r' \<in> set t. unpublished (db_now env) r' \<longrightarrow> r' \<notin> set rs \<longrightarrow>
      length rs = lim \<and> (\<forall>r \<in> set rs. ev_NextAttemptAt r \<le> ev_NextAttemptAt r')"
proof -
  let ?p = "unpublished (db_now env)"
  have d: "distinct (map ev_ID t)" using assms(1) by (simp add: table_wf_def)
  obtain rs where rs: "select_rows env ?p ev_NextAttemptAt lim t = Inr rs"
      and ord: "sorted (map ev_NextAttemptAt rs)"
      and len: "length rs = min lim (length (filter ?p t))" and sub: "set rs \<subseteq> {r \<in> set t. ?p r}"
      and le: "\<And>r r'. r \<in> set rs \<Longrightarrow> r' \<in> set t \<Longrightarrow> ?p r' \<Longrightarrow> r' \<notin> set rs \<Longrightarrow>
        ev_NextAttemptAt r \<le> ev_NextAttemptAt r'"
      and dist: "distinct (map ev_ID t) \<Longrightarrow> distinct (map ev_ID rs)"
    using select_rows_spec[OF assms(2), of ?p ev_NextAttemptAt lim t ev_ID] by blast
  have "length rs = lim" if r': "r' \<in> set t" "?p r'" "r' \<notin> set rs" for r'
  proof -
    have "distinct rs" using dist[OF d] by (simp add: distinct_map)
    moreover have "distinct (filter ?p t)" using d by (simp add: distinct_map)
    moreover have "set rs \<subset> set (filter ?p t)" using sub r' by auto
    ultimately have "length rs < length (filter ?p t)"
      by (metis List.finite_set distinct_card psubset_card_mono)
    with len show ?thesis by simp
  qed
  moreover have "SelectPendingToPublish env lim t = Inr (map ev_ID rs)"
    by (simp add: SelectPendingToPublish_def pending_is_unpublished rs)
  ultimately show thesis using that[of rs] len sub le dist[OF d] ord by fastforce
qed

end
