(* ===== verification/Breaker.thy ===== *)
theory Breaker
  imports Prelude
begin

text \<open>
  internal/worker/breaker.go: the process-local circuit breaker of one provider action,
  and the registry of breakers by action key. A breaker's methods run under its mutex, so
  each is one atomic operation on its record; a permit remembers the generation of the
  breaker it was issued by.
\<close>

datatype breakerState = breakerClosed | breakerOpen | breakerHalfOpen

datatype BreakerObservation = BreakerIgnore | BreakerReachable | BreakerUnavailable

record CircuitBreakerConfig =
  cb_FailureThreshold :: uint32
  cb_OpenDuration :: duration

record actionBreaker =
  ab_failureThreshold :: uint32
  ab_openDuration :: duration
  ab_state :: breakerState
  ab_consecutiveFailure :: uint32
  ab_generation :: uint64
  ab_openUntil :: instant
  ab_halfOpenInFlight :: bool

text \<open>
  A permit holds the breaker it belongs to (here its key; \<open>None\<close> is Go's nil pointer of
  the zero permit), the generation, and whether it is the half-open probe.
\<close>

record BreakerPermit =
  bp_breaker :: "string option"
  bp_generation :: uint64
  bp_halfOpen :: bool

record BreakerDecision =
  bd_Allowed :: bool
  bd_Permit :: BreakerPermit
  bd_RetryAfter :: duration

definition zero_permit :: BreakerPermit where
  "zero_permit = \<lparr>bp_breaker = None, bp_generation = 0, bp_halfOpen = False\<rparr>"

definition zero_time :: instant where
  "zero_time = - 62135596800000000000"

section \<open>One breaker\<close>

definition new_breaker :: "CircuitBreakerConfig \<Rightarrow> actionBreaker" where
  "new_breaker cfg =
     \<lparr>ab_failureThreshold = cb_FailureThreshold cfg, ab_openDuration = cb_OpenDuration cfg,
      ab_state = breakerClosed, ab_consecutiveFailure = 0, ab_generation = 0,
      ab_openUntil = zero_time, ab_halfOpenInFlight = False\<rparr>"

definition transitionLocked :: "breakerState \<Rightarrow> actionBreaker \<Rightarrow> actionBreaker" where
  "transitionLocked nxt b = (if ab_state b = nxt then b else b\<lparr>ab_state := nxt\<rparr>)"

definition openLocked :: "instant \<Rightarrow> actionBreaker \<Rightarrow> actionBreaker" where
  "openLocked now b =
     transitionLocked breakerOpen
       (b\<lparr>ab_generation := ab_generation b + 1, ab_openUntil := now + ab_openDuration b,
          ab_halfOpenInFlight := False\<rparr>)"

definition probe_permit :: "string \<Rightarrow> actionBreaker \<Rightarrow> BreakerDecision" where
  "probe_permit k b =
     \<lparr>bd_Allowed = True,
      bd_Permit = \<lparr>bp_breaker = Some k, bp_generation = ab_generation b, bp_halfOpen = True\<rparr>,
      bd_RetryAfter = 0\<rparr>"

definition refusal :: "duration \<Rightarrow> BreakerDecision" where
  "refusal d = \<lparr>bd_Allowed = False, bd_Permit = zero_permit, bd_RetryAfter = d\<rparr>"

definition allow :: "string \<Rightarrow> instant \<Rightarrow> actionBreaker \<Rightarrow> BreakerDecision \<times> actionBreaker" where
  "allow k now b =
     (case ab_state b of
        breakerOpen \<Rightarrow>
          if now < ab_openUntil b then (refusal (time_sub (ab_openUntil b) now), b)
          else (let b' = (transitionLocked breakerHalfOpen b)\<lparr>ab_halfOpenInFlight := True\<rparr>
                in (probe_permit k b', b'))
      | breakerHalfOpen \<Rightarrow>
          if ab_halfOpenInFlight b then (refusal 0, b)
          else (let b' = b\<lparr>ab_halfOpenInFlight := True\<rparr> in (probe_permit k b', b'))
      | breakerClosed \<Rightarrow>
          (\<lparr>bd_Allowed = True,
            bd_Permit = \<lparr>bp_breaker = Some k, bp_generation = ab_generation b,
                         bp_halfOpen = False\<rparr>,
            bd_RetryAfter = 0\<rparr>, b))"

definition observe ::
  "instant \<Rightarrow> BreakerPermit \<Rightarrow> BreakerObservation \<Rightarrow> actionBreaker \<Rightarrow> actionBreaker" where
  "observe now permit obs b =
     (if bp_generation permit \<noteq> ab_generation b then b
      else
        let b1 = (if bp_halfOpen permit then b\<lparr>ab_halfOpenInFlight := False\<rparr> else b) in
        case obs of
          BreakerIgnore \<Rightarrow> b1
        | BreakerReachable \<Rightarrow>
            let b2 = b1\<lparr>ab_consecutiveFailure := 0\<rparr> in
            if ab_state b2 = breakerHalfOpen
            then transitionLocked breakerClosed
                   (b2\<lparr>ab_generation := ab_generation b2 + 1, ab_openUntil := zero_time\<rparr>)
            else b2
        | BreakerUnavailable \<Rightarrow>
            if ab_state b1 = breakerHalfOpen then openLocked now b1
            else if ab_state b1 \<noteq> breakerClosed then b1
            else
              let b2 = b1\<lparr>ab_consecutiveFailure := ab_consecutiveFailure b1 + 1\<rparr> in
              if ab_failureThreshold b2 \<le> ab_consecutiveFailure b2 then openLocked now b2 else b2)"

definition abort :: "BreakerPermit \<Rightarrow> actionBreaker \<Rightarrow> actionBreaker" where
  "abort permit b =
     (if bp_generation permit = ab_generation b \<and> bp_halfOpen permit
      then b\<lparr>ab_halfOpenInFlight := False\<rparr> else b)"

section \<open>The registry of breakers\<close>

text \<open>
  A \<open>BreakerPermit\<close> points at its breaker; keys are registered once at startup, so the
  key identifies that object. An action without a registered breaker is always allowed
  and gets the zero permit, which \<open>Observe\<close> and \<open>Abort\<close> ignore.
\<close>

type_synonym Breakers = "string \<rightharpoonup> actionBreaker"

definition Register :: "string \<Rightarrow> CircuitBreakerConfig option \<Rightarrow> Breakers \<Rightarrow> Breakers" where
  "Register k cfg bs = (case cfg of None \<Rightarrow> bs | Some c \<Rightarrow> bs(k \<mapsto> new_breaker c))"

definition Allow :: "instant \<Rightarrow> string \<Rightarrow> Breakers \<Rightarrow> BreakerDecision \<times> Breakers" where
  "Allow now k bs =
     (case bs k of
        None \<Rightarrow> (\<lparr>bd_Allowed = True, bd_Permit = zero_permit, bd_RetryAfter = 0\<rparr>, bs)
      | Some b \<Rightarrow> (let (d, b') = allow k now b in (d, bs(k \<mapsto> b'))))"

definition on_breaker ::
  "BreakerPermit \<Rightarrow> (actionBreaker \<Rightarrow> actionBreaker) \<Rightarrow> Breakers \<Rightarrow> Breakers" where
  "on_breaker permit f bs =
     (case bp_breaker permit of
        None \<Rightarrow> bs
      | Some k \<Rightarrow> (case bs k of None \<Rightarrow> bs | Some b \<Rightarrow> bs(k \<mapsto> f b)))"

definition Observe ::
  "instant \<Rightarrow> BreakerPermit \<Rightarrow> BreakerObservation \<Rightarrow> Breakers \<Rightarrow> Breakers" where
  "Observe now permit obs bs = on_breaker permit (observe now permit obs) bs"

definition Abort :: "BreakerPermit \<Rightarrow> Breakers \<Rightarrow> Breakers" where
  "Abort permit bs = on_breaker permit (abort permit) bs"

section \<open>The invariant of one breaker\<close>

definition breaker_inv :: "actionBreaker \<Rightarrow> bool" where
  "breaker_inv b \<longleftrightarrow> 0 < ab_failureThreshold b
     \<and> (ab_state b = breakerClosed \<longrightarrow> ab_consecutiveFailure b < ab_failureThreshold b)
     \<and> (ab_state b \<noteq> breakerHalfOpen \<longrightarrow> \<not> ab_halfOpenInFlight b)"

lemmas breaker_defs = allow_def observe_def abort_def openLocked_def transitionLocked_def
  probe_permit_def refusal_def Let_def

lemma word_Suc_less:
  fixes c t :: "'a::len word"
  assumes "c < t" and "\<not> t \<le> c + 1"
  shows "c + 1 < t"
  using assms by simp

lemma new_breaker_fields [simp]:
  "ab_state (new_breaker cfg) = breakerClosed"
  "ab_failureThreshold (new_breaker cfg) = cb_FailureThreshold cfg"
  "ab_openDuration (new_breaker cfg) = cb_OpenDuration cfg"
  "ab_consecutiveFailure (new_breaker cfg) = 0" "ab_generation (new_breaker cfg) = 0"
  "\<not> ab_halfOpenInFlight (new_breaker cfg)"
  by (simp_all add: new_breaker_def)

lemma breaker_inv_new: "0 < cb_FailureThreshold cfg \<Longrightarrow> breaker_inv (new_breaker cfg)"
  by (simp add: breaker_inv_def new_breaker_def)

lemma breaker_inv_allow: "breaker_inv b \<Longrightarrow> breaker_inv (snd (allow k now b))"
  by (cases "ab_state b") (auto simp: breaker_inv_def breaker_defs)

lemma breaker_inv_abort: "breaker_inv b \<Longrightarrow> breaker_inv (abort p b)"
  by (auto simp: breaker_inv_def breaker_defs)

text \<open>
  Observing keeps the invariant provided a permit of the current generation held while the
  breaker is half open is the probe; \<open>breaker_run\<close> below shows that this always holds.
\<close>

lemma breaker_inv_observe:
  assumes "breaker_inv b"
    and "bp_generation p = ab_generation b \<Longrightarrow> ab_state b = breakerHalfOpen \<Longrightarrow> bp_halfOpen p"
  shows "breaker_inv (observe now p obs b)"
  using assms by (cases obs; cases "ab_state b") (auto simp: breaker_inv_def breaker_defs not_le)

section \<open>Executions with the permits that are outstanding\<close>

inductive breaker_run ::
  "CircuitBreakerConfig \<Rightarrow> nat \<Rightarrow> actionBreaker \<Rightarrow> BreakerPermit list \<Rightarrow> bool" for cfg where
  run_start: "0 < cb_FailureThreshold cfg \<Longrightarrow> breaker_run cfg 0 (new_breaker cfg) []"
| run_allow: "breaker_run cfg n b ps \<Longrightarrow> allow k now b = (d, b') \<Longrightarrow>
     breaker_run cfg (Suc n) b' (if bd_Allowed d then bd_Permit d # ps else ps)"
| run_observe: "breaker_run cfg n b ps \<Longrightarrow> p \<in> set ps \<Longrightarrow>
     breaker_run cfg (Suc n) (observe now p obs b) (remove1 p ps)"
| run_abort: "breaker_run cfg n b ps \<Longrightarrow> p \<in> set ps \<Longrightarrow>
     breaker_run cfg (Suc n) (abort p b) (remove1 p ps)"

definition is_probe :: "actionBreaker \<Rightarrow> BreakerPermit \<Rightarrow> bool" where
  "is_probe b p \<longleftrightarrow> bp_halfOpen p \<and> bp_generation p = ab_generation b"

definition probes :: "actionBreaker \<Rightarrow> BreakerPermit list \<Rightarrow> nat" where
  "probes b ps = count_where (is_probe b) ps"

definition permits_inv :: "nat \<Rightarrow> actionBreaker \<Rightarrow> BreakerPermit list \<Rightarrow> bool" where
  "permits_inv n b ps \<longleftrightarrow> breaker_inv b \<and> unat (ab_generation b) \<le> n
     \<and> (\<forall>p \<in> set ps. unat (bp_generation p) \<le> unat (ab_generation b))
     \<and> (ab_state b \<noteq> breakerClosed \<longrightarrow>
          (\<forall>p \<in> set ps. bp_generation p = ab_generation b \<longrightarrow> bp_halfOpen p))
     \<and> probes b ps = (if ab_halfOpenInFlight b then 1 else 0)"

lemma count_where_remove1:
  "p \<in> set ps \<Longrightarrow> count_where q ps = (if q p then 1 else 0) + count_where q (remove1 p ps)"
  by (induction ps) (auto simp: count_where_def)

lemma probes_remove1:
  "p \<in> set ps \<Longrightarrow> probes b ps = (if is_probe b p then 1 else 0) + probes b (remove1 p ps)"
  by (simp add: probes_def count_where_remove1)

lemma probes_cong:
  "ab_generation b' = ab_generation b \<Longrightarrow> probes b' ps = probes b ps"
  by (simp add: probes_def is_probe_def [abs_def])

lemma probes_Cons: "probes b (p # ps) = (if is_probe b p then 1 else 0) + probes b ps"
  by (simp add: probes_def count_where_def)

text \<open>After the generation moves on, every outstanding permit is stale.\<close>

lemma probes_next_generation:
  assumes "\<forall>p \<in> set ps. unat (bp_generation p) \<le> unat g" and "Suc (unat g) < 2 ^ 64"
    and "ab_generation b = g + 1"
  shows "probes b ps = 0" and "unat (ab_generation b) = Suc (unat g)"
    and "\<forall>p \<in> set ps. bp_generation p \<noteq> ab_generation b"
proof -
  show g: "unat (ab_generation b) = Suc (unat g)"
    using assms(2,3) by (simp add: unat_word_ariths)
  with assms(1) show ne: "\<forall>p \<in> set ps. bp_generation p \<noteq> ab_generation b"
    by (metis Suc_n_not_le_n)
  then show "probes b ps = 0"
    by (auto simp: probes_def count_where_def is_probe_def filter_empty_conv)
qed

lemma allow_cases:
  assumes "allow k now b = (d, b')"
  obtains (refused) "\<not> bd_Allowed d" "b' = b"
  | (closed) "bd_Allowed d" "b' = b" "ab_state b = breakerClosed"
      "bd_Permit d = \<lparr>bp_breaker = Some k, bp_generation = ab_generation b, bp_halfOpen = False\<rparr>"
  | (probe) "bd_Allowed d" "ab_state b \<noteq> breakerClosed" "ab_state b' = breakerHalfOpen"
      "ab_state b = breakerHalfOpen \<Longrightarrow> \<not> ab_halfOpenInFlight b" "ab_halfOpenInFlight b'"
      "ab_generation b' = ab_generation b"
      "bd_Permit d = \<lparr>bp_breaker = Some k, bp_generation = ab_generation b, bp_halfOpen = True\<rparr>"
  using assms
  by (cases "ab_state b") (auto simp: breaker_defs split: if_splits)

lemma permits_inv_allow:
  assumes inv: "permits_inv n b ps" and "allow k now b = (d, b')"
  shows "permits_inv (Suc n) b' (if bd_Allowed d then bd_Permit d # ps else ps)"
  using assms(2)
proof (cases rule: allow_cases)
  case probe
  have "\<not> ab_halfOpenInFlight b"
    using probe inv by (cases "ab_state b") (auto simp: permits_inv_def breaker_inv_def)
  moreover have "breaker_inv b'"
    using assms breaker_inv_allow[of b k now] by (simp add: permits_inv_def)
  ultimately show ?thesis
    using probe inv probes_cong[OF probe(6)]
    by (simp add: permits_inv_def probes_Cons is_probe_def)
qed (use inv in \<open>auto simp: permits_inv_def probes_Cons is_probe_def\<close>)

lemma abort_fields:
  "ab_generation (abort p b) = ab_generation b" "ab_state (abort p b) = ab_state b"
  "ab_halfOpenInFlight (abort p b) = (ab_halfOpenInFlight b \<and> \<not> is_probe b p)"
  by (auto simp: abort_def is_probe_def)

lemma permits_inv_abort:
  assumes inv: "permits_inv n b ps" and p: "p \<in> set ps"
  shows "permits_inv (Suc n) (abort p b) (remove1 p ps)"
  using inv p probes_remove1[OF p, of b] breaker_inv_abort[of b p]
  by (auto simp: permits_inv_def abort_fields probes_cong[OF abort_fields(1)]
      dest: in_set_remove1 split: if_splits)

text \<open>Either the observation keeps the generation, or it moves it on by one.\<close>

lemma observe_generation:
  "ab_generation (observe now p obs b) = ab_generation b
   \<or> ab_generation (observe now p obs b) = ab_generation b + 1"
  by (auto simp: breaker_defs split: BreakerObservation.splits)

lemma observe_same_generation:
  assumes "ab_generation (observe now p obs b) = ab_generation b"
  shows "ab_state (observe now p obs b) = ab_state b
     \<and> ab_halfOpenInFlight (observe now p obs b) = (ab_halfOpenInFlight b \<and> \<not> is_probe b p)"
  using assms by (auto simp: breaker_defs is_probe_def split: BreakerObservation.splits if_splits)

lemma permits_inv_observe:
  assumes inv: "permits_inv n b ps" and p: "p \<in> set ps" and n: "Suc n < 2 ^ 64"
  shows "permits_inv (Suc n) (observe now p obs b) (remove1 p ps)"
proof -
  let ?b = "observe now p obs b"
  have "breaker_inv ?b"
    using inv p by (intro breaker_inv_observe) (auto simp: permits_inv_def)
  moreover from observe_generation consider
    (same) "ab_generation ?b = ab_generation b" | (bump) "ab_generation ?b = ab_generation b + 1"
    by blast
  then have "permits_inv (Suc n) ?b (remove1 p ps) \<or> \<not> breaker_inv ?b"
  proof cases
    case same
    from observe_same_generation[OF this] inv p probes_remove1[OF p, of b] same show ?thesis
      by (auto simp: permits_inv_def probes_cong[OF same] dest: in_set_remove1 split: if_splits)
  next
    case bump
    have g: "Suc (unat (ab_generation b)) < 2 ^ 64" using inv n by (simp add: permits_inv_def)
    have le: "\<forall>q \<in> set (remove1 p ps). unat (bp_generation q) \<le> unat (ab_generation b)"
      using inv by (auto simp: permits_inv_def dest: in_set_remove1)
    note next_gen = probes_next_generation[OF le g bump]
    have "\<not> ab_halfOpenInFlight ?b"
      using bump inv p
      by (auto simp: breaker_defs permits_inv_def breaker_inv_def
          split: BreakerObservation.splits if_splits)
    with next_gen inv le show ?thesis by (auto simp: permits_inv_def)
  qed
  ultimately show ?thesis by blast
qed

lemma breaker_run_inv: "breaker_run cfg n b ps \<Longrightarrow> n < 2 ^ 64 \<Longrightarrow> permits_inv n b ps"
proof (induction rule: breaker_run.induct)
  case run_start
  then show ?case
    by (simp add: permits_inv_def breaker_inv_new probes_def count_where_def)
next
  case (run_allow n b ps k now d b')
  then show ?case by (intro permits_inv_allow) auto
qed (auto intro: permits_inv_observe permits_inv_abort)

section \<open>What the breaker promises\<close>

lemma open_permits_stale:
  assumes "permits_inv n b ps" and "ab_state b = breakerOpen" and "p \<in> set ps"
  shows "bp_generation p \<noteq> ab_generation b"
proof
  assume g: "bp_generation p = ab_generation b"
  with assms have "is_probe b p" by (auto simp: permits_inv_def is_probe_def)
  with assms(3) have "0 < probes b ps" by (auto simp: probes_def count_where_pos)
  with assms(1,2) show False by (simp add: permits_inv_def breaker_inv_def)
qed

text \<open>
  C19: At most one half-open probe is ever outstanding, and a half-open breaker that
  refuses a caller does so because the probe is still out (so it cannot be stuck).
\<close>

theorem breaker_single_probe:
  assumes "breaker_run cfg n b ps" and "n < 2 ^ 64"
  shows "probes b ps \<le> 1
    \<and> (ab_state b = breakerHalfOpen \<and> \<not> bd_Allowed (fst (allow k now b)) \<longrightarrow> probes b ps = 1)"
  using breaker_run_inv[OF assms]
  by (auto simp: permits_inv_def breaker_defs split: if_splits)

text \<open>
  C20: While a breaker is open nothing but the passing of time changes it: every permit
  still outstanding is stale and is ignored, a caller that comes before the deadline is
  refused with the exact time left, and the first caller after it gets the probe.
\<close>

theorem breaker_open_window:
  assumes "breaker_run cfg n b ps" and "n < 2 ^ 64" and "ab_state b = breakerOpen"
  shows "(\<forall>p \<in> set ps. \<forall>now obs. observe now p obs b = b \<and> abort p b = b)
    \<and> (\<forall>now < ab_openUntil b. allow k now b = (refusal (time_sub (ab_openUntil b) now), b))
    \<and> (\<forall>now \<ge> ab_openUntil b. bd_Allowed (fst (allow k now b))
          \<and> bp_halfOpen (bd_Permit (fst (allow k now b))))"
  using open_permits_stale[OF breaker_run_inv[OF assms(1,2)] assms(3)] assms(3)
  by (auto simp: observe_def abort_def allow_def probe_permit_def Let_def)

section \<open>Counting failures in a row\<close>

text \<open>
  The history of a breaker, latest event first: a caller asked, an answer was observed
  (\<open>current\<close>: with a permit of the breaker's present period, not a stale one), a permit was
  given up. \<open>streak\<close> reads off it how many current answers in a row, up to now, found the
  provider unavailable; a reachable answer ends the row, and neither an answer that says
  nothing, nor a stale one, nor a caller that gives up, counts.
\<close>

datatype breaker_event =
    Asked
  | Answered (current: bool) BreakerObservation
  | GivenUp

fun streak :: "breaker_event list \<Rightarrow> nat" where
  "streak [] = 0"
| "streak (Answered True BreakerUnavailable # es) = Suc (streak es)"
| "streak (Answered True BreakerReachable # es) = 0"
| "streak (e # es) = streak es"

inductive breaker_history ::
  "CircuitBreakerConfig \<Rightarrow> breaker_event list \<Rightarrow> actionBreaker \<Rightarrow> BreakerPermit list \<Rightarrow> bool" for cfg where
  history_start: "0 < cb_FailureThreshold cfg \<Longrightarrow> breaker_history cfg [] (new_breaker cfg) []"
| history_allow: "breaker_history cfg es b ps \<Longrightarrow> allow k now b = (d, b') \<Longrightarrow>
     breaker_history cfg (Asked # es) b' (if bd_Allowed d then bd_Permit d # ps else ps)"
| history_observe: "breaker_history cfg es b ps \<Longrightarrow> p \<in> set ps \<Longrightarrow>
     breaker_history cfg (Answered (bp_generation p = ab_generation b) obs # es)
       (observe now p obs b) (remove1 p ps)"
| history_abort: "breaker_history cfg es b ps \<Longrightarrow> p \<in> set ps \<Longrightarrow>
     breaker_history cfg (GivenUp # es) (abort p b) (remove1 p ps)"

lemma history_run: "breaker_history cfg es b ps \<Longrightarrow> breaker_run cfg (length es) b ps"
proof (induction rule: breaker_history.induct)
  case (history_allow es b ps k now d b')
  then show ?case using run_allow[of cfg "length es" b ps k now d b'] by simp
qed (auto intro: breaker_run.intros)

lemma streak_stale [simp]: "streak (Answered False obs # es) = streak es"
  by (cases obs) simp_all

lemma streak_ignored [simp]: "streak (Answered c BreakerIgnore # es) = streak es"
  by (cases c) simp_all

text \<open>How the state follows the history: the configuration never changes, and the breaker is
  closed exactly while the row is shorter than the threshold, with the row as its count.\<close>

definition counts :: "CircuitBreakerConfig \<Rightarrow> breaker_event list \<Rightarrow> actionBreaker \<Rightarrow> bool" where
  "counts cfg es b \<longleftrightarrow> ab_failureThreshold b = cb_FailureThreshold cfg
     \<and> ab_openDuration b = cb_OpenDuration cfg
     \<and> (ab_state b = breakerClosed \<longleftrightarrow> streak es < unat (cb_FailureThreshold cfg))
     \<and> (ab_state b = breakerClosed \<longrightarrow> unat (ab_consecutiveFailure b) = streak es)"

lemma counts_allow:
  assumes "counts cfg es b" and "allow k now b = (d, b')"
  shows "counts cfg (Asked # es) b'"
proof -
  have "ab_failureThreshold b' = ab_failureThreshold b \<and> ab_openDuration b' = ab_openDuration b
    \<and> ab_consecutiveFailure b' = ab_consecutiveFailure b
    \<and> (ab_state b' = breakerClosed \<longleftrightarrow> ab_state b = breakerClosed)"
    using assms(2) by (cases "ab_state b") (auto simp: breaker_defs split: if_splits)
  with assms(1) show ?thesis by (simp add: counts_def)
qed

lemma counts_abort: "counts cfg es b \<Longrightarrow> counts cfg (GivenUp # es) (abort p b)"
  by (simp add: counts_def abort_def)

text \<open>One more failure on a counter below the threshold does not wrap.\<close>

lemma next_failure:
  fixes c t :: uint32
  assumes "unat c < unat t"
  shows "unat (c + 1) = Suc (unat c)" and "t \<le> c + 1 \<longleftrightarrow> unat t \<le> Suc (unat c)"
proof -
  have "unat t < 2 ^ 32" using unsigned_less[of t] by simp
  with assms show *: "unat (c + 1) = Suc (unat c)" by (simp add: unat_word_ariths)
  then show "t \<le> c + 1 \<longleftrightarrow> unat t \<le> Suc (unat c)" by (simp add: word_le_nat_alt)
qed

lemma counts_observe:
  assumes "counts cfg es b" and "permits_inv n b ps" and p: "p \<in> set ps"
  shows "counts cfg (Answered (bp_generation p = ab_generation b) obs # es) (observe now p obs b)"
proof (cases "bp_generation p = ab_generation b")
  case True
  have nopen: "ab_state b \<noteq> breakerOpen" using open_permits_stale[OF assms(2) _ p] True by blast
  have pos: "0 < unat (cb_FailureThreshold cfg)"
    using assms(1,2) by (auto simp: counts_def permits_inv_def breaker_inv_def unat_gt_0)
  show ?thesis
  proof (cases obs)
    case BreakerUnavailable
    show ?thesis
    proof (cases "ab_state b = breakerClosed")
      case closed: True
      with assms(1) have "unat (ab_consecutiveFailure b) < unat (ab_failureThreshold b)"
        by (simp add: counts_def)
      note one = next_failure[OF this]
      from assms(1) True closed one BreakerUnavailable show ?thesis
        by (auto simp: counts_def observe_def openLocked_def transitionLocked_def Let_def not_le)
    next
      case False
      with nopen have "ab_state b = breakerHalfOpen" by (cases "ab_state b") auto
      with assms(1) True BreakerUnavailable show ?thesis
        by (auto simp: counts_def observe_def openLocked_def transitionLocked_def Let_def)
    qed
  next
    case BreakerReachable
    with assms(1) True nopen pos show ?thesis
      by (cases "ab_state b") (auto simp: counts_def observe_def transitionLocked_def Let_def)
  next
    case BreakerIgnore
    with assms(1) True show ?thesis by (simp add: counts_def observe_def Let_def)
  qed
next
  case False
  with assms(1) show ?thesis by (simp add: counts_def observe_def)
qed

lemma observe_opens:
  assumes "bp_generation p = ab_generation b" and "ab_state b \<noteq> breakerOpen"
    and "ab_state b = breakerClosed \<Longrightarrow> ab_failureThreshold b \<le> ab_consecutiveFailure b + 1"
  shows "ab_state (observe now p BreakerUnavailable b) = breakerOpen
    \<and> ab_openUntil (observe now p BreakerUnavailable b) = now + ab_openDuration b"
  using assms
  by (cases "ab_state b") (auto simp: observe_def openLocked_def transitionLocked_def Let_def)

lemma history_counts:
  "breaker_history cfg es b ps \<Longrightarrow> length es < 2 ^ 64 \<Longrightarrow> counts cfg es b"
proof (induction rule: breaker_history.induct)
  case history_start
  then show ?case by (simp add: counts_def unat_gt_0)
next
  case (history_observe es b ps p obs now)
  then have "permits_inv (length es) b ps" by (intro breaker_run_inv history_run) simp_all
  with history_observe show ?case by (intro counts_observe) simp_all
qed (simp_all add: counts_allow counts_abort)

text \<open>
  C21: The breaker opens at exactly the configured number of consecutive availability
  failures. After any history of callers, answers and given-up permits it is closed exactly
  while fewer than the threshold of current answers in a row found the provider unavailable,
  and its counter is the length of that row; a reachable answer starts the row anew. The
  answer that completes the row, or a failing probe, opens it for the configured duration
  from that answer on.
\<close>

theorem breaker_trips_at_threshold:
  assumes "breaker_history cfg es b ps" and "length es < 2 ^ 64"
  shows "(ab_state b = breakerClosed \<longleftrightarrow> streak es < unat (cb_FailureThreshold cfg))
    \<and> (ab_state b = breakerClosed \<longrightarrow> unat (ab_consecutiveFailure b) = streak es)
    \<and> (\<forall>p \<in> set ps. \<forall>now. bp_generation p = ab_generation b \<longrightarrow>
         unat (cb_FailureThreshold cfg) \<le> Suc (streak es) \<longrightarrow>
         ab_state (observe now p BreakerUnavailable b) = breakerOpen
         \<and> ab_openUntil (observe now p BreakerUnavailable b) = now + cb_OpenDuration cfg)"
proof (intro conjI ballI allI impI)
  have c: "counts cfg es b" by (rule history_counts[OF assms])
  then show "ab_state b = breakerClosed \<longleftrightarrow> streak es < unat (cb_FailureThreshold cfg)"
    and "ab_state b = breakerClosed \<Longrightarrow> unat (ab_consecutiveFailure b) = streak es"
    by (simp_all add: counts_def)
  fix p now
  assume p: "p \<in> set ps" "bp_generation p = ab_generation b"
    and full: "unat (cb_FailureThreshold cfg) \<le> Suc (streak es)"
  have "ab_state b \<noteq> breakerOpen"
    using open_permits_stale[OF breaker_run_inv[OF history_run[OF assms(1)] assms(2)] _ p(1)] p(2) by blast
  moreover have "ab_failureThreshold b \<le> ab_consecutiveFailure b + 1" if "ab_state b = breakerClosed"
    using next_failure(2)[of "ab_consecutiveFailure b" "ab_failureThreshold b"] that c full
    by (simp add: counts_def)
  ultimately have "ab_state (observe now p BreakerUnavailable b) = breakerOpen
    \<and> ab_openUntil (observe now p BreakerUnavailable b) = now + ab_openDuration b"
    by (rule observe_opens[OF p(2)])
  with c show "ab_state (observe now p BreakerUnavailable b) = breakerOpen"
    and "ab_openUntil (observe now p BreakerUnavailable b) = now + cb_OpenDuration cfg"
    by (simp_all add: counts_def)
qed

text \<open>
  The probe decides: reachable closes the breaker with its failure count cleared,
  unavailable reopens it for the full duration, and a probe that says nothing (an adapter
  error, an aborted delivery) frees the slot so that the next caller becomes the probe.
\<close>

lemma breaker_probe_outcome:
  assumes "ab_state b = breakerHalfOpen" and "is_probe b p"
  shows "ab_state (observe now p BreakerReachable b) = breakerClosed
    \<and> ab_consecutiveFailure (observe now p BreakerReachable b) = 0
    \<and> ab_state (observe now p BreakerUnavailable b) = breakerOpen
    \<and> ab_openUntil (observe now p BreakerUnavailable b) = now + ab_openDuration b
    \<and> bp_halfOpen (bd_Permit (fst (allow k now' (observe now p BreakerIgnore b))))
    \<and> bp_halfOpen (bd_Permit (fst (allow k now' (abort p b))))"
  using assms by (auto simp: breaker_defs is_probe_def)

end
