(* ===== verification/Http.thy ===== *)
theory Http
  imports Prelude
begin

text \<open>
  internal/httpclient/client.go: the one HTTP client every adapter sends through. What the
  transport answers to a request is the environment's choice (\<open>transport\<close>); building the
  request, the choice of the timeout, the redirect policy, the bounded read of the body
  and the classification of errors are the client's.
\<close>

record Request =
  hq_Method :: string
  hq_URL :: string
  hq_Headers :: "(string \<times> string) list"
  hq_Body :: string
  hq_Timeout :: duration
  hq_RejectRedirects :: bool

record Response =
  hr_StatusCode :: int
  hr_Header :: "(string \<times> string) list"
  hr_Body :: string
  hr_Truncated :: bool

text \<open>
  An error of the transport: the \<open>Op\<close> of the \<open>net.OpError\<close> in its chain if there is one,
  and its text.
\<close>

record http_error =
  he_op :: "string option"
  he_text :: string

text \<open>
  What the wire delivers for a request: a refused request, or a status, headers and the
  bytes of the body, which may break off with an error after some of them. The transport
  sees the effective timeout and the redirect policy inside the request.
\<close>

record wire_response =
  wr_StatusCode :: int
  wr_Header :: "(string \<times> string) list"
  wr_Body :: string
  wr_readError :: "http_error option"

type_synonym transport = "Request \<Rightarrow> (http_error, wire_response) result"

definition New_client :: "int \<Rightarrow> int" where
  "New_client maxResponseBytes =
     (if maxResponseBytes \<le> 0 then 1048576 else maxResponseBytes)"

text \<open>
  \<open>io.ReadAll(io.LimitReader(body, max + 1))\<close> meets the read error only when the body ends
  before the limit is reached.
\<close>

definition Do :: "transport \<Rightarrow> int \<Rightarrow> Request \<Rightarrow> (http_error, Response) result" where
  "Do net maxResponseBytes req =
     (let timeout = (if hq_Timeout req \<le> 0 then 10 * second else hq_Timeout req) in
      case net (req\<lparr>hq_Timeout := timeout\<rparr>) of
        Inl e \<Rightarrow> Inl e
      | Inr resp \<Rightarrow>
        let data = take (nat (maxResponseBytes + 1)) (wr_Body resp) in
        case (if length (wr_Body resp) \<le> nat maxResponseBytes then wr_readError resp else None) of
          Some e \<Rightarrow> Inl e
        | None \<Rightarrow>
          let truncated = (maxResponseBytes < int (length data)) in
          Inr \<lparr>hr_StatusCode = wr_StatusCode resp, hr_Header = wr_Header resp,
               hr_Body = (if truncated then take (nat maxResponseBytes) data else data),
               hr_Truncated = truncated\<rparr>)"

definition PreSendFailure :: "http_error option \<Rightarrow> bool" where
  "PreSendFailure err =
     (case err of None \<Rightarrow> False
      | Some e \<Rightarrow> (case he_op e of None \<Rightarrow> False | Some o' \<Rightarrow> o' = ''dial''))"

lemma New_client_pos: "0 < New_client n"
  by (simp add: New_client_def)

text \<open>
  The stored body never exceeds the configured bound, is a prefix of what was sent, and the
  truncation flag says exactly whether bytes were dropped.
\<close>

lemma Do_bounded:
  assumes "Do net m req = Inr resp" and "0 < m"
  shows "\<exists>timeout w. net (req\<lparr>hq_Timeout := timeout\<rparr>) = Inr w \<and> 0 < timeout
     \<and> hr_StatusCode resp = wr_StatusCode w \<and> hr_Body resp = take (nat m) (wr_Body w)
     \<and> (hr_Truncated resp \<longleftrightarrow> m < int (length (wr_Body w)))"
proof -
  define timeout where "timeout = (if hq_Timeout req \<le> 0 then 10 * second else hq_Timeout req)"
  have pos: "0 < timeout" by (simp add: timeout_def second_def)
  from assms(1) obtain w where w: "net (req\<lparr>hq_Timeout := timeout\<rparr>) = Inr w"
    by (cases "net (req\<lparr>hq_Timeout := timeout\<rparr>)") (auto simp: Do_def Let_def timeout_def)
  with assms have "hr_StatusCode resp = wr_StatusCode w \<and> hr_Body resp = take (nat m) (wr_Body w)
     \<and> (hr_Truncated resp \<longleftrightarrow> m < int (length (wr_Body w)))"
    unfolding Do_def Let_def timeout_def[symmetric]
    by (auto split: option.splits if_splits simp: min_def)
  with w pos show ?thesis by blast
qed

text \<open>
  A response body is never kept beyond the client's bound: whatever the vendor sends, the
  body a caller gets is the sent body cut at the bound, the flag says exactly whether bytes
  were dropped, the status is the vendor's own, and every request runs under a positive
  timeout.
\<close>

lemma response_body_bounded:
  assumes "Do net (New_client limit) req = Inr resp"
  shows "\<exists>timeout w. 0 < timeout \<and> net (req\<lparr>hq_Timeout := timeout\<rparr>) = Inr w
     \<and> hr_StatusCode resp = wr_StatusCode w
     \<and> hr_Body resp = take (nat (New_client limit)) (wr_Body w)
     \<and> int (length (hr_Body resp)) \<le> New_client limit
     \<and> (hr_Truncated resp \<longleftrightarrow> New_client limit < int (length (wr_Body w)))"
proof -
  have pos: "0 < New_client limit" by (rule New_client_pos)
  from Do_bounded[OF assms pos] obtain timeout w where
    "net (req\<lparr>hq_Timeout := timeout\<rparr>) = Inr w" "0 < timeout" "hr_StatusCode resp = wr_StatusCode w"
    "hr_Body resp = take (nat (New_client limit)) (wr_Body w)"
    "hr_Truncated resp \<longleftrightarrow> New_client limit < int (length (wr_Body w))"
    by blast
  with pos show ?thesis by (intro exI[of _ timeout] exI[of _ w]) simp
qed

end
