(* ===== verification/Vendors.thy ===== *)
theory Vendors
  imports Prelude
begin

text \<open>
  The client libraries through which two of the adapters reach their vendor, seen from the
  adapter: the calls it makes and what they may answer. Nothing is assumed about the
  answers; an SMTP server and the Firebase service are arbitrary functions of the calls.
\<close>

section \<open>An SMTP session\<close>

text \<open>
  The calls of package net/smtp that the adapter makes on one connection, with their
  arguments. \<open>Dial\<close> tells whether the connection is TLS from the start and against which
  server name; \<open>Extension\<close> asks for STARTTLS.
\<close>

datatype smtp_command =
    Dial "string option" string
  | SetDeadline duration
  | NewClient string
  | Extension
  | StartTLS string
  | Auth string string
  | Mail string
  | Rcpt string
  | DataOpen
  | DataWrite string
  | DataClose
  | Quit

text \<open>
  A failure: its text, the reply code when a \<open>textproto.Error\<close> is in its chain, and whether
  it is a network error that reports a timeout.
\<close>

record smtp_failure =
  sf_text :: string
  sf_code :: "int option"
  sf_timeout :: bool

text \<open>The answer to a call, given the calls made before it on the connection.\<close>

type_synonym smtp_server = "smtp_command list \<Rightarrow> smtp_command \<Rightarrow> smtp_failure option"

section \<open>Firebase Cloud Messaging\<close>

text \<open>The fields of \<open>messaging.Message\<close> and its parts that the adapter sets.\<close>

record fcm_notification =
  fn_Title :: string
  fn_Body :: string
  fn_ImageURL :: string

record fcm_android_notification =
  fa_ChannelID :: string
  fa_Sound :: string

record fcm_android =
  fa_Priority :: string
  fa_Notification :: "fcm_android_notification option"

record fcm_aps =
  fp_Sound :: string
  fp_Badge :: "int option"
  fp_ContentAvailable :: bool
  fp_MutableContent :: bool

record fcm_apns =
  fp_Aps :: fcm_aps
  fp_ImageURL :: "string option"

record fcm_message =
  fm_Fid :: string
  fm_Token :: string
  fm_Data :: "(string \<times> string) list"
  fm_Notification :: "fcm_notification option"
  fm_Android :: "fcm_android option"
  fm_APNS :: "fcm_apns option"

text \<open>The questions the adapter asks about an error of the library.\<close>

datatype fcm_kind =
    CtxDeadlineExceeded | DeadlineExceeded | CtxCanceled | Cancelled
  | Unregistered | ThirdPartyAuthError | SenderIDMismatch
  | MessageInvalidArgument | InvalidArgumentError | QuotaExceeded | ResourceExhausted
  | MessageUnavailable | UnavailableError | MessageInternal | InternalError
  | UnauthenticatedError | PermissionDenied | NetError

record fcm_error =
  fx_HTTPStatus :: "int option"
  fx_kinds :: "fcm_kind list"

text \<open>
  A client is what it was created with: the project and the service-account credential,
  if one was given. \<open>fe_cause\<close> is the cause with which the context of the call has ended.
\<close>

type_synonym fcm_client = "string \<times> string option"

datatype ctx_cause = CauseDeadline | CauseCanceled

record fcm_service =
  fe_cause :: "ctx_cause option"
  fe_NewApp :: "string \<Rightarrow> string option \<Rightarrow> fcm_error option"
  fe_Send :: "fcm_client \<Rightarrow> fcm_message \<Rightarrow> (fcm_error, string) result"

end
