(* ===== verification/Provider.thy ===== *)
theory Provider
  imports Complex_Main Breaker Http Vendors "HOL-Library.AList"
begin

text \<open>
  internal/provider: the values an adapter exchanges with the runtime (types.go,
  validate.go), the registry of resolved actions (registry.go) and the resolution of
  credential references (credential.go).

  An adapter is its two run-time methods; its configuration method, and the YAML decoding
  it starts with, enter the registry as the function \<open>configure\<close>.
\<close>

section \<open>Results, contexts and adapters\<close>

record provider_result =
  pr_Success :: bool
  pr_AvailabilityFailure :: bool
  pr_HTTPStatus :: int
  pr_ErrorClass :: string
  pr_Message :: string
  pr_ProviderResponse :: "string option"

definition result_zero :: provider_result where
  "result_zero =
     \<lparr>pr_Success = False, pr_AvailabilityFailure = False, pr_HTTPStatus = 0, pr_ErrorClass = [],
      pr_Message = [], pr_ProviderResponse = None\<rparr>"

record ActionContext =
  ac_ProviderCode :: string
  ac_ProviderAction :: string
  ac_BaseURL :: string
  ac_Path :: string
  ac_Method :: string
  ac_Credential :: string
  ac_TimeoutMs :: int
  ac_SourceSystem :: string
  ac_SourceRequestID :: string
  ac_HTTPClient :: "int option"
  ac_AllowedRespHeaders :: "string list"

text \<open>\<open>Validate\<close> answers nil, a \<open>ValidationError\<close> with its problems, or another error.\<close>

datatype validate_error = ValidationError "string list" | OtherValidateError string

text \<open>
  What an adapter finds outside the process while it sends: the HTTP transport, the SMTP
  server and the Firebase service, the clock, whether the worker's context has been
  cancelled and the text of the cause, and the boundary a multipart writer draws.
\<close>

record network =
  nt_http :: transport
  nt_now :: instant
  nt_cancelled :: bool
  nt_cause :: string
  nt_smtp :: smtp_server
  nt_boundary :: string
  nt_fcm :: fcm_service

record adapter =
  ad_Validate :: "string \<Rightarrow> string \<Rightarrow> validate_error option"
  ad_SendActionRequest ::
    "network \<Rightarrow> ActionContext \<Rightarrow> string \<Rightarrow> string \<Rightarrow> (string, provider_result option) result"

record ActionConfig =
  cf_Description :: string
  cf_BaseURL :: string
  cf_Path :: string
  cf_Method :: string
  cf_TimeoutMs :: int
  cf_RequestsPerSecond :: rat
  cf_MaxConcurrency :: int
  cf_CircuitBreaker :: "CircuitBreakerConfig option"

record provider_Config =
  pc_CredentialRef :: string
  pc_Actions :: "(string \<times> ActionConfig) list"

record ResolvedAction =
  ra_Adapter :: adapter
  ra_Context :: ActionContext
  ra_Description :: string
  ra_TimeoutMs :: int
  ra_RequestsPerSecond :: rat
  ra_MaxConcurrency :: int
  ra_CircuitBreaker :: "CircuitBreakerConfig option"

section \<open>The registry\<close>

text \<open>
  Go maps have no order; the configuration and the resolved actions are association
  lists, and the results below hold for every order of them.
\<close>

type_synonym Registry = "(string \<times> ResolvedAction) list"

definition key :: "string \<Rightarrow> string \<Rightarrow> string" where
  "key providerCode providerAction = providerCode @ ''/'' @ providerAction"

definition resolve_action ::
  "int option \<Rightarrow> string list \<Rightarrow> adapter \<Rightarrow> string \<Rightarrow> string \<Rightarrow> string \<Rightarrow> ActionConfig \<Rightarrow> ResolvedAction" where
  "resolve_action httpClient allowedHeaders a code credential action cf =
     \<lparr>ra_Adapter = a,
      ra_Context =
        \<lparr>ac_ProviderCode = code, ac_ProviderAction = action, ac_BaseURL = cf_BaseURL cf,
         ac_Path = cf_Path cf, ac_Method = cf_Method cf, ac_Credential = credential,
         ac_TimeoutMs = cf_TimeoutMs cf, ac_SourceSystem = [], ac_SourceRequestID = [],
         ac_HTTPClient = httpClient, ac_AllowedRespHeaders = allowedHeaders\<rparr>,
      ra_Description = cf_Description cf, ra_TimeoutMs = cf_TimeoutMs cf,
      ra_RequestsPerSecond = cf_RequestsPerSecond cf, ra_MaxConcurrency = cf_MaxConcurrency cf,
      ra_CircuitBreaker = cf_CircuitBreaker cf\<rparr>"

text \<open>An adapter is registered under the provider_code it declares; a later one replaces it.\<close>

definition RegisterAdapter :: "string \<Rightarrow> 'a \<Rightarrow> (string \<rightharpoonup> 'a) \<Rightarrow> (string \<rightharpoonup> 'a)" where
  "RegisterAdapter code a adapters = adapters(code \<mapsto> a)"

fun Build ::
  "(string \<rightharpoonup> ('y \<Rightarrow> (string, provider_Config \<times> adapter) result)) \<Rightarrow>
   (string \<Rightarrow> (string, string) result) \<Rightarrow> int option \<Rightarrow> string list \<Rightarrow>
   (string \<times> 'y) list \<Rightarrow> Registry \<Rightarrow> (string, Registry) result" where
  "Build configure resolve client headers [] reg = Inr reg"
| "Build configure resolve client headers ((code, raw) # providers) reg =
     (case configure code of
        None \<Rightarrow> Inl (''provider '' @ code @ '': no adapter registered for this provider_code'')
      | Some conf \<Rightarrow>
        (case conf raw of
           Inl e \<Rightarrow> Inl (''provider '' @ code @ '': invalid adapter config: '' @ e)
         | Inr (pc, a) \<Rightarrow>
           if pc_Actions pc = []
           then Inl (''provider '' @ code @ '': adapter config enables no actions'')
           else
             (case resolve (pc_CredentialRef pc) of
                Inl e \<Rightarrow> Inl (''provider '' @ code @ '': resolve credential_ref '' @ go_q (pc_CredentialRef pc) @ '': '' @ e)
              | Inr credential \<Rightarrow>
                Build configure resolve client headers providers
                  (fold (\<lambda>(action, cf). AList.update (key code action)
                           (resolve_action client headers a code credential action cf))
                     (pc_Actions pc) reg))))"

definition Lookup :: "Registry \<Rightarrow> string \<Rightarrow> string \<Rightarrow> ResolvedAction option" where
  "Lookup reg code action = map_of reg (key code action)"

section \<open>Credential references\<close>

definition is_alnum :: "char \<Rightarrow> bool" where
  "is_alnum c \<longleftrightarrow> (let n = (of_char c :: nat) in
     (65 \<le> n \<and> n \<le> 90) \<or> (97 \<le> n \<and> n \<le> 122) \<or> (48 \<le> n \<and> n \<le> 57))"

text \<open>\<open>nonAlnum.ReplaceAllString(s, "_")\<close>: each maximal run becomes one underscore.\<close>

fun collapse_nonalnum :: "bool \<Rightarrow> string \<Rightarrow> string" where
  "collapse_nonalnum in_run [] = []"
| "collapse_nonalnum in_run (c # s) =
     (if is_alnum c then c # collapse_nonalnum False s
      else if in_run then collapse_nonalnum True s
      else CHR ''_'' # collapse_nonalnum True s)"

definition upper_char :: "char \<Rightarrow> char" where
  "upper_char c =
     (if 97 \<le> (of_char c :: nat) \<and> (of_char c :: nat) \<le> 122
      then char_of ((of_char c :: nat) - 32) else c)"

fun after_scheme :: "string \<Rightarrow> string option" where
  "after_scheme [] = None"
| "after_scheme (c # s) =
     (if HasPrefix (c # s) ''://'' then Some (drop 3 (c # s)) else after_scheme s)"

definition envNameFor :: "string \<Rightarrow> string" where
  "envNameFor ref =
     (let stripped = (case after_scheme ref of Some r \<Rightarrow> r | None \<Rightarrow> ref)
      in ''NOTIF_CRED_'' @ map upper_char (collapse_nonalnum False stripped))"

definition Resolve :: "(string \<rightharpoonup> string) \<Rightarrow> string \<Rightarrow> (string, string) result" where
  "Resolve env ref =
     (if ref = [] then Inr []
      else (case env (envNameFor ref) of
              None \<Rightarrow> Inl (''no environment variable '' @ envNameFor ref @ '' set for credential_ref '' @ go_q ref)
            | Some v \<Rightarrow> Inr v))"

section \<open>Registry lookups\<close>

lemma key_inj:
  assumes "CHR ''/'' \<notin> set c" and "CHR ''/'' \<notin> set c'"
  shows "key c a = key c' a' \<longleftrightarrow> c = c' \<and> a = a'"
  using assms
proof (induction c arbitrary: c')
  case Nil
  then show ?case by (cases c') (auto simp: key_def)
next
  case (Cons x c)
  then show ?case by (cases c') (auto simp: key_def)
qed

lemma map_of_fold_update:
  "map_of (fold (\<lambda>(a, c). AList.update (k a) (v a c)) xs m) =
     fold (\<lambda>(a, c) m. m(k a \<mapsto> v a c)) xs (map_of m)"
  by (induction xs arbitrary: m) (auto simp: update_conv')

lemma fold_update_lookup:
  assumes "distinct (map fst xs)" and "inj_on k (insert a (fst ` set xs))"
  shows "fold (\<lambda>(a, c) m. m(k a \<mapsto> v a c)) xs m (k a) =
     (case map_of xs a of None \<Rightarrow> m (k a) | Some c \<Rightarrow> Some (v a c))"
  using assms
proof (induction xs arbitrary: m)
  case (Cons x xs)
  obtain b c where x: "x = (b, c)" by fastforce
  from Cons.prems x have "inj_on k (insert a (fst ` set xs))" and "distinct (map fst xs)"
    and b: "b \<notin> fst ` set xs" and kb: "k a = k b \<longleftrightarrow> a = b"
    by (auto simp: inj_on_def)
  with Cons.IH[of "m(k b \<mapsto> v b c)"] have IH: "fold (\<lambda>(a, c) m. m(k a \<mapsto> v a c)) xs (m(k b \<mapsto> v b c)) (k a) =
      (case map_of xs a of None \<Rightarrow> (m(k b \<mapsto> v b c)) (k a) | Some c \<Rightarrow> Some (v a c))" by blast
  have "map_of xs b = None" using b by (simp add: map_of_eq_None_iff)
  then have "map_of xs a = None" if "a = b" using that by simp
  with kb show ?case unfolding x fold_simps prod.case comp_apply IH by (cases "a = b") (simp_all split: option.split)
qed simp

lemma fold_update_other:
  assumes "\<And>a. a \<in> fst ` set xs \<Longrightarrow> k a \<noteq> q"
  shows "fold (\<lambda>(a, c) m. m(k a \<mapsto> v a c)) xs m q = m q"
  using assms
proof (induction xs arbitrary: m)
  case (Cons x xs)
  then have "q \<noteq> k (fst x)" by auto
  with Cons show ?case by (cases x) simp
qed simp

lemma key_action_inj: "key c a = key c a' \<longleftrightarrow> a = a'"
  by (simp add: key_def)

text \<open>What a configuration enables under a code and an action.\<close>

definition configured ::
  "(string \<rightharpoonup> ('y \<Rightarrow> (string, provider_Config \<times> adapter) result)) \<Rightarrow>
   (string \<Rightarrow> (string, string) result) \<Rightarrow> int option \<Rightarrow> string list \<Rightarrow>
   (string \<times> 'y) list \<Rightarrow> string \<Rightarrow> string \<Rightarrow> ResolvedAction option" where
  "configured configure resolve client headers providers code action =
     (case (map_of providers code, configure code) of
        (Some raw, Some conf) \<Rightarrow>
          (case conf raw of
             Inr (pc, a) \<Rightarrow>
               (case (map_of (pc_Actions pc) action, resolve (pc_CredentialRef pc)) of
                  (Some cf, Inr credential) \<Rightarrow>
                    Some (resolve_action client headers a code credential action cf)
                | _ \<Rightarrow> None)
           | Inl e \<Rightarrow> None)
      | _ \<Rightarrow> None)"

definition actions_distinct ::
  "(string \<rightharpoonup> ('y \<Rightarrow> (string, provider_Config \<times> adapter) result)) \<Rightarrow> (string \<times> 'y) list \<Rightarrow> bool" where
  "actions_distinct configure providers \<longleftrightarrow>
     (\<forall>(code, raw) \<in> set providers. \<forall>conf pc a. configure code = Some conf \<longrightarrow>
        conf raw = Inr (pc, a) \<longrightarrow> distinct (map fst (pc_Actions pc)))"

lemma Build_lookup:
  assumes "Build configure resolve client headers providers reg = Inr reg'"
    and "distinct (map fst providers)" and "\<forall>c \<in> set (map fst providers). CHR ''/'' \<notin> set c"
    and "actions_distinct configure providers" and "CHR ''/'' \<notin> set code"
  shows "Lookup reg' code action =
    (case configured configure resolve client headers providers code action of
       Some ra \<Rightarrow> Some ra | None \<Rightarrow> Lookup reg code action)"
  using assms
proof (induction providers arbitrary: reg)
  case Nil
  then show ?case by (simp add: configured_def)
next
  case (Cons x providers)
  obtain c raw where x: "x = (c, raw)" by fastforce
  from Cons.prems(1) x obtain conf pc a cred where conf: "configure c = Some conf"
      and raw: "conf raw = Inr (pc, a)" and cred: "resolve (pc_CredentialRef pc) = Inr cred"
      and rest: "Build configure resolve client headers providers
        (fold (\<lambda>(action, cf). AList.update (key c action)
           (resolve_action client headers a c cred action cf)) (pc_Actions pc) reg) = Inr reg'"
    by (auto split: option.splits sum.splits if_splits)
  let ?v = "\<lambda>action cf. resolve_action client headers a c cred action cf"
  let ?reg = "fold (\<lambda>(action, cf). AList.update (key c action) (?v action cf)) (pc_Actions pc) reg"
  have d: "distinct (map fst (pc_Actions pc))"
    using Cons.prems(4) conf raw x by (auto simp: actions_distinct_def)
  have IH: "Lookup reg' code action =
      (case configured configure resolve client headers providers code action of
         Some ra \<Rightarrow> Some ra | None \<Rightarrow> Lookup ?reg code action)"
    using Cons.prems x by (intro Cons.IH[OF rest]) (auto simp: actions_distinct_def)
  show ?case
  proof (cases "c = code")
    case True
    with Cons.prems(2) x have "map_of providers code = None" by (auto simp: map_of_eq_None_iff)
    moreover have "Lookup ?reg code action = (case map_of (pc_Actions pc) action of
        None \<Rightarrow> Lookup reg code action | Some cf \<Rightarrow> Some (?v action cf))"
      unfolding Lookup_def map_of_fold_update True[symmetric]
      by (rule fold_update_lookup[OF d]) (simp add: inj_on_def key_action_inj)
    ultimately show ?thesis
      using IH True conf raw cred x by (simp add: configured_def split: option.split)
  next
    case False
    then have "key c b \<noteq> key code action" for b
      using Cons.prems(3,5) x by (simp add: key_inj)
    then have "Lookup ?reg code action = Lookup reg code action"
      unfolding Lookup_def map_of_fold_update by (intro fold_update_other) blast
    moreover have "configured configure resolve client headers (x # providers) code action =
        configured configure resolve client headers providers code action"
      using False x by (simp add: configured_def)
    ultimately show ?thesis using IH by presburger
  qed
qed

text \<open>
  C28: A registry that was built answers lookups with the configuration: an action resolves if
  and only if its provider is configured and its adapter enables it, and then to that
  provider's adapter, credential and limits; two providers never answer for each other. The
  key joins code and action with a slash, so this needs provider codes without one.
\<close>

theorem registry_answers_configuration:
  assumes "Build configure resolve client headers providers [] = Inr reg"
    and "distinct (map fst providers)" and "\<forall>c \<in> set (map fst providers). CHR ''/'' \<notin> set c"
    and "actions_distinct configure providers" and "CHR ''/'' \<notin> set code"
  shows "Lookup reg code action = configured configure resolve client headers providers code action"
  using Build_lookup[OF assms, of action] by (simp add: Lookup_def split: option.split)

end
