(* ===== verification/Limiter.thy ===== *)
theory Limiter
  imports Complex_Main Prelude
begin

text \<open>
  internal/worker/limiter.go: one rate limiter and one counting semaphore per provider
  action. The token bucket is package golang.org/x/time/rate; what \<open>Wait\<close> answers is the
  environment's input. Acquiring a slot blocks, which is the result \<open>None\<close>.
\<close>

text \<open>
  \<open>al_rate\<close> is the token bucket's limit and burst when a rate is configured; \<open>al_sem\<close> the
  capacity of the slot channel when there is one; \<open>al_inUse\<close> the slots taken.
\<close>

record actionLimiter =
  al_rate :: "(rat \<times> int) option"
  al_sem :: "nat option"
  al_inUse :: nat

type_synonym Limiters = "string \<rightharpoonup> actionLimiter"

definition Register_limiter :: "string \<Rightarrow> rat \<Rightarrow> int \<Rightarrow> Limiters \<Rightarrow> Limiters" where
  "Register_limiter k rps maxConcurrency ls =
     ls(k \<mapsto>
       \<lparr>al_rate = (if 0 < rps then Some (rps, if floor rps < 1 then 1 else floor rps) else None),
        al_sem = (if 0 < maxConcurrency then Some (nat maxConcurrency) else None),
        al_inUse = 0\<rparr>)"

text \<open>
  The environment of one \<open>Acquire\<close>: the error of \<open>limiter.Wait\<close> if it fails, the error of
  the context if it is cancelled while waiting, and which ready case \<open>select\<close> takes when
  both are.
\<close>

record acquire_env =
  aq_wait :: "string option"
  aq_done :: "string option"
  aq_prefer_done :: bool

datatype release = NoRelease | ReleaseSlot string

definition Acquire ::
  "acquire_env \<Rightarrow> string \<Rightarrow> Limiters \<Rightarrow> ((string, release) result \<times> Limiters) option" where
  "Acquire env k ls =
     (case ls k of
        None \<Rightarrow> Some (Inr NoRelease, ls)
      | Some al \<Rightarrow>
        (case (al_rate al, aq_wait env) of
           (Some _, Some e) \<Rightarrow> Some (Inl e, ls)
         | _ \<Rightarrow>
           (case al_sem al of
              None \<Rightarrow> Some (Inr NoRelease, ls)
            | Some cap \<Rightarrow>
              (case aq_done env of
                 Some e \<Rightarrow>
                   if al_inUse al < cap \<and> \<not> aq_prefer_done env
                   then Some (Inr (ReleaseSlot k), ls(k \<mapsto> al\<lparr>al_inUse := Suc (al_inUse al)\<rparr>))
                   else Some (Inl e, ls)
               | None \<Rightarrow>
                   if al_inUse al < cap
                   then Some (Inr (ReleaseSlot k), ls(k \<mapsto> al\<lparr>al_inUse := Suc (al_inUse al)\<rparr>))
                   else None))))"

fun run_release :: "release \<Rightarrow> Limiters \<Rightarrow> Limiters" where
  "run_release NoRelease ls = ls"
| "run_release (ReleaseSlot k) ls =
     (case ls k of None \<Rightarrow> ls | Some al \<Rightarrow> ls(k \<mapsto> al\<lparr>al_inUse := al_inUse al - 1\<rparr>))"

definition limiter_inv :: "Limiters \<Rightarrow> bool" where
  "limiter_inv ls \<longleftrightarrow>
     (\<forall>k al cap. ls k = Some al \<longrightarrow> al_sem al = Some cap \<longrightarrow> al_inUse al \<le> cap)"

lemma limiter_inv_Acquire:
  "limiter_inv ls \<Longrightarrow> Acquire env k ls = Some (r, ls') \<Longrightarrow> limiter_inv ls'"
  by (auto simp: Acquire_def limiter_inv_def split: option.splits if_splits)

lemma limiter_inv_release: "limiter_inv ls \<Longrightarrow> limiter_inv (run_release r ls)"
  by (cases r) (auto simp: limiter_inv_def le_diff_conv le_SucI split: option.splits if_splits)

lemma release_undoes_Acquire:
  "Acquire env k ls = Some (Inr r, ls') \<Longrightarrow> run_release r ls' = ls"
  by (auto simp: Acquire_def fun_upd_idem split: option.splits if_splits)


section \<open>Slots over a history\<close>

text \<open>
  Histories of the limiters from their registration at start-up: the releases handed out and
  not yet run belong to the deliveries in flight.
\<close>

inductive limiter_run :: "Limiters \<Rightarrow> release list \<Rightarrow> bool" where
  registered: "limiter_run (fold (\<lambda>(k, rps, conc). Register_limiter k rps conc) cfg Map.empty) []"
| acquired: "limiter_run ls out \<Longrightarrow> Acquire env k ls = Some (Inr r, ls') \<Longrightarrow> limiter_run ls' (r # out)"
| refused: "limiter_run ls out \<Longrightarrow> Acquire env k ls = Some (Inl e, ls') \<Longrightarrow> limiter_run ls' out"
| released: "limiter_run ls out \<Longrightarrow> r \<in> set out \<Longrightarrow> limiter_run (run_release r ls) (remove1 r out)"

definition slots_inv :: "Limiters \<Rightarrow> release list \<Rightarrow> bool" where
  "slots_inv ls out \<longleftrightarrow> limiter_inv ls \<and>
     (\<forall>k al. ls k = Some al \<longrightarrow> al_inUse al = count_list out (ReleaseSlot k))"

lemma slots_inv_registered:
  "slots_inv ls [] \<Longrightarrow> slots_inv (fold (\<lambda>(k, rps, conc). Register_limiter k rps conc) cfg ls) []"
proof (induction cfg arbitrary: ls)
  case (Cons c cfg)
  obtain k rps conc where c: "c = (k, rps, conc)" by (cases c) auto
  have "slots_inv (Register_limiter k rps conc ls) []"
    using Cons.prems by (simp add: slots_inv_def limiter_inv_def Register_limiter_def)
  with Cons.IH show ?case by (simp add: c)
qed simp

lemma slots_inv_Acquire:
  assumes "slots_inv ls out" and "Acquire env k ls = Some (r, ls')"
  shows "slots_inv ls' (case r of Inl e \<Rightarrow> out | Inr rel \<Rightarrow> rel # out)"
proof -
  have "limiter_inv ls'"
    using assms by (auto simp: slots_inv_def intro: limiter_inv_Acquire)
  moreover have "al_inUse al = count_list (case r of Inl e \<Rightarrow> out | Inr rel \<Rightarrow> rel # out) (ReleaseSlot j)"
    if "ls' j = Some al" for j al
    using assms that by (auto simp: slots_inv_def Acquire_def split: option.splits if_splits)
  ultimately show ?thesis by (simp add: slots_inv_def)
qed

lemma slots_inv_release:
  assumes "slots_inv ls out"
  shows "slots_inv (run_release r ls) (remove1 r out)"
  using assms limiter_inv_release[of ls r]
  by (cases r) (auto simp: slots_inv_def split: option.splits)

lemma limiter_run_inv: "limiter_run ls out \<Longrightarrow> slots_inv ls out"
proof (induction rule: limiter_run.induct)
  case (registered cfg)
  show ?case by (rule slots_inv_registered) (simp add: slots_inv_def limiter_inv_def)
next
  case (acquired ls out env k r ls')
  then show ?case using slots_inv_Acquire[of ls out env k "Inr r" ls'] by simp
next
  case (refused ls out env k e ls')
  then show ?case using slots_inv_Acquire[of ls out env k "Inl e" ls'] by simp
qed (rule slots_inv_release)

text \<open>
  C22: The concurrency limit holds over every history of acquisitions, refusals and releases:
  the slots in use of an action are exactly its deliveries in flight, never more than the
  configured maximum, and a caller that is not cancelled or rate-limited gets a slot at once
  if and only if one is free.
\<close>

theorem concurrency_bounded:
  assumes "limiter_run ls out" and "ls k = Some al" and "al_sem al = Some cap"
  shows "al_inUse al = count_list out (ReleaseSlot k) \<and> count_list out (ReleaseSlot k) \<le> cap
    \<and> ((\<exists>ls'. Acquire \<lparr>aq_wait = None, aq_done = None, aq_prefer_done = pick\<rparr> k ls =
            Some (Inr (ReleaseSlot k), ls')) \<longleftrightarrow> count_list out (ReleaseSlot k) < cap)"
proof -
  from limiter_run_inv[OF assms(1)] assms(2,3)
  have "al_inUse al = count_list out (ReleaseSlot k)" "al_inUse al \<le> cap"
    by (auto simp: slots_inv_def limiter_inv_def)
  with assms(2,3) show ?thesis by (simp add: Acquire_def split: option.split)
qed

end
