(* ===== verification/Program.thy ===== *)
theory Program
  imports Store_Laws Mq Provider Limiter
begin

text \<open>
  Programs that interact with the outside world, as trees of effects. The server, the
  worker and the compensator are sequences of calls to the repository, the message broker,
  the circuit breakers, the limiters, the provider adapters, the clock and the uuid
  generator; between any two of them every other goroutine and replica may run. A program
  is therefore its next effect together with a continuation, and the handlers of the other
  theories are such programs, so that the same definition can be run alone (\<open>run\<close>),
  against interference, or interleaved with others and crashed at any point (theory
  System).
\<close>

section \<open>Effects\<close>

datatype 'a prog =
    Return 'a
  | NewUUID "uuid \<Rightarrow> 'a prog"
  | TimeNow "instant \<Rightarrow> 'a prog"
  | RepoInsert Event "(store_error, Event) result \<Rightarrow> 'a prog"
  | RepoClaim uuid uuid duration instant "(store_error, Event) result \<Rightarrow> 'a prog"
  | RepoExec repo_op "store_error option \<Rightarrow> 'a prog"
  | RepoFind string string "(store_error, Event) result \<Rightarrow> 'a prog"
  | RepoGet uuid "(store_error, Event) result \<Rightarrow> 'a prog"
  | RepoPending nat "(store_error, uuid list) result \<Rightarrow> 'a prog"
  | RepoExpired nat "(store_error, Event list) result \<Rightarrow> 'a prog"
  | BreakerAllow string "BreakerDecision \<Rightarrow> 'a prog"
  | BreakerObserve BreakerPermit BreakerObservation "'a prog"
  | BreakerAbort BreakerPermit "'a prog"
  | LimiterAcquire string "(string, release) result \<Rightarrow> 'a prog"
  | LimiterRelease release "'a prog"
  | ProviderSend adapter ActionContext string string
      "(string, provider_result option) result \<Rightarrow> 'a prog"
  | BrokerPublish uuid "(string, bool) result \<Rightarrow> 'a prog"

text \<open>Sequential composition.\<close>

primrec bind :: "'a prog \<Rightarrow> ('a \<Rightarrow> 'b prog) \<Rightarrow> 'b prog" where
  "bind (Return x) f = f x"
| "bind (NewUUID k) f = NewUUID (\<lambda>r. bind (k r) f)"
| "bind (TimeNow k) f = TimeNow (\<lambda>r. bind (k r) f)"
| "bind (RepoInsert ev k) f = RepoInsert ev (\<lambda>r. bind (k r) f)"
| "bind (RepoClaim i tok d now k) f = RepoClaim i tok d now (\<lambda>r. bind (k r) f)"
| "bind (RepoExec x k) f = RepoExec x (\<lambda>r. bind (k r) f)"
| "bind (RepoFind a b k) f = RepoFind a b (\<lambda>r. bind (k r) f)"
| "bind (RepoGet i k) f = RepoGet i (\<lambda>r. bind (k r) f)"
| "bind (RepoPending n k) f = RepoPending n (\<lambda>r. bind (k r) f)"
| "bind (RepoExpired n k) f = RepoExpired n (\<lambda>r. bind (k r) f)"
| "bind (BreakerAllow a k) f = BreakerAllow a (\<lambda>r. bind (k r) f)"
| "bind (BreakerObserve p b k) f = BreakerObserve p b (bind k f)"
| "bind (BreakerAbort p k) f = BreakerAbort p (bind k f)"
| "bind (LimiterAcquire a k) f = LimiterAcquire a (\<lambda>r. bind (k r) f)"
| "bind (LimiterRelease r' k) f = LimiterRelease r' (bind k f)"
| "bind (ProviderSend a ac act p k) f = ProviderSend a ac act p (\<lambda>r. bind (k r) f)"
| "bind (BrokerPublish i k) f = BrokerPublish i (\<lambda>r. bind (k r) f)"

section \<open>The world\<close>

text \<open>
  The table, the process-local breakers and limiters, and two histories: the requests that
  went out to providers with the answers they got, and the messages the broker accepted.
\<close>

record provider_call =
  call_ctx :: ActionContext
  call_action :: string
  call_payload :: string
  call_answer :: "(string, provider_result option) result"

text \<open>The source request a call is made for.\<close>

definition call_key :: "ActionContext \<Rightarrow> string \<times> string" where
  "call_key ac = (ac_SourceSystem ac, ac_SourceRequestID ac)"

record world =
  w_table :: table
  w_breakers :: Breakers
  w_limiters :: Limiters
  w_calls :: "provider_call list"
  w_messages :: "uuid list"

text \<open>
  Everything one effect takes from its environment. A failed publish may or may not have
  reached the broker.
\<close>

datatype publish_outcome = Published bool | PublishFailed string bool

record step_env =
  se_db :: db_env
  se_now :: instant
  se_uuid :: uuid
  se_acquire :: acquire_env
  se_network :: network
  se_publish :: publish_outcome

definition publish_result :: "publish_outcome \<Rightarrow> (string, bool) result" where
  "publish_result p = (case p of Published d \<Rightarrow> Inr d | PublishFailed e _ \<Rightarrow> Inl e)"

definition accepted :: "publish_outcome \<Rightarrow> uuid \<Rightarrow> uuid list" where
  "accepted p i =
     (case p of Published d \<Rightarrow> [i] | PublishFailed e acc \<Rightarrow> if acc then [i] else [])"

section \<open>One effect\<close>

text \<open>\<open>None\<close>: the program has returned, or it waits for a slot of its limiter.\<close>

fun step :: "jsonb \<Rightarrow> step_env \<Rightarrow> 'a prog \<Rightarrow> world \<Rightarrow> ('a prog \<times> world) option" where
  "step J e (Return x) w = None"
| "step J e (NewUUID k) w = Some (k (se_uuid e), w)"
| "step J e (TimeNow k) w = Some (k (se_now e), w)"
| "step J e (RepoInsert ev k) w =
     (let x = Insert J (se_db e) ev (w_table w) in Some (k (fst x), w\<lparr>w_table := snd x\<rparr>))"
| "step J e (RepoClaim i tok d now k) w =
     (let x = Claim (se_db e) i tok d now (w_table w) in Some (k (fst x), w\<lparr>w_table := snd x\<rparr>))"
| "step J e (RepoExec x k) w =
     (let r = repo_exec J (se_db e) x (w_table w) in Some (k (fst r), w\<lparr>w_table := snd r\<rparr>))"
| "step J e (RepoFind a b k) w = Some (k (FindBySourceRequest (se_db e) a b (w_table w)), w)"
| "step J e (RepoGet i k) w = Some (k (GetByID (se_db e) i (w_table w)), w)"
| "step J e (RepoPending n k) w = Some (k (SelectPendingToPublish (se_db e) n (w_table w)), w)"
| "step J e (RepoExpired n k) w = Some (k (SelectExpiredLeases (se_db e) n (w_table w)), w)"
| "step J e (BreakerAllow a k) w =
     (let d = Allow (se_now e) a (w_breakers w) in Some (k (fst d), w\<lparr>w_breakers := snd d\<rparr>))"
| "step J e (BreakerObserve p b k) w =
     Some (k, w\<lparr>w_breakers := Observe (se_now e) p b (w_breakers w)\<rparr>)"
| "step J e (BreakerAbort p k) w = Some (k, w\<lparr>w_breakers := Abort p (w_breakers w)\<rparr>)"
| "step J e (LimiterAcquire a k) w =
     map_option (\<lambda>(r, ls). (k r, w\<lparr>w_limiters := ls\<rparr>))
       (Acquire (se_acquire e) a (w_limiters w))"
| "step J e (LimiterRelease r k) w = Some (k, w\<lparr>w_limiters := run_release r (w_limiters w)\<rparr>)"
| "step J e (ProviderSend a ac act p k) w =
     (let answer = ad_SendActionRequest a (se_network e) ac act p in
      Some (k answer,
            w\<lparr>w_calls := w_calls w @ [\<lparr>call_ctx = ac, call_action = act, call_payload = p,
                                        call_answer = answer\<rparr>]\<rparr>))"
| "step J e (BrokerPublish i k) w =
     Some (k (publish_result (se_publish e)),
           w\<lparr>w_messages := w_messages w @ accepted (se_publish e) i\<rparr>)"

section \<open>Running one program among others\<close>

text \<open>
  Before effect number \<open>n\<close> the rest of the system takes the world through \<open>others n\<close>; the
  effect sees the environment \<open>envs n\<close>. \<open>None\<close> means that the program blocks on its
  limiter. Every program is a well-founded tree, so running it terminates.
\<close>

primrec children :: "'a prog \<Rightarrow> 'a prog set" where
  "children (Return x) = {}"
| "children (NewUUID k) = range k"
| "children (TimeNow k) = range k"
| "children (RepoInsert ev k) = range k"
| "children (RepoClaim i tok d now k) = range k"
| "children (RepoExec x k) = range k"
| "children (RepoFind a b k) = range k"
| "children (RepoGet i k) = range k"
| "children (RepoPending n k) = range k"
| "children (RepoExpired n k) = range k"
| "children (BreakerAllow a k) = range k"
| "children (BreakerObserve p b k) = {k}"
| "children (BreakerAbort p k) = {k}"
| "children (LimiterAcquire a k) = range k"
| "children (LimiterRelease r k) = {k}"
| "children (ProviderSend a ac act p k) = range k"
| "children (BrokerPublish i k) = range k"

definition prog_child :: "('a prog \<times> 'a prog) set" where
  "prog_child = {(q, p). q \<in> children p}"

lemma wf_prog_child: "wf prog_child"
proof (rule wfUNIVI)
  fix P :: "'a prog \<Rightarrow> bool" and p
  assume *: "\<forall>p. (\<forall>q. (q, p) \<in> prog_child \<longrightarrow> P q) \<longrightarrow> P p"
  then have "(\<forall>q \<in> children p. P q) \<Longrightarrow> P p" for p by (auto simp: prog_child_def)
  then show "P p" by (induction p) auto
qed

lemma step_child: "step J e p w = Some (p', w') \<Longrightarrow> p' \<in> children p"
  by (cases p) (auto simp: Let_def)

function run ::
  "jsonb \<Rightarrow> (nat \<Rightarrow> step_env) \<Rightarrow> (nat \<Rightarrow> world \<Rightarrow> world) \<Rightarrow> 'a prog \<Rightarrow> nat \<Rightarrow> world \<Rightarrow> ('a \<times> world) option"
where
  "run J envs others p n w =
     (case p of
        Return x \<Rightarrow> Some (x, w)
      | _ \<Rightarrow>
        (case step J (envs n) p (others n w) of
           None \<Rightarrow> None
         | Some (p', w') \<Rightarrow> run J envs others p' (Suc n) w'))"
  by pat_completeness auto
termination
  by (relation "inv_image prog_child (\<lambda>(J, envs, others, p, n, w). p)")
    (auto simp: Let_def prog_child_def intro: wf_prog_child[unfolded prog_child_def])

declare run.simps [simp del]

lemma run_Return [simp]: "run J envs others (Return x) n w = Some (x, w)"
  by (simp add: run.simps)

text \<open>The equations of \<open>run\<close>, one effect each.\<close>

lemma run_simps [simp]:
  "run J E oth (NewUUID k) n w = run J E oth (k (se_uuid (E n))) (Suc n) (oth n w)"
  "run J E oth (TimeNow k1) n w = run J E oth (k1 (se_now (E n))) (Suc n) (oth n w)"
  "run J E oth (RepoInsert ev k2) n w =
     (let x = Insert J (se_db (E n)) ev (w_table (oth n w))
      in run J E oth (k2 (fst x)) (Suc n) (oth n w\<lparr>w_table := snd x\<rparr>))"
  "run J E oth (RepoClaim i tok d now k3) n w =
     (let x = Claim (se_db (E n)) i tok d now (w_table (oth n w))
      in run J E oth (k3 (fst x)) (Suc n) (oth n w\<lparr>w_table := snd x\<rparr>))"
  "run J E oth (RepoExec oper k4) n w =
     (let x = repo_exec J (se_db (E n)) oper (w_table (oth n w))
      in run J E oth (k4 (fst x)) (Suc n) (oth n w\<lparr>w_table := snd x\<rparr>))"
  "run J E oth (RepoFind a b k5) n w =
     run J E oth (k5 (FindBySourceRequest (se_db (E n)) a b (w_table (oth n w)))) (Suc n) (oth n w)"
  "run J E oth (RepoGet i k6) n w =
     run J E oth (k6 (GetByID (se_db (E n)) i (w_table (oth n w)))) (Suc n) (oth n w)"
  "run J E oth (RepoPending m k7) n w =
     run J E oth (k7 (SelectPendingToPublish (se_db (E n)) m (w_table (oth n w)))) (Suc n) (oth n w)"
  "run J E oth (RepoExpired m k8) n w =
     run J E oth (k8 (SelectExpiredLeases (se_db (E n)) m (w_table (oth n w)))) (Suc n) (oth n w)"
  "run J E oth (BreakerAllow a k9) n w =
     (let x = Allow (se_now (E n)) a (w_breakers (oth n w))
      in run J E oth (k9 (fst x)) (Suc n) (oth n w\<lparr>w_breakers := snd x\<rparr>))"
  "run J E oth (BreakerObserve p obs k10) n w =
     run J E oth k10 (Suc n) (oth n w\<lparr>w_breakers := Observe (se_now (E n)) p obs (w_breakers (oth n w))\<rparr>)"
  "run J E oth (BreakerAbort p k11) n w =
     run J E oth k11 (Suc n) (oth n w\<lparr>w_breakers := Abort p (w_breakers (oth n w))\<rparr>)"
  "run J E oth (LimiterAcquire a k12) n w =
     (case Acquire (se_acquire (E n)) a (w_limiters (oth n w)) of
        None \<Rightarrow> None
      | Some (r, ls) \<Rightarrow> run J E oth (k12 r) (Suc n) (oth n w\<lparr>w_limiters := ls\<rparr>))"
  "run J E oth (LimiterRelease rel k13) n w =
     run J E oth k13 (Suc n) (oth n w\<lparr>w_limiters := run_release rel (w_limiters (oth n w))\<rparr>)"
  "run J E oth (ProviderSend ad ac act pl k14) n w =
     (let answer = ad_SendActionRequest ad (se_network (E n)) ac act pl
      in run J E oth (k14 answer) (Suc n)
           (oth n w\<lparr>w_calls := w_calls (oth n w)
              @ [\<lparr>call_ctx = ac, call_action = act, call_payload = pl, call_answer = answer\<rparr>]\<rparr>))"
  "run J E oth (BrokerPublish i k15) n w =
     run J E oth (k15 (publish_result (se_publish (E n)))) (Suc n)
       (oth n w\<lparr>w_messages := w_messages (oth n w) @ accepted (se_publish (E n)) i\<rparr>)"
  by (subst run.simps; simp add: Let_def split: option.split)+

end
