(* ===== verification/Processor.thy ===== *)
theory Processor
  imports Program
begin

text \<open>
  internal/worker/processor.go: one delivery from claim to final transition, as the
  program of effects the handler performs, and internal/worker/request_log.go. Debug
  logging has no effect on the model and is left out.
\<close>

record proc_config =
  px_Registry :: Registry
  px_LeaseDuration :: duration

text \<open>A lost lease is acknowledged, every other database error is returned.\<close>

definition settle :: "store_error option \<Rightarrow> handler_result" where
  "settle err =
     (case err of
        None \<Rightarrow> None
      | Some ErrNotClaimed \<Rightarrow> None
      | Some e \<Rightarrow> Some (OtherError (store_error_text e)))"

section \<open>Ending an attempt\<close>

definition finishExhaustedBeforeProvider ::
  "Event \<Rightarrow> uuid \<Rightarrow> uint32 \<Rightarrow> handler_result prog" where
  "finishExhaustedBeforeProvider ev leaseToken maxAttempts =
     (let realAttempts = max (ev_AttemptCount ev - 1) 0 in
      TimeNow (\<lambda>now.
        let lastResult = marshal_finished (finished_zero\<lparr>
              lr_Outcome := OutcomeFailed,
              lr_ErrorClass := ''MAX_PROVIDER_ATTEMPTS_EXHAUSTED'',
              lr_Message := ''maximum provider attempts ('' @ Itoa (uint maxAttempts)
                @ '') were already exhausted before recovered delivery'',
              lr_AttemptNumber := realAttempts, lr_FinishedAt := now\<rparr>)
        in RepoExec (OpMarkFailedUnused (ev_ID ev) leaseToken lastResult)
             (\<lambda>err. Return (settle err))))"

definition deferForOpenCircuit ::
  "proc_config \<Rightarrow> Event \<Rightarrow> uuid \<Rightarrow> Delivery \<Rightarrow> duration \<Rightarrow> handler_result prog" where
  "deferForOpenCircuit p ev leaseToken delivery retryAfter =
     (let realAttempts = max (ev_AttemptCount ev - 1) 0;
          baseAttempt0 = (of_int realAttempts :: uint32);
          baseAttempt = (if baseAttempt0 = 0 then 1 else baseAttempt0);
          delay0 = RequeueDelayFor delivery baseAttempt;
          delay1 = (if retryAfter > delay0 then retryAfter else delay0);
          delay = (if delay1 < 0 then 0 else delay1) in
      TimeNow (\<lambda>now.
        let nextAttemptAt = now + delay;
            lastResult = marshal_finished (finished_zero\<lparr>
              lr_Outcome := OutcomeRequeueRequested, lr_ErrorClass := ''CIRCUIT_OPEN'',
              lr_Message := ''provider action circuit is open'', lr_Retryable := True,
              lr_NextAttemptAt := Some nextAttemptAt, lr_AttemptNumber := realAttempts,
              lr_FinishedAt := now\<rparr>);
            recoveryDeadline = nextAttemptAt + px_LeaseDuration p
        in RepoExec (OpMarkCircuitOpen (ev_ID ev) leaseToken recoveryDeadline lastResult)
             (\<lambda>err. case err of
                Some e \<Rightarrow> Return (settle (Some e))
              | None \<Rightarrow> Return (Some (RequestRequeue ''provider circuit is open'' delay False)))))"

definition releaseForRequeue ::
  "proc_config \<Rightarrow> Event \<Rightarrow> uuid \<Rightarrow> Delivery \<Rightarrow> provider_result \<Rightarrow> duration \<Rightarrow> handler_result prog" where
  "releaseForRequeue p ev leaseToken delivery result latency =
     TimeNow (\<lambda>now.
       let delay0 = RequeueDelayFor delivery (of_int (ev_AttemptCount ev));
           requeueDelay = (if delay0 < 0 then 0 else delay0);
           nextAttemptAt = now + requeueDelay;
           lastResult = marshal_finished (finished_zero\<lparr>
             lr_Outcome := OutcomeRequeueRequested, lr_HTTPStatus := pr_HTTPStatus result,
             lr_ErrorClass := pr_ErrorClass result, lr_Message := pr_Message result,
             lr_Retryable := True, lr_NextAttemptAt := Some nextAttemptAt,
             lr_LatencyMs := milliseconds latency, lr_AttemptNumber := ev_AttemptCount ev,
             lr_FinishedAt := now\<rparr>);
           recoveryDeadline = nextAttemptAt + px_LeaseDuration p
       in RepoExec (OpMarkWaiting (ev_ID ev) leaseToken recoveryDeadline lastResult
                      (pr_ProviderResponse result))
            (\<lambda>err. case err of
               Some e \<Rightarrow> Return (settle (Some e))
             | None \<Rightarrow> Return (Some (RequestRequeue
                 (''provider failure: '' @ pr_ErrorClass result) requeueDelay True))))"

definition attempts_exhausted :: "Delivery \<Rightarrow> Event \<Rightarrow> bool" where
  "attempts_exhausted delivery ev \<longleftrightarrow>
     0 < dl_MaxAttempts delivery \<and> 0 < ev_AttemptCount ev
     \<and> dl_MaxAttempts delivery \<le> of_int (ev_AttemptCount ev)"

definition retryOrFail ::
  "proc_config \<Rightarrow> Event \<Rightarrow> uuid \<Rightarrow> Delivery \<Rightarrow> provider_result \<Rightarrow> duration \<Rightarrow> handler_result prog" where
  "retryOrFail p ev leaseToken delivery result latency =
     (if attempts_exhausted delivery ev then
        TimeNow (\<lambda>now.
          let lastResult = marshal_finished (finished_zero\<lparr>
                lr_Outcome := OutcomeFailed, lr_HTTPStatus := pr_HTTPStatus result,
                lr_ErrorClass := ''MAX_PROVIDER_ATTEMPTS_EXHAUSTED'',
                lr_Message := ''maximum provider attempts ('' @ Itoa (uint (dl_MaxAttempts delivery))
                  @ '') exhausted after '' @ pr_ErrorClass result @ '': '' @ pr_Message result,
                lr_LatencyMs := milliseconds latency, lr_AttemptNumber := ev_AttemptCount ev,
                lr_FinishedAt := now\<rparr>)
          in RepoExec (OpMarkFailed (ev_ID ev) leaseToken lastResult (pr_ProviderResponse result))
               (\<lambda>err. Return (settle err)))
      else releaseForRequeue p ev leaseToken delivery result latency)"

section \<open>One attempt\<close>

text \<open>
  What the adapter's answer means to the worker: the result it goes on with and the
  breaker's observation.
\<close>

definition judge ::
  "(string, provider_result option) result \<Rightarrow> provider_result \<times> BreakerObservation" where
  "judge answer =
     (case answer of
        Inl e \<Rightarrow> (result_zero\<lparr>pr_ErrorClass := ''ADAPTER_ERROR'', pr_Message := e\<rparr>, BreakerIgnore)
      | Inr None \<Rightarrow>
          (result_zero\<lparr>pr_ErrorClass := ''ADAPTER_CONTRACT_VIOLATION'',
                       pr_Message := ''adapter returned a nil result''\<rparr>, BreakerIgnore)
      | Inr (Some r) \<Rightarrow> (r, if pr_AvailabilityFailure r then BreakerUnavailable else BreakerReachable))"

definition finish_attempt ::
  "proc_config \<Rightarrow> Event \<Rightarrow> uuid \<Rightarrow> Delivery \<Rightarrow> BreakerPermit \<Rightarrow> duration \<Rightarrow>
   (string, provider_result option) result \<Rightarrow> handler_result prog" where
  "finish_attempt p ev leaseToken delivery permit latency answer =
     (let result = fst (judge answer) in
      BreakerObserve permit (snd (judge answer))
        (if pr_Success result then
           TimeNow (\<lambda>now.
             let lastResult = marshal_finished (finished_zero\<lparr>
                   lr_Outcome := OutcomeSucceeded, lr_HTTPStatus := pr_HTTPStatus result,
                   lr_LatencyMs := milliseconds latency,
                   lr_AttemptNumber := ev_AttemptCount ev, lr_FinishedAt := now\<rparr>)
             in RepoExec (OpMarkSucceeded (ev_ID ev) leaseToken lastResult
                            (pr_ProviderResponse result))
                  (\<lambda>err. Return (settle err)))
         else retryOrFail p ev leaseToken delivery result latency))"

text \<open>From the granted permit and slot to the end of the attempt.\<close>

definition attempt ::
  "proc_config \<Rightarrow> Event \<Rightarrow> uuid \<Rightarrow> Delivery \<Rightarrow> ResolvedAction \<Rightarrow> BreakerPermit \<Rightarrow> handler_result prog" where
  "attempt p ev leaseToken delivery resolved permit =
     TimeNow (\<lambda>now. RepoExec (OpMarkRequesting (ev_ID ev) leaseToken now) (\<lambda>err. case err of
       Some e \<Rightarrow> BreakerAbort permit (Return (settle (Some e)))
     | None \<Rightarrow>
       RepoExec (OpRenewLease (ev_ID ev) leaseToken (px_LeaseDuration p)) (\<lambda>err. case err of
         Some e \<Rightarrow> BreakerAbort permit (Return (settle (Some e)))
       | None \<Rightarrow>
         let ac = (ra_Context resolved)\<lparr>ac_SourceSystem := ev_SourceSystem ev,
                                        ac_SourceRequestID := ev_SourceRequestID ev\<rparr> in
         TimeNow (\<lambda>start.
           ProviderSend (ra_Adapter resolved) ac (ev_ProviderAction ev) (ev_Payload ev) (\<lambda>answer.
             TimeNow (\<lambda>finish.
               finish_attempt p ev leaseToken delivery permit (time_sub finish start) answer))))))"

definition process ::
  "proc_config \<Rightarrow> Event \<Rightarrow> uuid \<Rightarrow> Delivery \<Rightarrow> handler_result prog" where
  "process p ev leaseToken delivery =
     (if 0 < dl_MaxAttempts delivery \<and> 0 < ev_AttemptCount ev
         \<and> dl_MaxAttempts delivery < of_int (ev_AttemptCount ev)
      then finishExhaustedBeforeProvider ev leaseToken (dl_MaxAttempts delivery)
      else
        case Lookup (px_Registry p) (ev_ProviderCode ev) (ev_ProviderAction ev) of
          None \<Rightarrow>
            retryOrFail p ev leaseToken delivery
              (result_zero\<lparr>pr_ErrorClass := ''UNSUPPORTED_PROVIDER_ACTION'',
                           pr_Message := ''provider action is no longer configured''\<rparr>) 0
        | Some resolved \<Rightarrow>
            let actionKey = key (ev_ProviderCode ev) (ev_ProviderAction ev) in
            BreakerAllow actionKey (\<lambda>decision.
              if \<not> bd_Allowed decision
              then deferForOpenCircuit p ev leaseToken delivery (bd_RetryAfter decision)
              else
                LimiterAcquire actionKey (\<lambda>slot. case slot of
                  Inl e \<Rightarrow> BreakerAbort (bd_Permit decision) (Return (Some (OtherError e)))
                | Inr release \<Rightarrow>
                    bind (attempt p ev leaseToken delivery resolved (bd_Permit decision))
                      (\<lambda>r. LimiterRelease release (Return r)))))"

definition HandleDelivery :: "proc_config \<Rightarrow> Delivery \<Rightarrow> handler_result prog" where
  "HandleDelivery p delivery =
     NewUUID (\<lambda>leaseToken. TimeNow (\<lambda>now.
       RepoClaim (dl_EventID delivery) leaseToken (px_LeaseDuration p) now (\<lambda>claimed.
         case claimed of
           Inl ErrNotClaimed \<Rightarrow> Return None
         | Inl e \<Rightarrow> Return (Some (OtherError (store_error_text e)))
         | Inr ev \<Rightarrow> process p ev leaseToken delivery)))"

section \<open>The request log\<close>

definition failureReason :: "provider_result \<Rightarrow> string" where
  "failureReason r = (if pr_ErrorClass r = [] then ''PROVIDER_ERROR'' else pr_ErrorClass r)"

definition providerRequestStatus :: "provider_result \<Rightarrow> string \<times> string" where
  "providerRequestStatus r =
     (if pr_Success r then (''SUCCESS'', []) else (''RETRYABLE_FAILURE'', failureReason r))"

text \<open>The attributes of the line \<open>logProviderRequest\<close> writes, numbers in decimal.\<close>

definition logProviderRequest ::
  "(uuid \<Rightarrow> string) \<Rightarrow> Event \<Rightarrow> ActionContext \<Rightarrow> provider_result \<Rightarrow> duration \<Rightarrow> (string \<times> string) list" where
  "logProviderRequest uuid_String ev ac result latency =
     (let (status, reason) = providerRequestStatus result in
      [(''event_id'', uuid_String (ev_ID ev)), (''source_system'', ev_SourceSystem ev),
       (''source_request_id'', ev_SourceRequestID ev), (''attempt_number'', Itoa (ev_AttemptCount ev)),
       (''provider_code'', ev_ProviderCode ev), (''provider_action'', ev_ProviderAction ev),
       (''timeout_ms'', Itoa (ac_TimeoutMs ac)), (''payload_bytes'', Itoa (int (length (ev_Payload ev)))),
       (''status'', status), (''latency_ms'', Itoa (milliseconds latency)),
       (''provider_response_bytes'',
        Itoa (int (length (case pr_ProviderResponse result of None \<Rightarrow> [] | Some b \<Rightarrow> b))))]
      @ (if reason \<noteq> [] then [(''failure_reason'', reason)] else []))"

text \<open>The line tells of sizes only: neither the payload, the answer nor the credential is in it.\<close>

lemma log_independent:
  assumes "length (ev_Payload ev) = length p"
    and "map_option length (pr_ProviderResponse r) = map_option length b"
  shows "logProviderRequest us (ev\<lparr>ev_Payload := p\<rparr>) (ac\<lparr>ac_Credential := c\<rparr>)
      (r\<lparr>pr_ProviderResponse := b, pr_Message := m\<rparr>) l = logProviderRequest us ev ac r l"
proof -
  have "length (case pr_ProviderResponse r of None \<Rightarrow> [] | Some x \<Rightarrow> x)
      = length (case b of None \<Rightarrow> [] | Some x \<Rightarrow> x)"
    using assms(2) by (auto split: option.splits)
  with assms(1) show ?thesis
    by (simp add: logProviderRequest_def providerRequestStatus_def failureReason_def)
qed

end
