(* ===== verification/Digest.thy ===== *)
theory Digest
  imports Prelude
begin

text \<open>
  The digests and encodings of the Go standard library the adapters use: SHA-256 and
  HMAC-SHA256 (packages crypto/sha256 and crypto/hmac), hexadecimal and base64 encoding.
  They are executable, so that signatures in the model are the bytes on the wire.
\<close>

unbundle bit_operations_syntax

type_synonym w32 = "32 word"

section \<open>SHA-256\<close>

definition sha_init :: "w32 list" where
  "sha_init =
     [1779033703, 3144134277, 1013904242, 2773480762, 1359893119, 2600822924, 528734635,
    1541459225]"

definition sha_k :: "w32 list" where
  "sha_k =
     [1116352408, 1899447441, 3049323471, 3921009573, 961987163, 1508970993, 2453635748,
    2870763221, 3624381080, 310598401, 607225278, 1426881987, 1925078388, 2162078206,
    2614888103, 3248222580, 3835390401, 4022224774, 264347078, 604807628, 770255983, 1249150122,
    1555081692, 1996064986, 2554220882, 2821834349, 2952996808, 3210313671, 3336571891,
    3584528711, 113926993, 338241895, 666307205, 773529912, 1294757372, 1396182291, 1695183700,
    1986661051, 2177026350, 2456956037, 2730485921, 2820302411, 3259730800, 3345764771,
    3516065817, 3600352804, 4094571909, 275423344, 430227734, 506948616, 659060556, 883997877,
    958139571, 1322822218, 1537002063, 1747873779, 1955562222, 2024104815, 2227730452,
    2361852424, 2428436474, 2756734187, 3204031479, 3329325298]"

definition rotr32 :: "nat \<Rightarrow> w32 \<Rightarrow> w32" where
  "rotr32 n x = (drop_bit n x) OR (push_bit (32 - n) x)"

definition word_of_bytes :: "int list \<Rightarrow> w32" where
  "word_of_bytes bs = of_int (foldl (\<lambda>acc b. acc * 256 + b) 0 bs)"

definition bytes_of_word :: "w32 \<Rightarrow> int list" where
  "bytes_of_word x =
     (let n = uint x in [n div 16777216, n div 65536 mod 256, n div 256 mod 256, n mod 256])"

definition sha_pad :: "int list \<Rightarrow> int list" where
  "sha_pad m =
     (let l = length m; bits = 8 * int l
      in m @ [128] @ replicate ((119 - l mod 64) mod 64) 0
           @ map (\<lambda>i. bits div 256 ^ i mod 256) [7, 6, 5, 4, 3, 2, 1, 0])"

fun chunks :: "nat \<Rightarrow> 'a list \<Rightarrow> 'a list list" where
  "chunks n [] = []"
| "chunks n (x # xs) =
     (if n = 0 then [x # xs] else take n (x # xs) # chunks n (drop (n - 1) xs))"

text \<open>The schedule is kept with its newest word first.\<close>

fun sha_extend :: "nat \<Rightarrow> w32 list \<Rightarrow> w32 list" where
  "sha_extend 0 w = w"
| "sha_extend (Suc n) w =
     (let a = w ! 14; b = w ! 1;
          s0 = (rotr32 7 a) XOR (rotr32 18 a) XOR (drop_bit 3 a);
          s1 = (rotr32 17 b) XOR (rotr32 19 b) XOR (drop_bit 10 b)
      in sha_extend n ((w ! 15 + s0 + w ! 6 + s1) # w))"

fun sha_round :: "w32 list \<Rightarrow> w32 \<times> w32 \<Rightarrow> w32 list" where
  "sha_round [a, b, c, d, e, f, g, h] (k, w) =
     (let s1 = (rotr32 6 e) XOR (rotr32 11 e) XOR (rotr32 25 e);
          ch = (e AND f) XOR ((NOT e) AND g);
          t1 = h + s1 + ch + k + w;
          s0 = (rotr32 2 a) XOR (rotr32 13 a) XOR (rotr32 22 a);
          maj = (a AND b) XOR (a AND c) XOR (b AND c);
          t2 = s0 + maj
      in [t1 + t2, a, b, c, d + t1, e, f, g])"
| "sha_round s kw = s"

definition sha_block :: "w32 list \<Rightarrow> int list \<Rightarrow> w32 list" where
  "sha_block h block =
     (let w = rev (sha_extend 48 (rev (map word_of_bytes (chunks 4 block))))
      in map2 (+) h (foldl sha_round h (zip sha_k w)))"

definition bytes_of :: "string \<Rightarrow> int list" where
  "bytes_of s = map of_char s"

definition Sum256 :: "string \<Rightarrow> string" where
  "Sum256 s =
     map char_of (concat (map bytes_of_word (foldl sha_block sha_init (chunks 64 (sha_pad (bytes_of s))))))"

section \<open>HMAC\<close>

definition xor_bytes :: "int \<Rightarrow> string \<Rightarrow> string" where
  "xor_bytes n s = map (\<lambda>c. char_of ((of_char c :: int) XOR n)) s"

definition hmac_sha256 :: "string \<Rightarrow> string \<Rightarrow> string" where
  "hmac_sha256 key message =
     (let k0 = (if 64 < length key then Sum256 key else key);
          k = k0 @ replicate (64 - length k0) (char_of (0 :: int))
      in Sum256 (xor_bytes 92 k @ Sum256 (xor_bytes 54 k @ message)))"

section \<open>Encodings\<close>

definition hex_EncodeToString :: "string \<Rightarrow> string" where
  "hex_EncodeToString s =
     concat (map (\<lambda>c. let n = (of_char c :: nat) in
                   [''0123456789abcdef'' ! (n div 16), ''0123456789abcdef'' ! (n mod 16)]) s)"

definition base64_alphabet :: string where
  "base64_alphabet = ''ABCDEFGHIJKLMNOPQRSTUVWXYZabcdefghijklmnopqrstuvwxyz0123456789+/''"

fun base64_group :: "int list \<Rightarrow> string" where
  "base64_group [a, b, c] =
     (let n = a * 65536 + b * 256 + c in
      map (\<lambda>i. base64_alphabet ! nat i) [n div 262144, n div 4096 mod 64, n div 64 mod 64, n mod 64])"
| "base64_group [a, b] =
     (let n = a * 65536 + b * 256 in
      map (\<lambda>i. base64_alphabet ! nat i) [n div 262144, n div 4096 mod 64, n div 64 mod 64] @ ''='')"
| "base64_group [a] =
     (let n = a * 65536 in
      map (\<lambda>i. base64_alphabet ! nat i) [n div 262144, n div 4096 mod 64] @ ''=='')"
| "base64_group _ = []"

definition base64_EncodeToString :: "string \<Rightarrow> string" where
  "base64_EncodeToString s = concat (map base64_group (chunks 3 (bytes_of s)))"

end
