(* ===== verification/Provider_Send.thy ===== *)
theory Provider_Send
  imports Provider Json_Text Digest
begin

text \<open>
  internal/provider/send.go and provider_response.go: the request every HTTP adapter sends,
  and the sanitised record of the vendor's response that is stored with the event.
\<close>

section \<open>Raw JSON inside a marshalled struct\<close>

text \<open>
  \<open>json.Marshal\<close> copies a \<open>RawMessage\<close> without the white space outside its strings and
  escapes the characters that are unsafe in HTML. The first argument says whether the text
  is inside a string literal, the second whether the last byte was an escaping backslash.
\<close>

fun compact :: "bool \<Rightarrow> bool \<Rightarrow> string \<Rightarrow> string" where
  "compact ins esc [] = []"
| "compact ins esc (c # s) =
     (if c = CHR ''<'' \<or> c = CHR ''>'' \<or> c = CHR ''&'' then u00 c @ compact ins False s
      else if take 3 (c # s) = utf8_encode 8232
      then [CHR 0x5C, CHR ''u'', CHR ''2'', CHR ''0'', CHR ''2'', CHR ''8''] @ compact ins False (drop 2 s)
      else if take 3 (c # s) = utf8_encode 8233
      then [CHR 0x5C, CHR ''u'', CHR ''2'', CHR ''0'', CHR ''2'', CHR ''9''] @ compact ins False (drop 2 s)
      else if ins then
        if esc then c # compact True False s
        else if c = CHR 0x5C then c # compact True True s
        else if c = CHR 0x22 then c # compact False False s
        else c # compact True False s
      else if is_ws c then compact False False s
      else if c = CHR 0x22 then c # compact True False s
      else c # compact False False s)"

text \<open>A marshalled struct: the members in order, with the texts of their values.\<close>

definition struct_text :: "(string \<times> string) list \<Rightarrow> string" where
  "struct_text ms = ''{'' @ Join (map (\<lambda>(k, v). quote k @ '':'' @ v) ms) '','' @ ''}''"

definition optional :: "bool \<Rightarrow> string \<Rightarrow> string \<Rightarrow> (string \<times> string) list" where
  "optional is_zero k v = (if is_zero then [] else [(k, v)])"

section \<open>Sanitising a response\<close>

text \<open>\<open>http.Header.Get\<close>: the first value under the name, compared without regard to case.\<close>

definition header_Get :: "(string \<times> string) list \<Rightarrow> string \<Rightarrow> string" where
  "header_Get h name = (case List.find (\<lambda>kv. ToLower (fst kv) = ToLower name) h of None \<Rightarrow> [] | Some kv \<Rightarrow> snd kv)"

definition isJSONContentType :: "string \<Rightarrow> bool" where
  "isJSONContentType ct = Contains (ToLower ct) ''json''"

definition isTextualContentType :: "string \<Rightarrow> bool" where
  "isTextualContentType ct \<longleftrightarrow> ct = [] \<or>
     (let l = ToLower ct in
      HasPrefix l ''text/'' \<or> Contains l ''json'' \<or> Contains l ''xml'' \<or> Contains l ''urlencoded'')"

text \<open>The map of allowed headers, with its keys sorted as they are marshalled.\<close>

definition filterHeaders :: "(string \<times> string) list \<Rightarrow> string list \<Rightarrow> (string \<times> string) list" where
  "filterHeaders h allowed =
     sort_key fst (map (\<lambda>n. (n, header_Get h n)) (remdups (filter (\<lambda>n. header_Get h n \<noteq> []) allowed)))"

definition buildProviderResponse :: "instant \<Rightarrow> Response \<Rightarrow> string list \<Rightarrow> string" where
  "buildProviderResponse now resp allowedHeaders =
     (let contentType = header_Get (hr_Header resp) ''Content-Type'';
          headers = filterHeaders (hr_Header resp) allowedHeaders;
          body =
            (if isJSONContentType contentType \<and> json_valid (hr_Body resp)
             then [(''body'', compact False False (hr_Body resp))]
             else if isTextualContentType contentType
             then [(''body'', quote (hr_Body resp))]
             else optional (hr_Body resp = []) ''content_length'' (Itoa (int (length (hr_Body resp))))
                  @ [(''body_digest'', quote (''sha256:'' @ hex_EncodeToString (Sum256 (hr_Body resp))))])
      in struct_text (
           [(''http_status'', Itoa (hr_StatusCode resp))]
           @ optional (contentType = []) ''content_type'' (quote contentType)
           @ optional (headers = []) ''headers''
               (struct_text (map (\<lambda>(k, v). (k, quote v)) headers))
           @ body
           @ [(''received_at'', quote (rfc3339 now)),
              (''truncated'', if hr_Truncated resp then ''true'' else ''false'')]))"

section \<open>Sending\<close>

text \<open>
  Either the transport's error, without a response, or the response with its record.
  Building the record cannot fail: every part of it is valid JSON by construction.
\<close>

definition Send ::
  "network \<Rightarrow> ActionContext \<Rightarrow> Request \<Rightarrow> (http_error, Response \<times> string) result" where
  "Send net ac req =
     (case ac_HTTPClient ac of
        None \<Rightarrow> Inl \<lparr>he_op = None, he_text = ''provider HTTP client is nil''\<rparr>
      | Some maxResponseBytes \<Rightarrow>
        let req' = (if hq_Timeout req \<le> 0
                    then req\<lparr>hq_Timeout := wrap64 (ac_TimeoutMs ac * millisecond)\<rparr> else req) in
        case Do (nt_http net) maxResponseBytes req' of
          Inl e \<Rightarrow> Inl e
        | Inr resp \<Rightarrow>
            Inr (resp, buildProviderResponse (nt_now net) resp (ac_AllowedRespHeaders ac)))"

section \<open>Only allowed headers are stored\<close>

lemma filterHeaders_allowed:
  "(k, v) \<in> set (filterHeaders h allowed) \<longleftrightarrow> k \<in> set allowed \<and> v = header_Get h k \<and> v \<noteq> []"
  by (auto simp: filterHeaders_def)

text \<open>
  Of a vendor's response headers only configured ones are ever stored: the stored headers
  are exactly the allowed names the response has a non-empty value for, each once, in sorted
  order, with the response's own value.
\<close>

lemma stored_headers_are_allowed:
  "sorted (map fst (filterHeaders h allowed)) \<and> distinct (map fst (filterHeaders h allowed))
   \<and> (\<forall>k v. (k, v) \<in> set (filterHeaders h allowed) \<longleftrightarrow>
        k \<in> set allowed \<and> v = header_Get h k \<and> v \<noteq> [])"
proof -
  have "distinct (map fst (filterHeaders h allowed))"
    by (auto simp: filterHeaders_def distinct_map inj_on_def)
  then show ?thesis
    by (simp add: filterHeaders_allowed) (simp add: filterHeaders_def)
qed

text \<open>
  A NUL of a textual body becomes an escape of the record, which is valid JSON but which
  PostgreSQL's jsonb refuses.
\<close>

lemma quote_NUL: "quote [CHR 0x00] = [CHR 0x22, CHR 0x5C] @ ''u0000'' @ [CHR 0x22]"
  by code_simp

section \<open>A response is a response of the wire\<close>

lemma Send_wire:
  assumes "Send net ac req = Inr (resp, rec)"
  shows "\<exists>timeout w. nt_http net (req\<lparr>hq_Timeout := timeout\<rparr>) = Inr w
     \<and> hr_StatusCode resp = wr_StatusCode w
     \<and> (\<exists>n. hr_Body resp = take n (wr_Body w))"
proof -
  from assms obtain m req' where d: "Do (nt_http net) m req' = Inr resp"
      and r: "req' = req \<or> (\<exists>t. req' = req\<lparr>hq_Timeout := t\<rparr>)"
    by (auto simp: Send_def Let_def split: option.splits sum.splits if_splits)
  define timeout where "timeout = (if hq_Timeout req' \<le> 0 then 10 * second else hq_Timeout req')"
  from d obtain w where w: "nt_http net (req'\<lparr>hq_Timeout := timeout\<rparr>) = Inr w"
    by (cases "nt_http net (req'\<lparr>hq_Timeout := timeout\<rparr>)") (auto simp: Do_def Let_def timeout_def)
  with d have "hr_StatusCode resp = wr_StatusCode w \<and>
      (hr_Body resp = take (min (nat m) (nat (m + 1))) (wr_Body w) \<or> hr_Body resp = take (nat (m + 1)) (wr_Body w))"
    unfolding Do_def Let_def timeout_def[symmetric]
    by (simp split: option.splits if_splits) (auto simp: take_take, cases "wr_Body w", auto)
  then have "hr_StatusCode resp = wr_StatusCode w \<and> (\<exists>n. hr_Body resp = take n (wr_Body w))" by blast
  moreover have "req'\<lparr>hq_Timeout := timeout\<rparr> = req\<lparr>hq_Timeout := timeout\<rparr>" using r by auto
  ultimately show ?thesis using w by auto
qed

end
