(* ===== verification/Adapters.thy ===== *)
theory Adapters
  imports Processor Provider_Send
begin

text \<open>
  internal/provider/adapters: what the adapters share (config.go), and the contract the
  worker relies on (the comments on provider.Adapter and provider.Result), stated as a
  locale that every HTTP adapter is shown to satisfy. Decoding the YAML node is the
  library's; a configuration method starts from the decoded struct. \<open>url_parser\<close> is
  \<open>url.ParseRequestURI\<close>.
\<close>

section \<open>Shared configuration rules (config.go)\<close>

record adapterCircuitBreakerConfig =
  ab_FailureThreshold :: uint32
  ab_OpenDuration :: duration

definition validateDeliveryLimits :: "int \<Rightarrow> rat \<Rightarrow> int \<Rightarrow> string option" where
  "validateDeliveryLimits timeoutMs requestsPerSecond maxConcurrency =
     (if timeoutMs \<le> 0 then Some ''timeout_ms must be greater than zero''
      else if requestsPerSecond \<le> 0 then Some ''requests_per_second must be greater than zero''
      else if maxConcurrency \<le> 0 then Some ''max_concurrency must be greater than zero''
      else None)"

definition normalizeCircuitBreaker ::
  "adapterCircuitBreakerConfig option \<Rightarrow> (string, CircuitBreakerConfig option) result" where
  "normalizeCircuitBreaker cfg =
     (case cfg of
        None \<Rightarrow> Inr None
      | Some c \<Rightarrow>
        if ab_FailureThreshold c = 0 then Inl ''failure_threshold must be greater than zero''
        else if ab_OpenDuration c \<le> 0 then Inl ''open_duration must be greater than zero''
        else Inr (Some \<lparr>cb_FailureThreshold = ab_FailureThreshold c,
                        cb_OpenDuration = ab_OpenDuration c\<rparr>))"

section \<open>URLs\<close>

record parsed_url =
  u_Scheme :: string
  u_Host :: string
  u_Hostname :: string
  u_HasUser :: bool
  u_Path :: string
  u_RawQuery :: string
  u_Fragment :: string

type_synonym url_parser = "string \<Rightarrow> parsed_url option"

definition literal_loopback :: "string \<Rightarrow> bool" where
  "literal_loopback h \<longleftrightarrow> h = ''127.0.0.1'' \<or> h = ''localhost'' \<or> h = ''::1''"

definition bare_url :: "parsed_url \<Rightarrow> bool" where
  "bare_url u \<longleftrightarrow> \<not> u_HasUser u \<and> u_RawQuery u = [] \<and> u_Fragment u = []"

section \<open>Strict decoding\<close>

text \<open>
  Decoding into a struct with \<open>DisallowUnknownFields\<close>, one member after the other: \<open>f\<close> says
  what a member does to the struct, \<open>None\<close> for an unknown name or a value of the wrong type.
  A string field takes a string; null leaves it alone.
\<close>

definition set_string :: "(string \<Rightarrow> 'a) \<Rightarrow> 'a \<Rightarrow> json \<Rightarrow> 'a option" where
  "set_string upd old v = (case v of JString s \<Rightarrow> Some (upd s) | JNull \<Rightarrow> Some old | _ \<Rightarrow> None)"

fun decode_struct :: "(string \<Rightarrow> json \<Rightarrow> 'a \<Rightarrow> 'a option) \<Rightarrow> (string \<times> json) list \<Rightarrow> 'a \<Rightarrow> 'a option" where
  "decode_struct f [] p = Some p"
| "decode_struct f ((k, v) # ms) p = Option.bind (f k v p) (decode_struct f ms)"

section \<open>The failure of a transport\<close>

definition transport_failure :: "string \<Rightarrow> string \<Rightarrow> http_error \<Rightarrow> provider_result" where
  "transport_failure pre_send no_response e =
     result_zero\<lparr>pr_AvailabilityFailure := True,
       pr_ErrorClass := (if PreSendFailure (Some e) then pre_send else no_response),
       pr_Message := he_text e\<rparr>"

text \<open>
  A host of the local machine (isLoopbackHost in smtp_email.go); \<open>ip_loopback\<close> tells of a
  text whether \<open>net.ParseIP\<close> reads it as a loopback address.
\<close>

definition Trim_brackets :: "string \<Rightarrow> string" where
  "Trim_brackets s =
     (let b = (\<lambda>c. c = CHR ''['' \<or> c = CHR '']'') in rev (dropWhile b (rev (dropWhile b s))))"

definition isLoopbackHost :: "(string \<Rightarrow> bool) \<Rightarrow> string \<Rightarrow> bool" where
  "isLoopbackHost ip_loopback host \<longleftrightarrow>
     EqualFold host ''localhost'' \<or> ip_loopback (Trim_brackets host)"

text \<open>Status codes that tell of a temporary unavailability.\<close>

definition unavailable_status :: "int \<Rightarrow> bool" where
  "unavailable_status s \<longleftrightarrow> s = 408 \<or> s = 429 \<or> 500 \<le> s"

section \<open>The contract of an adapter\<close>

text \<open>
  An adapter serves one action and refuses every other one; it never answers with a nil
  result; success is an explicit answer of the vendor, which is recorded, and never counts
  as unavailability.
\<close>

locale action_adapter =
  fixes ad :: adapter and action :: string
  assumes other_action_invalid: "a \<noteq> action \<Longrightarrow> \<exists>e. ad_Validate ad a p = Some (OtherValidateError e)"
    and other_action_not_sent: "a \<noteq> action \<Longrightarrow> \<exists>e. ad_SendActionRequest ad net ac a p = Inl e"
    and never_nil: "ad_SendActionRequest ad net ac a p \<noteq> Inr None"
    and success_is_recorded:
      "ad_SendActionRequest ad net ac a p = Inr (Some r) \<Longrightarrow> pr_Success r \<Longrightarrow>
       \<not> pr_AvailabilityFailure r \<and> pr_ProviderResponse r \<noteq> None"
begin

text \<open>What the worker concludes from an answer of such an adapter.\<close>

lemma judged_success:
  assumes "pr_Success (fst (judge (ad_SendActionRequest ad net ac a p)))"
  shows "a = action \<and> snd (judge (ad_SendActionRequest ad net ac a p)) = BreakerReachable
    \<and> pr_ProviderResponse (fst (judge (ad_SendActionRequest ad net ac a p))) \<noteq> None"
proof -
  obtain r where r: "ad_SendActionRequest ad net ac a p = Inr (Some r)"
  proof (cases "ad_SendActionRequest ad net ac a p")
    case (Inl e)
    with assms show thesis by (simp add: judge_def result_zero_def)
  next
    case (Inr x)
    with never_nil that show thesis by (cases x) auto
  qed
  with other_action_not_sent[of a net ac p] have "a = action" by fastforce
  with r assms success_is_recorded[OF r] show ?thesis by (simp add: judge_def)
qed

end

text \<open>
  Over HTTP success needs a response with a 2xx status, and a failure without a response
  counts as unavailability.
\<close>

locale http_adapter = action_adapter +
  assumes success_is_explicit:
      "ad_SendActionRequest ad net ac a p = Inr (Some r) \<Longrightarrow> pr_Success r \<Longrightarrow>
       200 \<le> pr_HTTPStatus r \<and> pr_HTTPStatus r < 300"
    and silence_is_unavailability:
      "ad_SendActionRequest ad net ac a p = Inr (Some r) \<Longrightarrow> pr_ProviderResponse r = None \<Longrightarrow>
       pr_AvailabilityFailure r"
begin

lemma judged_silence:
  assumes "ad_SendActionRequest ad net ac a p = Inr (Some r)" and "pr_ProviderResponse r = None"
  shows "snd (judge (ad_SendActionRequest ad net ac a p)) = BreakerUnavailable \<and> \<not> pr_Success r"
  using assms silence_is_unavailability[OF assms] success_is_recorded[OF assms(1)]
  by (auto simp: judge_def)

end

end
