(* ===== verification/Webhook.thy ===== *)
theory Webhook
  imports Adapters
begin

text \<open>
  internal/provider/adapters/webhook.go: one JSON object to one configured endpoint.
  \<open>ip_loopback\<close> is the parameter of \<open>isLoopbackHost\<close>.
\<close>

definition webhookActionDeliver :: string where "webhookActionDeliver = ''deliver''"
definition webhookMaxPayloadBytes :: int where "webhookMaxPayloadBytes = 262144"
definition webhookAuthNone :: string where "webhookAuthNone = ''none''"
definition webhookAuthBearer :: string where "webhookAuthBearer = ''bearer''"
definition webhookAuthHMAC :: string where "webhookAuthHMAC = ''hmac_sha256''"

record webhookConfig =
  wc_CredentialRef :: string
  wc_EndpointURL :: string
  wc_Authentication :: string
  wc_TimeoutMs :: int
  wc_RequestsPerSecond :: rat
  wc_MaxConcurrency :: int
  wc_CircuitBreaker :: "adapterCircuitBreakerConfig option"

section \<open>Configuration\<close>

definition validateFixedWebhookURL ::
  "url_parser \<Rightarrow> (string \<Rightarrow> bool) \<Rightarrow> string \<Rightarrow> string option" where
  "validateFixedWebhookURL url_parser ip_loopback raw =
     (case url_parser (TrimSpace raw) of
        None \<Rightarrow> Some ''must be an absolute URL''
      | Some u \<Rightarrow>
        if u_Host u = [] then Some ''must be an absolute URL''
        else if u_Scheme u \<noteq> ''https'' \<and> (u_Scheme u \<noteq> ''http'' \<or> \<not> isLoopbackHost ip_loopback (u_Hostname u))
        then Some ''must use HTTPS (HTTP is allowed only for a loopback test endpoint)''
        else if \<not> bare_url u
        then Some ''must not contain user info, query parameters, or a fragment''
        else None)"

definition webhook_description :: string where
  "webhook_description =
     map byte [229, 176, 134, 32, 74, 83, 79, 78, 32, 229, 175, 185, 232, 177, 161, 230, 138,
     149, 233, 128, 146, 229, 136, 176, 233, 133, 141, 231, 189, 174, 228, 184, 173, 229, 155,
     186, 229, 174, 154, 231, 154, 132, 32, 87, 101, 98, 104, 111, 111, 107, 32, 231, 171, 175,
     231, 130, 185, 239, 188, 155, 230, 148, 175, 230, 140, 129, 32, 66, 101, 97, 114, 101,
     114, 32, 230, 136, 150, 32, 72, 77, 65, 67, 45, 83, 72, 65, 50, 53, 54, 32, 232, 174, 164,
     232, 175, 129, 239, 188, 140, 231, 166, 129, 230, 173, 162, 233, 135, 141, 229, 174, 154,
     229, 144, 145]"

definition webhook_auth :: "string \<Rightarrow> string" where
  "webhook_auth raw = (let a = ToLower (TrimSpace raw) in if a = [] then webhookAuthNone else a)"

text \<open>The normalised configuration and the authentication mode kept in the adapter.\<close>

definition webhook_Config ::
  "url_parser \<Rightarrow> (string \<Rightarrow> bool) \<Rightarrow> webhookConfig \<Rightarrow> (string, provider_Config \<times> string) result" where
  "webhook_Config url_parser ip_loopback cfg =
     (case validateFixedWebhookURL url_parser ip_loopback (wc_EndpointURL cfg) of
        Some e \<Rightarrow> Inl (''actions.deliver.endpoint_url: '' @ e)
      | None \<Rightarrow>
      (case validateDeliveryLimits (wc_TimeoutMs cfg) (wc_RequestsPerSecond cfg) (wc_MaxConcurrency cfg) of
        Some e \<Rightarrow> Inl (''actions.deliver: '' @ e)
      | None \<Rightarrow>
        let authentication = webhook_auth (wc_Authentication cfg);
            credentialRef = TrimSpace (wc_CredentialRef cfg) in
        if authentication = webhookAuthNone \<and> credentialRef \<noteq> []
        then Inl ''credential_ref must be empty when authentication is none''
        else if (authentication = webhookAuthBearer \<or> authentication = webhookAuthHMAC) \<and> credentialRef = []
        then Inl (''credential_ref is required when authentication is '' @ authentication)
        else if authentication \<notin> {webhookAuthNone, webhookAuthBearer, webhookAuthHMAC}
        then Inl ''actions.deliver.authentication must be none, bearer, or hmac_sha256''
        else
        (case normalizeCircuitBreaker (wc_CircuitBreaker cfg) of
           Inl e \<Rightarrow> Inl (''actions.deliver.circuit_breaker: '' @ e)
         | Inr breaker \<Rightarrow>
             Inr (\<lparr>pc_CredentialRef = credentialRef,
                   pc_Actions = [(webhookActionDeliver,
                     \<lparr>cf_Description = webhook_description, cf_BaseURL = [],
                      cf_Path = wc_EndpointURL cfg, cf_Method = ''POST'',
                      cf_TimeoutMs = wc_TimeoutMs cfg,
                      cf_RequestsPerSecond = wc_RequestsPerSecond cfg,
                      cf_MaxConcurrency = wc_MaxConcurrency cfg,
                      cf_CircuitBreaker = breaker\<rparr>)]\<rparr>, authentication))))"

section \<open>Payloads, keys and signatures\<close>

definition validateWebhookPayload :: "string \<Rightarrow> string option" where
  "validateWebhookPayload payload =
     (if webhookMaxPayloadBytes < int (length payload)
      then Some (''payload is '' @ Itoa (int (length payload)) @ '' bytes; maximum is ''
                 @ Itoa webhookMaxPayloadBytes @ '' bytes'')
      else
        case unmarshal payload of
          Some (JObject ms) \<Rightarrow> None
        | _ \<Rightarrow> Some ''payload must be a JSON object'')"

definition webhookIdempotencyKey :: "string \<Rightarrow> string \<Rightarrow> string \<Rightarrow> string" where
  "webhookIdempotencyKey providerCode sourceSystem sourceRequestID =
     hex_EncodeToString (Sum256 (providerCode @ [byte 0] @ sourceSystem @ [byte 0] @ sourceRequestID))"

definition signWebhook :: "string \<Rightarrow> string \<Rightarrow> string \<Rightarrow> string" where
  "signWebhook secret timestamp payload =
     ''sha256='' @ hex_EncodeToString (hmac_sha256 secret (timestamp @ ''.'' @ payload))"

section \<open>The adapter\<close>

definition interpretWebhookResponse :: "Response \<Rightarrow> provider_result" where
  "interpretWebhookResponse resp =
     (let s = hr_StatusCode resp; result = result_zero\<lparr>pr_HTTPStatus := s\<rparr> in
      if 200 \<le> s \<and> s < 300 then
        result\<lparr>pr_Success := True, pr_Message := ''webhook endpoint explicitly accepted the request''\<rparr>
      else if 300 \<le> s \<and> s < 400 then
        result\<lparr>pr_ErrorClass := ''WEBHOOK_REDIRECT_REJECTED'',
               pr_Message := ''webhook endpoint returned redirect status '' @ Itoa s\<rparr>
      else if unavailable_status s then
        result\<lparr>pr_AvailabilityFailure := True, pr_ErrorClass := ''WEBHOOK_HTTP_ERROR'',
               pr_Message := ''webhook endpoint returned HTTP status '' @ Itoa s\<rparr>
      else
        result\<lparr>pr_ErrorClass := ''WEBHOOK_HTTP_ERROR'',
               pr_Message := ''webhook endpoint returned HTTP status '' @ Itoa s\<rparr>)"

definition webhook_Validate :: "string \<Rightarrow> string \<Rightarrow> validate_error option" where
  "webhook_Validate action payload =
     (if action \<noteq> webhookActionDeliver
      then Some (OtherValidateError (''webhook: unsupported action '' @ go_q action))
      else case validateWebhookPayload payload of
             Some e \<Rightarrow> Some (ValidationError [e])
           | None \<Rightarrow> None)"

text \<open>The headers of the request, or the refusal to build it.\<close>

definition webhook_headers ::
  "string \<Rightarrow> instant \<Rightarrow> ActionContext \<Rightarrow> string \<Rightarrow> (string, (string \<times> string) list) result" where
  "webhook_headers authentication now ac payload =
     (let headers =
        [(''Content-Type'', ''application/json; charset=utf-8''),
         (''Idempotency-Key'',
            webhookIdempotencyKey (ac_ProviderCode ac) (ac_SourceSystem ac) (ac_SourceRequestID ac))] in
      if authentication = [] then Inl ''webhook: adapter config was not initialized''
      else if authentication \<noteq> webhookAuthNone \<and> ac_Credential ac = []
      then Inl ''webhook: resolved credential is empty''
      else if authentication = webhookAuthBearer
      then Inr (headers @ [(''Authorization'', ''Bearer '' @ ac_Credential ac)])
      else if authentication = webhookAuthHMAC
      then let timestamp = Itoa (now div second) in
           Inr (headers @ [(''X-Webhook-Timestamp'', timestamp),
                           (''X-Webhook-Signature'', signWebhook (ac_Credential ac) timestamp payload)])
      else if authentication = webhookAuthNone then Inr headers
      else Inl (''webhook: unsupported normalized authentication '' @ go_q authentication))"

definition webhook_SendActionRequest ::
  "string \<Rightarrow> network \<Rightarrow> ActionContext \<Rightarrow> string \<Rightarrow> string \<Rightarrow> (string, provider_result option) result" where
  "webhook_SendActionRequest authentication net ac action payload =
     (if action \<noteq> webhookActionDeliver then Inl (''webhook: unsupported action '' @ go_q action)
      else
      case validateWebhookPayload payload of
        Some e \<Rightarrow> Inl (''validate webhook payload: '' @ e)
      | None \<Rightarrow>
        if ac_HTTPClient ac = None then Inl ''provider HTTP client is nil''
        else
        (case webhook_headers authentication (nt_now net) ac payload of
           Inl e \<Rightarrow> Inl e
         | Inr headers \<Rightarrow>
           (case Send net ac \<lparr>hq_Method = ac_Method ac, hq_URL = ac_Path ac, hq_Headers = headers,
                             hq_Body = payload, hq_Timeout = 0, hq_RejectRedirects = True\<rparr> of
              Inl e \<Rightarrow>
                if nt_cancelled net then Inl (''process provider response: '' @ he_text e)
                else Inr (Some (transport_failure ''PRE_SEND_CONNECT_FAILURE''
                                  ''TRANSPORT_ERROR_NO_RESPONSE'' e))
            | Inr (resp, providerResponse) \<Rightarrow>
                Inr (Some ((interpretWebhookResponse resp)\<lparr>pr_ProviderResponse := Some providerResponse\<rparr>)))))"

definition Webhook :: "string \<Rightarrow> adapter" where
  "Webhook authentication =
     \<lparr>ad_Validate = webhook_Validate,
      ad_SendActionRequest = webhook_SendActionRequest authentication\<rparr>"

interpretation webhook: http_adapter "Webhook auth" webhookActionDeliver for auth
  by unfold_locales
    (auto simp: Webhook_def webhook_Validate_def webhook_SendActionRequest_def
      interpretWebhookResponse_def transport_failure_def result_zero_def Let_def
      split: option.splits sum.splits if_splits)

section \<open>Properties\<close>

text \<open>
  C29: A webhook delivery is reported successful only when the configured endpoint itself
  answered 2xx to a request that carried the stored payload unchanged, refused redirects and
  had the idempotency key that is the same for every attempt of the source request.
\<close>

theorem webhook_success_on_the_wire:
  assumes "ad_SendActionRequest (Webhook auth) net ac action payload = Inr (Some r)"
    and "pr_Success r"
  shows "\<exists>req w. nt_http net req = Inr w \<and> 200 \<le> wr_StatusCode w \<and> wr_StatusCode w < 300
    \<and> pr_HTTPStatus r = wr_StatusCode w
    \<and> hq_URL req = ac_Path ac \<and> hq_Body req = payload \<and> hq_RejectRedirects req
    \<and> map_of (hq_Headers req) ''Idempotency-Key'' =
        Some (webhookIdempotencyKey (ac_ProviderCode ac) (ac_SourceSystem ac) (ac_SourceRequestID ac))"
proof -
  from assms obtain headers resp rec where h: "webhook_headers auth (nt_now net) ac payload = Inr headers"
      and s: "Send net ac \<lparr>hq_Method = ac_Method ac, hq_URL = ac_Path ac, hq_Headers = headers,
        hq_Body = payload, hq_Timeout = 0, hq_RejectRedirects = True\<rparr> = Inr (resp, rec)"
      and r: "r = (interpretWebhookResponse resp)\<lparr>pr_ProviderResponse := Some rec\<rparr>"
    by (auto simp: Webhook_def webhook_SendActionRequest_def transport_failure_def result_zero_def
        split: option.splits sum.splits if_splits)
  from h have "map_of headers ''Idempotency-Key'' =
      Some (webhookIdempotencyKey (ac_ProviderCode ac) (ac_SourceSystem ac) (ac_SourceRequestID ac))"
    by (auto simp: webhook_headers_def Let_def split: if_splits)
  moreover from r assms(2) have "200 \<le> hr_StatusCode resp \<and> hr_StatusCode resp < 300
      \<and> pr_HTTPStatus r = hr_StatusCode resp"
    by (auto simp: interpretWebhookResponse_def result_zero_def Let_def split: if_splits)
  ultimately show ?thesis using Send_wire[OF s] by fastforce
qed

text \<open>
  C30: A webhook configuration that is accepted enables exactly the action \<open>deliver\<close>, whose
  trimmed endpoint is an absolute HTTPS URL, or HTTP on a loopback host, without user info,
  query or fragment; its limits are positive; and a credential is named exactly when the
  authentication needs one. The endpoint is kept as it was written, untrimmed.
\<close>

theorem webhook_config_safe:
  assumes "webhook_Config up ip cfg = Inr (pc, auth)"
  shows "\<exists>u cf. up (TrimSpace (wc_EndpointURL cfg)) = Some u \<and> u_Host u \<noteq> []
    \<and> (u_Scheme u = ''https'' \<or> u_Scheme u = ''http'' \<and> isLoopbackHost ip (u_Hostname u)) \<and> bare_url u
    \<and> pc_Actions pc = [(webhookActionDeliver, cf)] \<and> cf_Path cf = wc_EndpointURL cfg
    \<and> 0 < cf_TimeoutMs cf \<and> 0 < cf_RequestsPerSecond cf \<and> 0 < cf_MaxConcurrency cf
    \<and> auth \<in> {webhookAuthNone, webhookAuthBearer, webhookAuthHMAC}
    \<and> (pc_CredentialRef pc = [] \<longleftrightarrow> auth = webhookAuthNone)"
  using assms
  by (auto simp: webhook_Config_def validateFixedWebhookURL_def validateDeliveryLimits_def Let_def
      split: option.splits sum.splits if_splits)

end
