(* ===== verification/Lark.thy ===== *)
theory Lark
  imports Adapters
begin

text \<open>
  internal/provider/adapters/lark_bot.go: messages through a Lark custom bot webhook. The
  error text of package encoding/json inside "payload must be a JSON object" is left out.
\<close>

definition actionSend :: string where "actionSend = ''send''"
definition larkMaxRequestBytes :: int where "larkMaxRequestBytes = 20480"

record larkBotConfig =
  kc_SigningSecretRef :: string
  kc_WebhookURL :: string
  kc_TimeoutMs :: int
  kc_RequestsPerSecond :: rat
  kc_MaxConcurrency :: int
  kc_CircuitBreaker :: "adapterCircuitBreakerConfig option"

section \<open>Configuration\<close>

definition larkWebhookPath :: string where
  "larkWebhookPath = ''/open-apis/bot/v2/hook/''"

definition validateLarkWebhookURL :: "url_parser \<Rightarrow> string \<Rightarrow> string option" where
  "validateLarkWebhookURL url_parser raw =
     (case url_parser raw of
        None \<Rightarrow> Some ''must be an absolute URL''
      | Some u \<Rightarrow>
        if u_Host u = [] then Some ''must be an absolute URL''
        else if u_Scheme u \<noteq> ''https'' \<and> (u_Scheme u \<noteq> ''http'' \<or> \<not> literal_loopback (u_Hostname u))
        then Some ''must use HTTPS (HTTP is allowed only for a loopback test endpoint)''
        else if \<not> bare_url u
        then Some ''must not contain user info, query parameters, or a fragment''
        else if \<not> HasPrefix (u_Path u) larkWebhookPath \<or> TrimPrefix (u_Path u) larkWebhookPath = []
        then Some (''path must match '' @ larkWebhookPath @ ''<webhook-id>'')
        else None)"

definition lark_description :: string where
  "lark_description =
     map byte [229, 144, 145, 230, 156, 186, 229, 153, 168, 228, 186, 186, 230, 137, 128, 229,
     156, 168, 231, 190, 164, 228, 188, 154, 232, 175, 157, 229, 143, 145, 233, 128, 129, 230,
     150, 135, 230, 156, 172, 227, 128, 129, 229, 175, 140, 230, 150, 135, 230, 156, 172, 227,
     128, 129, 229, 155, 190, 231, 137, 135, 227, 128, 129, 231, 190, 164, 229, 144, 141, 231,
     137, 135, 230, 136, 150, 230, 182, 136, 230, 129, 175, 229, 141, 161, 231, 137, 135, 239,
     188, 155, 233, 157, 158, 229, 185, 130, 231, 173, 137]"

definition lark_Config :: "url_parser \<Rightarrow> larkBotConfig \<Rightarrow> (string, provider_Config) result" where
  "lark_Config url_parser cfg =
     (case validateLarkWebhookURL url_parser (kc_WebhookURL cfg) of
        Some e \<Rightarrow> Inl (''actions.send.webhook_url: '' @ e)
      | None \<Rightarrow>
      (case validateDeliveryLimits (kc_TimeoutMs cfg) (kc_RequestsPerSecond cfg) (kc_MaxConcurrency cfg) of
        Some e \<Rightarrow> Inl (''actions.send: '' @ e)
      | None \<Rightarrow>
        if 5 < kc_RequestsPerSecond cfg
        then Inl (''actions.send.requests_per_second must not exceed Lark'' @ [CHR 0x27]
                  @ ''s documented 5 requests/second limit'')
        else
        (case normalizeCircuitBreaker (kc_CircuitBreaker cfg) of
           Inl e \<Rightarrow> Inl (''actions.send.circuit_breaker: '' @ e)
         | Inr breaker \<Rightarrow>
             Inr \<lparr>pc_CredentialRef = kc_SigningSecretRef cfg,
                  pc_Actions = [(actionSend,
                    \<lparr>cf_Description = lark_description, cf_BaseURL = [],
                     cf_Path = kc_WebhookURL cfg, cf_Method = ''POST'',
                     cf_TimeoutMs = kc_TimeoutMs cfg,
                     cf_RequestsPerSecond = kc_RequestsPerSecond cfg,
                     cf_MaxConcurrency = kc_MaxConcurrency cfg,
                     cf_CircuitBreaker = breaker\<rparr>)]\<rparr>)))"

section \<open>Messages\<close>

record larkWebhookRequest =
  lk_Timestamp :: string
  lk_Sign :: string
  lk_MsgType :: string
  lk_Content :: string
  lk_Card :: string

definition decodeLarkObject :: "string \<Rightarrow> string \<Rightarrow> (string, (string \<times> string) list) result" where
  "decodeLarkObject raw name =
     (let bad = Inl (''payload.'' @ name @ '' must be an object'') in
      if raw = [] \<or> raw = ''null'' then bad
      else case raw_object raw of Some (Some ms) \<Rightarrow> Inr ms | _ \<Rightarrow> bad)"

definition requireLarkString :: "string \<Rightarrow> string \<Rightarrow> string \<Rightarrow> string option" where
  "requireLarkString raw objectName field =
     (case decodeLarkObject raw objectName of
        Inl e \<Rightarrow> Some e
      | Inr object \<Rightarrow>
        let bad = Some (''payload.'' @ objectName @ ''.'' @ field @ '' must be a non-empty string'') in
        case Option.bind (map_entry field object) unmarshal of
          Some (JString value) \<Rightarrow> if TrimSpace value = [] then bad else None
        | _ \<Rightarrow> bad)"

definition require_post :: "string \<Rightarrow> string option" where
  "require_post content =
     (case decodeLarkObject content ''content'' of
        Inl e \<Rightarrow> Some e
      | Inr object \<Rightarrow>
        (case map_entry ''post'' object of
           None \<Rightarrow> Some ''payload.content.post is required for msg_type post''
         | Some post \<Rightarrow>
           (case decodeLarkObject post ''content.post'' of
              Inl e \<Rightarrow> Some e
            | Inr locales \<Rightarrow>
              if map_entry ''zh_cn'' locales = None \<and> map_entry ''en_us'' locales = None
              then Some ''payload.content.post must contain zh_cn or en_us'' else None)))"

definition require_card :: "string \<Rightarrow> string option" where
  "require_card crd =
     (case decodeLarkObject crd ''card'' of
        Inl e \<Rightarrow> Some e
      | Inr object \<Rightarrow>
        if object = [] then Some ''payload.card must not be empty for msg_type interactive'' else None)"

definition lark_problem :: "string \<Rightarrow> string \<Rightarrow> string \<Rightarrow> string option" where
  "lark_problem msgType content crd =
     (if msgType = ''text'' then requireLarkString content ''content'' ''text''
      else if msgType = ''image'' then requireLarkString content ''content'' ''image_key''
      else if msgType = ''share_chat'' then requireLarkString content ''content'' ''share_chat_id''
      else if msgType = ''post'' then require_post content
      else if msgType = ''interactive'' then require_card crd
      else Some ''payload.msg_type must be one of text, post, image, share_chat, interactive'')"

definition normalizeLarkMessage :: "string \<Rightarrow> (string, larkWebhookRequest) result" where
  "normalizeLarkMessage payload =
     (if larkMaxRequestBytes < int (length payload)
      then Inl (''payload is '' @ Itoa (int (length payload)) @ '' bytes; Lark'' @ [CHR 0x27]
                @ ''s maximum request body is '' @ Itoa larkMaxRequestBytes @ '' bytes'')
      else
        case raw_object payload of
          None \<Rightarrow> Inl ''payload must be a JSON object''
        | Some found \<Rightarrow>
          let ms = (case found of None \<Rightarrow> [] | Some ms \<Rightarrow> ms) in
          (case (raw_string_field ''msg_type'' ms [], raw_string_field ''text'' ms []) of
             (Some msgType0, Some txt0) \<Rightarrow>
               let legacy = (msgType0 = [] \<and> TrimSpace txt0 \<noteq> []);
                   msgType = (if legacy then ''text'' else msgType0);
                   content = (if legacy then struct_text [(''text'', quote txt0)]
                              else raw_field ''content'' ms []);
                   crd = raw_field ''card'' ms [] in
               (case lark_problem msgType content crd of
                  Some e \<Rightarrow> Inl e
                | None \<Rightarrow>
                    Inr \<lparr>lk_Timestamp = [], lk_Sign = [], lk_MsgType = msgType,
                         lk_Content = content, lk_Card = crd\<rparr>)
           | _ \<Rightarrow> Inl ''payload must be a JSON object''))"

section \<open>Signing and sending\<close>

definition signLarkRequest :: "string \<Rightarrow> int \<Rightarrow> string" where
  "signLarkRequest secret timestamp =
     base64_EncodeToString (hmac_sha256 (Itoa timestamp @ [byte 10] @ secret) [])"

definition marshal_lark :: "larkWebhookRequest \<Rightarrow> string" where
  "marshal_lark m = struct_text (
     optional (lk_Timestamp m = []) ''timestamp'' (quote (lk_Timestamp m))
     @ optional (lk_Sign m = []) ''sign'' (quote (lk_Sign m))
     @ [(''msg_type'', quote (lk_MsgType m))]
     @ optional (lk_Content m = []) ''content'' (compact False False (lk_Content m))
     @ optional (lk_Card m = []) ''card'' (compact False False (lk_Card m)))"

definition buildLarkRequestBody :: "string \<Rightarrow> string \<Rightarrow> instant \<Rightarrow> (string, string) result" where
  "buildLarkRequestBody payload signingSecret now =
     (case normalizeLarkMessage payload of
        Inl e \<Rightarrow> Inl e
      | Inr message0 \<Rightarrow>
        let timestamp = now div second;
            message = (if signingSecret \<noteq> []
                       then message0\<lparr>lk_Timestamp := Itoa timestamp,
                                     lk_Sign := signLarkRequest signingSecret timestamp\<rparr>
                       else message0);
            body = marshal_lark message in
        if larkMaxRequestBytes < int (length body)
        then Inl (''Lark webhook request body is '' @ Itoa (int (length body))
                  @ '' bytes; maximum is '' @ Itoa larkMaxRequestBytes @ '' bytes'')
        else Inr body)"

text \<open>The response body: \<open>code\<close> is a pointer to an int, \<open>msg\<close> a string.\<close>

fun lark_code :: "(string \<times> json) list \<Rightarrow> int option \<Rightarrow> int option option" where
  "lark_code [] acc = Some acc"
| "lark_code ((k, v) # ms) acc =
     (if EqualFold k ''code''
      then (case v of
              JNumber n \<Rightarrow> (case parse_int64 n of None \<Rightarrow> None | Some i \<Rightarrow> lark_code ms (Some i))
            | JNull \<Rightarrow> lark_code ms None
            | _ \<Rightarrow> None)
      else lark_code ms acc)"

definition decode_lark_response :: "string \<Rightarrow> (int option \<times> string) option" where
  "decode_lark_response body =
     (case unmarshal body of
        Some (JObject ms) \<Rightarrow>
          (case (lark_code ms None, decode_members ''msg'' ms []) of
             (Some c, Some m) \<Rightarrow> Some (c, m) | _ \<Rightarrow> None)
      | Some JNull \<Rightarrow> Some (None, [])
      | _ \<Rightarrow> None)"

definition interpretLarkResponse :: "Response \<Rightarrow> provider_result" where
  "interpretLarkResponse resp =
     (let s = hr_StatusCode resp; result = result_zero\<lparr>pr_HTTPStatus := s\<rparr> in
      if s \<noteq> 200 then
        result\<lparr>pr_AvailabilityFailure := unavailable_status s, pr_ErrorClass := ''LARK_HTTP_ERROR'',
               pr_Message := ''lark webhook returned status '' @ Itoa s\<rparr>
      else
        case decode_lark_response (hr_Body resp) of
          None \<Rightarrow>
            result\<lparr>pr_AvailabilityFailure := True, pr_ErrorClass := ''UNEXPECTED_VENDOR_BODY'',
                   pr_Message := ''lark webhook returned a non-JSON or unexpected body''\<rparr>
        | Some (None, msg) \<Rightarrow>
            result\<lparr>pr_AvailabilityFailure := True, pr_ErrorClass := ''UNEXPECTED_VENDOR_BODY'',
                   pr_Message := ''lark webhook response did not contain code''\<rparr>
        | Some (Some c, msg) \<Rightarrow>
            if c = 0 then result\<lparr>pr_Success := True\<rparr>
            else result\<lparr>pr_AvailabilityFailure := (c = 11232),
                        pr_ErrorClass := ''LARK_CODE_'' @ Itoa c, pr_Message := msg\<rparr>)"

definition lark_sendMessage ::
  "network \<Rightarrow> ActionContext \<Rightarrow> string \<Rightarrow> (string, provider_result option) result" where
  "lark_sendMessage net ac payload =
     (case buildLarkRequestBody payload (ac_Credential ac) (nt_now net) of
        Inl e \<Rightarrow> Inl (''build request body: '' @ e)
      | Inr body \<Rightarrow>
        if ac_HTTPClient ac = None then Inl ''provider HTTP client is nil''
        else
        (case Send net ac \<lparr>hq_Method = ac_Method ac, hq_URL = ac_Path ac,
             hq_Headers = [(''Content-Type'', ''application/json; charset=utf-8'')],
             hq_Body = body, hq_Timeout = 0, hq_RejectRedirects = False\<rparr> of
           Inl e \<Rightarrow>
             if nt_cancelled net then Inl (''process provider response: '' @ he_text e)
             else Inr (Some (transport_failure ''PRE_SEND_CONNECT_FAILURE''
                               ''TRANSPORT_ERROR_NO_RESPONSE'' e))
         | Inr (resp, providerResponse) \<Rightarrow>
             Inr (Some ((interpretLarkResponse resp)\<lparr>pr_ProviderResponse := Some providerResponse\<rparr>))))"

definition lark_Validate :: "string \<Rightarrow> string \<Rightarrow> validate_error option" where
  "lark_Validate action payload =
     (if action = actionSend then
        (case normalizeLarkMessage payload of Inl e \<Rightarrow> Some (ValidationError [e]) | Inr _ \<Rightarrow> None)
      else Some (OtherValidateError (''lark_bot: unsupported action '' @ go_q action)))"

definition lark_SendActionRequest ::
  "network \<Rightarrow> ActionContext \<Rightarrow> string \<Rightarrow> string \<Rightarrow> (string, provider_result option) result" where
  "lark_SendActionRequest net ac action payload =
     (if action = actionSend then lark_sendMessage net ac payload
      else Inl (''lark_bot: unsupported action '' @ go_q action))"

definition LarkBot :: adapter where
  "LarkBot = \<lparr>ad_Validate = lark_Validate, ad_SendActionRequest = lark_SendActionRequest\<rparr>"

interpretation lark: http_adapter LarkBot actionSend
  by unfold_locales
    (auto simp: LarkBot_def lark_Validate_def lark_SendActionRequest_def lark_sendMessage_def
      interpretLarkResponse_def transport_failure_def result_zero_def Let_def
      split: option.splits sum.splits if_splits)

section \<open>Properties\<close>

text \<open>
  A Lark message is reported sent only when Lark answered HTTP 200 with a body whose
  code is zero; an HTTP success with any other body is not a success. The request body never
  exceeds the documented maximum.
\<close>

lemma lark_success_on_the_wire:
  assumes "ad_SendActionRequest LarkBot net ac action payload = Inr (Some r)" and "pr_Success r"
  shows "\<exists>req w n msg. nt_http net req = Inr w \<and> wr_StatusCode w = 200
    \<and> decode_lark_response (take n (wr_Body w)) = Some (Some 0, msg)
    \<and> hq_URL req = ac_Path ac \<and> int (length (hq_Body req)) \<le> larkMaxRequestBytes"
proof -
  from assms obtain body resp rec where b: "buildLarkRequestBody payload (ac_Credential ac) (nt_now net) = Inr body"
      and s: "Send net ac \<lparr>hq_Method = ac_Method ac, hq_URL = ac_Path ac,
        hq_Headers = [(''Content-Type'', ''application/json; charset=utf-8'')],
        hq_Body = body, hq_Timeout = 0, hq_RejectRedirects = False\<rparr> = Inr (resp, rec)"
      and r: "r = (interpretLarkResponse resp)\<lparr>pr_ProviderResponse := Some rec\<rparr>"
    by (auto simp: LarkBot_def lark_SendActionRequest_def lark_sendMessage_def transport_failure_def
        result_zero_def split: option.splits sum.splits if_splits)
  from b have "int (length body) \<le> larkMaxRequestBytes"
    by (auto simp: buildLarkRequestBody_def Let_def split: sum.splits if_splits)
  moreover from r assms(2) obtain msg where "hr_StatusCode resp = 200"
      "decode_lark_response (hr_Body resp) = Some (Some 0, msg)"
    by (auto simp: interpretLarkResponse_def result_zero_def Let_def
        split: option.splits if_splits prod.splits)
  ultimately show ?thesis using Send_wire[OF s] by fastforce
qed

end
