(* ===== verification/Publish.thy ===== *)
theory Publish
  imports Program
begin

text \<open>
  internal/publish/publish.go: hand an event id to the broker and record enqueued_at only
  for a durable receipt. The error is nil (\<open>None\<close>) or a text; \<open>uuid_String\<close> is
  \<open>uuid.UUID.String\<close> of package github.com/google/uuid, which only occurs in error texts.
\<close>

definition PublishAndMark :: "(uuid \<Rightarrow> string) \<Rightarrow> uuid \<Rightarrow> string option prog" where
  "PublishAndMark uuid_String i =
     BrokerPublish i (\<lambda>result. case result of
       Inl e \<Rightarrow> Return (Some (''publish '' @ uuid_String i @ '': '' @ e))
     | Inr durable \<Rightarrow>
       if \<not> durable then Return None
       else RepoExec (OpMarkEnqueued i) (\<lambda>err. case err of
         None \<Rightarrow> Return None
       | Some e \<Rightarrow>
           Return (Some (''mark enqueued '' @ uuid_String i @ '': '' @ store_error_text e))))"

section \<open>What marking does\<close>

lemma MarkEnqueued_rows:
  "lookup_row j (snd (MarkEnqueued env i t)) =
     (case db_fault env of
        FaultBefore e \<Rightarrow> lookup_row j t
      | _ \<Rightarrow> map_option (\<lambda>r. if ev_ID r = i \<and> ev_Status r = PENDING
              then r\<lparr>ev_EnqueuedAt := Some (db_now env), ev_UpdatedAt := db_now env\<rparr> else r)
            (lookup_row j t))"
  by (cases "db_fault env")
    (simp_all add: MarkEnqueued_def exec_update_def Let_def lookup_row_update_where)

end
