(* ===== verification/Service.thy ===== *)
theory Service
  imports Publish Json_Text
begin

text \<open>
  internal/application/notification: submission of a notification with idempotency on
  (source_system, source_request_id), status lookup and the list of capabilities.
\<close>

section \<open>Canonical payloads (canonical.go)\<close>

definition canonicalize :: "string \<Rightarrow> string option" where
  "canonicalize raw = map_option Marshal (decode_first raw)"

definition canonicalEqual :: "string \<Rightarrow> string \<Rightarrow> bool" where
  "canonicalEqual a b =
     (case canonicalize a of
        None \<Rightarrow> a = b
      | Some ca \<Rightarrow> (case canonicalize b of None \<Rightarrow> a = b | Some cb \<Rightarrow> ca = cb))"

section \<open>Commands, results and errors (model.go, errors.go)\<close>

record SubmitCommand =
  sc_SourceSystem :: string
  sc_SourceRequestID :: string
  sc_ProviderCode :: string
  sc_ProviderAction :: string
  sc_Payload :: string

record SubmitResult =
  sr_EventID :: string
  sr_SourceSystem :: string
  sr_SourceRequestID :: string
  sr_Status :: string
  sr_Duplicate :: bool
  sr_AcceptedAt :: instant

record StatusQuery =
  sq_SourceSystem :: string
  sq_SourceRequestID :: string

datatype service_error =
    ErrInvalidRequest
  | ErrUnsupportedProviderAction
  | ErrInvalidPayload
  | PayloadValidationError "string list"
  | ErrSourceRequestConflict
  | ErrNotificationNotFound
  | ErrStorageUnavailable string

section \<open>Submission (service.go)\<close>

definition submitResult :: "(uuid \<Rightarrow> string) \<Rightarrow> Event \<Rightarrow> bool \<Rightarrow> SubmitResult" where
  "submitResult uuid_String ev duplicate =
     \<lparr>sr_EventID = uuid_String (ev_ID ev), sr_SourceSystem = ev_SourceSystem ev,
      sr_SourceRequestID = ev_SourceRequestID ev, sr_Status = status_string (ev_Status ev),
      sr_Duplicate = duplicate, sr_AcceptedAt = ev_CreatedAt ev\<rparr>"

text \<open>\<open>Inr None\<close>: there is no such event yet.\<close>

definition resolveExisting ::
  "(uuid \<Rightarrow> string) \<Rightarrow> SubmitCommand \<Rightarrow> (service_error, SubmitResult option) result prog" where
  "resolveExisting uuid_String cmd =
     RepoFind (sc_SourceSystem cmd) (sc_SourceRequestID cmd) (\<lambda>found. Return (case found of
       Inl ErrNotFound \<Rightarrow> Inr None
     | Inl e \<Rightarrow> Inl (ErrStorageUnavailable ''idempotency lookup'')
     | Inr existing \<Rightarrow>
         if ev_ProviderCode existing \<noteq> sc_ProviderCode cmd
            \<or> ev_ProviderAction existing \<noteq> sc_ProviderAction cmd
            \<or> \<not> canonicalEqual (ev_Payload existing) (sc_Payload cmd)
         then Inl ErrSourceRequestConflict
         else Inr (Some (submitResult uuid_String existing True))))"

text \<open>The event handed to \<open>Insert\<close>; the columns it does not name are set by the statement.\<close>

definition submit_event :: "uuid \<Rightarrow> SubmitCommand \<Rightarrow> Event" where
  "submit_event i cmd =
     \<lparr>ev_ID = i, ev_SourceSystem = sc_SourceSystem cmd,
      ev_SourceRequestID = sc_SourceRequestID cmd, ev_ProviderCode = sc_ProviderCode cmd,
      ev_ProviderAction = sc_ProviderAction cmd, ev_Payload = sc_Payload cmd,
      ev_Status = PENDING, ev_AttemptCount = 0, ev_NextAttemptAt = 0, ev_EnqueuedAt = None,
      ev_LeaseToken = None, ev_LeaseUntil = None, ev_LastResult = None,
      ev_ProviderResponse = None, ev_CreatedAt = 0, ev_UpdatedAt = 0\<rparr>"

definition submit_checks :: "Registry \<Rightarrow> SubmitCommand \<Rightarrow> service_error option" where
  "submit_checks reg cmd =
     (if sc_SourceSystem cmd = [] \<or> sc_SourceRequestID cmd = [] \<or> sc_ProviderCode cmd = []
         \<or> sc_ProviderAction cmd = [] \<or> length (sc_Payload cmd) = 0
         \<or> \<not> json_valid (sc_Payload cmd)
      then Some ErrInvalidRequest
      else
        case Lookup reg (sc_ProviderCode cmd) (sc_ProviderAction cmd) of
          None \<Rightarrow> Some ErrUnsupportedProviderAction
        | Some resolved \<Rightarrow>
          (case ad_Validate (ra_Adapter resolved) (sc_ProviderAction cmd) (sc_Payload cmd) of
             None \<Rightarrow> None
           | Some (ValidationError problems) \<Rightarrow> Some (PayloadValidationError problems)
           | Some (OtherValidateError e) \<Rightarrow> Some ErrInvalidPayload))"

definition Submit ::
  "(uuid \<Rightarrow> string) \<Rightarrow> Registry \<Rightarrow> SubmitCommand \<Rightarrow> (service_error, SubmitResult) result prog" where
  "Submit uuid_String reg cmd =
     (case submit_checks reg cmd of
        Some e \<Rightarrow> Return (Inl e)
      | None \<Rightarrow>
        bind (resolveExisting uuid_String cmd) (\<lambda>existing. case existing of
          Inl e \<Rightarrow> Return (Inl e)
        | Inr (Some result) \<Rightarrow> Return (Inr result)
        | Inr None \<Rightarrow>
          NewUUID (\<lambda>i. RepoInsert (submit_event i cmd) (\<lambda>inserted. case inserted of
            Inl ErrDuplicateSourceRequest \<Rightarrow>
              bind (resolveExisting uuid_String cmd) (\<lambda>existing. Return (case existing of
                Inl e \<Rightarrow> Inl e
              | Inr (Some result) \<Rightarrow> Inr result
              | Inr None \<Rightarrow> Inl (ErrStorageUnavailable ''insert notification'')))
          | Inl e \<Rightarrow> Return (Inl (ErrStorageUnavailable ''insert notification''))
          | Inr event \<Rightarrow>
              bind (PublishAndMark uuid_String (ev_ID event))
                (\<lambda>_. Return (Inr (submitResult uuid_String event False)))))))"

section \<open>Queries\<close>

definition GetStatus :: "StatusQuery \<Rightarrow> (service_error, Event) result prog" where
  "GetStatus q =
     (if sq_SourceSystem q = [] \<or> sq_SourceRequestID q = [] then Return (Inl ErrInvalidRequest)
      else RepoFind (sq_SourceSystem q) (sq_SourceRequestID q) (\<lambda>found. Return (case found of
        Inl ErrNotFound \<Rightarrow> Inl ErrNotificationNotFound
      | Inl e \<Rightarrow> Inl (ErrStorageUnavailable ''get notification'')
      | Inr event \<Rightarrow> Inr event)))"

type_synonym ProviderActionCapability = "string \<times> string"
type_synonym ProviderCapability = "string \<times> ProviderActionCapability list"

text \<open>
  \<open>Registry.All\<close> yields the resolved actions in an unspecified order. Grouping appends
  each action to its provider's list; providers and actions are then sorted by name.
\<close>

definition group_actions :: "ResolvedAction list \<Rightarrow> ProviderCapability list" where
  "group_actions actions =
     (let codes = remdups (map (\<lambda>a. ac_ProviderCode (ra_Context a)) actions)
      in map (\<lambda>c. (c, map (\<lambda>a. (ac_ProviderAction (ra_Context a), ra_Description a))
                    (filter (\<lambda>a. ac_ProviderCode (ra_Context a) = c) actions))) codes)"

definition ListCapabilities :: "Registry \<Rightarrow> ProviderCapability list" where
  "ListCapabilities reg =
     map (map_prod id (sort_key fst)) (sort_key fst (group_actions (map snd reg)))"

end
