(* ===== verification/Authn.thy ===== *)
theory Authn
  imports Digest
begin

text \<open>
  internal/authn and the token rules around it: which tokens the server accepts
  (config.ResolveAuthTokens), the bearer checks of the REST middleware and of the gRPC
  interceptor, and the level of the log.
\<close>

section \<open>Verifier\<close>

definition NewVerifier :: "string list \<Rightarrow> string list" where
  "NewVerifier tokens = remdups (filter (\<lambda>t. t \<noteq> []) tokens)"

text \<open>\<open>None\<close> as the verifier is the nil pointer.\<close>

definition Verify :: "string list option \<Rightarrow> string \<Rightarrow> bool" where
  "Verify v token = (case v of None \<Rightarrow> False | Some accepted \<Rightarrow> token \<in> set accepted)"

section \<open>Configured and generated tokens\<close>

text \<open>\<open>base64.RawURLEncoding\<close>: the URL alphabet, without padding.\<close>

definition raw_url_base64 :: "string \<Rightarrow> string" where
  "raw_url_base64 s =
     map (\<lambda>c. if c = CHR ''+'' then CHR ''-'' else if c = CHR ''/'' then CHR ''_'' else c)
       (filter (\<lambda>c. c \<noteq> CHR ''='') (base64_EncodeToString s))"

fun configured_tokens :: "string list \<Rightarrow> string list \<Rightarrow> string list" where
  "configured_tokens seen [] = []"
| "configured_tokens seen (c # cs) =
     (let token = TrimSpace c in
      if token = [] \<or> token \<in> set seen then configured_tokens seen cs
      else token # configured_tokens (token # seen) cs)"

text \<open>\<open>random\<close> is what \<open>rand.Read\<close> delivers: an error or 32 bytes.\<close>

definition ResolveAuthTokens ::
  "(string, string) result \<Rightarrow> string list \<Rightarrow> (string, string list \<times> string) result" where
  "ResolveAuthTokens random configured =
     (let tokens = configured_tokens [] configured in
      if tokens \<noteq> [] then Inr (tokens, [])
      else case random of
             Inl e \<Rightarrow> Inl (''generate auth token: '' @ e)
           | Inr bytes \<Rightarrow> (let t = raw_url_base64 bytes in Inr ([t], t)))"

section \<open>Bearer checks\<close>

definition bearerAuth :: "string list option \<Rightarrow> string \<Rightarrow> bool" where
  "bearerAuth v header \<longleftrightarrow>
     HasPrefix header ''Bearer '' \<and> Verify v (TrimPrefix header ''Bearer '')"

text \<open>\<open>strings.Fields\<close>: the maximal runs without white space.\<close>

fun fields_fuel :: "nat \<Rightarrow> string \<Rightarrow> string \<Rightarrow> string list" where
  "fields_fuel 0 cur s = (if cur = [] then [] else [cur])"
| "fields_fuel (Suc n) cur s =
     (case s of
        [] \<Rightarrow> (if cur = [] then [] else [cur])
      | c # r \<Rightarrow>
        (case white_prefix s of
           Some w \<Rightarrow> (if cur = [] then [] else [cur]) @ fields_fuel n [] (drop (length w) s)
         | None \<Rightarrow> fields_fuel n (cur @ [c]) r))"

definition Fields :: "string \<Rightarrow> string list" where
  "Fields s = fields_fuel (Suc (length s)) [] s"

text \<open>\<open>None\<close> as the metadata: the call has none. The result is the error text, if any.\<close>

definition verifyIncomingToken :: "string list option \<Rightarrow> string list option \<Rightarrow> string option" where
  "verifyIncomingToken v authorization =
     (case authorization of
        Some [value] \<Rightarrow>
          (case Fields value of
             [scheme, token] \<Rightarrow>
               if EqualFold scheme ''Bearer'' \<and> Verify v token then None
               else Some ''invalid bearer token''
           | _ \<Rightarrow> Some ''invalid bearer token'')
      | _ \<Rightarrow> Some ''missing bearer token'')"

definition isHealthMethod :: "string \<Rightarrow> bool" where
  "isHealthMethod m = HasPrefix m ''/grpc.health.v1.Health/''"

definition authUnaryInterceptor ::
  "string list option \<Rightarrow> string \<Rightarrow> string list option \<Rightarrow> string option" where
  "authUnaryInterceptor v fullMethod authorization =
     (if isHealthMethod fullMethod then None else verifyIncomingToken v authorization)"

section \<open>The level of the log (logging.go)\<close>

datatype log_level = LevelDebug | LevelInfo | LevelWarn | LevelError

definition parseLevel :: "string \<Rightarrow> log_level" where
  "parseLevel raw =
     (let l = ToLower (TrimSpace raw) in
      if l = ''debug'' then LevelDebug
      else if l = ''warn'' \<or> l = ''warning'' then LevelWarn
      else if l = ''error'' then LevelError
      else LevelInfo)"

section \<open>Who is let in\<close>

lemma configured_tokens_set:
  "set (configured_tokens seen cs) = TrimSpace ` set cs - insert [] (set seen)"
  by (induction seen cs rule: configured_tokens.induct) (auto simp: Let_def)

lemma configured_tokens_distinct: "distinct (configured_tokens seen cs)"
  by (induction seen cs rule: configured_tokens.induct) (auto simp: Let_def configured_tokens_set)

text \<open>
  The empty token is never accepted; with configured tokens exactly the non-empty
  trimmed ones are, each listed once, and no token is generated; without any the server
  falls back to the generated one, or does not start.
\<close>

lemma accepted_tokens:
  "(case ResolveAuthTokens random configured of
      Inl e \<Rightarrow> TrimSpace ` set configured \<subseteq> {[]} \<and> (\<exists>e'. random = Inl e')
    | Inr (tokens, generated) \<Rightarrow>
        distinct tokens \<and> \<not> Verify (Some (NewVerifier tokens)) [] \<and>
        (if TrimSpace ` set configured \<subseteq> {[]}
         then tokens = [generated] \<and> (\<exists>bytes. random = Inr bytes \<and> generated = raw_url_base64 bytes)
         else generated = [] \<and> (\<forall>t. Verify (Some (NewVerifier tokens)) t \<longleftrightarrow>
                t \<noteq> [] \<and> t \<in> TrimSpace ` set configured)))"
proof -
  have e: "configured_tokens [] configured = [] \<longleftrightarrow> TrimSpace ` set configured \<subseteq> {[]}"
    using configured_tokens_set[of "[]" configured] by (auto simp flip: set_empty)
  have "set (configured_tokens [] configured) = TrimSpace ` set configured - {[]}"
    by (simp add: configured_tokens_set)
  with e configured_tokens_distinct[of "[]" configured] show ?thesis
    by (auto simp: ResolveAuthTokens_def NewVerifier_def Verify_def Let_def split: sum.split)
qed

end
