(* ===== verification/Api.thy ===== *)
theory Api
  imports Service Authn
begin

text \<open>
  The public protocols over the application service: REST (internal/api), gRPC
  (internal/grpcapi) and MCP (internal/mcpapi). Routing, transport and the generated
  message types are the frameworks'; the model is what each handler decides: binding of the
  request, the command it submits, the reply, and the error it maps to.
\<close>

section \<open>REST error codes and messages (response.go)\<close>

datatype errorCode =
    errInvalidRequest
  | errUnauthenticated
  | errUnsupportedProviderAction
  | errInvalidPayload
  | errSourceRequestConflict
  | errMessageNotFound
  | errRouteNotFound
  | errMethodNotAllowed
  | errStorageUnavailable
  | errDependencyUnavailable
  | errInternal

fun code_number :: "errorCode \<Rightarrow> int" where
  "code_number errInvalidRequest = 1001"
| "code_number errUnauthenticated = 1002"
| "code_number errUnsupportedProviderAction = 1004"
| "code_number errInvalidPayload = 1005"
| "code_number errSourceRequestConflict = 1006"
| "code_number errMessageNotFound = 1007"
| "code_number errRouteNotFound = 1008"
| "code_number errMethodNotAllowed = 1009"
| "code_number errStorageUnavailable = 2001"
| "code_number errDependencyUnavailable = 2002"
| "code_number errInternal = 2003"

fun message_en :: "errorCode \<Rightarrow> string" where
  "message_en errInvalidRequest = ''The request body is invalid.''"
| "message_en errUnauthenticated = ''Authentication failed. Check the bearer token.''"
| "message_en errUnsupportedProviderAction = ''The provider or provider action is not supported.''"
| "message_en errInvalidPayload = ''The payload does not meet the requirements of this provider action.''"
| "message_en errSourceRequestConflict = ''The source request was previously accepted with different content.''"
| "message_en errMessageNotFound = ''No message was found for the source request.''"
| "message_en errRouteNotFound = ''The requested API route does not exist.''"
| "message_en errMethodNotAllowed = ''The HTTP method is not allowed for this API route.''"
| "message_en errStorageUnavailable = ''The storage service is temporarily unavailable.''"
| "message_en errDependencyUnavailable = ''A required service dependency is unavailable.''"
| "message_en errInternal = ''An internal server error occurred.''"

fun message_zh :: "errorCode \<Rightarrow> string" where
  "message_zh errInvalidRequest =
     map byte [232, 175, 183, 230, 177, 130, 228, 189, 147, 230, 160, 188, 229, 188, 143,
     230, 136, 150, 229, 143, 130, 230, 149, 176, 230, 151, 160, 230, 149, 136, 227, 128,
     130]"
| "message_zh errUnauthenticated =
     map byte [232, 186, 171, 228, 187, 189, 232, 174, 164, 232, 175, 129, 229, 164, 177,
     232, 180, 165, 239, 188, 140, 232, 175, 183, 230, 163, 128, 230, 159, 165, 32, 66, 101,
     97, 114, 101, 114, 32, 84, 111, 107, 101, 110, 227, 128, 130]"
| "message_zh errUnsupportedProviderAction =
     map byte [228, 184, 141, 230, 148, 175, 230, 140, 129, 230, 140, 135, 229, 174, 154,
     231, 154, 132, 228, 190, 155, 229, 186, 148, 229, 149, 134, 230, 136, 150, 228, 190,
     155, 229, 186, 148, 229, 149, 134, 229, 138, 168, 228, 189, 156, 227, 128, 130]"
| "message_zh errInvalidPayload =
     map byte [80, 97, 121, 108, 111, 97, 100, 32, 228, 184, 141, 231, 172, 166, 229, 144,
     136, 232, 175, 165, 228, 190, 155, 229, 186, 148, 229, 149, 134, 229, 138, 168, 228,
     189, 156, 231, 154, 132, 232, 166, 129, 230, 177, 130, 227, 128, 130]"
| "message_zh errSourceRequestConflict =
     map byte [232, 175, 165, 230, 157, 165, 230, 186, 144, 232, 175, 183, 230, 177, 130,
     229, 183, 178, 228, 189, 191, 231, 148, 168, 228, 184, 141, 229, 144, 140, 229, 134,
     133, 229, 174, 185, 230, 143, 144, 228, 186, 164, 227, 128, 130]"
| "message_zh errMessageNotFound =
     map byte [230, 156, 170, 230, 137, 190, 229, 136, 176, 232, 175, 165, 230, 157, 165,
     230, 186, 144, 232, 175, 183, 230, 177, 130, 229, 175, 185, 229, 186, 148, 231, 154,
     132, 230, 182, 136, 230, 129, 175, 227, 128, 130]"
| "message_zh errRouteNotFound =
     map byte [232, 175, 183, 230, 177, 130, 231, 154, 132, 32, 65, 80, 73, 32, 232, 183,
     175, 229, 190, 132, 228, 184, 141, 229, 173, 152, 229, 156, 168, 227, 128, 130]"
| "message_zh errMethodNotAllowed =
     map byte [232, 175, 165, 32, 65, 80, 73, 32, 232, 183, 175, 229, 190, 132, 228, 184,
     141, 230, 148, 175, 230, 140, 129, 230, 173, 164, 32, 72, 84, 84, 80, 32, 230, 150, 185,
     230, 179, 149, 227, 128, 130]"
| "message_zh errStorageUnavailable =
     map byte [229, 173, 152, 229, 130, 168, 230, 156, 141, 229, 138, 161, 230, 154, 130,
     230, 151, 182, 228, 184, 141, 229, 143, 175, 231, 148, 168, 227, 128, 130]"
| "message_zh errDependencyUnavailable =
     map byte [229, 191, 133, 232, 166, 129, 231, 154, 132, 230, 156, 141, 229, 138, 161,
     228, 190, 157, 232, 181, 150, 229, 189, 147, 229, 137, 141, 228, 184, 141, 229, 143,
     175, 231, 148, 168, 227, 128, 130]"
| "message_zh errInternal =
     map byte [230, 156, 141, 229, 138, 161, 229, 153, 168, 229, 134, 133, 233, 131, 168,
     229, 143, 145, 231, 148, 159, 233, 148, 153, 232, 175, 175, 227, 128, 130]"

text \<open>
  Choosing the language from the Accept-Language header. \<open>ParseFloat\<close> is the library's
  conversion; the quality is compared as a number (a NaN never wins, like \<open>None\<close> here).
\<close>

definition item_quality :: "(string \<Rightarrow> rat option) \<Rightarrow> string list \<Rightarrow> rat" where
  "item_quality ParseFloat parameters =
     foldl (\<lambda>q p. let p = TrimSpace p in
              if HasPrefix p ''q=''
              then (case ParseFloat (TrimPrefix p ''q='') of None \<Rightarrow> q | Some x \<Rightarrow> x)
              else q) 1 parameters"

definition prefer_item ::
  "(string \<Rightarrow> rat option) \<Rightarrow> string \<times> rat \<Rightarrow> string \<Rightarrow> string \<times> rat" where
  "prefer_item ParseFloat best item =
     (let parts = Split_char (CHR '';'') item;
          language = ToLower (TrimSpace (hd parts));
          quality = item_quality ParseFloat (tl parts) in
      if quality \<le> snd best then best
      else if language = ''zh'' \<or> HasPrefix language ''zh-'' then (''zh'', quality)
      else if language = ''en'' \<or> HasPrefix language ''en-'' \<or> language = ''*'' then (''en'', quality)
      else best)"

definition preferredLanguage :: "(string \<Rightarrow> rat option) \<Rightarrow> string \<Rightarrow> string" where
  "preferredLanguage ParseFloat header =
     fst (foldl (prefer_item ParseFloat) (''en'', -1) (Split_char (CHR '','') header))"

definition localizedErrorMessage :: "(string \<Rightarrow> rat option) \<Rightarrow> string \<Rightarrow> errorCode \<Rightarrow> string" where
  "localizedErrorMessage ParseFloat accept c =
     (if preferredLanguage ParseFloat accept = ''zh'' then message_zh c else message_en c)"

section \<open>REST replies (dto.go, response.go)\<close>

record createMessageResponse =
  cm_EventID :: string
  cm_SourceSystem :: string
  cm_SourceRequestID :: string
  cm_Status :: string
  cm_Duplicate :: bool
  cm_AcceptedAt :: instant

record messageStatusResponse =
  mg_EventID :: string
  mg_SourceSystem :: string
  mg_SourceRequestID :: string
  mg_ProviderCode :: string
  mg_ProviderAction :: string
  mg_Status :: string
  mg_AttemptCount :: int
  mg_LastResult :: "json option"
  mg_ProviderResponse :: "string option"
  mg_CreatedAt :: instant
  mg_UpdatedAt :: instant

text \<open>What stands under \<open>data\<close>; an error carries the empty object.\<close>

datatype api_data =
    EmptyData
  | ReadinessData bool
  | CreateMessageData createMessageResponse
  | MessageStatusData messageStatusResponse
  | ProviderCapabilitiesData "ProviderCapability list"

record apiResponse =
  ap_HTTPStatus :: int
  ap_Status :: int
  ap_Data :: api_data
  ap_ErrorMessage :: string

definition writeSuccess :: "int \<Rightarrow> api_data \<Rightarrow> apiResponse" where
  "writeSuccess http d =
     \<lparr>ap_HTTPStatus = http, ap_Status = 0, ap_Data = d, ap_ErrorMessage = []\<rparr>"

definition writeError :: "(errorCode \<Rightarrow> string) \<Rightarrow> int \<Rightarrow> errorCode \<Rightarrow> apiResponse" where
  "writeError msg http c =
     \<lparr>ap_HTTPStatus = http, ap_Status = code_number c, ap_Data = EmptyData, ap_ErrorMessage = msg c\<rparr>"

definition writePayloadValidationError :: "(errorCode \<Rightarrow> string) \<Rightarrow> string list \<Rightarrow> apiResponse" where
  "writePayloadValidationError msg problems =
     \<lparr>ap_HTTPStatus = 422, ap_Status = code_number errInvalidPayload, ap_Data = EmptyData,
      ap_ErrorMessage = msg errInvalidPayload
        @ (if problems = [] then [] else '' '' @ Join problems ''; '')\<rparr>"

definition writeSubmitError :: "(errorCode \<Rightarrow> string) \<Rightarrow> service_error \<Rightarrow> apiResponse" where
  "writeSubmitError msg err =
     (case err of
        ErrInvalidRequest \<Rightarrow> writeError msg 400 errInvalidRequest
      | ErrUnsupportedProviderAction \<Rightarrow> writeError msg 422 errUnsupportedProviderAction
      | PayloadValidationError problems \<Rightarrow> writePayloadValidationError msg problems
      | ErrInvalidPayload \<Rightarrow> writeError msg 422 errInvalidPayload
      | ErrSourceRequestConflict \<Rightarrow> writeError msg 409 errSourceRequestConflict
      | ErrStorageUnavailable _ \<Rightarrow> writeError msg 503 errStorageUnavailable
      | _ \<Rightarrow> writeError msg 500 errInternal)"

definition writeStatusError :: "(errorCode \<Rightarrow> string) \<Rightarrow> service_error \<Rightarrow> apiResponse" where
  "writeStatusError msg err =
     (case err of
        ErrInvalidRequest \<Rightarrow> writeError msg 400 errInvalidRequest
      | ErrNotificationNotFound \<Rightarrow> writeError msg 404 errMessageNotFound
      | ErrStorageUnavailable _ \<Rightarrow> writeError msg 503 errStorageUnavailable
      | _ \<Rightarrow> writeError msg 500 errInternal)"

section \<open>REST handlers (handlers.go, providers.go)\<close>

text \<open>
  \<open>ShouldBindJSON\<close>: the first JSON value of the body must be an object whose four string
  fields are strings and not empty, with a payload member.
\<close>

definition first_value_text :: "string \<Rightarrow> string option" where
  "first_value_text body =
     (let s = skip_ws body in map_option (\<lambda>(v, r). raw_prefix s r) (parse s))"

definition bind_request :: "string \<Rightarrow> SubmitCommand option" where
  "bind_request body =
     (case Option.bind (first_value_text body) raw_object of
        Some (Some ms) \<Rightarrow>
          (case (raw_string_field ''source_system'' ms [], raw_string_field ''source_request_id'' ms [],
                 raw_string_field ''provider_code'' ms [], raw_string_field ''provider_action'' ms []) of
             (Some a, Some b, Some c, Some d) \<Rightarrow>
               let payload = raw_field ''payload'' ms [] in
               if a = [] \<or> b = [] \<or> c = [] \<or> d = [] \<or> payload = [] then None
               else Some \<lparr>sc_SourceSystem = a, sc_SourceRequestID = b, sc_ProviderCode = c,
                          sc_ProviderAction = d, sc_Payload = payload\<rparr>
           | _ \<Rightarrow> None)
      | _ \<Rightarrow> None)"

definition create_response :: "SubmitResult \<Rightarrow> createMessageResponse" where
  "create_response result =
     \<lparr>cm_EventID = sr_EventID result, cm_SourceSystem = sr_SourceSystem result,
      cm_SourceRequestID = sr_SourceRequestID result, cm_Status = sr_Status result,
      cm_Duplicate = sr_Duplicate result, cm_AcceptedAt = sr_AcceptedAt result\<rparr>"

definition createMessage ::
  "(uuid \<Rightarrow> string) \<Rightarrow> Registry \<Rightarrow> (errorCode \<Rightarrow> string) \<Rightarrow> string \<Rightarrow> apiResponse prog" where
  "createMessage uuid_String reg msg body =
     (case bind_request body of
        None \<Rightarrow> Return (writeError msg 400 errInvalidRequest)
      | Some cmd \<Rightarrow>
        bind (Submit uuid_String reg cmd) (\<lambda>r. Return (case r of
          Inl e \<Rightarrow> writeSubmitError msg e
        | Inr result \<Rightarrow> writeSuccess 202 (CreateMessageData (create_response result)))))"

definition status_response :: "(uuid \<Rightarrow> string) \<Rightarrow> Event \<Rightarrow> messageStatusResponse" where
  "status_response uuid_String ev =
     \<lparr>mg_EventID = uuid_String (ev_ID ev), mg_SourceSystem = ev_SourceSystem ev,
      mg_SourceRequestID = ev_SourceRequestID ev, mg_ProviderCode = ev_ProviderCode ev,
      mg_ProviderAction = ev_ProviderAction ev, mg_Status = status_string (ev_Status ev),
      mg_AttemptCount = ev_AttemptCount ev, mg_LastResult = ev_LastResult ev,
      mg_ProviderResponse = ev_ProviderResponse ev, mg_CreatedAt = ev_CreatedAt ev,
      mg_UpdatedAt = ev_UpdatedAt ev\<rparr>"

definition getMessage ::
  "(uuid \<Rightarrow> string) \<Rightarrow> (errorCode \<Rightarrow> string) \<Rightarrow> StatusQuery \<Rightarrow> apiResponse prog" where
  "getMessage uuid_String msg q =
     bind (GetStatus q) (\<lambda>r. Return (case r of
       Inl e \<Rightarrow> writeStatusError msg e
     | Inr ev \<Rightarrow> writeSuccess 200 (MessageStatusData (status_response uuid_String ev))))"

text \<open>The reply repeats the capabilities: provider codes, each with its actions and descriptions.\<close>

definition copy_capabilities :: "ProviderCapability list \<Rightarrow> ProviderCapability list" where
  "copy_capabilities = map (\<lambda>(code, actions). (code, map (\<lambda>(a, d). (a, d)) actions))"

definition listProviders :: "Registry \<Rightarrow> apiResponse" where
  "listProviders reg =
     writeSuccess 200 (ProviderCapabilitiesData (copy_capabilities (ListCapabilities reg)))"

section \<open>The router (router.go, middleware.go, swagger.go)\<close>

text \<open>
  The readiness check is a function that is called while a request is served: it gets the
  answers the dependencies would give at that moment and tells which of them it asked, in
  order, and the error it returns. A failing dependency answers with an error text.
\<close>

datatype dependency = Database | Broker

type_synonym dependency_answers = "dependency \<Rightarrow> string option"

type_synonym readiness_check = "dependency_answers \<Rightarrow> dependency list \<times> string option"

record Deps =
  dp_Registry :: Registry
  dp_AuthVerifier :: "string list option"
  dp_AuthTokens :: "string list"
  dp_MaxBodyBytes :: int
  dp_SwaggerEnabled :: bool
  dp_Ready :: "readiness_check option"

text \<open>
  What the handlers read of a request: \<open>rq_Path\<close> is the decoded path, \<open>rq_SourceSystem\<close> the
  query parameter, empty when it is missing, like the headers.
\<close>

record http_request =
  rq_Method :: string
  rq_Path :: string
  rq_SourceSystem :: string
  rq_Authorization :: string
  rq_AcceptLanguage :: string
  rq_Body :: string

datatype http_reply =
    Reply apiResponse
  | Redirect int string
  | DocsIndex string
  | DocsAsset string

text \<open>
  \<open>maxBodyBytes\<close>: a reader behind \<open>http.MaxBytesReader\<close> sees the first bytes and then an
  error, so a handler that decodes one JSON value succeeds when the value ends within them.
\<close>

definition maxBodyBytes :: "int \<Rightarrow> string \<Rightarrow> string" where
  "maxBodyBytes limit body = (if 0 < limit then take (nat limit) body else body)"

definition healthz :: apiResponse where
  "healthz = writeSuccess 200 EmptyData"

text \<open>The dependencies the probe asked, and its reply.\<close>

definition readyz ::
  "(errorCode \<Rightarrow> string) \<Rightarrow> readiness_check option \<Rightarrow> dependency_answers \<Rightarrow> dependency list \<times> apiResponse" where
  "readyz msg ready now =
     (case ready of
        None \<Rightarrow> ([], writeSuccess 200 (ReadinessData True))
      | Some check \<Rightarrow>
        (case check now of
           (asked, Some e) \<Rightarrow> (asked, writeError msg 503 errDependencyUnavailable)
         | (asked, None) \<Rightarrow> (asked, writeSuccess 200 (ReadinessData True))))"

text \<open>The page gets the token as a JavaScript literal; every other file is the library's.\<close>

definition swaggerHandler :: "string \<Rightarrow> string \<Rightarrow> http_reply" where
  "swaggerHandler defaultBearerToken file =
     (if file = ''/index.html'' then DocsIndex (quote defaultBearerToken) else DocsAsset file)"

datatype route =
    Healthz | Readyz | Docs | DocsFile string | Providers | CreateMessage | GetMessage string

text \<open>
  The registered route of a path and the method it is registered for. A path parameter is
  one non-empty segment; there is no redirect for a trailing slash.
\<close>

definition find_route :: "bool \<Rightarrow> string \<Rightarrow> (string \<times> route) option" where
  "find_route swagger path =
     (let param = TrimPrefix path ''/v1/messages/'' in
      if path = ''/healthz'' then Some (''GET'', Healthz)
      else if path = ''/readyz'' then Some (''GET'', Readyz)
      else if swagger \<and> path = ''/docs'' then Some (''GET'', Docs)
      else if swagger \<and> HasPrefix path ''/docs/'' then Some (''GET'', DocsFile (TrimPrefix path ''/docs''))
      else if path = ''/v1/providers'' then Some (''GET'', Providers)
      else if path = ''/v1/messages'' then Some (''POST'', CreateMessage)
      else if HasPrefix path ''/v1/messages/'' \<and> param \<noteq> [] \<and> CHR ''/'' \<notin> set param
      then Some (''GET'', GetMessage param)
      else None)"

text \<open>The authenticated group: a refused token never reaches the handler.\<close>

definition authenticated ::
  "string list option \<Rightarrow> (errorCode \<Rightarrow> string) \<Rightarrow> string \<Rightarrow> apiResponse prog \<Rightarrow> http_reply prog" where
  "authenticated v msg header handler =
     (if bearerAuth v header then bind handler (\<lambda>r. Return (Reply r))
      else Return (Reply (writeError msg 401 errUnauthenticated)))"

text \<open>
  A request with the dependencies the readiness probe asked while serving it; what the
  handlers of the API do to the table and the broker are the effects of the program.
\<close>

definition NewRouter ::
  "(uuid \<Rightarrow> string) \<Rightarrow> (string \<Rightarrow> rat option) \<Rightarrow> Deps \<Rightarrow> dependency_answers \<Rightarrow> http_request \<Rightarrow>
   (dependency list \<times> http_reply) prog" where
  "NewRouter uuid_String ParseFloat d now q =
     (let msg = localizedErrorMessage ParseFloat (rq_AcceptLanguage q);
          reply = (\<lambda>r. Return ([], r));
          auth = (\<lambda>handler. bind (authenticated (dp_AuthVerifier d) msg (rq_Authorization q) handler) reply);
          token = (case dp_AuthTokens d of [] \<Rightarrow> [] | t # _ \<Rightarrow> t) in
      case find_route (dp_SwaggerEnabled d) (rq_Path q) of
        None \<Rightarrow> reply (Reply (writeError msg 404 errRouteNotFound))
      | Some (verb, r) \<Rightarrow>
        if rq_Method q \<noteq> verb then reply (Reply (writeError msg 405 errMethodNotAllowed))
        else
        (case r of
           Healthz \<Rightarrow> reply (Reply healthz)
         | Readyz \<Rightarrow> Return (map_prod id Reply (readyz msg (dp_Ready d) now))
         | Docs \<Rightarrow> reply (Redirect 307 ''/docs/index.html'')
         | DocsFile file \<Rightarrow> reply (swaggerHandler token file)
         | Providers \<Rightarrow> auth (Return (listProviders (dp_Registry d)))
         | CreateMessage \<Rightarrow>
             auth (createMessage uuid_String (dp_Registry d) msg
                     (maxBodyBytes (dp_MaxBodyBytes d) (rq_Body q)))
         | GetMessage i \<Rightarrow>
             auth (getMessage uuid_String msg
                     \<lparr>sq_SourceSystem = rq_SourceSystem q, sq_SourceRequestID = i\<rparr>)))"

section \<open>gRPC (notification.go)\<close>

datatype grpc_code = InvalidArgument | AlreadyExists | NotFound | Unavailable | Internal | Unauthenticated

fun applicationError :: "service_error \<Rightarrow> grpc_code \<times> string" where
  "applicationError ErrInvalidRequest = (InvalidArgument, ''invalid notification request'')"
| "applicationError ErrUnsupportedProviderAction = (InvalidArgument, ''unsupported provider action'')"
| "applicationError (PayloadValidationError problems) =
     (InvalidArgument, ''invalid provider payload''
        @ (if problems = [] then [] else '': '' @ Join problems ''; ''))"
| "applicationError ErrInvalidPayload = (InvalidArgument, ''invalid provider payload'')"
| "applicationError ErrSourceRequestConflict =
     (AlreadyExists, ''source request conflicts with an existing notification'')"
| "applicationError ErrNotificationNotFound = (NotFound, ''notification not found'')"
| "applicationError (ErrStorageUnavailable e) = (Unavailable, ''notification storage unavailable'')"

datatype NotificationStatus =
    STATUS_UNSPECIFIED | STATUS_PENDING | STATUS_PROCESSING | STATUS_SUCCEEDED | STATUS_FAILED
  | STATUS_UNKNOWN

definition protoStatus :: "string \<Rightarrow> NotificationStatus" where
  "protoStatus value =
     (if value = ''PENDING'' then STATUS_PENDING
      else if value = ''PROCESSING'' then STATUS_PROCESSING
      else if value = ''FAILED'' then STATUS_FAILED
      else if value = ''SUCCEEDED'' then STATUS_SUCCEEDED
      else if value = ''UNKNOWN'' then STATUS_UNKNOWN
      else STATUS_UNSPECIFIED)"

record SubmitNotificationResponse =
  sn_EventId :: string
  sn_SourceSystem :: string
  sn_SourceRequestId :: string
  sn_Status :: NotificationStatus
  sn_Duplicate :: bool
  sn_AcceptedAt :: instant

definition SubmitNotification ::
  "(uuid \<Rightarrow> string) \<Rightarrow> Registry \<Rightarrow> SubmitCommand \<Rightarrow>
   (grpc_code \<times> string, SubmitNotificationResponse) result prog" where
  "SubmitNotification uuid_String reg cmd =
     bind (Submit uuid_String reg cmd) (\<lambda>r. Return (case r of
       Inl e \<Rightarrow> Inl (applicationError e)
     | Inr result \<Rightarrow>
         Inr \<lparr>sn_EventId = sr_EventID result, sn_SourceSystem = sr_SourceSystem result,
              sn_SourceRequestId = sr_SourceRequestID result,
              sn_Status = protoStatus (sr_Status result), sn_Duplicate = sr_Duplicate result,
              sn_AcceptedAt = sr_AcceptedAt result\<rparr>))"

text \<open>A nil column is an empty byte field.\<close>

record NotificationStatusResponse =
  nr_EventId :: string
  nr_SourceSystem :: string
  nr_SourceRequestId :: string
  nr_ProviderCode :: string
  nr_ProviderAction :: string
  nr_Status :: NotificationStatus
  nr_AttemptCount :: int
  nr_LastResultJson :: "json option"
  nr_ProviderResponseJson :: string
  nr_CreatedAt :: instant
  nr_UpdatedAt :: instant

definition GetNotificationStatus ::
  "(uuid \<Rightarrow> string) \<Rightarrow> StatusQuery \<Rightarrow> (grpc_code \<times> string, NotificationStatusResponse) result prog" where
  "GetNotificationStatus uuid_String q =
     bind (GetStatus q) (\<lambda>r. Return (case r of
       Inl e \<Rightarrow> Inl (applicationError e)
     | Inr ev \<Rightarrow>
         Inr \<lparr>nr_EventId = uuid_String (ev_ID ev), nr_SourceSystem = ev_SourceSystem ev,
              nr_SourceRequestId = ev_SourceRequestID ev, nr_ProviderCode = ev_ProviderCode ev,
              nr_ProviderAction = ev_ProviderAction ev,
              nr_Status = protoStatus (status_string (ev_Status ev)),
              nr_AttemptCount = ev_AttemptCount ev, nr_LastResultJson = ev_LastResult ev,
              nr_ProviderResponseJson = (case ev_ProviderResponse ev of None \<Rightarrow> [] | Some b \<Rightarrow> b),
              nr_CreatedAt = ev_CreatedAt ev, nr_UpdatedAt = ev_UpdatedAt ev\<rparr>))"

definition ListProviderCapabilities :: "Registry \<Rightarrow> ProviderCapability list" where
  "ListProviderCapabilities reg = copy_capabilities (ListCapabilities reg)"

section \<open>MCP (tools.go)\<close>

fun toolError :: "service_error \<Rightarrow> string" where
  "toolError ErrInvalidRequest = ''INVALID_REQUEST: required fields or payload are invalid''"
| "toolError ErrUnsupportedProviderAction =
     ''UNSUPPORTED_PROVIDER_ACTION: provider or action is not enabled''"
| "toolError (PayloadValidationError problems) =
     ''INVALID_PAYLOAD: payload does not meet provider requirements''
     @ (if problems = [] then [] else '': '' @ Join problems ''; '')"
| "toolError ErrInvalidPayload = ''INVALID_PAYLOAD: payload does not meet provider requirements''"
| "toolError ErrSourceRequestConflict =
     ''SOURCE_REQUEST_CONFLICT: the idempotency key was previously accepted with different content''"
| "toolError ErrNotificationNotFound = ''NOT_FOUND: notification was not found''"
| "toolError (ErrStorageUnavailable e) =
     ''STORAGE_UNAVAILABLE: notification storage is temporarily unavailable''"

definition decodeJSON :: "string option \<Rightarrow> json option" where
  "decodeJSON raw = (case raw of None \<Rightarrow> None | Some s \<Rightarrow> if s = [] then None else unmarshal s)"

text \<open>
  The payload arrives as a decoded map, \<open>None\<close> for a nil one, and is marshalled again (a
  decoded map always can be).
\<close>

definition marshal_map :: "(string \<times> json) list option \<Rightarrow> string" where
  "marshal_map m = Marshal (case m of None \<Rightarrow> JNull | Some ms \<Rightarrow> JObject ms)"

record submitOutput =
  so_EventID :: string
  so_SourceSystem :: string
  so_SourceRequestID :: string
  so_Status :: string
  so_Duplicate :: bool
  so_AcceptedAt :: string

definition submit_tool ::
  "(uuid \<Rightarrow> string) \<Rightarrow> Registry \<Rightarrow> SubmitCommand \<Rightarrow> (string \<times> json) list option \<Rightarrow>
   (string, submitOutput) result prog" where
  "submit_tool uuid_String reg cmd payload =
     bind (Submit uuid_String reg (cmd\<lparr>sc_Payload := marshal_map payload\<rparr>)) (\<lambda>r. Return (case r of
       Inl e \<Rightarrow> Inl (toolError e)
     | Inr result \<Rightarrow>
         Inr \<lparr>so_EventID = sr_EventID result, so_SourceSystem = sr_SourceSystem result,
              so_SourceRequestID = sr_SourceRequestID result, so_Status = sr_Status result,
              so_Duplicate = sr_Duplicate result, so_AcceptedAt = rfc3339 (sr_AcceptedAt result)\<rparr>))"

record getStatusOutput =
  go_EventID :: string
  go_SourceSystem :: string
  go_SourceRequestID :: string
  go_ProviderCode :: string
  go_ProviderAction :: string
  go_Status :: string
  go_AttemptCount :: int
  go_LastResult :: "json option"
  go_ProviderResponse :: "json option"
  go_CreatedAt :: string
  go_UpdatedAt :: string

definition get_status_tool ::
  "(uuid \<Rightarrow> string) \<Rightarrow> StatusQuery \<Rightarrow> (string, getStatusOutput) result prog" where
  "get_status_tool uuid_String q =
     bind (GetStatus q) (\<lambda>r. Return (case r of
       Inl e \<Rightarrow> Inl (toolError e)
     | Inr ev \<Rightarrow>
         Inr \<lparr>go_EventID = uuid_String (ev_ID ev), go_SourceSystem = ev_SourceSystem ev,
              go_SourceRequestID = ev_SourceRequestID ev, go_ProviderCode = ev_ProviderCode ev,
              go_ProviderAction = ev_ProviderAction ev, go_Status = status_string (ev_Status ev),
              go_AttemptCount = ev_AttemptCount ev, go_LastResult = ev_LastResult ev,
              go_ProviderResponse = decodeJSON (ev_ProviderResponse ev),
              go_CreatedAt = rfc3339 (ev_CreatedAt ev), go_UpdatedAt = rfc3339 (ev_UpdatedAt ev)\<rparr>))"

definition list_capabilities_tool :: "Registry \<Rightarrow> ProviderCapability list" where
  "list_capabilities_tool reg = copy_capabilities (ListCapabilities reg)"

section \<open>One meaning on every protocol\<close>

text \<open>
  What a client has to do about an error: fix the request, stop because the key is taken,
  give up looking, or try again later.
\<close>

datatype error_kind = FixRequest | KeyTaken | NoSuchNotification | TryLater | Broken

fun kind_of :: "service_error \<Rightarrow> error_kind" where
  "kind_of ErrSourceRequestConflict = KeyTaken"
| "kind_of ErrNotificationNotFound = NoSuchNotification"
| "kind_of (ErrStorageUnavailable e) = TryLater"
| "kind_of _ = FixRequest"

locale error_mapping =
  fixes render :: "service_error \<Rightarrow> 'r"
    and reads :: "'r \<Rightarrow> error_kind"
    and answers :: "service_error \<Rightarrow> bool"
  assumes faithful: "answers e \<Longrightarrow> reads (render e) = kind_of e"
begin

lemma retry_iff_storage:
  "answers e \<Longrightarrow> reads (render e) = TryLater \<longleftrightarrow> (\<exists>x. e = ErrStorageUnavailable x)"
  by (cases e) (auto simp: faithful)

lemma not_broken: "answers e \<Longrightarrow> reads (render e) \<noteq> Broken"
  by (cases e) (auto simp: faithful)

end

definition http_kind :: "int \<Rightarrow> error_kind" where
  "http_kind s =
     (if s = 400 \<or> s = 422 then FixRequest else if s = 409 then KeyTaken
      else if s = 404 then NoSuchNotification else if s = 503 then TryLater else Broken)"

fun grpc_kind :: "grpc_code \<Rightarrow> error_kind" where
  "grpc_kind InvalidArgument = FixRequest"
| "grpc_kind AlreadyExists = KeyTaken"
| "grpc_kind NotFound = NoSuchNotification"
| "grpc_kind Unavailable = TryLater"
| "grpc_kind Internal = Broken"
| "grpc_kind Unauthenticated = Broken"

definition mcp_kind :: "string \<Rightarrow> error_kind" where
  "mcp_kind s =
     (if HasPrefix s ''SOURCE_REQUEST_CONFLICT: '' then KeyTaken
      else if HasPrefix s ''NOT_FOUND: '' then NoSuchNotification
      else if HasPrefix s ''STORAGE_UNAVAILABLE: '' then TryLater
      else if HasPrefix s ''INTERNAL: '' then Broken
      else FixRequest)"

text \<open>The errors a submission and a status query can end with.\<close>

fun submit_error :: "service_error \<Rightarrow> bool" where
  "submit_error ErrNotificationNotFound = False"
| "submit_error _ = True"

fun status_error :: "service_error \<Rightarrow> bool" where
  "status_error ErrInvalidRequest = True"
| "status_error ErrNotificationNotFound = True"
| "status_error (ErrStorageUnavailable e) = True"
| "status_error _ = False"

interpretation rest_submit: error_mapping "writeSubmitError msg"
  "\<lambda>r. http_kind (ap_HTTPStatus r)" submit_error for msg
  by unfold_locales
    (auto simp: writeSubmitError_def writeError_def writePayloadValidationError_def http_kind_def
      split: service_error.splits)

interpretation rest_status: error_mapping "writeStatusError msg"
  "\<lambda>r. http_kind (ap_HTTPStatus r)" status_error for msg
  by unfold_locales
    (auto simp: writeStatusError_def writeError_def http_kind_def split: service_error.splits)

interpretation grpc: error_mapping applicationError "\<lambda>r. grpc_kind (fst r)" "\<lambda>_. True"
proof
  fix e show "grpc_kind (fst (applicationError e)) = kind_of e" by (cases e) simp_all
qed

interpretation mcp: error_mapping toolError mcp_kind "\<lambda>_. True"
proof
  fix e show "mcp_kind (toolError e) = kind_of e"
    by (cases e) (simp_all add: mcp_kind_def HasPrefix_def)
qed

lemma protoStatus_status_string:
  "protoStatus (status_string s) =
     (case s of PENDING \<Rightarrow> STATUS_PENDING | PROCESSING \<Rightarrow> STATUS_PROCESSING
      | SUCCEEDED \<Rightarrow> STATUS_SUCCEEDED | FAILED \<Rightarrow> STATUS_FAILED | UNKNOWN \<Rightarrow> STATUS_UNKNOWN)"
  by (cases s) (simp_all add: protoStatus_def)

text \<open>
  C40: The three protocols tell a client the same thing. Whatever error the application
  returns, the REST status, the gRPC code and the MCP error text mean the same kind of
  action to the client, no known error is reported as an internal one, and each of them asks
  for a later retry exactly when the storage was unavailable.
\<close>

theorem protocols_agree:
  "grpc_kind (fst (applicationError e)) = kind_of e \<and> mcp_kind (toolError e) = kind_of e
   \<and> (submit_error e \<longrightarrow> http_kind (ap_HTTPStatus (writeSubmitError msg e)) = kind_of e)
   \<and> (status_error e \<longrightarrow> http_kind (ap_HTTPStatus (writeStatusError msg e)) = kind_of e)
   \<and> kind_of e \<noteq> Broken \<and> (kind_of e = TryLater \<longleftrightarrow> (\<exists>x. e = ErrStorageUnavailable x))"
  using grpc.retry_iff_storage[of e] grpc.not_broken[of e]
  by (simp add: grpc.faithful mcp.faithful rest_submit.faithful rest_status.faithful)

text \<open>A status route never carries an id with a slash.\<close>

lemma find_route_slash: "find_route sw path = Some (v, GetMessage i) \<Longrightarrow> CHR ''/'' \<notin> set i \<and> i \<noteq> []"
  by (auto simp: find_route_def Let_def split: if_splits)

end
