(* ===== verification/Witnesses.thy ===== *)
theory Witnesses
  imports Memory_Broker RabbitMQ NSQ Webhook Lark Api
begin

text \<open>
  Concrete inputs on which the hypotheses of the properties hold, each used with its
  property.
\<close>

section \<open>Breaker and limiter\<close>

lemma word32_compare: "\<not> (2 :: uint32) \<le> 1"
  by (simp add: word_le_nat_alt)

definition wit_breaker_config :: CircuitBreakerConfig where
  "wit_breaker_config = \<lparr>cb_FailureThreshold = 2, cb_OpenDuration = 30 * second\<rparr>"

definition wit_open :: actionBreaker where
  "wit_open = openLocked 0 ((new_breaker wit_breaker_config)\<lparr>ab_consecutiveFailure := 2\<rparr>)"

definition wit_half_open :: actionBreaker where
  "wit_half_open = snd (allow ''hook/deliver'' (60 * second) wit_open)"

definition wit_probe :: BreakerPermit where
  "wit_probe = bd_Permit (fst (allow ''hook/deliver'' (60 * second) wit_open))"

lemma wit_open_eq:
  "wit_open = \<lparr>ab_failureThreshold = 2, ab_openDuration = 30 * second, ab_state = breakerOpen,
     ab_consecutiveFailure = 2, ab_generation = 1, ab_openUntil = 30 * second,
     ab_halfOpenInFlight = False\<rparr>"
  by (simp add: wit_open_def wit_breaker_config_def openLocked_def transitionLocked_def new_breaker_def)

lemma wit_half_open_eq:
  "wit_half_open = wit_open\<lparr>ab_state := breakerHalfOpen, ab_halfOpenInFlight := True\<rparr>"
  "wit_probe = \<lparr>bp_breaker = Some ''hook/deliver'', bp_generation = 1, bp_halfOpen = True\<rparr>"
  by (simp_all add: wit_half_open_def wit_probe_def wit_open_eq allow_def probe_permit_def
      transitionLocked_def second_def Let_def)

text \<open>Two failures open the breaker; a minute later the next caller is the probe.\<close>

lemma wit_run_open: "breaker_run wit_breaker_config 4 wit_open []"
proof -
  let ?k = "''hook/deliver''" and ?b = "new_breaker wit_breaker_config"
  let ?p = "\<lparr>bp_breaker = Some ?k, bp_generation = 0, bp_halfOpen = False\<rparr>"
  let ?b1 = "?b\<lparr>ab_consecutiveFailure := 1\<rparr>"
  have a: "allow ?k 0 b = (\<lparr>bd_Allowed = True, bd_Permit = ?p, bd_RetryAfter = 0\<rparr>, b)"
    if "ab_state b = breakerClosed" "ab_generation b = 0" for b
    using that by (simp add: allow_def)
  have "breaker_run wit_breaker_config 0 ?b []"
    by (rule run_start) (simp add: wit_breaker_config_def)
  from run_allow[OF this a] have "breaker_run wit_breaker_config 1 ?b [?p]" by simp
  from run_observe[OF this, of ?p 0 BreakerUnavailable]
  have "breaker_run wit_breaker_config 2 ?b1 []"
    by (simp add: observe_def Let_def wit_breaker_config_def eval_nat_numeral word32_compare)
  from run_allow[OF this a] have "breaker_run wit_breaker_config 3 ?b1 [?p]"
    by (simp add: eval_nat_numeral)
  from run_observe[OF this, of ?p 0 BreakerUnavailable] show ?thesis
    by (simp add: observe_def Let_def wit_breaker_config_def eval_nat_numeral wit_open_eq
        openLocked_def transitionLocked_def) (simp add: new_breaker_def)
qed

lemma wit_run_probe: "breaker_run wit_breaker_config 5 wit_half_open [wit_probe]"
proof -
  have "allow ''hook/deliver'' (60 * second) wit_open =
      (\<lparr>bd_Allowed = True, bd_Permit = wit_probe, bd_RetryAfter = 0\<rparr>, wit_half_open)"
    by (simp add: wit_half_open_eq wit_open_eq allow_def probe_permit_def transitionLocked_def
        second_def Let_def)
  from run_allow[OF wit_run_open this] show ?thesis by (simp add: eval_nat_numeral)
qed

theorem breaker_single_probe_witness:
  "breaker_run wit_breaker_config 5 wit_half_open [wit_probe]
   \<and> probes wit_half_open [wit_probe] = 1
   \<and> \<not> bd_Allowed (fst (allow ''hook/deliver'' (61 * second) wit_half_open))"
proof -
  have refused: "\<not> bd_Allowed (fst (allow ''hook/deliver'' (61 * second) wit_half_open))"
    by (simp add: wit_half_open_eq wit_open_eq allow_def refusal_def)
  moreover have "ab_state wit_half_open = breakerHalfOpen" by (simp add: wit_half_open_eq)
  ultimately have "probes wit_half_open [wit_probe] = 1"
    using breaker_single_probe[OF wit_run_probe, of "''hook/deliver''" "61 * second"] by simp
  with refused wit_run_probe show ?thesis by blast
qed

theorem breaker_open_window_witness:
  "breaker_run wit_breaker_config 4 wit_open []
   \<and> allow ''hook/deliver'' (10 * second) wit_open =
       (refusal (time_sub (30 * second) (10 * second)), wit_open)
   \<and> bd_Allowed (fst (allow ''hook/deliver'' (30 * second) wit_open))"
  using breaker_open_window[OF wit_run_open, of "''hook/deliver''"] wit_run_open
  by (simp add: wit_open_eq second_def)

text \<open>A failure, a success and another failure leave a row of one; the next failure opens.\<close>

definition wit_permit :: BreakerPermit where
  "wit_permit = \<lparr>bp_breaker = Some ''hook/deliver'', bp_generation = 0, bp_halfOpen = False\<rparr>"

definition wit_once :: actionBreaker where
  "wit_once = (new_breaker wit_breaker_config)\<lparr>ab_consecutiveFailure := 1\<rparr>"

definition wit_events :: "breaker_event list" where
  "wit_events = [Asked, Answered True BreakerUnavailable, Asked, Answered True BreakerReachable,
     Asked, Answered True BreakerUnavailable, Asked]"

lemma wit_history: "breaker_history wit_breaker_config wit_events wit_once [wit_permit]"
proof -
  let ?b = "new_breaker wit_breaker_config" and ?h = "breaker_history wit_breaker_config"
  have asked: "?h (Asked # es) b (wit_permit # ps)"
    if "?h es b ps" "ab_state b = breakerClosed" "ab_generation b = 0" for es b ps
    using history_allow[OF that(1), of "''hook/deliver''" 0] that(2,3)
    by (simp add: allow_def wit_permit_def)
  have failed: "?h (Answered True BreakerUnavailable # es) wit_once []" if "?h es ?b [wit_permit]" for es
    using history_observe[OF that, of wit_permit BreakerUnavailable 0]
    by (simp add: observe_def Let_def wit_permit_def wit_once_def wit_breaker_config_def word32_compare)
  have reached: "?h (Answered True BreakerReachable # es) ?b []" if "?h es wit_once [wit_permit]" for es
    using history_observe[OF that, of wit_permit BreakerReachable 0]
    by (simp add: observe_def Let_def wit_permit_def wit_once_def) (simp add: new_breaker_def)
  have closed: "ab_state wit_once = breakerClosed" "ab_generation wit_once = 0"
    by (simp_all add: wit_once_def)
  have "?h [] ?b []" by (rule history_start) (simp add: wit_breaker_config_def)
  then show ?thesis unfolding wit_events_def
    by (intro asked failed reached closed new_breaker_fields)
qed

theorem breaker_trips_at_threshold_witness:
  "breaker_history wit_breaker_config wit_events wit_once [wit_permit]
   \<and> streak wit_events = 1 \<and> ab_state wit_once = breakerClosed
   \<and> ab_state (observe (7 * second) wit_permit BreakerUnavailable wit_once) = breakerOpen
   \<and> ab_openUntil (observe (7 * second) wit_permit BreakerUnavailable wit_once) = 37 * second"
proof -
  have "streak wit_events = 1" "length wit_events < 2 ^ 64" "unat (cb_FailureThreshold wit_breaker_config) = 2"
    "bp_generation wit_permit = ab_generation wit_once" "cb_OpenDuration wit_breaker_config = 30 * second"
    by (simp_all add: wit_events_def wit_breaker_config_def wit_permit_def wit_once_def)
  with breaker_trips_at_threshold[OF wit_history] wit_history show ?thesis
    by (simp add: second_def)
qed

definition wit_limiters :: Limiters where
  "wit_limiters = fold (\<lambda>(k, rps, conc). Register_limiter k rps conc) [(''a/b'', 10, 1)] Map.empty"

theorem concurrency_bounded_witness:
  "\<exists>ls. limiter_run ls [ReleaseSlot ''a/b'']
    \<and> Acquire \<lparr>aq_wait = None, aq_done = None, aq_prefer_done = True\<rparr> ''a/b'' ls \<noteq>
        Some (Inr (ReleaseSlot ''a/b''), ls)
    \<and> count_list [ReleaseSlot ''a/b''] (ReleaseSlot ''a/b'') \<le> 1"
proof -
  let ?env = "\<lparr>aq_wait = None, aq_done = None, aq_prefer_done = True\<rparr>"
  let ?al = "\<lparr>al_rate = Some (10, 10), al_sem = Some 1, al_inUse = 1\<rparr>"
  let ?ls = "Map.empty(''a/b'' \<mapsto> ?al)"
  have "limiter_run wit_limiters []" unfolding wit_limiters_def by (rule registered)
  moreover have "Acquire ?env ''a/b'' wit_limiters = Some (Inr (ReleaseSlot ''a/b''), ?ls)"
    by (simp add: wit_limiters_def Register_limiter_def Acquire_def)
  ultimately have run: "limiter_run ?ls [ReleaseSlot ''a/b'']" by (rule acquired)
  from concurrency_bounded[OF this, of "''a/b''" ?al 1 True] show ?thesis
    using run by (intro exI[of _ ?ls]) auto
qed

section \<open>Brokers\<close>

definition wit_requeue :: RequeueConfig where
  "wit_requeue = \<lparr>rq_DefaultRequeueDelay = 30 * second, rq_MaxRequeueDelay = 900 * second,
     rq_MaxAttempts = 3\<rparr>"

lemma wit_requeue_valid: "validateRequeueConfig driver wit_requeue = Inr ()"
  by (simp add: validate_ok_iff wit_requeue_def second_def word_le_nat_alt)

theorem requeue_delay_policy_witness:
  "validateRequeueConfig ''memory'' wit_requeue = Inr ()
   \<and> linearRequeueDelay 2 (30 * second) (900 * second) = 60 * second
   \<and> linearRequeueDelay 100 (30 * second) (900 * second) = 900 * second
   \<and> linearRequeueDelay 2 (30 * second) (900 * second)
       \<le> linearRequeueDelay 100 (30 * second) (900 * second)"
proof -
  have max: "rq_MaxRequeueDelay wit_requeue \<le> max_int64"
    by (simp add: wit_requeue_def second_def max_int64_def)
  show ?thesis
    using requeue_delay_policy[OF wit_requeue_valid[of "''memory''"] max, of 2 100]
      requeue_delay_policy[OF wit_requeue_valid[of "''memory''"] max, of 100 100]
      wit_requeue_valid[of "''memory''"]
    by (simp add: wit_requeue_def second_def word_le_nat_alt)
qed

definition wit_rabbit :: RabbitMQConfig where
  "wit_rabbit = \<lparr>rc_URL = ''amqp://mq'', rc_Exchange = ''n'', rc_ExchangeType = ''direct'',
     rc_RoutingKey = [], rc_Queue = ''n'', rc_Durable = True, rc_PrefetchCount = 0, rc_ReconnectDelay = 0,
     rc_RequeueConfig = wit_requeue\<rparr>"

definition wit_memory_config :: MemoryConfig where
  "wit_memory_config = \<lparr>mc_BufferSize = 1, mc_RequeueConfig = wit_requeue\<rparr>"

definition wit_memory :: MemoryBroker where
  "wit_memory = \<lparr>mb_jobs = [], mb_capacity = 1, mb_config = wit_requeue, mb_started = False,
     mb_closed = False, mb_requeues = [], mb_workers = 0, mb_running = []\<rparr>"

lemma wit_memory_reachable: "memory_reachable wit_memory_config wit_memory"
  by (rule memory_reachable.fresh)
    (simp add: NewMemoryBroker_def wit_memory_config_def wit_memory_def wit_requeue_valid)

text \<open>A buffer of one message takes one message and refuses the second.\<close>

theorem memory_queue_bounded_witness:
  "memory_reachable wit_memory_config wit_memory
   \<and> Publish \<lparr>sd_done = None, sd_pick_done = False\<rparr> 9 wit_memory =
       (Inr False, wit_memory\<lparr>mb_jobs := [\<lparr>mm_eventID = 9, mm_attempts = 1\<rparr>]\<rparr>)
   \<and> fst (Publish \<lparr>sd_done = None, sd_pick_done = False\<rparr> 10
       (wit_memory\<lparr>mb_jobs := [\<lparr>mm_eventID = 9, mm_attempts = 1\<rparr>]\<rparr>)) = Inl ErrMemoryQueueFull"
proof -
  let ?env = "\<lparr>sd_done = None, sd_pick_done = False\<rparr>"
  have one: "Publish ?env 9 wit_memory =
      (Inr False, wit_memory\<lparr>mb_jobs := [\<lparr>mm_eventID = 9, mm_attempts = 1\<rparr>]\<rparr>)"
    using memory_queue_bounded[OF wit_memory_reachable, of False 9]
    by (simp add: wit_memory_def wit_memory_config_def)
  have "memory_reachable wit_memory_config (snd (Publish ?env 9 wit_memory))"
    by (rule memory_reachable.later[OF wit_memory_reachable memory_step.publish])
  from memory_queue_bounded[OF this[unfolded one snd_conv], of False 10] one wit_memory_reachable
  show ?thesis by (simp add: wit_memory_def wit_memory_config_def)
qed

text \<open>
  One text of a uuid that satisfies what the code relies on: its 128 bits, least
  significant first.
\<close>

definition bits_text :: "uuid \<Rightarrow> string" where
  "bits_text i = map (\<lambda>n. if bit i n then CHR ''1'' else CHR ''0'') [0..<128]"

definition bits_parse :: "string \<Rightarrow> uuid option" where
  "bits_parse s = Some (horner_sum of_bool 2 (map (\<lambda>c. c = CHR ''1'') s))"

lemma bits_uuid_text: "uuid_text bits_text bits_parse"
proof -
  have "map (\<lambda>c. c = CHR ''1'') (bits_text i) = map (bit i) [0..<128]" for i
    by (simp add: bits_text_def comp_def)
  then have "bits_parse (bits_text i) = Some i" for i
    by (simp add: bits_parse_def horner_sum_bit_eq_take_bit take_bit_word_eq_self)
  then show ?thesis by (auto simp: uuid_text_def bits_text_def)
qed

theorem envelope_round_trip_witness:
  "uuid_text bits_text bits_parse \<and> decode bits_parse (encode bits_text 42) = Inr 42"
  using envelope_round_trip[OF bits_uuid_text, of 42] bits_uuid_text by blast

theorem rabbit_requeue_no_loss_witness:
  "RabbitMQ.requeueAfter bits_text wit_rabbit False (Some (Confirmed True))
     \<lparr>ad_Headers = None, ad_Body = ''{}'', ad_Properties = no_properties\<rparr> 42 1 =
   [PublishRetry (retry_publishing bits_text wit_rabbit
      \<lparr>ad_Headers = None, ad_Body = ''{}'', ad_Properties = no_properties\<rparr> 42 (next_attempts 1)), Ack]"
proof -
  let ?d = "\<lparr>ad_Headers = None, ad_Body = ''{}'', ad_Properties = no_properties\<rparr>"
  have "Ack \<in> set (RabbitMQ.requeueAfter bits_text wit_rabbit False (Some (Confirmed True)) ?d 42 1)"
    by (simp add: RabbitMQ.requeueAfter_def publishRetry_def)
  with rabbit_requeue_no_loss[of bits_text wit_rabbit False "Some (Confirmed True)" ?d 42 1]
  show ?thesis by blast
qed

section \<open>Providers\<close>

definition wit_wire :: "string \<Rightarrow> wire_response" where
  "wit_wire body = \<lparr>wr_StatusCode = 200, wr_Header = [(''Content-Type'', ''application/json'')],
     wr_Body = body, wr_readError = None\<rparr>"

definition wit_network :: "string \<Rightarrow> network" where
  "wit_network body = \<lparr>nt_http = \<lambda>_. Inr (wit_wire body), nt_now = 1700000000 * second,
     nt_cancelled = False,
     nt_cause = ''context canceled'', nt_smtp = \<lambda>_ _. None, nt_boundary = ''b0'',
     nt_fcm = \<lparr>fe_cause = None, fe_NewApp = \<lambda>_ _. None, fe_Send = \<lambda>_ _. Inr ''m''\<rparr>\<rparr>"

definition wit_request :: Request where
  "wit_request = \<lparr>hq_Method = ''POST'', hq_URL = ''https://v/x'', hq_Headers = [], hq_Body = [],
     hq_Timeout = 0, hq_RejectRedirects = True\<rparr>"

definition wit_context :: ActionContext where
  "wit_context = \<lparr>ac_ProviderCode = ''hook'', ac_ProviderAction = ''deliver'', ac_BaseURL = [],
     ac_Path = ''https://v/x'', ac_Method = ''POST'', ac_Credential = [], ac_TimeoutMs = 5000,
     ac_SourceSystem = ''shop'', ac_SourceRequestID = ''1'', ac_HTTPClient = Some 1048576,
     ac_AllowedRespHeaders = []\<rparr>"

lemma empty_object_valid: "validateWebhookPayload ''{}'' = None"
  by code_simp

lemma wit_Send:
  "length body < 1000 \<Longrightarrow> \<exists>rec. Send (wit_network body) wit_context req = Inr
     (\<lparr>hr_StatusCode = 200, hr_Header = [(''Content-Type'', ''application/json'')],
       hr_Body = body, hr_Truncated = False\<rparr>, rec)"
  by (simp add: Send_def Do_def wit_context_def wit_network_def wit_wire_def Let_def)

theorem webhook_success_on_the_wire_witness:
  "\<exists>r req w. ad_SendActionRequest (Webhook webhookAuthNone) (wit_network ''ok'') wit_context ''deliver'' ''{}''
       = Inr (Some r) \<and> pr_Success r
     \<and> nt_http (wit_network ''ok'') req = Inr w \<and> wr_StatusCode w < 300 \<and> hq_Body req = ''{}''"
proof -
  let ?net = "wit_network ''ok''"
  obtain headers where h: "webhook_headers webhookAuthNone (nt_now ?net) wit_context ''{}'' = Inr headers"
    by (simp add: webhook_headers_def webhookAuthNone_def webhookAuthBearer_def webhookAuthHMAC_def Let_def)
  obtain r where r: "ad_SendActionRequest (Webhook webhookAuthNone) ?net wit_context ''deliver'' ''{}''
      = Inr (Some r)" "pr_Success r"
    using wit_Send[of "''ok''" "\<lparr>hq_Method = ac_Method wit_context, hq_URL = ac_Path wit_context,
        hq_Headers = headers, hq_Body = ''{}'', hq_Timeout = 0, hq_RejectRedirects = True\<rparr>"] h
    by (auto simp: Webhook_def webhook_SendActionRequest_def webhookActionDeliver_def empty_object_valid
        interpretWebhookResponse_def result_zero_def Let_def wit_context_def)
  from webhook_success_on_the_wire[OF this] r show ?thesis by blast
qed

definition wit_url :: url_parser where
  "wit_url s = (if s = ''https://v/x'' then Some \<lparr>u_Scheme = ''https'', u_Host = ''v'', u_Hostname = ''v'',
     u_HasUser = False, u_Path = ''/x'', u_RawQuery = [], u_Fragment = []\<rparr> else None)"

definition wit_webhook :: webhookConfig where
  "wit_webhook = \<lparr>wc_CredentialRef = [], wc_EndpointURL = '' https://v/x'', wc_Authentication = [],
     wc_TimeoutMs = 5000, wc_RequestsPerSecond = 5, wc_MaxConcurrency = 2, wc_CircuitBreaker = None\<rparr>"

lemma wit_trim: "TrimSpace '' https://v/x'' = ''https://v/x''" "TrimSpace [] = []" "ToLower [] = []"
  by code_simp+

text \<open>The configuration is accepted with the leading blank of its endpoint kept.\<close>

theorem webhook_config_safe_witness:
  "\<exists>pc. webhook_Config wit_url (\<lambda>_. False) wit_webhook = Inr (pc, webhookAuthNone)
     \<and> (\<exists>cf. pc_Actions pc = [(webhookActionDeliver, cf)] \<and> cf_Path cf = '' https://v/x'')"
proof -
  obtain pc where pc: "webhook_Config wit_url (\<lambda>_. False) wit_webhook = Inr (pc, webhookAuthNone)"
    by (simp add: webhook_Config_def validateFixedWebhookURL_def wit_webhook_def wit_trim wit_url_def
        bare_url_def validateDeliveryLimits_def webhook_auth_def normalizeCircuitBreaker_def Let_def
        webhookAuthNone_def webhookAuthBearer_def webhookAuthHMAC_def)
  from webhook_config_safe[OF this] pc show ?thesis by (auto simp: wit_webhook_def)
qed

theorem protocols_agree_witness:
  "http_kind (ap_HTTPStatus (writeSubmitError message_en (ErrStorageUnavailable ''x'')))
     = TryLater
   \<and> http_kind (ap_HTTPStatus (writeStatusError message_en ErrNotificationNotFound))
     = NoSuchNotification"
  using protocols_agree[of "ErrStorageUnavailable ''x''" message_en]
    protocols_agree[of ErrNotificationNotFound message_en]
  by simp

end
