(* ===== verification/Compensator.thy ===== *)
theory Compensator
  imports Publish
begin

text \<open>
  internal/worker/compensator.go: the two background scans. Each is a program that selects
  a batch and repairs its rows one by one; its loop runs it at start-up and then at every
  tick. Log lines are left out.
\<close>

record CompensatorConfig =
  cc_PublishScanInterval :: duration
  cc_PublishBatchSize :: int
  cc_LeaseScanInterval :: duration
  cc_LeaseScanBatchSize :: int

section \<open>Reading last_result\<close>

definition phaseOf :: "json option \<Rightarrow> string" where
  "phaseOf lastResult =
     (case lastResult of
        None \<Rightarrow> PhaseClaimed
      | Some v \<Rightarrow>
        (case decode_string_field ''phase'' v of
           None \<Rightarrow> PhaseClaimed
         | Some phase \<Rightarrow> if phase = PhaseRequesting then PhaseRequesting else PhaseClaimed))"

definition outcomeOf :: "json option \<Rightarrow> string" where
  "outcomeOf lastResult =
     (case lastResult of
        None \<Rightarrow> []
      | Some v \<Rightarrow> (case decode_string_field ''outcome'' v of None \<Rightarrow> [] | Some s \<Rightarrow> s))"

section \<open>The scans\<close>

fun for_each :: "('a \<Rightarrow> unit prog) \<Rightarrow> 'a list \<Rightarrow> unit prog" where
  "for_each f [] = Return ()"
| "for_each f (x # xs) = bind (f x) (\<lambda>_. for_each f xs)"

definition scanPendingPublish :: "(uuid \<Rightarrow> string) \<Rightarrow> CompensatorConfig \<Rightarrow> unit prog" where
  "scanPendingPublish uuid_String cfg =
     (let limit = (if cc_PublishBatchSize cfg \<le> 0 then 500 else cc_PublishBatchSize cfg) in
      RepoPending (nat limit) (\<lambda>ids. case ids of
        Inl e \<Rightarrow> Return ()
      | Inr is \<Rightarrow> for_each (\<lambda>i. bind (PublishAndMark uuid_String i) (\<lambda>_. Return ())) is))"

definition lease_or_default :: "duration \<Rightarrow> duration" where
  "lease_or_default d = (if d \<le> 0 then 60 * second else d)"

definition expired_result :: "Event \<Rightarrow> instant \<Rightarrow> LastResultFinished" where
  "expired_result ev now =
     (let requestMayHaveBeenSent = (phaseOf (ev_LastResult ev) = PhaseRequesting) in
      finished_zero\<lparr>
        lr_Outcome := OutcomeRequeueRequested,
        lr_ErrorClass :=
          (if requestMayHaveBeenSent then ''WORKER_LEASE_EXPIRED_DURING_REQUEST''
           else ''WORKER_LEASE_EXPIRED''),
        lr_Message :=
          (if requestMayHaveBeenSent
           then ''worker lease expired while an outbound request may have been in flight''
           else ''worker lease expired before the provider request completed''),
        lr_RequestMayHaveBeenSent := requestMayHaveBeenSent, lr_Retryable := True,
        lr_NextAttemptAt := Some now, lr_AttemptNumber := ev_AttemptCount ev,
        lr_FinishedAt := now\<rparr>)"

definition recoverOne :: "(uuid \<Rightarrow> string) \<Rightarrow> duration \<Rightarrow> Event \<Rightarrow> unit prog" where
  "recoverOne uuid_String leaseDuration ev =
     (let publish = bind (PublishAndMark uuid_String (ev_ID ev)) (\<lambda>_. Return ()) in
      case ev_LeaseToken ev of
        None \<Rightarrow>
          if outcomeOf (ev_LastResult ev) = OutcomeRequeueRequested
          then RepoExec (OpReserve (ev_ID ev) (lease_or_default leaseDuration)) (\<lambda>err.
                 case err of Some e \<Rightarrow> Return () | None \<Rightarrow> publish)
          else Return ()
      | Some tok \<Rightarrow>
          TimeNow (\<lambda>now.
            RepoExec (OpRecover (ev_ID ev) tok (now + lease_or_default leaseDuration)
                        (marshal_finished (expired_result ev now))) (\<lambda>err.
              case err of Some e \<Rightarrow> Return () | None \<Rightarrow> publish)))"

definition scanExpiredLeases ::
  "(uuid \<Rightarrow> string) \<Rightarrow> CompensatorConfig \<Rightarrow> duration \<Rightarrow> unit prog" where
  "scanExpiredLeases uuid_String cfg leaseDuration =
     (let limit = (if cc_LeaseScanBatchSize cfg \<le> 0 then 200 else cc_LeaseScanBatchSize cfg) in
      RepoExpired (nat limit) (\<lambda>events. case events of
        Inl e \<Rightarrow> Return ()
      | Inr evs \<Rightarrow> for_each (recoverOne uuid_String leaseDuration) evs))"

text \<open>
  The loop around a scan: it runs once at start-up and then at every tick, until the
  context is done. Which arrive is the environment's list (\<open>True\<close>: the ticker fired,
  \<open>False\<close>: the context is done); at its end the loop still waits.
\<close>

definition loop_interval :: "duration \<Rightarrow> duration" where
  "loop_interval interval = (if interval \<le> 0 then 30 * second else interval)"

fun loop_ticks :: "unit prog \<Rightarrow> bool list \<Rightarrow> unit prog" where
  "loop_ticks scan [] = Return ()"
| "loop_ticks scan (True # ticks) = bind scan (\<lambda>_. loop_ticks scan ticks)"
| "loop_ticks scan (False # ticks) = Return ()"

definition loop :: "unit prog \<Rightarrow> bool \<Rightarrow> bool list \<Rightarrow> unit prog" where
  "loop scan done_after_first ticks =
     bind scan (\<lambda>_. if done_after_first then Return () else loop_ticks scan ticks)"

text \<open>\<open>Run\<close> starts both loops, each at its own interval, and returns.\<close>

definition compensator_Run ::
  "(uuid \<Rightarrow> string) \<Rightarrow> CompensatorConfig \<Rightarrow> duration \<Rightarrow> (duration \<times> (bool \<Rightarrow> bool list \<Rightarrow> unit prog)) list" where
  "compensator_Run uuid_String cfg leaseDuration =
     [(loop_interval (cc_PublishScanInterval cfg), loop (scanPendingPublish uuid_String cfg)),
      (loop_interval (cc_LeaseScanInterval cfg), loop (scanExpiredLeases uuid_String cfg leaseDuration))]"

end
