(* ===== verification/Program_Laws.thy ===== *)
theory Program_Laws
  imports Program
begin

text \<open>
  Running a program on its own: guarded statements as updates of the one row they select,
  and the vocabulary in which the behaviour of the handlers is stated.
\<close>

section \<open>Updating one row\<close>

definition on_row :: "uuid \<Rightarrow> (Event \<Rightarrow> Event) \<Rightarrow> table \<Rightarrow> table" where
  "on_row i f t = update_where (\<lambda>r. ev_ID r = i) f t"

lemma on_row_lookup:
  assumes "\<And>r. ev_ID (f r) = ev_ID r"
  shows "lookup_row j (on_row i f t) = (if j = i then map_option f (lookup_row i t) else lookup_row j t)"
proof -
  have "lookup_row j t = Some r \<Longrightarrow> ev_ID r = j" for r by (auto dest: lookup_row_SomeD)
  then show ?thesis
    by (cases "lookup_row j t") (auto simp: on_row_def lookup_row_update_where assms)
qed

lemma on_row_ids:
  assumes "\<And>r. ev_ID (f r) = ev_ID r"
  shows "map ev_ID (on_row i f t) = map ev_ID t"
  by (simp add: on_row_def assms)

lemma update_where_on_row:
  assumes "distinct (map ev_ID t)" and "lookup_row i t = Some r" and "p r"
    and "\<And>q. p q \<Longrightarrow> ev_ID q = i"
  shows "update_where p f t = on_row i f t"
proof -
  have "p q \<longleftrightarrow> ev_ID q = i" if "q \<in> set t" for q
    using assms that by (auto simp: lookup_row_in_set distinct_map inj_on_def)
  then show ?thesis unfolding on_row_def by (rule update_where_cong)
qed

lemma held_update_on_row:
  assumes "lookup_row i t = Some r" and "held_by i tok r" and "distinct (map ev_ID t)"
    and "db_fault env = NoFault"
  shows "guarded_update env (held_by i tok) f t = (None, on_row i f t)"
  using assms guarded_update_cases[of t "held_by i tok" i env f]
    update_where_on_row[of t i r "held_by i tok" f]
  by (simp add: held_by_id)

lemma Claim_on_row:
  assumes r: "lookup_row i t = Some r" and c: "claimable (db_now env) i r"
    and n: "ev_AttemptCount r < 32767" and d: "distinct (map ev_ID t)"
    and nf: "db_fault env = NoFault"
  shows "Claim env i tok dur now t =
    (Inr (claim_row (db_now env) tok dur now r), on_row i (claim_row (db_now env) tok dur now) t)"
proof -
  have "q = r" if "q \<in> set t" "claimable (db_now env) i q" for q
    using that r d claimable_id[OF that(2)] by (auto simp: lookup_row_in_set distinct_map inj_on_def)
  with n have "\<not> list_ex (\<lambda>q. claimable (db_now env) i q \<and> ev_AttemptCount q = 32767) t"
    by (auto simp: list_ex_iff)
  moreover have "List.find (claimable (db_now env) i) t = Some r"
    using find_by_id[of t "claimable (db_now env) i" i, OF d claimable_id] r c by simp
  moreover have "update_where (claimable (db_now env) i) f t = on_row i f t" for f
    by (rule update_where_on_row[of t i r "claimable (db_now env) i", OF d r c claimable_id])
  ultimately show ?thesis using nf by (simp add: Claim_def Let_def)
qed



section \<open>Undisturbed runs\<close>

abbreviation alone :: "jsonb \<Rightarrow> (nat \<Rightarrow> step_env) \<Rightarrow> 'a prog \<Rightarrow> world \<Rightarrow> ('a \<times> world) option" where
  "alone J E p w \<equiv> run J E (\<lambda>_ w. w) p 0 w"

definition no_faults :: "(nat \<Rightarrow> step_env) \<Rightarrow> bool" where
  "no_faults E \<longleftrightarrow> (\<forall>n. db_fault (se_db (E n)) = NoFault)"

definition other_rows_kept :: "uuid \<Rightarrow> table \<Rightarrow> table \<Rightarrow> bool" where
  "other_rows_kept i t t' \<longleftrightarrow> (\<forall>j. j \<noteq> i \<longrightarrow> lookup_row j t' = lookup_row j t)"

lemma guarded_update_on_row:
  assumes "lookup_row i t = Some r" and "p r" and "\<And>q. p q \<Longrightarrow> ev_ID q = i"
    and "distinct (map ev_ID t)" and "db_fault env = NoFault"
  shows "guarded_update env p f t = (None, on_row i f t)"
  using assms guarded_update_cases[of t p i env f] update_where_on_row[of t i r p f] by simp

section \<open>Rows by source request\<close>

definition row_of :: "table \<Rightarrow> string \<times> string \<Rightarrow> Event option" where
  "row_of t k = List.find (\<lambda>r. source_key r = k) t"

lemma row_of_simps [simp]:
  "row_of [] k = None"
  "row_of (r # t) k = (if source_key r = k then Some r else row_of t k)"
  by (simp_all add: row_of_def)

lemma row_of_update_where:
  assumes "\<And>r. p r \<Longrightarrow> source_key (f r) = source_key r"
  shows "row_of (update_where p f t) k = map_option (\<lambda>r. if p r then f r else r) (row_of t k)"
  by (induction t) (auto simp: update_where_def assms)

lemma row_of_append:
  "row_of (t @ u) k = (case row_of t k of None \<Rightarrow> row_of u k | Some r \<Rightarrow> Some r)"
  by (induction t) auto

lemma row_of_unique:
  "table_wf t \<Longrightarrow> r \<in> set t \<Longrightarrow> row_of t (source_key r) = Some r"
proof -
  have "distinct (map source_key u) \<Longrightarrow> r \<in> set u \<Longrightarrow> row_of u (source_key r) = Some r" for u
    by (induction u) (auto simp: image_iff)
  then show "table_wf t \<Longrightarrow> r \<in> set t \<Longrightarrow> row_of t (source_key r) = Some r"
    by (simp add: table_wf_def)
qed

text \<open>The ids and source requests of a table, which an update of one row keeps.\<close>

definition keys_of :: "table \<Rightarrow> (uuid \<times> string \<times> string) list" where
  "keys_of t = map (\<lambda>r. (ev_ID r, source_key r)) t"

lemma keys_on_row:
  "(\<And>r. ev_ID (f r) = ev_ID r \<and> source_key (f r) = source_key r) \<Longrightarrow> keys_of (on_row i f t) = keys_of t"
  by (induction t) (auto simp: keys_of_def on_row_def update_where_def)

lemma keys_same_row:
  assumes "keys_of t' = keys_of t" and "table_wf t" and "lookup_row i t = Some r" and "lookup_row i t' = Some r'"
  shows "row_of t' (source_key r) = Some r'"
proof -
  from assms(1) have "map fst (keys_of t') = map fst (keys_of t)" "map snd (keys_of t') = map snd (keys_of t)"
    by simp_all
  then have d: "distinct (map ev_ID t)" "distinct (map source_key t')"
    using assms(2) by (simp_all add: keys_of_def table_wf_def comp_def)
  from assms(3,4) have r: "r \<in> set t" "ev_ID r = i" "r' \<in> set t'" "ev_ID r' = i"
    by (auto dest: lookup_row_SomeD)
  have member: "(ev_ID x, source_key x) \<in> set (keys_of u)" if "x \<in> set u" for x u
    using that by (simp add: keys_of_def)
  from member[OF r(3)] member[OF r(1)] r(2,4) have "(i, source_key r') \<in> set (keys_of t)" "(i, source_key r) \<in> set (keys_of t)"
    by (simp_all add: assms(1))
  then have "source_key r' = source_key r" using d(1)
    by (auto simp: keys_of_def distinct_map inj_on_def)
  moreover have "distinct (map source_key u) \<Longrightarrow> r' \<in> set u \<Longrightarrow> row_of u (source_key r') = Some r'" for u
    by (induction u) (auto simp: image_iff)
  ultimately show ?thesis using d(2) r(3) by metis
qed

text \<open>What identifies a request never changes, whoever works on its row.\<close>

definition same_request :: "Event \<Rightarrow> Event \<Rightarrow> bool" where
  "same_request r r' \<longleftrightarrow> ev_ID r' = ev_ID r \<and> source_key r' = source_key r
     \<and> ev_ProviderCode r' = ev_ProviderCode r \<and> ev_ProviderAction r' = ev_ProviderAction r
     \<and> ev_Payload r' = ev_Payload r"

lemma write_effect_same_request:
  assumes "write_effect t t'" and "table_wf t" and "r \<in> set t"
  shows "\<exists>r' \<in> set t'. same_request r r'"
proof -
  obtain old new where t': "t' = old @ new" and rel: "list_all2 same_or_effect t old"
    using write_effect_rows[OF assms(1,2)] by blast
  from rel assms(3) obtain r' where "r' \<in> set old" "same_or_effect r r'"
    by (fastforce simp: list_all2_conv_all_nth in_set_conv_nth)
  then show ?thesis by (auto simp: t' same_or_effect_def row_effect_def same_request_def)
qed

lemma db_steps_same_request:
  assumes "db_steps J t t'" and "table_wf t" and "r \<in> set t"
  shows "\<exists>r' \<in> set t'. same_request r r'"
  using assms(1)
proof (induction rule: rtranclp_induct)
  case base
  show ?case using assms(3) by (auto simp: same_request_def)
next
  case (step u v)
  then obtain q where "q \<in> set u" "same_request r q" by blast
  moreover have "table_wf u" using step.hyps(1) assms(2) by (rule db_steps_wf)
  ultimately show ?case
    using write_effect_same_request[OF db_step_effect[OF step.hyps(2)]]
    by (fastforce simp: same_request_def)
qed

lemma db_step_write: "op_ok x \<Longrightarrow> db_step J t (snd (repo_exec J env x t))"
  by (rule db_step.intros)

lemma db_step_Insert: "db_step J t (snd (Insert J env ev t))"
  using db_step_write[of "OpInsert ev" J t env] by (simp add: error_of_def)

lemma db_step_MarkEnqueued: "db_step J t (snd (MarkEnqueued env i t))"
  using db_step_write[of "OpMarkEnqueued i" J t env] by simp

end
