(* ===== verification/System.thy ===== *)
theory System
  imports Processor Compensator Service Program_Laws
begin

text \<open>
  The whole system: any number of deliveries, compensator scans and submissions, at any
  point of their programs, over one world, interleaved effect by effect. Any task can stop
  for ever at any point (a crash), and a restart replaces the process-local breakers and
  limiters. Database statements fail before or after they take effect.
\<close>

section \<open>What one task may do to an event's attempts\<close>

text \<open>
  The stage of a task in the attempt protocol: it has not claimed, it holds a claim of the
  event \<open>i\<close> with source key \<open>k\<close>, made under token \<open>tok\<close> as attempt \<open>n\<close>, and has neither
  called the provider nor given the attempt back, or it is done with its claim.
\<close>

datatype stage = Idle | Held uuid uuid "string \<times> string" int | Over

fun gives_back :: "repo_op \<Rightarrow> (uuid \<times> uuid) option" where
  "gives_back (OpMarkCircuitOpen i tok u res) = Some (i, tok)"
| "gives_back (OpMarkFailedUnused i tok res) = Some (i, tok)"
| "gives_back _ = None"

fun plain_op :: "repo_op \<Rightarrow> bool" where
  "plain_op (OpClaim i tok d now) = False"
| "plain_op _ = True"

primrec protocol :: "int \<Rightarrow> 'a prog \<Rightarrow> stage \<Rightarrow> bool" where
  "protocol m (Return x) s = True"
| "protocol m (NewUUID k) s = (\<forall>r. protocol m (k r) s)"
| "protocol m (TimeNow k) s = (\<forall>r. protocol m (k r) s)"
| "protocol m (RepoInsert ev k) s = (\<forall>r. protocol m (k r) s)"
| "protocol m (RepoClaim i tok d now k) s =
     (s = Idle \<and> (\<forall>e. protocol m (k (Inl e)) Over) \<and>
      (\<forall>ev. ev_ID ev = i \<longrightarrow> 1 \<le> ev_AttemptCount ev \<longrightarrow> ev_AttemptCount ev \<le> 32767 \<longrightarrow>
         protocol m (k (Inr ev)) (Held i tok (source_key ev) (ev_AttemptCount ev))))"
| "protocol m (RepoExec x k) s =
     (op_ok x \<and> plain_op x \<and>
      (case gives_back x of
         None \<Rightarrow> (\<forall>r. protocol m (k r) s)
       | Some (i, tok) \<Rightarrow> (\<exists>key n. s = Held i tok key n) \<and> (\<forall>r. protocol m (k r) Over)))"
| "protocol m (RepoFind a b k) s = (\<forall>r. protocol m (k r) s)"
| "protocol m (RepoGet i k) s = (\<forall>r. protocol m (k r) s)"
| "protocol m (RepoPending n k) s = (\<forall>r. protocol m (k r) s)"
| "protocol m (RepoExpired n k) s = (\<forall>r. protocol m (k r) s)"
| "protocol m (BreakerAllow a k) s = (\<forall>r. protocol m (k r) s)"
| "protocol m (BreakerObserve p b k) s = protocol m k s"
| "protocol m (BreakerAbort p k) s = protocol m k s"
| "protocol m (LimiterAcquire a k) s = (\<forall>r. protocol m (k r) s)"
| "protocol m (LimiterRelease r' k) s = protocol m k s"
| "protocol m (ProviderSend a ac act p k) s =
     ((\<exists>i tok n. s = Held i tok (call_key ac) n \<and> n \<le> m) \<and> (\<forall>r. protocol m (k r) Over))"
| "protocol m (BrokerPublish i k) s = (\<forall>r. protocol m (k r) s)"

lemma protocol_bind:
  "protocol m p s \<Longrightarrow> (\<And>x s'. protocol m (f x) s') \<Longrightarrow> protocol m (bind p f) s"
  by (induction p arbitrary: s) (auto split: option.splits)

section \<open>The programs follow the protocol\<close>

lemma op_ok_finished [simp]:
  "op_ok (OpMarkWaiting i tok u (marshal_finished r) resp) = (lr_Outcome r = OutcomeRequeueRequested)"
  "op_ok (OpMarkCircuitOpen i tok u (marshal_finished r)) = (lr_Outcome r = OutcomeRequeueRequested)"
  "op_ok (OpRecover i tok u (marshal_finished r)) = (lr_Outcome r = OutcomeRequeueRequested)"
  by simp_all

lemma protocol_PublishAndMark: "protocol m (PublishAndMark us i) s"
  by (simp add: PublishAndMark_def split: sum.splits option.splits)

lemma protocol_resolveExisting: "protocol m (resolveExisting us cmd) s"
  by (simp add: resolveExisting_def)

lemma protocol_Submit: "protocol m (Submit us reg cmd) s"
  by (auto simp: Submit_def protocol_PublishAndMark protocol_resolveExisting
      intro!: protocol_bind split: option.splits sum.splits store_error.splits)

lemma protocol_for_each: "(\<And>x s. protocol m (f x) s) \<Longrightarrow> protocol m (for_each f xs) s"
  by (induction xs arbitrary: s) (auto intro: protocol_bind)

lemma protocol_recoverOne: "protocol m (recoverOne us d ev) s"
  by (auto simp: recoverOne_def Let_def expired_result_def protocol_PublishAndMark
      intro!: protocol_bind split: option.splits)

lemma protocol_scans:
  "protocol m (scanPendingPublish us cfg) s"
  "protocol m (scanExpiredLeases us cfg d) s"
  by (auto simp: scanPendingPublish_def scanExpiredLeases_def Let_def protocol_PublishAndMark
      protocol_recoverOne intro!: protocol_for_each protocol_bind split: sum.splits)

lemma protocol_loop: "(\<And>s. protocol m scan s) \<Longrightarrow> protocol m (loop scan d ticks) s"
proof -
  assume *: "\<And>s. protocol m scan s"
  have "protocol m (loop_ticks scan ticks) s" for s
  proof (induction ticks arbitrary: s)
    case (Cons b ticks)
    then show ?case by (cases b) (auto intro: protocol_bind *)
  qed simp
  with * show ?thesis by (auto simp: loop_def intro!: protocol_bind)
qed

lemma protocol_retryOrFail: "protocol m (retryOrFail p ev tok d res lat) s"
  by (simp add: retryOrFail_def releaseForRequeue_def Let_def split: option.splits)

lemma protocol_finish_attempt: "protocol m (finish_attempt p ev tok d perm lat ans) s"
  by (simp add: finish_attempt_def Let_def protocol_retryOrFail)

lemma protocol_attempt:
  assumes "s = Held i tok (source_key ev) n" and "n \<le> m"
  shows "protocol m (attempt p ev tok d ra perm) s"
  using assms
  by (simp add: attempt_def Let_def protocol_finish_attempt call_key_def source_key_def
      split: option.splits)

lemma protocol_process:
  assumes "ev_ID ev = i" and "1 \<le> ev_AttemptCount ev" and "ev_AttemptCount ev \<le> 32767"
    and "0 < dl_MaxAttempts d" and "uint (dl_MaxAttempts d) \<le> m"
  shows "protocol m (process p ev tok d) (Held i tok (source_key ev) (ev_AttemptCount ev))"
proof (cases "dl_MaxAttempts d < of_int (ev_AttemptCount ev)")
  case True
  with assms show ?thesis
    by (simp add: process_def finishExhaustedBeforeProvider_def Let_def)
next
  case False
  have "uint (of_int (ev_AttemptCount ev) :: uint32) = ev_AttemptCount ev"
    using assms(2,3) by (simp add: uint_word_of_int)
  with False assms(5) have "ev_AttemptCount ev \<le> m"
    by (simp add: word_le_def not_less)
  with False assms show ?thesis
    by (auto simp: process_def Let_def deferForOpenCircuit_def protocol_retryOrFail
        intro!: protocol_bind protocol_attempt split: option.splits sum.splits)
qed

lemma protocol_HandleDelivery:
  assumes "0 < dl_MaxAttempts d" and "uint (dl_MaxAttempts d) \<le> m"
  shows "protocol m (HandleDelivery p d) Idle"
  using assms protocol_process[OF _ _ _ assms]
  by (auto simp: HandleDelivery_def split: store_error.splits)

lemma protocol_map_prog [simp]: "protocol m (map_prog f p) s = protocol m p s"
  by (induction p arbitrary: s) (auto split: option.splits)

section \<open>Tasks and interleavings\<close>

inductive task :: "int \<Rightarrow> unit prog \<Rightarrow> bool" for m where
  delivery: "0 < dl_MaxAttempts d \<Longrightarrow> uint (dl_MaxAttempts d) \<le> m \<Longrightarrow>
     task m (map_prog (\<lambda>_. ()) (HandleDelivery p d))"
| publish_scan: "task m (loop (scanPendingPublish us cfg) stop ticks)"
| lease_scan: "task m (loop (scanExpiredLeases us cfg d) stop ticks)"
| submission: "task m (map_prog (\<lambda>_. ()) (Submit us reg cmd))"

inductive system :: "jsonb \<Rightarrow> int \<Rightarrow> world \<Rightarrow> unit prog list \<Rightarrow> bool" for J m where
  boot: "system J m \<lparr>w_table = [], w_breakers = bs, w_limiters = ls, w_calls = [], w_messages = []\<rparr> []"
| spawn: "system J m w ps \<Longrightarrow> task m p \<Longrightarrow> system J m w (p # ps)"
| advance: "system J m w ps \<Longrightarrow> j < length ps \<Longrightarrow> step J e (ps ! j) w = Some (p', w') \<Longrightarrow>
     system J m w' (ps[j := p'])"
| crash: "system J m w ps \<Longrightarrow> system J m w (take j ps @ drop (Suc j) ps)"
| restart: "system J m w ps \<Longrightarrow> system J m (w\<lparr>w_breakers := bs, w_limiters := ls\<rparr>) ps"

lemma task_protocol: "task m p \<Longrightarrow> protocol m p Idle"
  by (induction rule: task.induct)
    (auto intro: protocol_HandleDelivery protocol_loop protocol_scans protocol_Submit)

text \<open>What a compensator's \<open>Run\<close> starts are tasks, and none of them is a busy loop.\<close>

lemma compensator_tasks:
  assumes "(interval, l) \<in> set (compensator_Run us cfg d)"
  shows "task m (l stop ticks)" and "0 < interval"
  using assms by (auto simp: compensator_Run_def loop_interval_def second_def intro: task.intros)

section \<open>Accounting for provider calls\<close>

definition calls_for :: "world \<Rightarrow> string \<times> string \<Rightarrow> nat" where
  "calls_for w k = count_where (\<lambda>c. call_key (call_ctx c) = k) (w_calls w)"

definition budget :: "table \<Rightarrow> string \<times> string \<Rightarrow> int" where
  "budget t k = (case row_of t k of None \<Rightarrow> 0 | Some r \<Rightarrow> ev_AttemptCount r)"

fun holds :: "string \<times> string \<Rightarrow> stage \<Rightarrow> nat" where
  "holds k (Held i tok k' n) = (if k' = k then 1 else 0)"
| "holds k _ = 0"

fun holds_within :: "int \<Rightarrow> string \<times> string \<Rightarrow> stage \<Rightarrow> nat" where
  "holds_within m k (Held i tok k' n) = (if k' = k \<and> n \<le> m then 1 else 0)"
| "holds_within m k _ = 0"

fun stage_row :: "table \<Rightarrow> stage \<Rightarrow> bool" where
  "stage_row t (Held i tok k n) = (\<exists>r \<in> set t. ev_ID r = i \<and> source_key r = k)"
| "stage_row t _ = True"

definition sys_inv :: "int \<Rightarrow> world \<Rightarrow> unit prog list \<Rightarrow> stage list \<Rightarrow> bool" where
  "sys_inv m w ps ss \<longleftrightarrow> list_all2 (protocol m) ps ss \<and> table_wf (w_table w)
     \<and> (\<forall>s \<in> set ss. stage_row (w_table w) s)
     \<and> (\<forall>k. int (calls_for w k + sum_list (map (holds k) ss)) \<le> budget (w_table w) k)
     \<and> (\<forall>k. int (calls_for w k + sum_list (map (holds_within m k) ss)) \<le> m)"

text \<open>Source keys stay whole in what follows.\<close>

declare split_paired_All [simp del]

lemma budget_guarded_update:
  assumes "\<And>r. source_key (f r) = source_key r" and "\<And>r. ev_AttemptCount (f r) = ev_AttemptCount r"
  shows "budget (snd (guarded_update env p f t)) k = budget t k"
  by (cases "db_fault env")
    (auto simp: guarded_update_def exec_update_def row_of_update_where assms budget_def
      split: option.split)

lemma budget_with_response:
  "(\<And>p. budget (snd (statement p)) k = budget t k) \<Longrightarrow>
   budget (snd (with_response J resp statement t)) k = budget t k"
  by (rule with_response_cases[where P = "\<lambda>t'. budget t' k = budget t k"]) simp_all

lemma budget_plain:
  assumes "plain_op x" and "gives_back x = None"
  shows "budget (snd (repo_exec J env x t)) k = budget t k"
proof (cases x)
  case (OpInsert ev)
  then show ?thesis
    by (auto simp: error_of_def Insert_def budget_def row_of_append new_row_def
        split: fault.split option.split)
next
  case (OpMarkEnqueued i)
  then show ?thesis
    by (cases "db_fault env")
      (auto simp: MarkEnqueued_def exec_update_def row_of_update_where budget_def source_key_def
        split: option.split)
qed (use assms in \<open>auto simp: held_ops RecoverExpiredToRequeue_def ReserveExpiredRequeue_def
       source_key_def intro!: budget_guarded_update budget_with_response\<close>)

lemma budget_gives_back:
  assumes "gives_back x = Some (i, tok)" and "table_wf t" and "r \<in> set t" and "ev_ID r = i"
  shows "budget t k - (if source_key r = k then 1 else 0) \<le> budget (snd (repo_exec J env x t)) k"
proof -
  have only: "q = r" if "q \<in> set t" "ev_ID q = i" for q
    using that assms by (auto simp: table_wf_def distinct_map inj_on_def)
  have in_t: "row_of t k = Some q \<Longrightarrow> q \<in> set t \<and> source_key q = k" for q
    by (auto simp: row_of_def find_Some_iff)
  from assms(1) show ?thesis
    by (cases x; cases "db_fault env")
      (auto simp: held_ops guarded_update_def exec_update_def row_of_update_where budget_def
        source_key_def held_by_def split: option.split dest!: in_t only)
qed

lemma budget_Claim_mono: "budget t k \<le> budget (snd (Claim env i tok d now t)) k"
  by (cases "db_fault env")
    (auto simp: Claim_def Let_def budget_def row_of_update_where claim_row_def source_key_def
      split: option.split)

lemma Claim_granted:
  assumes wf: "table_wf t" and claim: "fst (Claim env i tok d now t) = Inr ev"
  shows "ev_ID ev = i \<and> 1 \<le> ev_AttemptCount ev \<and> ev_AttemptCount ev \<le> 32767
    \<and> budget t (source_key ev) + 1 = ev_AttemptCount ev
    \<and> budget (snd (Claim env i tok d now t)) (source_key ev) = ev_AttemptCount ev
    \<and> ev \<in> set (snd (Claim env i tok d now t))"
proof -
  let ?t = "snd (Claim env i tok d now t)"
  have wf': "table_wf ?t" using Claim_effect wf by (rule write_effect_wf)
  from wf have "distinct (map ev_ID t)" by (simp add: table_wf_def)
  from Claim_success[OF this claim] obtain r where r: "lookup_row i t = Some r"
      and ev: "ev = claim_row (db_now env) tok d now r" and l: "lookup_row i ?t = Some ev"
    by blast
  have key: "source_key ev = source_key r" by (simp add: ev claim_row_def source_key_def)
  from l have mem: "ev \<in> set ?t" and id: "ev_ID ev = i" by (auto dest: lookup_row_SomeD)
  from r have "row_of t (source_key r) = Some r"
    by (auto intro: row_of_unique[OF wf] dest: lookup_row_SomeD)
  moreover from mem wf' have "row_of ?t (source_key ev) = Some ev" by (intro row_of_unique)
  moreover from mem wf' have "row_wf ev" by (simp add: table_wf_def)
  then have "1 \<le> ev_AttemptCount ev \<and> ev_AttemptCount ev \<le> 32767"
    by (simp add: ev claim_row_def row_wf_def)
  moreover have "ev_AttemptCount ev = ev_AttemptCount r + 1" by (simp add: ev claim_row_def)
  ultimately show ?thesis using mem id key by (simp add: budget_def)
qed

section \<open>The invariant of the system\<close>

definition accounted :: "int \<Rightarrow> world \<Rightarrow> stage \<Rightarrow> world \<Rightarrow> stage \<Rightarrow> bool" where
  "accounted m w s w' s' \<longleftrightarrow> stage_row (w_table w') s' \<and> write_effect (w_table w) (w_table w')
     \<and> (\<forall>k. int (calls_for w' k + holds k s') + budget (w_table w) k
             \<le> int (calls_for w k + holds k s) + budget (w_table w') k)
     \<and> (\<forall>k. calls_for w' k + holds_within m k s' \<le> calls_for w k + holds_within m k s
             \<or> budget (w_table w') k \<le> m)"

lemma accounted_same:
  "stage_row (w_table w) s \<Longrightarrow> w_table w' = w_table w \<Longrightarrow> w_calls w' = w_calls w \<Longrightarrow>
   accounted m w s w' s"
  by (simp add: accounted_def calls_for_def write_effect.unchanged)

lemma stage_row_write:
  assumes "write_effect t t'" and "table_wf t" and "stage_row t s"
  shows "stage_row t' s"
proof (cases s)
  case (Held i tok k n)
  with assms(3) obtain r where "r \<in> set t" "ev_ID r = i" "source_key r = k" by auto
  with write_effect_lifecycle[OF assms(1,2)] Held show ?thesis by fastforce
qed auto

lemma accounted_table:
  assumes "write_effect (w_table w) t'" and "table_wf (w_table w)" and "stage_row (w_table w) s"
    and "\<And>k. budget (w_table w) k \<le> budget t' k"
  shows "accounted m w s (w\<lparr>w_table := t'\<rparr>) s"
  using assms by (auto simp: accounted_def calls_for_def stage_row_write)

lemma accounted_claim:
  assumes wf: "table_wf (w_table w)" and x: "Claim env i tok d now (w_table w) = (r, t')"
  shows "case r of
      Inl e \<Rightarrow> accounted m w Idle (w\<lparr>w_table := t'\<rparr>) Over
    | Inr ev \<Rightarrow> ev_ID ev = i \<and> 1 \<le> ev_AttemptCount ev \<and> ev_AttemptCount ev \<le> 32767
        \<and> accounted m w Idle (w\<lparr>w_table := t'\<rparr>) (Held i tok (source_key ev) (ev_AttemptCount ev))"
proof -
  have eff: "write_effect (w_table w) t'" using Claim_effect[of "w_table w" env i tok d now] x by simp
  have mono: "budget (w_table w) k \<le> budget t' k" for k
    using budget_Claim_mono[of "w_table w" k env i tok d now] x by simp
  show ?thesis
  proof (cases r)
    case (Inl e)
    with eff mono show ?thesis by (simp add: accounted_def calls_for_def)
  next
    case (Inr ev)
    with Claim_granted[OF wf, of env i tok d now ev] x eff mono show ?thesis
      by (auto simp: accounted_def calls_for_def)
  qed
qed

lemma accounted_gives_back:
  assumes wf: "table_wf (w_table w)" and gb: "gives_back x = Some (i, tok)" and "op_ok x"
    and row: "stage_row (w_table w) (Held i tok k n)"
  shows "accounted m w (Held i tok k n) (w\<lparr>w_table := snd (repo_exec J env x (w_table w))\<rparr>) Over"
proof -
  from row obtain r where r: "r \<in> set (w_table w)" "ev_ID r = i" "source_key r = k" by auto
  have b: "budget (w_table w) k' \<le> (if k = k' then 1 else 0)
      + budget (snd (repo_exec J env x (w_table w))) k'" for k'
    using budget_gives_back[OF gb wf r(1,2), of k' J env] r(3) by (auto split: if_splits)
  have "int (holds k' (Held i tok k n)) = (if k = k' then 1 else 0)" for k' by simp
  with b repo_exec_effect[OF \<open>op_ok x\<close>] show ?thesis
    unfolding accounted_def calls_for_def
    by (intro conjI allI) (simp_all del: split_paired_All)
qed

lemma accounted_send:
  assumes "stage_row (w_table w) (Held i tok (call_key ac) n)" and "n \<le> m"
  shows "accounted m w (Held i tok (call_key ac) n)
    (w\<lparr>w_calls := w_calls w @ [\<lparr>call_ctx = ac, call_action = act, call_payload = p, call_answer = ans\<rparr>]\<rparr>) Over"
  using assms by (auto simp: accounted_def calls_for_def count_where_def write_effect.unchanged)

lemma step_accounted:
  assumes "protocol m p s" and "step J e p w = Some (p', w')" and "table_wf (w_table w)"
    and "stage_row (w_table w) s"
  shows "\<exists>s'. protocol m p' s' \<and> accounted m w s w' s'"
proof (cases p)
  case (RepoInsert ev k)
  with assms budget_plain[of "OpInsert ev" J "se_db e" "w_table w"] show ?thesis
    by (intro exI[of _ s])
      (auto simp: Let_def error_of_def intro!: accounted_table Insert_effect)
next
  case (RepoClaim i tok d now k)
  obtain r t' where x: "Claim (se_db e) i tok d now (w_table w) = (r, t')" by fastforce
  with RepoClaim assms accounted_claim[OF assms(3) x, of m] show ?thesis
    by (cases r) (auto simp: Let_def)
next
  case (RepoExec x k)
  show ?thesis
  proof (cases "gives_back x")
    case None
    with RepoExec assms budget_plain[of x J "se_db e" "w_table w"] show ?thesis
      by (intro exI[of _ s]) (auto simp: Let_def intro!: accounted_table repo_exec_effect)
  next
    case (Some it)
    with RepoExec assms accounted_gives_back[OF assms(3)] show ?thesis
      by (cases it) (fastforce simp: Let_def)
  qed
next
  case (ProviderSend a ac act pl k)
  with assms show ?thesis by (auto simp: Let_def intro: accounted_send)
qed (use assms in \<open>auto simp: Let_def intro!: exI[of _ s] accounted_same\<close>)

lemma sum_list_map_update:
  fixes f :: "'a \<Rightarrow> nat"
  assumes "j < length xs"
  shows "sum_list (map f (xs[j := y])) + f (xs ! j) = sum_list (map f xs) + f y"
  using assms by (induction xs arbitrary: j) (auto split: nat.split)

lemma holds_within_le: "holds_within m k s \<le> holds k s"
  by (cases s) auto

lemma sys_inv_advance:
  assumes inv: "sys_inv m w ps ss" and j: "j < length ps"
    and p': "protocol m p' s'" and acc: "accounted m w (ss ! j) w' s'"
  shows "sys_inv m w' (ps[j := p']) (ss[j := s'])"
proof -
  have len: "length ss = length ps" and wf: "table_wf (w_table w)"
    using inv by (auto simp: sys_inv_def dest: list_all2_lengthD)
  have eff: "write_effect (w_table w) (w_table w')" using acc by (simp add: accounted_def)
  have rows: "\<forall>s \<in> set (ss[j := s']). stage_row (w_table w') s"
  proof
    fix s assume "s \<in> set (ss[j := s'])"
    then have "s = s' \<or> s \<in> set ss" using set_update_subset_insert by fastforce
    then show "stage_row (w_table w') s"
      using inv acc stage_row_write[OF eff wf] by (auto simp: sys_inv_def accounted_def)
  qed
  have bound: "int (calls_for w' k + sum_list (map (holds k) (ss[j := s']))) \<le> budget (w_table w') k" for k
  proof -
    have "int (calls_for w k + sum_list (map (holds k) ss)) \<le> budget (w_table w) k"
      using inv by (simp add: sys_inv_def)
    moreover have "int (calls_for w' k + holds k s') + budget (w_table w) k
        \<le> int (calls_for w k + holds k (ss ! j)) + budget (w_table w') k"
      using acc by (simp add: accounted_def)
    ultimately show ?thesis
      using sum_list_map_update[of j ss "holds k" s'] j len by simp
  qed
  have "int (calls_for w' k + sum_list (map (holds_within m k) (ss[j := s']))) \<le> m" for k
  proof -
    from acc consider
      "calls_for w' k + holds_within m k s' \<le> calls_for w k + holds_within m k (ss ! j)"
      | "budget (w_table w') k \<le> m"
      by (auto simp: accounted_def)
    then show ?thesis
    proof cases
      case 1
      moreover have "int (calls_for w k + sum_list (map (holds_within m k) ss)) \<le> m"
        using inv by (simp add: sys_inv_def)
      ultimately show ?thesis
        using sum_list_map_update[of j ss "holds_within m k" s'] j len by simp
    next
      case 2
      have "sum_list (map (holds_within m k) (ss[j := s'])) \<le> sum_list (map (holds k) (ss[j := s']))"
        by (rule sum_list_mono) (rule holds_within_le)
      with 2 bound[of k] show ?thesis by simp
    qed
  qed
  with rows bound inv p' wf eff show ?thesis
    by (auto simp: sys_inv_def list_all2_update_cong intro: write_effect_wf)
qed

lemma sys_inv_crash:
  assumes "sys_inv m w ps ss"
  shows "sys_inv m w (take j ps @ drop (Suc j) ps) (take j ss @ drop (Suc j) ss)"
proof -
  have le: "sum_list (map f (take j ss @ drop (Suc j) ss)) \<le> sum_list (map f ss)"
    for f :: "stage \<Rightarrow> nat"
  proof -
    have "sum_list (map f (drop (Suc j) ss)) \<le> sum_list (map f (drop j ss))"
      by (cases "j < length ss") (simp_all add: Cons_nth_drop_Suc[symmetric])
    moreover have "sum_list (map f ss) = sum_list (map f (take j ss)) + sum_list (map f (drop j ss))"
      by (metis append_take_drop_id map_append sum_list_append)
    ultimately show ?thesis by simp
  qed
  have "set (take j ss @ drop (Suc j) ss) \<subseteq> set ss"
    by (auto dest: in_set_takeD in_set_dropD)
  moreover have "list_all2 (protocol m) (take j ps @ drop (Suc j) ps) (take j ss @ drop (Suc j) ss)"
    using assms unfolding sys_inv_def
    by (blast intro: list_all2_appendI list_all2_takeI list_all2_dropI)
  ultimately show ?thesis
    using assms le unfolding sys_inv_def by (smt (verit) of_nat_add of_nat_mono subsetD)
qed

lemma system_inv: "system J m w ps \<Longrightarrow> 0 \<le> m \<Longrightarrow> \<exists>ss. sys_inv m w ps ss"
proof (induction rule: system.induct)
  case boot
  then show ?case
    by (intro exI[of _ "[]"])
      (simp add: sys_inv_def table_wf_def calls_for_def count_where_def budget_def)
next
  case (spawn w ps p)
  then obtain ss where "sys_inv m w ps ss" by blast
  with task_protocol[OF spawn.hyps(2)] have "sys_inv m w (p # ps) (Idle # ss)"
    by (simp add: sys_inv_def)
  then show ?case by blast
next
  case (advance w ps j e p' w')
  then obtain ss where inv: "sys_inv m w ps ss" by blast
  then have "protocol m (ps ! j) (ss ! j)" "table_wf (w_table w)" "stage_row (w_table w) (ss ! j)"
    using advance.hyps(2) by (auto simp: sys_inv_def list_all2_conv_all_nth)
  from step_accounted[OF this(1) advance.hyps(3) this(2,3)] show ?case
    using sys_inv_advance[OF inv advance.hyps(2)] by blast
next
  case (crash w ps j)
  then show ?case by (blast intro: sys_inv_crash)
next
  case (restart w ps bs ls)
  then show ?case by (auto simp: sys_inv_def calls_for_def)
qed

text \<open>
  C1: However deliveries, compensators and submissions interleave, crash and restart, and
  whichever database statements fail before or after taking effect, the provider is called
  for one source request at most as often as the configured maximum of attempts, and never
  more often than its persisted attempt count says.
\<close>

theorem provider_calls_bounded:
  assumes "system J m w ps" and "0 \<le> m"
  shows "int (calls_for w k) \<le> m \<and> int (calls_for w k) \<le> budget (w_table w) k"
proof -
  from system_inv[OF assms] obtain ss where "sys_inv m w ps ss" by blast
  then have "int (calls_for w k + sum_list (map (holds_within m k) ss)) \<le> m"
    and "int (calls_for w k + sum_list (map (holds k) ss)) \<le> budget (w_table w) k"
    by (simp_all add: sys_inv_def)
  then show ?thesis by linarith
qed

declare split_paired_All [simp]

section \<open>A task that runs to its end\<close>

lemma run_not_Return:
  assumes "\<And>x. p \<noteq> Return x"
  shows "run J E oth p n w =
    (case step J (E n) p (oth n w) of None \<Rightarrow> None | Some (p', w') \<Rightarrow> run J E oth p' (Suc n) w')"
  using assms by (subst run.simps) (auto split: prog.split)

lemma system_run_head:
  "system J m w (p # ps) \<Longrightarrow> run J E (\<lambda>_ w. w) p n w = Some (x, w') \<Longrightarrow> system J m w' (Return x # ps)"
proof (induction p arbitrary: n w rule: wf_induct_rule[OF wf_prog_child])
  case (1 p)
  show ?case
  proof (cases "\<exists>y. p = Return y")
    case True
    with 1 show ?thesis by auto
  next
    case False
    then have ne: "\<And>x. p \<noteq> Return x" by blast
    from "1.prems"(2) obtain p' v where st: "step J (E n) p w = Some (p', v)"
        and r: "run J E (\<lambda>_ w. w) p' (Suc n) v = Some (x, w')"
      unfolding run_not_Return[OF ne] by (auto split: option.splits)
    from system.advance[OF "1.prems"(1), of 0 "E n" p' v] st have "system J m v (p' # ps)" by simp
    moreover have "(p', p) \<in> prog_child" using step_child[OF st] by (simp add: prog_child_def)
    ultimately show ?thesis using "1.IH" r by blast
  qed
qed

text \<open>A task that runs undisturbed takes the system to the world it ends in.\<close>

lemma system_run:
  assumes "system J m w ps" and "task m p" and "run J E (\<lambda>_ w. w) p 0 w = Some (x, w')"
  shows "system J m w' ps"
  using system.crash[OF system_run_head[OF system.spawn[OF assms(1,2)] assms(3)], of 0] by simp

lemma run_map_prog:
  "run J E oth (map_prog f p) n w = map_option (map_prod f id) (run J E oth p n w)"
  by (induction p arbitrary: n w)
    (auto simp: Let_def split: option.split)

end
