(* ===== verification/Confirmation.thy ===== *)
theory Confirmation
  imports System
begin

text \<open>
  What SUCCEEDED means. A second protocol over the programs of the system follows the claim
  a task holds until its provider call is answered: only an answer that reports success may
  be followed by \<open>MarkSucceeded\<close>, and only for the claimed event. From it follows that every
  row marked SUCCEEDED has a call on record that the provider confirmed.
\<close>

section \<open>Success needs a confirmed call\<close>

text \<open>What a delivery carries of the event it claimed: id, source key, action and payload.\<close>

type_synonym request = "uuid \<times> (string \<times> string) \<times> string \<times> string"

definition request_of :: "Event \<Rightarrow> request" where
  "request_of r = (ev_ID r, source_key r, ev_ProviderAction r, ev_Payload r)"

datatype evidence = NoClaim | Claimed request | Confirmed request

definition confirmed_answer :: "(string, provider_result option) result \<Rightarrow> bool" where
  "confirmed_answer answer = pr_Success (fst (judge answer))"

lemma confirmed_answer_iff:
  "confirmed_answer answer \<longleftrightarrow> (\<exists>res. answer = Inr (Some res) \<and> pr_Success res)"
  by (auto simp: confirmed_answer_def judge_def result_zero_def split: sum.splits option.splits)

definition answered :: "(string, provider_result option) result \<Rightarrow> request \<Rightarrow> evidence" where
  "answered answer q = (if confirmed_answer answer then Confirmed q else NoClaim)"

primrec honest :: "'a prog \<Rightarrow> evidence \<Rightarrow> bool" where
  "honest (Return x) s = True"
| "honest (NewUUID k) s = (\<forall>r. honest (k r) s)"
| "honest (TimeNow k) s = (\<forall>r. honest (k r) s)"
| "honest (RepoInsert ev k) s = (\<forall>r. honest (k r) s)"
| "honest (RepoClaim i tok d now k) s =
     ((\<forall>e. honest (k (Inl e)) NoClaim) \<and>
      (\<forall>ev. ev_ID ev = i \<longrightarrow> honest (k (Inr ev)) (Claimed (request_of ev))))"
| "honest (RepoExec x k) s =
     (op_ok x \<and> (\<forall>r. honest (k r) s) \<and>
      (\<forall>i tok res resp. x = OpMarkSucceeded i tok res resp \<longrightarrow> (\<exists>q. s = Confirmed (i, q))))"
| "honest (RepoFind a b k) s = (\<forall>r. honest (k r) s)"
| "honest (RepoGet i k) s = (\<forall>r. honest (k r) s)"
| "honest (RepoPending n k) s = (\<forall>r. honest (k r) s)"
| "honest (RepoExpired n k) s = (\<forall>r. honest (k r) s)"
| "honest (BreakerAllow a k) s = (\<forall>r. honest (k r) s)"
| "honest (BreakerObserve p b k) s = honest k s"
| "honest (BreakerAbort p k) s = honest k s"
| "honest (LimiterAcquire a k) s = (\<forall>r. honest (k r) s)"
| "honest (LimiterRelease r' k) s = honest k s"
| "honest (ProviderSend a ac act p k) s =
     (\<exists>i. s = Claimed (i, call_key ac, act, p) \<and>
        (\<forall>r. honest (k r) (answered r (i, call_key ac, act, p))))"
| "honest (BrokerPublish i k) s = (\<forall>r. honest (k r) s)"

lemma honest_bind: "honest p s \<Longrightarrow> (\<And>x s'. honest (f x) s') \<Longrightarrow> honest (bind p f) s"
  by (induction p arbitrary: s) auto

lemma honest_map_prog [simp]: "honest (map_prog f p) s = honest p s"
  by (induction p arbitrary: s) auto

lemma honest_PublishAndMark: "honest (PublishAndMark us i) s"
  by (simp add: PublishAndMark_def split: sum.splits option.splits)

lemma honest_Submit: "honest (Submit us reg cmd) s"
  by (auto simp: Submit_def resolveExisting_def honest_PublishAndMark
      intro!: honest_bind split: option.splits sum.splits store_error.splits)

lemma honest_for_each: "(\<And>x s. honest (f x) s) \<Longrightarrow> honest (for_each f xs) s"
  by (induction xs arbitrary: s) (auto intro: honest_bind)

lemma honest_scans:
  "honest (scanPendingPublish us cfg) s" "honest (scanExpiredLeases us cfg d) s"
  by (auto simp: scanPendingPublish_def scanExpiredLeases_def recoverOne_def Let_def
      expired_result_def honest_PublishAndMark intro!: honest_for_each honest_bind
      split: sum.splits option.splits)

lemma honest_loop: "(\<And>s. honest scan s) \<Longrightarrow> honest (loop scan d ticks) s"
proof -
  assume *: "\<And>s. honest scan s"
  have "honest (loop_ticks scan ticks) s" for s
  proof (induction ticks arbitrary: s)
    case (Cons b ticks)
    then show ?case by (cases b) (auto intro: honest_bind *)
  qed simp
  with * show ?thesis by (auto simp: loop_def intro!: honest_bind)
qed

lemma honest_retryOrFail: "honest (retryOrFail p ev tok d res lat) s"
  by (simp add: retryOrFail_def releaseForRequeue_def Let_def split: option.splits)

lemma honest_finish_attempt:
  "honest (finish_attempt p ev tok d perm lat ans) (answered ans (ev_ID ev, q))"
  by (cases q) (auto simp: finish_attempt_def Let_def honest_retryOrFail confirmed_answer_def answered_def)

lemma honest_attempt: "honest (attempt p ev tok d ra perm) (Claimed (request_of ev))"
  using honest_finish_attempt[of p ev tok d perm]
  by (simp add: attempt_def Let_def request_of_def call_key_def source_key_def split: option.splits)

lemma honest_HandleDelivery: "honest (HandleDelivery p d) NoClaim"
  by (auto simp: HandleDelivery_def process_def finishExhaustedBeforeProvider_def Let_def
      deferForOpenCircuit_def honest_retryOrFail intro!: honest_bind honest_attempt
      split: option.splits sum.splits store_error.splits)

lemma task_honest: "task m p \<Longrightarrow> honest p NoClaim"
  by (induction rule: task.induct)
    (auto intro: honest_HandleDelivery honest_loop honest_scans honest_Submit)


section \<open>The invariant\<close>

fun on_record :: "world \<Rightarrow> request \<Rightarrow> bool" where
  "on_record w (i, k, act, payload) =
     (\<exists>c \<in> set (w_calls w). call_key (call_ctx c) = k \<and> call_action c = act
        \<and> call_payload c = payload \<and> confirmed_answer (call_answer c))"

fun evidence_ok :: "world \<Rightarrow> evidence \<Rightarrow> bool" where
  "evidence_ok w NoClaim = True"
| "evidence_ok w (Claimed q) = (q \<in> request_of ` set (w_table w))"
| "evidence_ok w (Confirmed q) = (q \<in> request_of ` set (w_table w) \<and> on_record w q)"

definition successes_ok :: "world \<Rightarrow> bool" where
  "successes_ok w \<longleftrightarrow>
     (\<forall>r \<in> set (w_table w). ev_Status r = SUCCEEDED \<longrightarrow> on_record w (request_of r))"

definition confirm_inv :: "world \<Rightarrow> unit prog list \<Rightarrow> evidence list \<Rightarrow> bool" where
  "confirm_inv w ps ss \<longleftrightarrow> list_all2 honest ps ss \<and> table_wf (w_table w)
     \<and> (\<forall>s \<in> set ss. evidence_ok w s) \<and> successes_ok w"

text \<open>A world that follows another: rows written by the repository, calls only added.\<close>

definition follows :: "world \<Rightarrow> world \<Rightarrow> bool" where
  "follows w w' \<longleftrightarrow> write_effect (w_table w) (w_table w') \<and> set (w_calls w) \<subseteq> set (w_calls w')"

lemma requests_kept:
  assumes "write_effect t t'" and "table_wf t"
  shows "request_of ` set t \<subseteq> request_of ` set t'"
proof
  fix q assume "q \<in> request_of ` set t"
  then obtain r where r: "r \<in> set t" "q = request_of r" by blast
  obtain old new where t': "t' = old @ new" and rel: "list_all2 same_or_effect t old"
    using write_effect_rows[OF assms] by blast
  from rel r(1) obtain r' where "r' \<in> set old" "same_or_effect r r'"
    by (fastforce simp: list_all2_conv_all_nth in_set_conv_nth)
  then have "q = request_of r'" "r' \<in> set t'"
    using r t' by (auto simp: same_or_effect_def row_effect_def request_of_def)
  then show "q \<in> request_of ` set t'" by blast
qed

lemma on_record_mono: "on_record w q \<Longrightarrow> set (w_calls w) \<subseteq> set (w_calls w') \<Longrightarrow> on_record w' q"
  by (cases q) auto

lemma evidence_kept:
  assumes "follows w w'" and "table_wf (w_table w)" and "evidence_ok w s"
  shows "evidence_ok w' s"
  using assms requests_kept[of "w_table w" "w_table w'"]
  by (cases s) (auto simp: follows_def intro: on_record_mono)

lemma guarded_update_rows:
  "r' \<in> set (snd (guarded_update env p f t)) \<Longrightarrow> r' \<in> set t \<or> (\<exists>r \<in> set t. p r \<and> r' = f r)"
  by (cases "db_fault env")
    (auto simp: guarded_update_def exec_update_def update_where_def split: if_splits)

lemma with_response_rows:
  "r' \<in> set (snd (with_response J resp statement t)) \<Longrightarrow> r' \<in> set t \<or> (\<exists>p. r' \<in> set (snd (statement p)))"
  by (rule with_response_cases[where P = "\<lambda>t'. r' \<in> set t' \<longrightarrow> r' \<in> set t \<or> (\<exists>p. r' \<in> set (snd (statement p)))",
      THEN mp]) auto

text \<open>The only write that makes a row SUCCEEDED is \<open>MarkSucceeded\<close> for that row.\<close>

lemma new_success:
  assumes "r' \<in> set (snd (repo_exec J env x t))" and "ev_Status r' = SUCCEEDED"
  shows "r' \<in> set t \<or> (\<exists>tok res resp. x = OpMarkSucceeded (ev_ID r') tok res resp
           \<and> request_of r' \<in> request_of ` set t)"
proof (cases x)
  case (OpInsert ev)
  with assms show ?thesis
    by (auto simp: error_of_def Insert_def new_row_def split: fault.splits option.splits if_splits)
next
  case (OpMarkEnqueued i)
  with assms show ?thesis
    by (cases "db_fault env")
      (auto simp: MarkEnqueued_def exec_update_def update_where_def split: if_splits)
next
  case (OpClaim i tok d now)
  with assms show ?thesis
    by (cases "db_fault env")
      (auto simp: error_of_def Claim_def Let_def update_where_def claim_row_def split: if_splits)
qed (use assms in \<open>auto simp: held_ops RecoverExpiredToRequeue_def ReserveExpiredRequeue_def
       held_by_def request_of_def source_key_def image_iff dest!: with_response_rows guarded_update_rows\<close>)

lemma repo_step_confirm:
  assumes s: "evidence_ok w s" and ok: "successes_ok w" and wf: "table_wf (w_table w)"
    and succ: "\<And>i tok res resp. x = OpMarkSucceeded i tok res resp \<Longrightarrow> \<exists>q. s = Confirmed (i, q)"
    and t': "t' = snd (repo_exec J env x (w_table w))"
  shows "successes_ok (w\<lparr>w_table := t'\<rparr>)"
  unfolding successes_ok_def
proof (intro ballI impI)
  fix r' assume r': "r' \<in> set (w_table (w\<lparr>w_table := t'\<rparr>))" "ev_Status r' = SUCCEEDED"
  have on: "on_record (w\<lparr>w_table := t'\<rparr>) q \<longleftrightarrow> on_record w q" for q by (cases q) simp
  from new_success[of r' J env x "w_table w"] r' t'
  consider "r' \<in> set (w_table w)"
    | tok res resp r where "x = OpMarkSucceeded (ev_ID r') tok res resp" "r \<in> set (w_table w)"
        "request_of r' = request_of r" by auto
  then show "on_record (w\<lparr>w_table := t'\<rparr>) (request_of r')"
  proof cases
    case 1
    with ok r'(2) show ?thesis by (simp add: on successes_ok_def)
  next
    case 2
    from succ[OF 2(1)] obtain q where "s = Confirmed (ev_ID r', q)" by blast
    with s have "(ev_ID r', q) \<in> request_of ` set (w_table w)" and rec: "on_record w (ev_ID r', q)"
      by (simp_all only: evidence_ok.simps)
    then obtain r0 where r0: "r0 \<in> set (w_table w)" "request_of r0 = (ev_ID r', q)" by force
    have "r0 = r" using wf r0 2 by (auto simp: table_wf_def distinct_map inj_on_def request_of_def)
    with r0 2(3) rec show ?thesis by (simp add: on)
  qed
qed


lemma follows_same:
  "w_table w' = w_table w \<Longrightarrow> w_calls w' = w_calls w \<Longrightarrow> follows w w'"
  by (simp add: follows_def write_effect.unchanged)

lemma successes_ok_same:
  "successes_ok w \<Longrightarrow> w_table w' = w_table w \<Longrightarrow> set (w_calls w) \<subseteq> set (w_calls w') \<Longrightarrow> successes_ok w'"
  by (auto simp: successes_ok_def intro: on_record_mono)

lemma claim_confirm:
  assumes "honest (RepoClaim i tok d now k) s" and "table_wf (w_table w)" and "evidence_ok w s" and "successes_ok w"
    and x: "Claim (se_db e) i tok d now (w_table w) = (r, t')" and w': "w' = w\<lparr>w_table := t'\<rparr>"
  shows "\<exists>s'. honest (k r) s' \<and> evidence_ok w' s' \<and> follows w w' \<and> successes_ok w'"
proof -
  have f: "follows w w'" using Claim_effect[of "w_table w" "se_db e" i tok d now] x
    by (simp add: w' follows_def)
  have ok: "successes_ok w'"
    using repo_step_confirm[OF assms(3,4,2), of "OpClaim i tok d now" t' J "se_db e"] x
    by (simp add: w' error_of_def)
  show ?thesis
  proof (cases r)
    case (Inl err)
    with assms(1) f ok show ?thesis by (intro exI[of _ NoClaim]) simp
  next
    case (Inr ev)
    with Claim_granted[OF assms(2), of "se_db e" i tok d now ev] x
    have "ev_ID ev = i" "ev \<in> set (w_table w')" by (simp_all add: w')
    with assms(1) f ok Inr show ?thesis by (intro exI[of _ "Claimed (request_of ev)"]) simp
  qed
qed

lemma send_confirm:
  assumes "honest (ProviderSend a ac act pl k) s" and "evidence_ok w s" and "successes_ok w"
    and w': "w' = w\<lparr>w_calls := w_calls w @ [\<lparr>call_ctx = ac, call_action = act, call_payload = pl,
                call_answer = ans\<rparr>]\<rparr>"
  shows "\<exists>s'. honest (k ans) s' \<and> evidence_ok w' s' \<and> follows w w' \<and> successes_ok w'"
proof -
  from assms(1) obtain i where s: "s = Claimed (i, call_key ac, act, pl)"
      and k: "honest (k ans) (answered ans (i, call_key ac, act, pl))" by auto
  have "evidence_ok w' (answered ans (i, call_key ac, act, pl))"
    using assms(2) by (auto simp: s w' answered_def)
  moreover have "follows w w'" by (auto simp: follows_def w' write_effect.unchanged)
  moreover have "successes_ok w'" by (rule successes_ok_same[OF assms(3)]) (auto simp: w')
  ultimately show ?thesis using k by blast
qed

lemma step_confirm:
  assumes "honest p s" and "step J e p w = Some (p', w')" and "table_wf (w_table w)"
    and "evidence_ok w s" and "successes_ok w"
  shows "\<exists>s'. honest p' s' \<and> evidence_ok w' s' \<and> follows w w' \<and> successes_ok w'"
proof (cases p)
  case (RepoInsert ev k)
  let ?t = "snd (Insert J (se_db e) ev (w_table w))"
  have w': "w' = w\<lparr>w_table := ?t\<rparr>" and p': "honest p' s"
    using RepoInsert assms(1,2) by (auto simp: Let_def)
  have "follows w w'" by (simp add: w' follows_def Insert_effect)
  moreover have "successes_ok w'"
    using repo_step_confirm[OF assms(4,5,3), of "OpInsert ev" ?t J "se_db e"]
    by (simp add: w' error_of_def)
  ultimately show ?thesis using p' evidence_kept assms(3,4) by blast
next
  case (RepoClaim i tok d now k)
  then show ?thesis
    using claim_confirm[OF assms(1)[unfolded RepoClaim] assms(3-5) prod.collapse[symmetric] refl] assms(2)
    by (auto simp: Let_def)
next
  case (RepoExec x k)
  let ?t = "snd (repo_exec J (se_db e) x (w_table w))"
  have w': "w' = w\<lparr>w_table := ?t\<rparr>" and p': "honest p' s" and "op_ok x"
    and succ: "\<And>i tok res resp. x = OpMarkSucceeded i tok res resp \<Longrightarrow> \<exists>q. s = Confirmed (i, q)"
    using RepoExec assms(1,2) by (auto simp: Let_def)
  have f: "follows w w'" using \<open>op_ok x\<close> by (simp add: w' follows_def repo_exec_effect)
  have "successes_ok w'" unfolding w' by (rule repo_step_confirm[OF assms(4,5,3) succ refl])
  with p' f evidence_kept[OF f assms(3,4)] show ?thesis by blast
next
  case (ProviderSend a ac act pl k)
  then show ?thesis
    using send_confirm[OF assms(1)[unfolded ProviderSend] assms(4,5) refl] assms(2)
    by (auto simp: Let_def)
qed (use assms in \<open>auto simp: Let_def intro!: exI[of _ s] follows_same
       elim!: successes_ok_same evidence_kept[rotated 2]\<close>)

lemma confirm_inv_advance:
  assumes inv: "confirm_inv w ps ss" and j: "j < length ps"
    and new: "honest p' s'" "evidence_ok w' s'" "follows w w'" "successes_ok w'"
  shows "confirm_inv w' (ps[j := p']) (ss[j := s'])"
proof -
  have wf: "table_wf (w_table w)" using inv by (simp add: confirm_inv_def)
  have "evidence_ok w' s" if "s \<in> set (ss[j := s'])" for s
  proof -
    from that have "s = s' \<or> s \<in> set ss" using set_update_subset_insert by fastforce
    then show ?thesis
      using new(2) inv evidence_kept[OF new(3) wf] by (auto simp: confirm_inv_def)
  qed
  moreover have "table_wf (w_table w')" using new(3) wf by (auto simp: follows_def intro: write_effect_wf)
  ultimately show ?thesis
    using inv new(1,4) by (simp add: confirm_inv_def list_all2_update_cong)
qed

lemma system_confirm: "system J m w ps \<Longrightarrow> \<exists>ss. confirm_inv w ps ss"
proof (induction rule: system.induct)
  case (boot bs ls)
  then show ?case
    by (intro exI[of _ "[]"]) (simp add: confirm_inv_def table_wf_def successes_ok_def)
next
  case (spawn w ps p)
  then obtain ss where "confirm_inv w ps ss" by blast
  with task_honest[OF spawn.hyps(2)] have "confirm_inv w (p # ps) (NoClaim # ss)"
    by (simp add: confirm_inv_def)
  then show ?case by blast
next
  case (advance w ps j e p' w')
  then obtain ss where inv: "confirm_inv w ps ss" by blast
  then have "honest (ps ! j) (ss ! j)" "table_wf (w_table w)" "evidence_ok w (ss ! j)" "successes_ok w"
    using advance.hyps(2) by (auto simp: confirm_inv_def list_all2_conv_all_nth)
  from step_confirm[OF this(1) advance.hyps(3) this(2-4)] show ?case
    using confirm_inv_advance[OF inv advance.hyps(2)] by blast
next
  case (crash w ps j)
  then obtain ss where inv: "confirm_inv w ps ss" by blast
  have "set (take j ss @ drop (Suc j) ss) \<subseteq> set ss" by (auto dest: in_set_takeD in_set_dropD)
  with inv have "confirm_inv w (take j ps @ drop (Suc j) ps) (take j ss @ drop (Suc j) ss)"
    unfolding confirm_inv_def
    by (blast intro: list_all2_appendI list_all2_takeI list_all2_dropI)
  then show ?case by blast
next
  case (restart w ps ls bs)
  then obtain ss where inv: "confirm_inv w ps ss" by blast
  let ?w = "w\<lparr>w_breakers := bs, w_limiters := ls\<rparr>"
  have f: "follows w ?w" by (rule follows_same) simp_all
  with inv have "confirm_inv ?w ps ss"
    by (auto simp: confirm_inv_def intro: evidence_kept successes_ok_same)
  then show ?case by blast
qed

text \<open>
  C2: SUCCEEDED is never a guess. However the system's tasks interleave, crash and restart,
  and whichever statements fail, for every row marked SUCCEEDED there is a call on record
  that was made for that row's source request, with its action and its payload, and that the
  adapter answered with an explicit success.
\<close>

theorem succeeded_means_confirmed:
  assumes "system J m w ps" and "r \<in> set (w_table w)" and "ev_Status r = SUCCEEDED"
  shows "\<exists>c res. c \<in> set (w_calls w) \<and> call_key (call_ctx c) = source_key r
    \<and> call_action c = ev_ProviderAction r \<and> call_payload c = ev_Payload r
    \<and> call_answer c = Inr (Some res) \<and> pr_Success res"
proof -
  from system_confirm[OF assms(1)] have "successes_ok w" by (auto simp: confirm_inv_def)
  with assms(2,3) have "on_record w (request_of r)" by (simp add: successes_ok_def)
  then show ?thesis
    by (auto simp: request_of_def confirmed_answer_iff)
qed

end
