(* ===== verification/Compensator_Laws.thy ===== *)
theory Compensator_Laws
  imports Compensator Program_Laws
begin

text \<open>
  Recovery: what the publication of an event and the two scans of the compensator do to the
  rows they select, when no statement fails.
\<close>

section \<open>Publishing\<close>

lemma other_rows_MarkEnqueued:
  "other_rows_kept i t (snd (MarkEnqueued env i t))"
proof -
  have "lookup_row j t = Some r \<Longrightarrow> ev_ID r = j" for j r by (auto dest: lookup_row_SomeD)
  then show ?thesis
    by (auto simp: other_rows_kept_def MarkEnqueued_rows option.map_id
        split: fault.split intro!: option.map_ident_strong)
qed

text \<open>
  Publishing hands the id to the broker exactly once, whatever happens; enqueued_at is
  set only after a durable receipt and only on a pending row, and every other row and every
  row that is no longer pending stays as it is. A lost publish or a failed mark is reported.
\<close>

lemma publish_and_mark:
  "\<exists>err w'. alone J E (PublishAndMark us i) w = Some (err, w')
    \<and> w_messages w' = w_messages w @ accepted (se_publish (E 0)) i
    \<and> other_rows_kept i (w_table w) (w_table w')
    \<and> (if se_publish (E 0) = Published True
       then w_table w' = snd (MarkEnqueued (se_db (E 1)) i (w_table w))
         \<and> (err = None \<longleftrightarrow> fst (MarkEnqueued (se_db (E 1)) i (w_table w)) = None)
       else w_table w' = w_table w \<and> (err = None \<longleftrightarrow> se_publish (E 0) = Published False))"
proof (cases "se_publish (E 0)")
  case (Published durable)
  then show ?thesis
    by (cases durable; cases "fst (MarkEnqueued (se_db (E 1)) i (w_table w))")
      (auto simp: PublishAndMark_def publish_result_def Let_def other_rows_MarkEnqueued
        other_rows_kept_def[of _ t t for t])
next
  case (PublishFailed e acc)
  then show ?thesis by (simp add: PublishAndMark_def publish_result_def other_rows_kept_def)
qed

text \<open>Publishing an event that is not pending changes no row.\<close>

lemma MarkEnqueued_not_pending:
  assumes "lookup_row i t = Some r" and "ev_Status r \<noteq> PENDING"
  shows "lookup_row j (snd (MarkEnqueued env i t)) = lookup_row j t"
  using assms other_rows_MarkEnqueued[of i t env]
  by (cases "j = i") (auto simp: MarkEnqueued_rows other_rows_kept_def split: fault.split)

lemma run_publish:
  assumes "lookup_row i (w_table w) = Some r" and "ev_Status r \<noteq> PENDING"
  shows "\<exists>w'. run J E (\<lambda>_ w. w) (bind (PublishAndMark us i) (\<lambda>_. Return ())) n w = Some ((), w')
    \<and> (\<forall>j. lookup_row j (w_table w') = lookup_row j (w_table w)) \<and> w_calls w' = w_calls w
    \<and> w_messages w' = w_messages w @ accepted (se_publish (E n)) i"
  by (auto simp: PublishAndMark_def Let_def MarkEnqueued_not_pending[OF assms]
      split: sum.split option.split)

section \<open>Recovering one row\<close>

lemma outcomeOf_requeue: "requeue_requested v \<Longrightarrow> outcomeOf v = OutcomeRequeueRequested"
  by (auto simp: outcomeOf_def requeue_requested_def split: option.splits Option.bind_splits)

lemma waiting_claimable:
  "ev_ID r = i \<Longrightarrow> waiting r \<Longrightarrow> claimable now i r"
  by (simp add: claimable_def)

lemma lease_or_default_pos: "0 < lease_or_default d"
  by (simp add: lease_or_default_def second_def)

text \<open>The row of an expired lease, as a scan has read it and as it still is.\<close>

definition expired_row :: "(nat \<Rightarrow> step_env) \<Rightarrow> table \<Rightarrow> Event \<Rightarrow> bool" where
  "expired_row E t r \<longleftrightarrow> table_wf t \<and> lookup_row (ev_ID r) t = Some r \<and> ev_Status r = PROCESSING
     \<and> (\<forall>n. lease_expired (db_now (se_db (E n))) r) \<and> no_faults E"

text \<open>Both ways of recovery end by publishing a row that waits again.\<close>

lemma republished_row:
  assumes "expired_row E (w_table w) r" and "\<And>q. ev_ID (f q) = ev_ID q" and "waiting (f r)"
    and "life (f r) = LWaiting (ev_AttemptCount r)"
    and "alone J E (recoverOne us d r) w = run J E (\<lambda>_ w. w) (bind (PublishAndMark us (ev_ID r)) (\<lambda>_. Return ())) n
      (w\<lparr>w_table := on_row (ev_ID r) f (w_table w)\<rparr>)"
  shows "\<exists>w' r'. alone J E (recoverOne us d r) w = Some ((), w')
    \<and> lookup_row (ev_ID r) (w_table w') = Some r'
    \<and> life r' = LWaiting (ev_AttemptCount r) \<and> (\<forall>now. claimable now (ev_ID r) r')
    \<and> ev_LeaseUntil r' = ev_LeaseUntil (f r)
    \<and> w_messages w' = w_messages w @ accepted (se_publish (E n)) (ev_ID r)
    \<and> w_calls w' = w_calls w \<and> other_rows_kept (ev_ID r) (w_table w) (w_table w')"
proof -
  let ?w = "w\<lparr>w_table := on_row (ev_ID r) f (w_table w)\<rparr>"
  have l: "lookup_row j (w_table ?w) = (if j = ev_ID r then Some (f r) else lookup_row j (w_table w))" for j
    using assms(1,2) by (simp add: on_row_lookup expired_row_def)
  have "ev_Status (f r) \<noteq> PENDING" using assms(3) by (simp add: waiting_def)
  with run_publish[of "ev_ID r" ?w "f r" J E us n] l obtain w' where
    "run J E (\<lambda>_ w. w) (bind (PublishAndMark us (ev_ID r)) (\<lambda>_. Return ())) n ?w = Some ((), w')"
    "\<forall>j. lookup_row j (w_table w') = lookup_row j (w_table ?w)" "w_calls w' = w_calls w"
    "w_messages w' = w_messages w @ accepted (se_publish (E n)) (ev_ID r)" by auto
  with assms(2-5) l show ?thesis
    by (intro exI[of _ w'] exI[of _ "f r"]) (simp add: other_rows_kept_def waiting_claimable)
qed

lemma recovered_row:
  assumes "expired_row E (w_table w) r"
  shows "\<exists>w' r'. alone J E (recoverOne us d r) w = Some ((), w')
    \<and> lookup_row (ev_ID r) (w_table w') = Some r'
    \<and> life r' = LWaiting (ev_AttemptCount r) \<and> (\<forall>now. claimable now (ev_ID r) r')
    \<and> ev_LeaseUntil r' = Some ((if ev_LeaseToken r = None then db_now (se_db (E 0)) else se_now (E 0))
        + lease_or_default d)
    \<and> w_messages w' = w_messages w
        @ accepted (se_publish (E (if ev_LeaseToken r = None then 1 else 2))) (ev_ID r)
    \<and> w_calls w' = w_calls w \<and> other_rows_kept (ev_ID r) (w_table w) (w_table w')"
proof (cases "ev_LeaseToken r")
  case None
  let ?f = "\<lambda>r. r\<lparr>ev_LeaseUntil := Some (db_now (se_db (E 0)) + lease_or_default d),
                 ev_UpdatedAt := db_now (se_db (E 0))\<rparr>"
  have req: "requeue_requested (ev_LastResult r)"
    using assms None by (auto simp: expired_row_def table_wf_def row_wf_def dest!: lookup_row_SomeD)
  have "ReserveExpiredRequeue (se_db (E 0)) (ev_ID r) (lease_or_default d) (w_table w)
      = (None, on_row (ev_ID r) ?f (w_table w))"
    unfolding ReserveExpiredRequeue_def using assms None req
    by (intro guarded_update_on_row[of _ _ r])
      (auto simp: expired_row_def table_wf_def no_faults_def requeue_requested_def)
  then have "alone J E (recoverOne us d r) w = run J E (\<lambda>_ w. w) (bind (PublishAndMark us (ev_ID r)) (\<lambda>_. Return ()))
      1 (w\<lparr>w_table := on_row (ev_ID r) ?f (w_table w)\<rparr>)"
    using None outcomeOf_requeue[OF req] by (simp add: recoverOne_def Let_def)
  moreover have "waiting (?f r)" "life (?f r) = LWaiting (ev_AttemptCount r)"
    using assms None req by (simp_all add: waiting_def life_def expired_row_def requeue_requested_def)
  ultimately show ?thesis using republished_row[of E w r ?f, OF assms] None by simp
next
  case (Some tok)
  let ?f = "\<lambda>q. q\<lparr>ev_LeaseToken := None, ev_LeaseUntil := Some (se_now (E 0) + lease_or_default d),
       ev_LastResult := Some (marshal_finished (expired_result r (se_now (E 0)))),
       ev_ProviderResponse := None, ev_UpdatedAt := db_now (se_db (E 1))\<rparr>"
  have "RecoverExpiredToRequeue (se_db (E 1)) (ev_ID r) tok (se_now (E 0) + lease_or_default d)
      (marshal_finished (expired_result r (se_now (E 0)))) (w_table w) = (None, on_row (ev_ID r) ?f (w_table w))"
    unfolding RecoverExpiredToRequeue_def using assms Some
    by (intro guarded_update_on_row[of _ _ r])
      (auto simp: expired_row_def table_wf_def no_faults_def held_by_def)
  then have "alone J E (recoverOne us d r) w = run J E (\<lambda>_ w. w) (bind (PublishAndMark us (ev_ID r)) (\<lambda>_. Return ()))
      2 (w\<lparr>w_table := on_row (ev_ID r) ?f (w_table w)\<rparr>)"
    using Some by (simp add: recoverOne_def Let_def eval_nat_numeral)
  moreover have "waiting (?f r)" "life (?f r) = LWaiting (ev_AttemptCount r)"
    using assms by (simp_all add: waiting_def life_def expired_row_def expired_result_def Let_def)
  ultimately show ?thesis using republished_row[of E w r ?f, OF assms] Some by simp
qed

text \<open>
  C14: Recovery loses nothing: a row whose lease has expired, because its worker died or
  because the broker lost its message, is given back without its worker, keeps its attempt
  count, is claimable by the next delivery whenever that comes, gets a new recovery
  deadline, and its id is handed to the broker again; no provider is called and no other
  row changes.
\<close>

theorem recovery_restores:
  assumes "expired_row E (w_table w) r"
  shows "\<exists>w' r'. alone J E (recoverOne us d r) w = Some ((), w')
    \<and> lookup_row (ev_ID r) (w_table w') = Some r'
    \<and> life r' = LWaiting (ev_AttemptCount r) \<and> (\<forall>now. claimable now (ev_ID r) r')
    \<and> ev_LeaseUntil r' = Some ((if ev_LeaseToken r = None then db_now (se_db (E 0)) else se_now (E 0))
        + lease_or_default d)
    \<and> w_messages w' = w_messages w
        @ accepted (se_publish (E (if ev_LeaseToken r = None then 1 else 2))) (ev_ID r)
    \<and> w_calls w' = w_calls w \<and> other_rows_kept (ev_ID r) (w_table w) (w_table w')"
  by (rule recovered_row[OF assms])

section \<open>The publish scan\<close>

text \<open>What a durable receipt leaves of a row that still waits for its first claim.\<close>

definition marked :: "bool \<Rightarrow> uuid set \<Rightarrow> Event \<Rightarrow> Event \<Rightarrow> bool" where
  "marked durable is r r' \<longleftrightarrow>
     (if durable \<and> ev_ID r \<in> is \<and> ev_Status r = PENDING
      then \<exists>u. r' = r\<lparr>ev_EnqueuedAt := Some u, ev_UpdatedAt := u\<rparr> else r' = r)"

lemma marked_step:
  assumes "marked durable is (if durable \<and> ev_ID r = i \<and> ev_Status r = PENDING
      then r\<lparr>ev_EnqueuedAt := Some u, ev_UpdatedAt := u\<rparr> else r) r'"
  shows "marked durable (insert i is) r r'"
proof (cases "durable \<and> ev_ID r = i \<and> ev_Status r = PENDING")
  case True
  with assms show ?thesis by (cases "i \<in> is") (simp_all add: marked_def, blast+)
next
  case False
  then have "marked durable is r r'" using assms by (simp only: if_False)
  with False show ?thesis by (auto simp: marked_def)
qed

lemma publish_each:
  assumes "no_faults E" and "\<forall>n. se_publish (E n) = Published durable"
  shows "\<exists>w'. run J E (\<lambda>_ w. w) (for_each (\<lambda>i. bind (PublishAndMark us i) (\<lambda>_. Return ())) is) n w = Some ((), w')
    \<and> w_messages w' = w_messages w @ is \<and> w_calls w' = w_calls w
    \<and> (\<forall>j. lookup_row j (w_table w) = None \<longrightarrow> lookup_row j (w_table w') = None)
    \<and> (\<forall>j r. lookup_row j (w_table w) = Some r \<longrightarrow>
         (\<exists>r'. lookup_row j (w_table w') = Some r' \<and> marked durable (set is) r r'))
    \<and> (\<not> durable \<longrightarrow> w_table w' = w_table w)"
proof (induction "is" arbitrary: n w)
  case Nil
  show ?case by (auto simp: marked_def)
next
  case (Cons i "is")
  have nf: "db_fault (se_db (E m)) = NoFault" for m using assms(1) by (simp add: no_faults_def)
  let ?env = "se_db (E (Suc n))"
  let ?w = "w\<lparr>w_messages := w_messages w @ [i],
      w_table := if durable then snd (MarkEnqueued ?env i (w_table w)) else w_table w\<rparr>"
  let ?n = "if durable then Suc (Suc n) else Suc n"
  have "fst (MarkEnqueued ?env i (w_table w)) = None"
    using nf by (simp add: MarkEnqueued_def exec_update_def Let_def)
  then have run: "run J E (\<lambda>_ w. w) (for_each (\<lambda>i. bind (PublishAndMark us i) (\<lambda>_. Return ())) (i # is)) n w
      = run J E (\<lambda>_ w. w) (for_each (\<lambda>i. bind (PublishAndMark us i) (\<lambda>_. Return ())) is) ?n ?w"
    using assms(2) by (simp add: PublishAndMark_def publish_result_def accepted_def Let_def)
  have l: "lookup_row j (w_table ?w) = map_option (\<lambda>r. if durable \<and> ev_ID r = i \<and> ev_Status r = PENDING
      then r\<lparr>ev_EnqueuedAt := Some (db_now ?env), ev_UpdatedAt := db_now ?env\<rparr> else r) (lookup_row j (w_table w))" for j
    using nf by (simp add: MarkEnqueued_rows option.map_ident)
  from Cons.IH[of ?n ?w] obtain w' where
    w': "run J E (\<lambda>_ w. w) (for_each (\<lambda>i. bind (PublishAndMark us i) (\<lambda>_. Return ())) is) ?n ?w = Some ((), w')"
      "w_messages w' = w_messages w @ i # is" "w_calls w' = w_calls w"
    and none: "\<And>j. lookup_row j (w_table ?w) = None \<Longrightarrow> lookup_row j (w_table w') = None"
    and some: "\<And>j r. lookup_row j (w_table ?w) = Some r \<Longrightarrow>
      \<exists>r'. lookup_row j (w_table w') = Some r' \<and> marked durable (set is) r r'"
    and same: "\<not> durable \<Longrightarrow> w_table w' = w_table w"
    by auto
  have "\<exists>r'. lookup_row j (w_table w') = Some r' \<and> marked durable (set (i # is)) r r'"
    if "lookup_row j (w_table w) = Some r" for j r
    using some[of j, unfolded l that option.map(2), OF refl] marked_step[of durable "set is" r i "db_now ?env"]
    by auto
  moreover have "lookup_row j (w_table w') = None" if "lookup_row j (w_table w) = None" for j
    using none[of j] l[of j] that by simp
  ultimately show ?case using w' same unfolding run by blast
qed

text \<open>
  C18: The publish scan repairs lost publications. Run undisturbed, with a broker that takes
  every message, it hands over the ids of rows that nobody has claimed, that are due and that
  no broker has durably accepted, each once and in order of due time, at most a batch of
  them; every such row is then marked (when the receipts are durable) and every other row is
  left as it is. What is still unpublished afterwards was left out only because the batch was
  full of rows due no later, so repeated scans reach every row. No provider is called.
\<close>

theorem publish_scan_repairs:
  assumes "table_wf (w_table w)" and "no_faults E" and "\<forall>n. se_publish (E n) = Published durable"
    and "batch = (if cc_PublishBatchSize cfg \<le> 0 then 500 else nat (cc_PublishBatchSize cfg))"
  shows "\<exists>w' rs. alone J E (scanPendingPublish us cfg) w = Some ((), w')
    \<and> w_messages w' = w_messages w @ map ev_ID rs \<and> w_calls w' = w_calls w
    \<and> distinct (map ev_ID rs) \<and> sorted (map ev_NextAttemptAt rs) \<and> length rs \<le> batch
    \<and> (\<forall>r \<in> set rs. lookup_row (ev_ID r) (w_table w) = Some r
         \<and> life r = LPending \<and> ev_EnqueuedAt r = None \<and> ev_NextAttemptAt r \<le> db_now (se_db (E 0))
         \<and> (if durable then \<exists>u. lookup_row (ev_ID r) (w_table w') = Some (r\<lparr>ev_EnqueuedAt := Some u, ev_UpdatedAt := u\<rparr>)
            else lookup_row (ev_ID r) (w_table w') = Some r))
    \<and> (\<forall>i. i \<notin> ev_ID ` set rs \<longrightarrow> lookup_row i (w_table w') = lookup_row i (w_table w))
    \<and> (\<forall>i r'. lookup_row i (w_table w') = Some r' \<longrightarrow> i \<notin> ev_ID ` set rs \<longrightarrow>
         life r' = LPending \<longrightarrow> ev_EnqueuedAt r' = None \<longrightarrow> ev_NextAttemptAt r' \<le> db_now (se_db (E 0)) \<longrightarrow>
         length rs = batch \<and> (\<forall>r \<in> set rs. ev_NextAttemptAt r \<le> ev_NextAttemptAt r'))"
proof -
  have nf: "db_fault (se_db (E 0)) = NoFault" using assms(2) by (simp add: no_faults_def)
  obtain rs where rs: "SelectPendingToPublish (se_db (E 0)) batch (w_table w) = Inr (map ev_ID rs)"
      "distinct (map ev_ID rs)" "sorted (map ev_NextAttemptAt rs)" "length rs \<le> batch"
    and sel: "\<forall>r \<in> set rs. r \<in> set (w_table w) \<and> unpublished (db_now (se_db (E 0))) r"
    and left: "\<forall>r' \<in> set (w_table w). unpublished (db_now (se_db (E 0))) r' \<longrightarrow> r' \<notin> set rs \<longrightarrow>
      length rs = batch \<and> (\<forall>r \<in> set rs. ev_NextAttemptAt r \<le> ev_NextAttemptAt r')"
    by (rule pending_scan[OF assms(1) nf])
  have size: "nat (if cc_PublishBatchSize cfg \<le> 0 then 500 else cc_PublishBatchSize cfg) = batch"
    using assms(4) by simp
  from publish_each[OF assms(2,3), of J us "map ev_ID rs" 1 w] obtain w' where
    w': "run J E (\<lambda>_ w. w) (for_each (\<lambda>i. bind (PublishAndMark us i) (\<lambda>_. Return ())) (map ev_ID rs)) 1 w = Some ((), w')"
      "w_messages w' = w_messages w @ map ev_ID rs" "w_calls w' = w_calls w"
    and none: "\<And>j. lookup_row j (w_table w) = None \<Longrightarrow> lookup_row j (w_table w') = None"
    and some: "\<And>j r. lookup_row j (w_table w) = Some r \<Longrightarrow>
      \<exists>r'. lookup_row j (w_table w') = Some r' \<and> marked durable (ev_ID ` set rs) r r'" by auto
  have run: "alone J E (scanPendingPublish us cfg) w = Some ((), w')"
    using w'(1) by (simp add: scanPendingPublish_def Let_def size rs(1))
  have look: "lookup_row (ev_ID r) (w_table w) = Some r \<and> ev_Status r = PENDING" if "r \<in> set rs" for r
    using sel that assms(1) lookup_row_in_set[of "w_table w" "ev_ID r" r]
    by (auto simp: table_wf_def unpublished_def life_pending_iff)
  have mark: "if durable then \<exists>u. lookup_row (ev_ID r) (w_table w') = Some (r\<lparr>ev_EnqueuedAt := Some u, ev_UpdatedAt := u\<rparr>)
      else lookup_row (ev_ID r) (w_table w') = Some r" if "r \<in> set rs" for r
    using some[of "ev_ID r" r] look[OF that] that by (auto simp: marked_def split: if_splits)
  have keep: "lookup_row i (w_table w') = lookup_row i (w_table w)" if "i \<notin> ev_ID ` set rs" for i
    using none[of i] some[of i] that
    by (cases "lookup_row i (w_table w)") (auto simp: marked_def dest!: lookup_row_SomeD split: if_splits)
  have rest: "length rs = batch \<and> (\<forall>r \<in> set rs. ev_NextAttemptAt r \<le> ev_NextAttemptAt r')"
    if "lookup_row i (w_table w') = Some r'" "i \<notin> ev_ID ` set rs" "life r' = LPending"
      "ev_EnqueuedAt r' = None" "ev_NextAttemptAt r' \<le> db_now (se_db (E 0))" for i r'
    using left that keep[OF that(2)] by (auto simp: unpublished_def dest!: lookup_row_SomeD)
  have due: "life r = LPending \<and> ev_EnqueuedAt r = None \<and> ev_NextAttemptAt r \<le> db_now (se_db (E 0))"
    if "r \<in> set rs" for r using sel that by (auto simp: unpublished_def)
  show ?thesis
    using run w'(2,3) rs(2-4) look mark keep rest due by (intro exI[of _ w'] exI[of _ rs]) blast
qed

end
