(* ===== verification/Loadtest.thy ===== *)
theory Loadtest
  imports Adapters
begin

text \<open>
  internal/provider/adapters/loadtest_http.go: the loopback-only adapter of the benchmarks.
\<close>

definition loadtestActionRequest :: string where "loadtestActionRequest = ''request''"

record loadtestHTTPConfig =
  lc_EndpointURL :: string
  lc_TimeoutMs :: int
  lc_MaxConcurrency :: int

definition validateLoadtestEndpoint :: "url_parser \<Rightarrow> string \<Rightarrow> string option" where
  "validateLoadtestEndpoint url_parser raw =
     (case url_parser raw of
        None \<Rightarrow> Some ''must be an absolute URL''
      | Some u \<Rightarrow>
        if u_Host u = [] then Some ''must be an absolute URL''
        else if u_Scheme u \<noteq> ''http'' \<or> \<not> literal_loopback (u_Hostname u)
        then Some ''must use HTTP on a loopback host''
        else if \<not> bare_url u
        then Some ''must not contain user info, query parameters, or a fragment''
        else None)"

definition loadtest_description :: string where
  "loadtest_description =
     map byte [229, 142, 139, 230, 181, 139, 228, 184, 147, 231, 148, 168, 239, 188, 154, 229,
     144, 145, 230, 156, 172, 230, 156, 186, 32, 72, 84, 84, 80, 32, 230, 168, 161, 230, 139,
     159, 229, 144, 142, 231, 171, 175, 229, 143, 145, 233, 128, 129, 32, 74, 83, 79, 78, 32,
     232, 175, 183, 230, 177, 130, 239, 188, 140, 228, 187, 165, 32, 72, 84, 84, 80, 32, 50,
     120, 120, 32, 228, 189, 156, 228, 184, 186, 230, 136, 144, 229, 138, 159]"

definition loadtest_Config :: "url_parser \<Rightarrow> loadtestHTTPConfig \<Rightarrow> (string, provider_Config) result" where
  "loadtest_Config url_parser cfg =
     (case validateLoadtestEndpoint url_parser (lc_EndpointURL cfg) of
        Some e \<Rightarrow> Inl (''actions.request.endpoint_url: '' @ e)
      | None \<Rightarrow>
        if lc_TimeoutMs cfg \<le> 0 then Inl ''actions.request.timeout_ms must be greater than zero''
        else if lc_MaxConcurrency cfg \<le> 0
        then Inl ''actions.request.max_concurrency must be greater than zero''
        else Inr \<lparr>pc_CredentialRef = [],
                  pc_Actions = [(loadtestActionRequest,
                    \<lparr>cf_Description = loadtest_description, cf_BaseURL = [],
                     cf_Path = lc_EndpointURL cfg, cf_Method = ''POST'',
                     cf_TimeoutMs = lc_TimeoutMs cfg, cf_RequestsPerSecond = 0,
                     cf_MaxConcurrency = lc_MaxConcurrency cfg, cf_CircuitBreaker = None\<rparr>)]\<rparr>)"

definition loadtest_Validate :: "string \<Rightarrow> string \<Rightarrow> validate_error option" where
  "loadtest_Validate action payload =
     (if action \<noteq> loadtestActionRequest
      then Some (OtherValidateError (''loadtest_http: unsupported action '' @ go_q action))
      else if \<not> json_valid payload then Some (ValidationError [''payload must be valid JSON''])
      else None)"

definition loadtest_SendActionRequest ::
  "network \<Rightarrow> ActionContext \<Rightarrow> string \<Rightarrow> string \<Rightarrow> (string, provider_result option) result" where
  "loadtest_SendActionRequest net ac action payload =
     (if action \<noteq> loadtestActionRequest then Inl (''loadtest_http: unsupported action '' @ go_q action)
      else
      case Send net ac \<lparr>hq_Method = ac_Method ac, hq_URL = ac_Path ac,
                        hq_Headers = [(''Content-Type'', ''application/json'')], hq_Body = payload,
                        hq_Timeout = 0, hq_RejectRedirects = False\<rparr> of
        Inl e \<Rightarrow>
          if nt_cancelled net then Inl (''process loadtest response: '' @ he_text e)
          else Inr (Some (transport_failure ''LOADTEST_PRE_SEND_CONNECT_FAILURE''
                            ''LOADTEST_TRANSPORT_ERROR'' e))
      | Inr (resp, providerResponse) \<Rightarrow>
          let s = hr_StatusCode resp;
              result = result_zero\<lparr>pr_Success := (200 \<le> s \<and> s < 300), pr_HTTPStatus := s,
                                   pr_ProviderResponse := Some providerResponse\<rparr> in
          Inr (Some (if pr_Success result then result
                     else result\<lparr>pr_AvailabilityFailure := unavailable_status s,
                                 pr_ErrorClass := ''LOADTEST_HTTP_STATUS'',
                                 pr_Message := ''loadtest endpoint returned HTTP '' @ Itoa s\<rparr>)))"

definition LoadtestHTTP :: adapter where
  "LoadtestHTTP =
     \<lparr>ad_Validate = loadtest_Validate, ad_SendActionRequest = loadtest_SendActionRequest\<rparr>"

interpretation loadtest: http_adapter LoadtestHTTP loadtestActionRequest
  by unfold_locales
    (auto simp: LoadtestHTTP_def loadtest_Validate_def loadtest_SendActionRequest_def
      transport_failure_def result_zero_def Let_def split: option.splits sum.splits if_splits)

end
