(* ===== verification/Termination.thy ===== *)
theory Termination
  imports Processor Compensator Service
begin

text \<open>
  Every handler comes to an end. A program is a well-founded tree, but a tree may be deeper
  than any number; here the number of effects of each handler is bounded, and what it can
  wait for is made explicit: only a slot of an action all of whose slots are taken.
\<close>

section \<open>Bounded programs\<close>

text \<open>\<open>ends_in n p\<close>: whatever its effects are answered, \<open>p\<close> returns after at most \<open>n\<close> of them.\<close>

fun ends_in :: "nat \<Rightarrow> 'a prog \<Rightarrow> bool" where
  "ends_in 0 p \<longleftrightarrow> (\<exists>x. p = Return x)"
| "ends_in (Suc n) p \<longleftrightarrow> (\<forall>q \<in> children p. ends_in n q)"

lemma within_Return [simp]: "ends_in n (Return x)"
  by (cases n) auto

lemma within_Suc: "ends_in n p \<Longrightarrow> ends_in (Suc n) p"
  by (induction n arbitrary: p) auto

lemma within_mono: "ends_in n p \<Longrightarrow> n \<le> m \<Longrightarrow> ends_in m p"
  by (induction m) (auto simp: le_Suc_eq intro: within_Suc simp del: ends_in.simps)

lemma children_bind: "(\<nexists>x. p = Return x) \<Longrightarrow> children (bind p f) = (\<lambda>q. bind q f) ` children p"
  by (cases p) auto

lemma within_bind:
  assumes "\<And>x. ends_in m (f x)"
  shows "ends_in n p \<Longrightarrow> ends_in (n + m) (bind p f)"
proof (induction n arbitrary: p)
  case 0
  with assms show ?case by auto
next
  case (Suc n)
  show ?case
  proof (cases "\<exists>x. p = Return x")
    case True
    then obtain x where "p = Return x" by blast
    with within_mono[OF assms[of x], of "Suc n + m"] show ?thesis by simp
  next
    case False
    with Suc show ?thesis by (auto simp: children_bind)
  qed
qed

lemma ends_simps [simp]:
  "ends_in (Suc n) (NewUUID k) \<longleftrightarrow> (\<forall>r. ends_in n (k r))"
  "ends_in (Suc n) (TimeNow k1) \<longleftrightarrow> (\<forall>r. ends_in n (k1 r))"
  "ends_in (Suc n) (RepoInsert ev k2) \<longleftrightarrow> (\<forall>r. ends_in n (k2 r))"
  "ends_in (Suc n) (RepoClaim i tok d now k3) \<longleftrightarrow> (\<forall>r. ends_in n (k3 r))"
  "ends_in (Suc n) (RepoExec op k4) \<longleftrightarrow> (\<forall>r. ends_in n (k4 r))"
  "ends_in (Suc n) (RepoFind a b k5) \<longleftrightarrow> (\<forall>r. ends_in n (k5 r))"
  "ends_in (Suc n) (RepoGet i k6) \<longleftrightarrow> (\<forall>r. ends_in n (k6 r))"
  "ends_in (Suc n) (RepoPending m k7) \<longleftrightarrow> (\<forall>r. ends_in n (k7 r))"
  "ends_in (Suc n) (RepoExpired m k8) \<longleftrightarrow> (\<forall>r. ends_in n (k8 r))"
  "ends_in (Suc n) (BreakerAllow a k9) \<longleftrightarrow> (\<forall>r. ends_in n (k9 r))"
  "ends_in (Suc n) (LimiterAcquire a k10) \<longleftrightarrow> (\<forall>r. ends_in n (k10 r))"
  "ends_in (Suc n) (ProviderSend ad ac act pl k11) \<longleftrightarrow> (\<forall>r. ends_in n (k11 r))"
  "ends_in (Suc n) (BrokerPublish i k12) \<longleftrightarrow> (\<forall>r. ends_in n (k12 r))"
  "ends_in (Suc n) (BreakerObserve p obs q) \<longleftrightarrow> ends_in n q"
  "ends_in (Suc n) (BreakerAbort p q) \<longleftrightarrow> ends_in n q"
  "ends_in (Suc n) (LimiterRelease rel q) \<longleftrightarrow> ends_in n q"
  by auto

declare ends_in.simps [simp del]

text \<open>The programs that never wait for a slot.\<close>

primrec unblocked :: "'a prog \<Rightarrow> bool" where
  "unblocked (Return x) \<longleftrightarrow> True"
| "unblocked (NewUUID k) \<longleftrightarrow> (\<forall>r. unblocked (k r))"
| "unblocked (TimeNow k) \<longleftrightarrow> (\<forall>r. unblocked (k r))"
| "unblocked (RepoInsert ev k) \<longleftrightarrow> (\<forall>r. unblocked (k r))"
| "unblocked (RepoClaim i tok d now k) \<longleftrightarrow> (\<forall>r. unblocked (k r))"
| "unblocked (RepoExec x k) \<longleftrightarrow> (\<forall>r. unblocked (k r))"
| "unblocked (RepoFind a b k) \<longleftrightarrow> (\<forall>r. unblocked (k r))"
| "unblocked (RepoGet i k) \<longleftrightarrow> (\<forall>r. unblocked (k r))"
| "unblocked (RepoPending n k) \<longleftrightarrow> (\<forall>r. unblocked (k r))"
| "unblocked (RepoExpired n k) \<longleftrightarrow> (\<forall>r. unblocked (k r))"
| "unblocked (BreakerAllow a k) \<longleftrightarrow> (\<forall>r. unblocked (k r))"
| "unblocked (BreakerObserve p b k) \<longleftrightarrow> unblocked k"
| "unblocked (BreakerAbort p k) \<longleftrightarrow> unblocked k"
| "unblocked (LimiterAcquire a k) \<longleftrightarrow> False"
| "unblocked (LimiterRelease r k) \<longleftrightarrow> unblocked k"
| "unblocked (ProviderSend a ac act p k) \<longleftrightarrow> (\<forall>r. unblocked (k r))"
| "unblocked (BrokerPublish i k) \<longleftrightarrow> (\<forall>r. unblocked (k r))"

lemma unblocked_bind: "unblocked p \<Longrightarrow> (\<And>x. unblocked (f x)) \<Longrightarrow> unblocked (bind p f)"
  by (induction p) auto

lemma unblocked_child: "unblocked p \<Longrightarrow> q \<in> children p \<Longrightarrow> unblocked q"
  by (cases p) auto

section \<open>The states of a run\<close>

inductive reaches ::
  "jsonb \<Rightarrow> (nat \<Rightarrow> step_env) \<Rightarrow> (nat \<Rightarrow> world \<Rightarrow> world) \<Rightarrow> 'a prog \<Rightarrow> nat \<Rightarrow> world \<Rightarrow>
   'a prog \<Rightarrow> nat \<Rightarrow> world \<Rightarrow> bool"
  for J E oth where
  here: "reaches J E oth p n w p n w"
| there: "step J (E n) p (oth n w) = Some (p', w') \<Longrightarrow> reaches J E oth p' (Suc n) w' q m v \<Longrightarrow>
    reaches J E oth p n w q m v"

lemma reaches_within: "reaches J E oth p n w q m v \<Longrightarrow> ends_in k p \<Longrightarrow> m \<le> n + k"
proof (induction arbitrary: k rule: reaches.induct)
  case (there n p w p' w' q m v)
  then obtain j where "k = Suc j" by (cases k) (auto simp: ends_in.simps)
  with there step_child[OF there(1)] show ?case by (fastforce simp: ends_in.simps)
qed simp

lemma reaches_unblocked: "reaches J E oth p n w q m v \<Longrightarrow> unblocked p \<Longrightarrow> unblocked q"
  by (induction rule: reaches.induct) (auto dest: step_child unblocked_child)

lemma step_None: "step J e p w = None \<Longrightarrow> (\<exists>x. p = Return x) \<or> (\<exists>a k. p = LimiterAcquire a k \<and> Acquire (se_acquire e) a (w_limiters w) = None)"
  by (cases p) (auto simp: Let_def)

lemma run_step: "step J (E n) p (oth n w) = Some (p', w') \<Longrightarrow> run J E oth p n w = run J E oth p' (Suc n) w'"
  by (cases p) (auto simp: Let_def)

lemma run_None:
  "run J E oth p n w = None \<Longrightarrow>
   \<exists>a k m v. reaches J E oth p n w (LimiterAcquire a k) m v
     \<and> Acquire (se_acquire (E m)) a (w_limiters (oth m v)) = None"
proof (induction p arbitrary: n w rule: wf_induct_rule[OF wf_prog_child])
  case (1 p)
  show ?case
  proof (cases "step J (E n) p (oth n w)")
    case None
    have "\<nexists>x. p = Return x" using "1.prems" by auto
    with step_None[OF None] obtain a k where "p = LimiterAcquire a k"
        "Acquire (se_acquire (E n)) a (w_limiters (oth n w)) = None" by blast
    with reaches.here[of J E oth p n w] show ?thesis by blast
  next
    case (Some x)
    then obtain p' w' where st: "step J (E n) p (oth n w) = Some (p', w')" by (cases x) auto
    from step_child[OF st] have "(p', p) \<in> prog_child" by (simp add: prog_child_def)
    from "1.IH"[OF this] "1.prems" run_step[of J E n p oth w, OF st]
    show ?thesis by (metis reaches.there[of J E n p oth w, OF st])
  qed
qed

lemma run_unblocked:
  assumes "unblocked p"
  shows "\<exists>r w'. run J E oth p n w = Some (r, w')"
proof (rule ccontr)
  assume "\<nexists>r w'. run J E oth p n w = Some (r, w')"
  then have "run J E oth p n w = None" by (cases "run J E oth p n w") auto
  from run_None[OF this] reaches_unblocked[OF _ assms] show False by fastforce
qed

lemma Acquire_waits:
  "Acquire env a ls = None \<Longrightarrow> \<exists>al cap. ls a = Some al \<and> al_sem al = Some cap \<and> cap \<le> al_inUse al
     \<and> aq_done env = None"
  by (auto simp: Acquire_def split: option.splits if_splits prod.splits)

section \<open>The handlers\<close>

lemma release_within: "ends_in 2 (releaseForRequeue p ev tok d r l)"
  by (simp add: releaseForRequeue_def numeral_2_eq_2 Let_def split: option.split)

lemma retry_within: "ends_in 2 (retryOrFail p ev tok d r l)"
  using release_within by (simp add: retryOrFail_def numeral_2_eq_2 Let_def)

lemma exhausted_within: "ends_in 2 (finishExhaustedBeforeProvider ev tok n)"
  by (simp add: finishExhaustedBeforeProvider_def numeral_2_eq_2 Let_def)

lemma defer_within: "ends_in 2 (deferForOpenCircuit p ev tok d t)"
  by (simp add: deferForOpenCircuit_def numeral_2_eq_2 Let_def split: option.split)

lemma finish_within: "ends_in 3 (finish_attempt p ev tok d permit l a)"
  using retry_within by (simp add: finish_attempt_def numeral_eq_Suc Let_def)

lemma attempt_within: "ends_in 9 (attempt p ev tok d ra permit)"
  using finish_within by (simp add: attempt_def numeral_eq_Suc Let_def split: option.split)

lemma process_within: "ends_in 12 (process p ev tok d)"
proof -
  have "ends_in (9 + 1) (bind (attempt p ev tok d ra permit) (\<lambda>r. LimiterRelease rel (Return r)))" for ra permit rel
    by (rule within_bind) (simp_all add: attempt_within)
  moreover have "ends_in 11 (deferForOpenCircuit p ev tok d t)" for t
    by (rule within_mono[OF defer_within]) simp
  moreover have "ends_in 12 (retryOrFail p ev tok d r l)" for r l
    by (rule within_mono[OF retry_within]) simp
  moreover have "ends_in 12 (finishExhaustedBeforeProvider ev tok n)" for n
    by (rule within_mono[OF exhausted_within]) simp
  ultimately show ?thesis by (simp add: process_def numeral_eq_Suc Let_def split: option.split sum.split)
qed

lemma delivery_within: "ends_in 15 (HandleDelivery p d)"
  using process_within by (simp add: HandleDelivery_def numeral_eq_Suc split: sum.split store_error.split)

lemma publish_within: "ends_in 2 (PublishAndMark us i)" "unblocked (PublishAndMark us i)"
  by (simp_all add: PublishAndMark_def numeral_2_eq_2 split: sum.split option.split)

lemma publish_then: "ends_in 2 (bind (PublishAndMark us i) (\<lambda>_. Return x))"
  "unblocked (bind (PublishAndMark us i) (\<lambda>_. Return x))"
  using within_bind[of 0 "\<lambda>_. Return x" 2 "PublishAndMark us i"]
  by (simp_all add: publish_within unblocked_bind)

lemma resolve_within: "ends_in 1 (resolveExisting us cmd)" "unblocked (resolveExisting us cmd)"
  by (simp_all add: resolveExisting_def)

lemma submit_within: "ends_in 5 (Submit us reg cmd)"
proof -
  have "ends_in 2 (bind (resolveExisting us cmd) (\<lambda>x. Return (f x)))" for f :: "_ \<Rightarrow> (service_error, SubmitResult) result"
    using within_bind[of 1 "\<lambda>x. Return (f x)" 1, OF _ resolve_within(1)] by (simp add: numeral_2_eq_2)
  then show ?thesis using publish_then(1)
    unfolding Submit_def
    by (cases "submit_checks reg cmd")
      (auto simp: numeral_eq_Suc resolve_within[unfolded One_nat_def] split: sum.split option.split store_error.split
        intro!: within_bind[of "Suc (Suc (Suc (Suc 0)))" _ "Suc 0", simplified])
qed

lemma submit_unblocked: "unblocked (Submit us reg cmd)"
  by (auto simp: Submit_def resolve_within publish_then intro!: unblocked_bind
      split: option.split sum.split store_error.split)

lemma recover_within: "ends_in 4 (recoverOne us d ev)"
proof -
  have "ends_in 3 (bind (PublishAndMark us i) (\<lambda>_. Return ()))" for i
    by (rule within_mono[OF publish_then(1)]) simp
  then show ?thesis using publish_then(1)[of us _ "()"]
    by (simp add: recoverOne_def numeral_eq_Suc Let_def split: option.split)
qed

lemma recover_unblocked: "unblocked (recoverOne us d ev)"
  by (simp add: recoverOne_def Let_def publish_then split: option.split)

lemma for_each_within:
  assumes "\<And>x. ends_in k (f x)"
  shows "ends_in (length xs * k) (for_each f xs)"
proof (induction xs)
  case (Cons x xs)
  from within_bind[OF Cons.IH assms[of x]] show ?case by simp
qed simp

lemma for_each_unblocked: "(\<And>x. unblocked (f x)) \<Longrightarrow> unblocked (for_each f xs)"
  by (induction xs) (auto intro: unblocked_bind)

lemma scan_sizes:
  "SelectExpiredLeases env batch t = Inr evs \<Longrightarrow> length evs \<le> batch"
  "SelectPendingToPublish env batch t = Inr is \<Longrightarrow> length is \<le> batch"
  by (auto simp: SelectExpiredLeases_def SelectPendingToPublish_def select_rows_def map_sum_def
      split: fault.splits sum.splits)

text \<open>The sizes of the batches the two scans ask for.\<close>

definition lease_batch :: "CompensatorConfig \<Rightarrow> nat" where
  "lease_batch cfg = nat (if cc_LeaseScanBatchSize cfg \<le> 0 then 200 else cc_LeaseScanBatchSize cfg)"

definition publish_batch :: "CompensatorConfig \<Rightarrow> nat" where
  "publish_batch cfg = nat (if cc_PublishBatchSize cfg \<le> 0 then 500 else cc_PublishBatchSize cfg)"

lemma reaches_first:
  assumes "reaches J E oth p n w q m v" and "step J (E n) p (oth n w) = Some (p', w')" and "ends_in k p'"
  shows "m \<le> n + Suc k"
  using assms(1)
proof cases
  case (there p'' w'')
  with assms(2,3) reaches_within[of J E oth p' "Suc n" w' q m v k] show ?thesis by simp
qed simp

lemma lease_scan_bound:
  assumes "reaches J E oth (scanExpiredLeases us cfg d) n w q m v"
  shows "m \<le> n + Suc (lease_batch cfg * 4)"
proof (rule reaches_first[OF assms])
  let ?k = "\<lambda>events. case events of Inl e \<Rightarrow> Return () | Inr evs \<Rightarrow> for_each (recoverOne us d) evs"
  let ?x = "SelectExpiredLeases (se_db (E n)) (lease_batch cfg) (w_table (oth n w))"
  show "step J (E n) (scanExpiredLeases us cfg d) (oth n w) = Some (?k ?x, oth n w)"
    by (simp add: scanExpiredLeases_def lease_batch_def Let_def)
  have "ends_in (lease_batch cfg * 4) (for_each (recoverOne us d) evs)" if "?x = Inr evs" for evs
    using scan_sizes(1)[OF that] for_each_within[of 4 "recoverOne us d" evs, OF recover_within]
    by (auto intro: within_mono)
  then show "ends_in (lease_batch cfg * 4) (?k ?x)" by (auto split: sum.split)
qed

lemma publish_scan_bound:
  assumes "reaches J E oth (scanPendingPublish us cfg) n w q m v"
  shows "m \<le> n + Suc (publish_batch cfg * 2)"
proof (rule reaches_first[OF assms])
  let ?one = "\<lambda>i. bind (PublishAndMark us i) (\<lambda>_. Return ())"
  let ?k = "\<lambda>ids. case ids of Inl e \<Rightarrow> Return () | Inr is \<Rightarrow> for_each ?one is"
  let ?x = "SelectPendingToPublish (se_db (E n)) (publish_batch cfg) (w_table (oth n w))"
  show "step J (E n) (scanPendingPublish us cfg) (oth n w) = Some (?k ?x, oth n w)"
    by (simp add: scanPendingPublish_def publish_batch_def Let_def)
  have "ends_in (publish_batch cfg * 2) (for_each ?one is)" if "?x = Inr is" for "is"
    using scan_sizes(2)[OF that] for_each_within[of 2 ?one "is", OF publish_then(1)]
    by (auto intro: within_mono)
  then show "ends_in (publish_batch cfg * 2) (?k ?x)" by (auto split: sum.split)
qed

lemma scans_unblocked: "unblocked (scanExpiredLeases us cfg d)" "unblocked (scanPendingPublish us cfg)"
  by (auto simp: scanExpiredLeases_def scanPendingPublish_def Let_def recover_unblocked publish_then
      intro: for_each_unblocked split: sum.split)

text \<open>
  C31: Every handler comes to an end, whatever the database, the broker and the provider
  answer and whatever the rest of the system does in between. A delivery performs at most 15
  effects and returns, unless it waits for a slot of an action all of whose slots are in use,
  with its context still alive. A submission always returns, after at most 5 effects; the
  scans of the compensator always return, after a number of effects linear in their batch.
\<close>

theorem handlers_terminate:
  "(\<forall>q m v. reaches J E oth (HandleDelivery p d) n w q m v \<longrightarrow> m \<le> n + 15)
   \<and> ((\<exists>r w'. run J E oth (HandleDelivery p d) n w = Some (r, w'))
      \<or> (\<exists>a k m v al cap. reaches J E oth (HandleDelivery p d) n w (LimiterAcquire a k) m v
           \<and> w_limiters (oth m v) a = Some al \<and> al_sem al = Some cap \<and> cap \<le> al_inUse al
           \<and> aq_done (se_acquire (E m)) = None))
   \<and> (\<exists>r w'. run J E oth (Submit us reg cmd) n w = Some (r, w'))
   \<and> (\<forall>q m v. reaches J E oth (Submit us reg cmd) n w q m v \<longrightarrow> m \<le> n + 5)
   \<and> (\<exists>r w'. run J E oth (scanExpiredLeases us cfg ld) n w = Some (r, w'))
   \<and> (\<forall>q m v. reaches J E oth (scanExpiredLeases us cfg ld) n w q m v \<longrightarrow> m \<le> n + Suc (lease_batch cfg * 4))
   \<and> (\<exists>r w'. run J E oth (scanPendingPublish us cfg) n w = Some (r, w'))
   \<and> (\<forall>q m v. reaches J E oth (scanPendingPublish us cfg) n w q m v \<longrightarrow> m \<le> n + Suc (publish_batch cfg * 2))"
proof (intro conjI allI impI)
  show "(\<exists>r w'. run J E oth (HandleDelivery p d) n w = Some (r, w'))
      \<or> (\<exists>a k m v al cap. reaches J E oth (HandleDelivery p d) n w (LimiterAcquire a k) m v
           \<and> w_limiters (oth m v) a = Some al \<and> al_sem al = Some cap \<and> cap \<le> al_inUse al
           \<and> aq_done (se_acquire (E m)) = None)"
  proof (cases "run J E oth (HandleDelivery p d) n w")
    case None
    from run_None[OF None] show ?thesis by (blast dest: Acquire_waits)
  qed auto
qed (blast intro: run_unblocked submit_unblocked scans_unblocked lease_scan_bound publish_scan_bound
    reaches_within[OF _ delivery_within] reaches_within[OF _ submit_within])+

end
