(* ===== verification/Processor_Laws.thy ===== *)
theory Processor_Laws
  imports Processor Program_Laws
begin

text \<open>
  What one delivery does to the world when nothing else runs and no statement fails: the
  functional behaviour of every branch of \<open>HandleDelivery\<close>, with the exact row, the exact
  answer to the broker, the calls made and the breaker and limiter it leaves behind.
\<close>

section \<open>Claiming\<close>

text \<open>The row of a delivery that its broker message finds claimable, with the claim it makes.\<close>

definition deliverable :: "(nat \<Rightarrow> step_env) \<Rightarrow> Delivery \<Rightarrow> table \<Rightarrow> Event \<Rightarrow> bool" where
  "deliverable E d t r \<longleftrightarrow> table_wf t \<and> lookup_row (dl_EventID d) t = Some r
     \<and> claimable (db_now (se_db (E 2))) (dl_EventID d) r \<and> ev_AttemptCount r < 32767 \<and> no_faults E"

definition claimed_event :: "proc_config \<Rightarrow> (nat \<Rightarrow> step_env) \<Rightarrow> Event \<Rightarrow> Event" where
  "claimed_event p E r =
     claim_row (db_now (se_db (E 2))) (se_uuid (E 0)) (px_LeaseDuration p) (se_now (E 1)) r"

definition claimed_world :: "proc_config \<Rightarrow> (nat \<Rightarrow> step_env) \<Rightarrow> Delivery \<Rightarrow> world \<Rightarrow> world" where
  "claimed_world p E d w = w\<lparr>w_table := on_row (dl_EventID d) (claimed_event p E) (w_table w)\<rparr>"

lemma claimed_event_simps [simp]:
  "ev_ID (claimed_event p E r) = ev_ID r"
  "ev_AttemptCount (claimed_event p E r) = ev_AttemptCount r + 1"
  "ev_Status (claimed_event p E r) = PROCESSING"
  "ev_LeaseToken (claimed_event p E r) = Some (se_uuid (E 0))"
  "ev_ProviderCode (claimed_event p E r) = ev_ProviderCode r"
  "ev_ProviderAction (claimed_event p E r) = ev_ProviderAction r"
  "ev_Payload (claimed_event p E r) = ev_Payload r"
  "ev_SourceSystem (claimed_event p E r) = ev_SourceSystem r"
  "ev_SourceRequestID (claimed_event p E r) = ev_SourceRequestID r"
  by (simp_all add: claimed_event_def claim_row_def)

lemma delivery_claims:
  assumes "deliverable E d (w_table w) r"
  shows "run J E (\<lambda>_ w. w) (HandleDelivery p d) 0 w =
    run J E (\<lambda>_ w. w) (process p (claimed_event p E r) (se_uuid (E 0)) d) 3 (claimed_world p E d w)"
proof -
  have "Claim (se_db (E 2)) (dl_EventID d) (se_uuid (E 0)) (px_LeaseDuration p) (se_now (E 1)) (w_table w)
      = (Inr (claimed_event p E r), on_row (dl_EventID d) (claimed_event p E) (w_table w))"
    unfolding claimed_event_def
    using assms by (subst Claim_on_row) (auto simp: deliverable_def table_wf_def no_faults_def)
  then show ?thesis
    by (simp add: HandleDelivery_def claimed_world_def eval_nat_numeral)
qed

lemma deliverable_id: "deliverable E d t r \<Longrightarrow> ev_ID r = dl_EventID d"
  by (auto simp: deliverable_def dest: lookup_row_SomeD)

lemma deliverable_attempts: "deliverable E d t r \<Longrightarrow> 0 \<le> ev_AttemptCount r"
  by (auto simp: deliverable_def table_wf_def row_wf_def dest: lookup_row_SomeD)

text \<open>The claimed world satisfies what every later statement needs.\<close>

lemma claimed_facts:
  assumes "deliverable E d (w_table w) r"
  shows "lookup_row (dl_EventID d) (w_table (claimed_world p E d w)) = Some (claimed_event p E r)"
    and "distinct (map ev_ID (w_table (claimed_world p E d w)))"
    and "j \<noteq> dl_EventID d \<Longrightarrow> lookup_row j (w_table (claimed_world p E d w)) = lookup_row j (w_table w)"
    and "held_by (dl_EventID d) (se_uuid (E 0)) (claimed_event p E r)"
    and "db_fault (se_db (E n)) = NoFault"
  using assms deliverable_id[OF assms]
  by (auto simp: claimed_world_def on_row_lookup on_row_ids deliverable_def table_wf_def
      held_by_def no_faults_def)

lemmas claimed_world_simps [simp] = claimed_world_def[THEN arg_cong[where f = w_breakers], simplified]
  claimed_world_def[THEN arg_cong[where f = w_limiters], simplified]
  claimed_world_def[THEN arg_cong[where f = w_calls], simplified]
  claimed_world_def[THEN arg_cong[where f = w_messages], simplified]

lemma attempts_word:
  assumes "0 \<le> n" and "n < 32767"
  shows "(m < (of_int (n + 1) :: uint32)) = (uint m \<le> n)"
    and "(m \<le> (of_int (n + 1) :: uint32)) = (uint m \<le> n + 1)"
proof -
  have "uint (of_int k :: uint32) = k" if "0 \<le> k" "k < 2 ^ 32" for k
    using that by (simp add: uint_word_of_int)
  from this[of "n + 1"] assms have "uint (of_int (n + 1) :: uint32) = n + 1" by simp
  then show "(m < (of_int (n + 1) :: uint32)) = (uint m \<le> n)"
    and "(m \<le> (of_int (n + 1) :: uint32)) = (uint m \<le> n + 1)"
    unfolding word_less_def word_le_def by linarith+
qed

text \<open>Only the delivery's own row, the breakers and the call history may change.\<close>

definition confined :: "Delivery \<Rightarrow> world \<Rightarrow> world \<Rightarrow> bool" where
  "confined d w w' \<longleftrightarrow> other_rows_kept (dl_EventID d) (w_table w) (w_table w')
     \<and> w_limiters w' = w_limiters w \<and> w_messages w' = w_messages w"

section \<open>Deliveries that do not reach the provider\<close>

text \<open>
  A delivery whose event is unknown, leased by another worker, finished or not yet due
  is acknowledged and changes nothing at all.
\<close>

lemma delivery_not_claimable:
  assumes "table_wf (w_table w)" and "db_fault (se_db (E 2)) = NoFault"
    and "\<forall>r. lookup_row (dl_EventID d) (w_table w) = Some r \<longrightarrow>
           \<not> claimable (db_now (se_db (E 2))) (dl_EventID d) r"
  shows "alone J E (HandleDelivery p d) w = Some (None, w)"
proof -
  let ?c = "claimable (db_now (se_db (E 2))) (dl_EventID d)"
  have d: "distinct (map ev_ID (w_table w))" using assms(1) by (simp add: table_wf_def)
  have none: "\<not> ?c q" if "q \<in> set (w_table w)" for q
    using assms(3) that d claimable_id by (auto simp: lookup_row_in_set)
  then have "List.find ?c (w_table w) = None" "update_where ?c f (w_table w) = w_table w" for f
    by (auto simp: find_None_iff count_where_def filter_empty_conv intro!: update_where_none)
  with none assms(2) show ?thesis
    by (simp add: HandleDelivery_def Claim_def Let_def list_ex_iff eval_nat_numeral)
qed

text \<open>
  C11: When the persisted attempts are already used up, a redelivery makes no call: the row
  fails with its attempt count unchanged, the broker is told to drop the message, and
  breakers, limiters, messages and every other row are untouched.
\<close>

theorem delivery_exhausted:
  assumes "deliverable E d (w_table w) r" and "0 < dl_MaxAttempts d"
    and "uint (dl_MaxAttempts d) \<le> ev_AttemptCount r"
  shows "\<exists>w' r'. alone J E (HandleDelivery p d) w = Some (None, w') \<and> confined d w w'
    \<and> lookup_row (dl_EventID d) (w_table w') = Some r' \<and> life r' = LFailed (ev_AttemptCount r)
    \<and> outcome_of_column (ev_LastResult r') = Some OutcomeFailed
    \<and> w_calls w' = w_calls w \<and> w_breakers w' = w_breakers w"
proof -
  note facts = claimed_facts[OF assms(1)] deliverable_id[OF assms(1)]
  have "dl_MaxAttempts d < of_int (ev_AttemptCount r + 1)"
    using assms deliverable_attempts[OF assms(1)] by (subst attempts_word) (auto simp: deliverable_def)
  with assms(2) deliverable_attempts[OF assms(1)] show ?thesis
    unfolding delivery_claims[OF assms(1)]
    by (simp add: process_def finishExhaustedBeforeProvider_def Let_def settle_def facts(1-5)
        facts(6) MarkFailedWithoutProviderAttempt_def held_update_on_row[OF facts(1,4,2,5)]
        on_row_lookup other_rows_kept_def confined_def life_def)
qed

text \<open>The attempt the delivery is about to make is within the limit.\<close>

definition within_limit :: "Delivery \<Rightarrow> Event \<Rightarrow> bool" where
  "within_limit d r \<longleftrightarrow> dl_MaxAttempts d = 0 \<or> ev_AttemptCount r < uint (dl_MaxAttempts d)"

lemma process_within_limit:
  assumes "deliverable E d t r" and "within_limit d r"
    and "Lookup (px_Registry p) (ev_ProviderCode r) (ev_ProviderAction r) = Some ra"
  shows "process p (claimed_event p E r) tok d =
    BreakerAllow (key (ev_ProviderCode r) (ev_ProviderAction r)) (\<lambda>decision.
      if \<not> bd_Allowed decision
      then deferForOpenCircuit p (claimed_event p E r) tok d (bd_RetryAfter decision)
      else LimiterAcquire (key (ev_ProviderCode r) (ev_ProviderAction r)) (\<lambda>slot. case slot of
          Inl e \<Rightarrow> BreakerAbort (bd_Permit decision) (Return (Some (OtherError e)))
        | Inr release \<Rightarrow>
            bind (attempt p (claimed_event p E r) tok d ra (bd_Permit decision))
              (\<lambda>x. LimiterRelease release (Return x))))"
proof -
  have "\<not> (0 < dl_MaxAttempts d \<and> dl_MaxAttempts d < (of_int (ev_AttemptCount r + 1) :: uint32))"
    using assms deliverable_attempts[OF assms(1)]
    by (auto simp: within_limit_def attempts_word deliverable_def simp del: of_int_add)
  with assms(3) show ?thesis by (auto simp: process_def Let_def simp del: of_int_add)
qed

lemma Allow_refused:
  assumes "Allow now k bs = (dec, bs')" and "\<not> bd_Allowed dec"
  shows "bs' = bs"
  using assms
  by (auto simp: Allow_def breaker_defs fun_upd_idem split: option.splits breakerState.splits if_splits)

abbreviation action_key :: "Event \<Rightarrow> string" where
  "action_key r \<equiv> key (ev_ProviderCode r) (ev_ProviderAction r)"

text \<open>
  C12: While the circuit is open the claim is given back: no call, the attempt count as
  before the delivery, the row waiting for the broker with a recovery deadline one lease
  after the next attempt, and a requeue that waits at least as long as the breaker asks
  and as the retry policy says, without touching the broker's own back-off.
\<close>

theorem delivery_circuit_open:
  assumes "deliverable E d (w_table w) r" and "within_limit d r"
    and "Lookup (px_Registry p) (ev_ProviderCode r) (ev_ProviderAction r) = Some ra"
    and "Allow (se_now (E 3)) (action_key r) (w_breakers w) = (dec, bs)" and "\<not> bd_Allowed dec"
  shows "\<exists>w' r' delay. alone J E (HandleDelivery p d) w =
        Some (Some (RequeueError ''provider circuit is open'' delay False), w')
    \<and> confined d w w' \<and> w_calls w' = w_calls w \<and> w_breakers w' = w_breakers w
    \<and> lookup_row (dl_EventID d) (w_table w') = Some r'
    \<and> life r' = LWaiting (ev_AttemptCount r) \<and> waiting r'
    \<and> ev_LeaseUntil r' = Some (se_now (E 4) + delay + px_LeaseDuration p)
    \<and> bd_RetryAfter dec \<le> delay \<and> 0 \<le> delay
    \<and> RequeueDelayFor d (of_int (max 1 (ev_AttemptCount r))) \<le> delay"
proof -
  note facts = claimed_facts[OF assms(1)] deliverable_id[OF assms(1)]
  have n: "0 \<le> ev_AttemptCount r" by (rule deliverable_attempts[OF assms(1)])
  have base: "(if (of_int (ev_AttemptCount r) :: uint32) = 0 then 1 else of_int (ev_AttemptCount r))
      = (of_int (max 1 (ev_AttemptCount r)) :: uint32)"
  proof (cases "ev_AttemptCount r = 0")
    case False
    have "ev_AttemptCount r < 32767" using assms(1) by (simp add: deliverable_def)
    with n have "uint (of_int (ev_AttemptCount r) :: uint32) = ev_AttemptCount r"
      by (simp add: uint_word_of_int)
    with False have "(of_int (ev_AttemptCount r) :: uint32) \<noteq> 0" by auto
    with False n show ?thesis by (simp add: max_def)
  qed simp
  from Allow_refused[OF assms(4,5)] n assms(4,5) show ?thesis
    unfolding delivery_claims[OF assms(1)] process_within_limit[OF assms(1-3)]
    by (simp add: deferForOpenCircuit_def Let_def facts base
        MarkCircuitOpenWaitingForRequeue_def held_update_on_row[OF facts(1,4,2,5)]
        on_row_lookup other_rows_kept_def confined_def life_def waiting_def RequestRequeue_def
        add.assoc)
qed

section \<open>Deliveries that reach the provider\<close>

definition call_context :: "ResolvedAction \<Rightarrow> Event \<Rightarrow> ActionContext" where
  "call_context ra r = (ra_Context ra)\<lparr>ac_SourceSystem := ev_SourceSystem r,
     ac_SourceRequestID := ev_SourceRequestID r\<rparr>"

text \<open>
  The delivery is let through: within the limit, its action configured, the breaker closed
  or giving it the probe, a slot free; \<open>answer\<close> is what the adapter says.
\<close>

definition reaches_provider ::
  "(nat \<Rightarrow> step_env) \<Rightarrow> proc_config \<Rightarrow> Delivery \<Rightarrow> world \<Rightarrow> Event \<Rightarrow> BreakerPermit \<Rightarrow> Breakers \<Rightarrow>
   (string, provider_result option) result \<Rightarrow> bool" where
  "reaches_provider E p d w r permit bs answer \<longleftrightarrow>
     deliverable E d (w_table w) r \<and> within_limit d r
     \<and> (\<exists>ra rel ls dec. Lookup (px_Registry p) (ev_ProviderCode r) (ev_ProviderAction r) = Some ra
         \<and> Allow (se_now (E 3)) (action_key r) (w_breakers w) = (dec, bs) \<and> bd_Allowed dec
         \<and> bd_Permit dec = permit
         \<and> Acquire (se_acquire (E 4)) (action_key r) (w_limiters w) = Some (Inr rel, ls)
         \<and> answer = ad_SendActionRequest (ra_Adapter ra) (se_network (E 9)) (call_context ra r)
                     (ev_ProviderAction r) (ev_Payload r))"

lemma delivery_attempt:
  assumes "reaches_provider E p d w r permit bs answer"
  obtains (reached) w11 rel ev11 c where
    "alone J E (HandleDelivery p d) w =
      run J E (\<lambda>_ w. w) (bind (finish_attempt p (claimed_event p E r) (se_uuid (E 0)) d permit
          (time_sub (se_now (E 10)) (se_now (E 8))) answer) (\<lambda>x. LimiterRelease rel (Return x))) 11 w11"
    "lookup_row (dl_EventID d) (w_table w11) = Some ev11"
    "held_by (dl_EventID d) (se_uuid (E 0)) ev11" "distinct (map ev_ID (w_table w11))"
    "db_fault (se_db (E n)) = NoFault" "ev_ID r = dl_EventID d"
    "ev_AttemptCount ev11 = ev_AttemptCount r + 1"
    "other_rows_kept (dl_EventID d) (w_table w) (w_table w11)"
    "w_breakers w11 = bs" "run_release rel (w_limiters w11) = w_limiters w"
    "w_messages w11 = w_messages w" "w_calls w11 = w_calls w @ [c]"
    "call_key (call_ctx c) = source_key r" "call_payload c = ev_Payload r" "call_answer c = answer"
    "keys_of (w_table w11) = keys_of (w_table w)"
    "ev_LeaseUntil ev11 = Some (db_now (se_db (E 7)) + px_LeaseDuration p)"
proof -
  from assms obtain ra rel ls dec where del: "deliverable E d (w_table w) r" and "within_limit d r"
      and "Lookup (px_Registry p) (ev_ProviderCode r) (ev_ProviderAction r) = Some ra"
      and dec: "Allow (se_now (E 3)) (action_key r) (w_breakers w) = (dec, bs)" "bd_Allowed dec"
        "bd_Permit dec = permit"
      and acq: "Acquire (se_acquire (E 4)) (action_key r) (w_limiters w) = Some (Inr rel, ls)"
      and ans: "answer = ad_SendActionRequest (ra_Adapter ra) (se_network (E 9)) (call_context ra r)
                     (ev_ProviderAction r) (ev_Payload r)"
    unfolding reaches_provider_def by blast
  note proc = process_within_limit[OF this(1-3)] and facts = claimed_facts[OF del] deliverable_id[OF del]
  have fault: "db_fault (se_db (E n)) = NoFault" for n by (rule facts(5))
  define t5 where "t5 = w_table (claimed_world p E d w)"
  define t7 where "t7 = on_row (dl_EventID d)
    (\<lambda>r. r\<lparr>ev_LastResult := Some (LastResultRequesting (se_now (E 5))), ev_UpdatedAt := db_now (se_db (E 6))\<rparr>) t5"
  have t7: "lookup_row (dl_EventID d) t7 = Some ((claimed_event p E r)
      \<lparr>ev_LastResult := Some (LastResultRequesting (se_now (E 5))), ev_UpdatedAt := db_now (se_db (E 6))\<rparr>)"
    "distinct (map ev_ID t7)" "other_rows_kept (dl_EventID d) (w_table w) t7"
    using facts(1-3) by (auto simp: t7_def t5_def on_row_lookup on_row_ids other_rows_kept_def)
  have m6: "guarded_update (se_db (E 6)) (held_by (dl_EventID d) (se_uuid (E 0))) f t5
      = (None, on_row (dl_EventID d) f t5)" for f
    unfolding t5_def using facts(1,4,2) fault by (rule held_update_on_row)
  have m7: "guarded_update (se_db (E 7)) (held_by (dl_EventID d) (se_uuid (E 0))) f t7
      = (None, on_row (dl_EventID d) f t7)" for f
    using t7(1) _ t7(2) fault by (rule held_update_on_row) (use facts(4) in \<open>simp add: held_by_def\<close>)
  define w11 where "w11 = (claimed_world p E d w)
    \<lparr>w_breakers := bs, w_limiters := ls,
      w_table := on_row (dl_EventID d) (\<lambda>r. r\<lparr>ev_LeaseUntil := Some (db_now (se_db (E 7)) + px_LeaseDuration p),
        ev_UpdatedAt := db_now (se_db (E 7))\<rparr>) t7,
      w_calls := w_calls w @ [\<lparr>call_ctx = call_context ra r, call_action = ev_ProviderAction r,
        call_payload = ev_Payload r, call_answer = answer\<rparr>]\<rparr>"
  have eq: "alone J E (HandleDelivery p d) w =
      run J E (\<lambda>_ w. w) (bind (finish_attempt p (claimed_event p E r) (se_uuid (E 0)) d permit
        (time_sub (se_now (E 10)) (se_now (E 8))) answer) (\<lambda>x. LimiterRelease rel (Return x))) 11 w11"
    unfolding delivery_claims[OF del] proc w11_def
    by (simp add: dec acq attempt_def Let_def facts(6) MarkRequesting_def RenewLease_def m6 m7 ans
        call_context_def flip: t5_def t7_def)
  have "keys_of (w_table w11) = keys_of (w_table w)"
    by (simp add: w11_def t7_def t5_def claimed_world_def keys_on_row source_key_def claim_row_def claimed_event_def)
  moreover have "run_release rel ls = w_limiters w" using acq by (rule release_undoes_Acquire)
  ultimately show ?thesis using facts(4,6) t7 eq fault
    by - (rule that[of rel w11 "the (lookup_row (dl_EventID d) (w_table w11))"
        "last (w_calls w11)", OF eq],
      simp_all add: w11_def on_row_lookup on_row_ids held_by_def other_rows_kept_def call_key_def
        call_context_def source_key_def)
qed

lemma confirmed_delivery:
  assumes "reaches_provider E p d w r permit bs (Inr (Some res))" and "pr_Success res"
    and "storable J (pr_ProviderResponse res)"
  shows "\<exists>w' r' c. alone J E (HandleDelivery p d) w = Some (None, w') \<and> confined d w w'
    \<and> lookup_row (dl_EventID d) (w_table w') = Some r'
    \<and> life r' = LSucceeded (ev_AttemptCount r + 1)
    \<and> ev_ProviderResponse r' = Option.bind (pr_ProviderResponse res) J
    \<and> w_calls w' = w_calls w @ [c] \<and> call_key (call_ctx c) = source_key r
    \<and> call_payload c = ev_Payload r \<and> call_answer c = Inr (Some res)
    \<and> w_breakers w' = Observe (se_now (E 11)) permit (snd (judge (Inr (Some res)))) bs
    \<and> keys_of (w_table w') = keys_of (w_table w)"
  using assms(1)
proof (cases rule: delivery_attempt[where J = J and n = 13])
  case (reached w11 rel ev11 c)
  with assms(2) show ?thesis
    by (simp add: finish_attempt_def judge_def Let_def MarkSucceeded_def with_response_storable[OF assms(3)]
        held_update_on_row[OF reached(2-5)] on_row_lookup confined_def
        other_rows_kept_def life_def settle_def keys_on_row source_key_def)
qed

text \<open>
  C7: A delivery the provider confirms ends the event: acknowledged, SUCCEEDED with the
  attempt counted and the provider's response stored as PostgreSQL normalises it, exactly one call made, for this
  source request and with the stored payload; the breaker has seen the answer and the
  limiter slot is free again.
\<close>

theorem delivery_success:
  assumes "reaches_provider E p d w r permit bs (Inr (Some res))" and "pr_Success res"
    and "storable J (pr_ProviderResponse res)"
  shows "\<exists>w' r' c. alone J E (HandleDelivery p d) w = Some (None, w') \<and> confined d w w'
    \<and> lookup_row (dl_EventID d) (w_table w') = Some r'
    \<and> life r' = LSucceeded (ev_AttemptCount r + 1)
    \<and> ev_ProviderResponse r' = Option.bind (pr_ProviderResponse res) J
    \<and> w_calls w' = w_calls w @ [c] \<and> call_key (call_ctx c) = source_key r
    \<and> call_payload c = ev_Payload r \<and> call_answer c = Inr (Some res)
    \<and> w_breakers w' = Observe (se_now (E 11)) permit (snd (judge (Inr (Some res)))) bs"
  using confirmed_delivery[OF assms] by blast

lemma unconfirmed_delivery:
  assumes "reaches_provider E p d w r permit bs answer" and "\<not> pr_Success (fst (judge answer))"
    and "storable J (pr_ProviderResponse (fst (judge answer)))"
  shows "\<exists>w' r' c res. alone J E (HandleDelivery p d) w = Some (res, w') \<and> confined d w w'
    \<and> lookup_row (dl_EventID d) (w_table w') = Some r'
    \<and> w_calls w' = w_calls w @ [c] \<and> call_key (call_ctx c) = source_key r \<and> call_payload c = ev_Payload r
    \<and> w_breakers w' = Observe (se_now (E 11)) permit (snd (judge answer)) bs
    \<and> (if 0 < dl_MaxAttempts d \<and> uint (dl_MaxAttempts d) = ev_AttemptCount r + 1
       then res = None \<and> life r' = LFailed (ev_AttemptCount r + 1)
       else let delay = max 0 (RequeueDelayFor d (of_int (ev_AttemptCount r + 1))) in
         res = Some (RequeueError (''provider failure: '' @ pr_ErrorClass (fst (judge answer))) delay True)
         \<and> life r' = LWaiting (ev_AttemptCount r + 1) \<and> waiting r'
         \<and> ev_LeaseUntil r' = Some (se_now (E 12) + delay + px_LeaseDuration p))"
  using assms(1)
proof (cases rule: delivery_attempt[where J = J and n = 13])
  case (reached w11 rel ev11 c)
  have del: "deliverable E d (w_table w) r" "within_limit d r"
    using assms(1) by (simp_all add: reaches_provider_def)
  then have ex: "attempts_exhausted d (claimed_event p E r) \<longleftrightarrow>
      0 < dl_MaxAttempts d \<and> uint (dl_MaxAttempts d) = ev_AttemptCount r + 1"
    using deliverable_attempts[OF del(1)]
    by (auto simp: attempts_exhausted_def within_limit_def attempts_word deliverable_def
        simp del: of_int_add)
  have status: "ev_Status ev11 = PROCESSING" using reached(3) by (simp add: held_by_def)
  show ?thesis
  proof (cases "attempts_exhausted d (claimed_event p E r)")
    case True
    with ex reached assms(2) show ?thesis
      by (simp add: finish_attempt_def Let_def retryOrFail_def MarkFailed_def with_response_storable[OF assms(3)]
          held_update_on_row[OF reached(2-5)] on_row_lookup confined_def
          other_rows_kept_def life_def settle_def)
  next
    case False
    with ex reached assms(2) status show ?thesis
      by (simp add: finish_attempt_def Let_def retryOrFail_def releaseForRequeue_def
          MarkWaitingForRequeue_def with_response_storable[OF assms(3)] held_update_on_row[OF reached(2-5)] on_row_lookup confined_def
          other_rows_kept_def life_def RequestRequeue_def waiting_def max_def add.assoc)
  qed
qed

text \<open>
  C8: A delivery the provider does not confirm (an error of the adapter, a nil result or an
  explicit failure) has made its one call. Below the limit the row waits, counted, and is
  claimable again at once, its recovery deadline one lease after the next attempt, and the
  broker is asked for the policy's delay; at the limit the event fails and the message is
  dropped.
\<close>

theorem delivery_failure:
  assumes "reaches_provider E p d w r permit bs answer" and "\<not> pr_Success (fst (judge answer))"
    and "storable J (pr_ProviderResponse (fst (judge answer)))"
  shows "\<exists>w' r' c res. alone J E (HandleDelivery p d) w = Some (res, w') \<and> confined d w w'
    \<and> lookup_row (dl_EventID d) (w_table w') = Some r'
    \<and> w_calls w' = w_calls w @ [c] \<and> call_key (call_ctx c) = source_key r \<and> call_payload c = ev_Payload r
    \<and> w_breakers w' = Observe (se_now (E 11)) permit (snd (judge answer)) bs
    \<and> (if 0 < dl_MaxAttempts d \<and> uint (dl_MaxAttempts d) = ev_AttemptCount r + 1
       then res = None \<and> life r' = LFailed (ev_AttemptCount r + 1)
       else let delay = max 0 (RequeueDelayFor d (of_int (ev_AttemptCount r + 1))) in
         res = Some (RequeueError (''provider failure: '' @ pr_ErrorClass (fst (judge answer))) delay True)
         \<and> life r' = LWaiting (ev_AttemptCount r + 1) \<and> waiting r'
         \<and> ev_LeaseUntil r' = Some (se_now (E 12) + delay + px_LeaseDuration p))"
  by (rule unconfirmed_delivery[OF assms])

text \<open>
  A response PostgreSQL refuses fails the statement that stores the outcome, whatever the
  outcome is: the call has been made, but the row stays leased to this delivery.
\<close>

lemma delivery_unstorable:
  assumes "reaches_provider E p d w r permit bs answer"
    and "\<not> storable J (pr_ProviderResponse (fst (judge answer)))"
  shows "\<exists>w' r' c. alone J E (HandleDelivery p d) w
        = Some (Some (OtherError ''invalid input syntax for type json''), w') \<and> confined d w w'
    \<and> lookup_row (dl_EventID d) (w_table w') = Some r'
    \<and> life r' = LLeased (se_uuid (E 0)) (ev_AttemptCount r + 1)
    \<and> ev_LeaseUntil r' = Some (db_now (se_db (E 7)) + px_LeaseDuration p)
    \<and> w_calls w' = w_calls w @ [c] \<and> call_key (call_ctx c) = source_key r \<and> call_answer c = answer"
  using assms(1)
proof (cases rule: delivery_attempt[where J = J and n = 13])
  case (reached w11 rel ev11 c)
  moreover have "ev_Status ev11 = PROCESSING" "ev_LeaseToken ev11 = Some (se_uuid (E 0))"
    using reached(3) by (simp_all add: held_by_def)
  ultimately show ?thesis
    by (simp add: finish_attempt_def Let_def retryOrFail_def releaseForRequeue_def MarkSucceeded_def
        MarkFailed_def MarkWaitingForRequeue_def with_response_refused[OF assms(2)] settle_def
        confined_def life_def)
qed

end
