(* ===== verification/Service_Laws.thy ===== *)
theory Service_Laws
  imports Service Program_Laws
begin

text \<open>
  Submission is idempotent on its source request: what it answers on every branch, that an
  accepted request is stored whatever else runs, and that repeating it changes nothing.
\<close>

section \<open>Lookups by source request\<close>

definition cmd_key :: "SubmitCommand \<Rightarrow> string \<times> string" where
  "cmd_key cmd = (sc_SourceSystem cmd, sc_SourceRequestID cmd)"

definition same_command :: "SubmitCommand \<Rightarrow> Event \<Rightarrow> bool" where
  "same_command cmd r \<longleftrightarrow> ev_ProviderCode r = sc_ProviderCode cmd
     \<and> ev_ProviderAction r = sc_ProviderAction cmd \<and> canonicalEqual (ev_Payload r) (sc_Payload cmd)"

lemma FindBySourceRequest_row_of:
  "FindBySourceRequest env a b t =
     (case db_fault env of
        NoFault \<Rightarrow> (case row_of t (a, b) of None \<Rightarrow> Inl ErrNotFound | Some r \<Rightarrow> Inr r)
      | FaultBefore e \<Rightarrow> Inl (DbError e) | FaultAfter e \<Rightarrow> Inl (DbError e))"
  by (simp add: FindBySourceRequest_def select_one_def row_of_def source_key_def split: fault.split)

lemma run_resolveExisting:
  "run J E oth (bind (resolveExisting us cmd) f) n w =
     run J E oth (f (case db_fault (se_db (E n)) of
         NoFault \<Rightarrow> (case row_of (w_table (oth n w)) (cmd_key cmd) of
             None \<Rightarrow> Inr None
           | Some r \<Rightarrow> if same_command cmd r then Inr (Some (submitResult us r True))
                      else Inl ErrSourceRequestConflict)
       | _ \<Rightarrow> Inl (ErrStorageUnavailable ''idempotency lookup''))) (Suc n) (oth n w)"
  by (auto simp: resolveExisting_def FindBySourceRequest_row_of cmd_key_def same_command_def
      split: fault.split option.split)

section \<open>Every answer of an undisturbed submission\<close>

lemma row_of_None: "row_of t k = None \<longleftrightarrow> (\<forall>r \<in> set t. source_key r \<noteq> k)"
  by (auto simp: row_of_def find_None_iff)

lemma lookup_row_None: "lookup_row i t = None \<longleftrightarrow> (\<forall>r \<in> set t. ev_ID r \<noteq> i)"
  by (auto simp: lookup_row_def find_None_iff)

lemma submit_event_keys [simp]:
  "ev_ID (submit_event i cmd) = i" "source_key (submit_event i cmd) = cmd_key cmd"
  by (simp_all add: submit_event_def source_key_def cmd_key_def)

lemma MarkEnqueued_last:
  assumes "lookup_row i t = None" and "ev_ID r = i" and "ev_Status r = PENDING"
    and "db_fault env = NoFault"
  shows "MarkEnqueued env i (t @ [r]) =
    (None, t @ [r\<lparr>ev_EnqueuedAt := Some (db_now env), ev_UpdatedAt := db_now env\<rparr>])"
  using assms
  by (auto simp: MarkEnqueued_def exec_update_def update_where_def lookup_row_None Let_def
      intro!: map_idI)

lemma Insert_new:
  assumes "J (ev_Payload ev) = Some payload" and "columns_fit ev" and "db_fault env = NoFault"
    and "lookup_row (ev_ID ev) t = None" and "row_of t (source_key ev) = None"
  shows "Insert J env ev t =
    (Inr (ev\<lparr>ev_CreatedAt := db_now env, ev_UpdatedAt := db_now env, ev_Status := PENDING\<rparr>),
     t @ [new_row (db_now env) payload ev])"
  using assms
  by (auto simp: Insert_def violates_unique_def list_ex_iff lookup_row_None row_of_None)

text \<open>The row a first submission leaves behind.\<close>

definition submitted_row :: "(nat \<Rightarrow> step_env) \<Rightarrow> SubmitCommand \<Rightarrow> string \<Rightarrow> Event" where
  "submitted_row E cmd payload =
     (let r = new_row (db_now (se_db (E 2))) payload (submit_event (se_uuid (E 1)) cmd) in
      if se_publish (E 3) = Published True
      then r\<lparr>ev_EnqueuedAt := Some (db_now (se_db (E 4))), ev_UpdatedAt := db_now (se_db (E 4))\<rparr>
      else r)"

lemma submit_new:
  assumes "no_faults E" and "submit_checks reg cmd = None" and "row_of (w_table w) (cmd_key cmd) = None"
    and "J (sc_Payload cmd) = Some payload" and "columns_fit (submit_event (se_uuid (E 1)) cmd)"
    and "lookup_row (se_uuid (E 1)) (w_table w) = None"
  shows "alone J E (Submit us reg cmd) w =
    Some (Inr \<lparr>sr_EventID = us (se_uuid (E 1)), sr_SourceSystem = sc_SourceSystem cmd,
               sr_SourceRequestID = sc_SourceRequestID cmd, sr_Status = ''PENDING'',
               sr_Duplicate = False, sr_AcceptedAt = db_now (se_db (E 2))\<rparr>,
      w\<lparr>w_table := w_table w @ [submitted_row E cmd payload],
        w_messages := w_messages w @ accepted (se_publish (E 3)) (se_uuid (E 1))\<rparr>)"
proof -
  have nf: "db_fault (se_db (E n)) = NoFault" for n using assms(1) by (simp add: no_faults_def)
  let ?ev = "submit_event (se_uuid (E 1)) cmd"
  let ?r = "new_row (db_now (se_db (E 2))) payload ?ev"
  have "J (ev_Payload ?ev) = Some payload" using assms(4) by (simp add: submit_event_def)
  then have ins: "Insert J (se_db (E 2)) ?ev (w_table w) =
      (Inr (?ev\<lparr>ev_CreatedAt := db_now (se_db (E 2)), ev_UpdatedAt := db_now (se_db (E 2)),
         ev_Status := PENDING\<rparr>), w_table w @ [?r])"
    using assms(3,5,6) nf by (intro Insert_new) simp_all
  have "MarkEnqueued (se_db (E 4)) (se_uuid (E 1)) (w_table w @ [?r]) =
      (None, w_table w @ [?r\<lparr>ev_EnqueuedAt := Some (db_now (se_db (E 4))),
         ev_UpdatedAt := db_now (se_db (E 4))\<rparr>])"
    using assms(6) nf by (intro MarkEnqueued_last) (simp_all add: new_row_def)
  with assms(2,3) nf ins show ?thesis
    by (cases "se_publish (E 3)")
      (auto simp: Submit_def run_resolveExisting eval_nat_numeral PublishAndMark_def
        publish_result_def submitted_row_def submitResult_def submit_event_def Let_def)
qed

text \<open>
  C17: What a submission answers when nothing interferes and no statement fails. A request
  that does not pass the checks is refused; a known source request gives the stored event
  as a duplicate, or a conflict if it asks for something else, and changes nothing; a new
  one is stored as one pending row, handed to the broker once, and marked as enqueued
  exactly when the broker's receipt is durable.
\<close>

theorem submit_answers:
  assumes "no_faults E"
    and "J (sc_Payload cmd) = Some payload" and "columns_fit (submit_event (se_uuid (E 1)) cmd)"
    and "lookup_row (se_uuid (E 1)) (w_table w) = None"
  shows "alone J E (Submit us reg cmd) w =
    (case submit_checks reg cmd of
       Some e \<Rightarrow> Some (Inl e, w)
     | None \<Rightarrow>
       (case row_of (w_table w) (cmd_key cmd) of
          Some r \<Rightarrow>
            Some (if same_command cmd r then Inr (submitResult us r True)
                  else Inl ErrSourceRequestConflict, w)
        | None \<Rightarrow>
            Some (Inr \<lparr>sr_EventID = us (se_uuid (E 1)), sr_SourceSystem = sc_SourceSystem cmd,
                     sr_SourceRequestID = sc_SourceRequestID cmd, sr_Status = ''PENDING'',
                     sr_Duplicate = False, sr_AcceptedAt = db_now (se_db (E 2))\<rparr>,
              w\<lparr>w_table := w_table w @ [submitted_row E cmd payload],
                w_messages := w_messages w @ accepted (se_publish (E 3)) (se_uuid (E 1))\<rparr>)))"
proof (cases "submit_checks reg cmd = None \<and> row_of (w_table w) (cmd_key cmd) = None")
  case True
  with submit_new[of E reg cmd w J payload us] assms show ?thesis by simp
next
  case False
  have "db_fault (se_db (E n)) = NoFault" for n using assms(1) by (simp add: no_faults_def)
  with False show ?thesis by (auto simp: Submit_def run_resolveExisting split: option.split)
qed

section \<open>Accepted means stored, whatever interferes\<close>

text \<open>The rest of the system only reaches the table through the repository.\<close>

definition repository_only :: "jsonb \<Rightarrow> (nat \<Rightarrow> world \<Rightarrow> world) \<Rightarrow> bool" where
  "repository_only J oth \<longleftrightarrow> (\<forall>n w. db_steps J (w_table w) (w_table (oth n w)))"

text \<open>
  PostgreSQL gives a stored payload back as an equal JSON value (jsonb normalises spacing,
  key order and duplicate keys).
\<close>

definition jsonb_faithful :: "jsonb \<Rightarrow> string \<Rightarrow> bool" where
  "jsonb_faithful J payload \<longleftrightarrow> (\<forall>q. J payload = Some q \<longrightarrow> canonicalEqual q payload)"

text \<open>
  The row an accepting answer speaks of: the row a first submission stored, with its payload as
  the database gives it back, or the row a duplicate was compared with.
\<close>

definition stored :: "jsonb \<Rightarrow> (uuid \<Rightarrow> string) \<Rightarrow> SubmitCommand \<Rightarrow> SubmitResult \<Rightarrow> table \<Rightarrow> bool" where
  "stored J us cmd res t \<longleftrightarrow> (\<exists>r \<in> set t. source_key r = cmd_key cmd
     \<and> ev_ProviderCode r = sc_ProviderCode cmd \<and> ev_ProviderAction r = sc_ProviderAction cmd
     \<and> us (ev_ID r) = sr_EventID res
     \<and> (if sr_Duplicate res then canonicalEqual (ev_Payload r) (sc_Payload cmd)
        else J (sc_Payload cmd) = Some (ev_Payload r)))"

lemma stored_steps:
  assumes "db_steps J t t'" and "table_wf t" and "stored J us cmd res t"
  shows "stored J us cmd res t'"
proof -
  from assms(3) obtain r where r: "r \<in> set t" "source_key r = cmd_key cmd"
      "ev_ProviderCode r = sc_ProviderCode cmd" "ev_ProviderAction r = sc_ProviderAction cmd"
      "us (ev_ID r) = sr_EventID res"
      "if sr_Duplicate res then canonicalEqual (ev_Payload r) (sc_Payload cmd)
       else J (sc_Payload cmd) = Some (ev_Payload r)"
    unfolding stored_def by blast
  from db_steps_same_request[OF assms(1,2) r(1)] obtain r' where "r' \<in> set t'" "same_request r r'" by blast
  with r show ?thesis unfolding stored_def by (intro bexI[of _ r']) (simp_all add: same_request_def)
qed

lemma stored_existing:
  "row_of t (cmd_key cmd) = Some r \<Longrightarrow> same_command cmd r \<Longrightarrow>
   stored J us cmd (submitResult us r True) t"
  by (auto simp: stored_def same_command_def submitResult_def row_of_def find_Some_iff)

text \<open>Publishing under interference only adds repository steps.\<close>

lemma run_publish_steps:
  assumes "repository_only J oth"
    and "run J E oth (bind (PublishAndMark us i) (\<lambda>_. Return x)) n w = Some (y, w')"
  shows "y = x \<and> db_steps J (w_table w) (w_table w')"
proof -
  have oth: "db_steps J (w_table v) (w_table (oth k v))" for k v
    using assms(1) by (simp add: repository_only_def)
  show ?thesis
  proof (cases "se_publish (E n)")
    case (Published durable)
    let ?v = "(oth n w)\<lparr>w_messages := w_messages (oth n w) @ [i]\<rparr>"
    let ?t = "w_table (oth (Suc n) ?v)"
    have "db_steps J (w_table w) ?t" using oth[of w n] oth[of ?v "Suc n"] by simp
    moreover have "db_step J ?t (snd (MarkEnqueued (se_db (E (Suc n))) i ?t))"
      by (rule db_step_MarkEnqueued)
    ultimately have "db_steps J (w_table w) (snd (MarkEnqueued (se_db (E (Suc n))) i ?t))" by simp
    with Published assms(2) oth[of w n] show ?thesis
      by (auto simp: PublishAndMark_def publish_result_def accepted_def Let_def
          split: if_splits option.splits)
  next
    case (PublishFailed e acc)
    with assms(2) oth[of w n] show ?thesis
      by (auto simp: PublishAndMark_def publish_result_def)
  qed
qed

lemma Insert_stored:
  assumes "Insert J env (submit_event i cmd) t = (Inr ev, t')"
  shows "stored J us cmd (submitResult us ev False) t' \<and> ev_ID ev = i"
  using assms
  by (auto simp: Insert_def stored_def submit_event_def new_row_def source_key_def cmd_key_def
      submitResult_def
      split: fault.splits option.splits if_splits)

text \<open>The lookup of an existing request answers, or leaves the rest of the program to run.\<close>

primrec answer_or ::
  "(service_error, SubmitResult) result prog \<Rightarrow> (service_error, SubmitResult option) result \<Rightarrow>
   (service_error, SubmitResult) result prog" where
  "answer_or rest (Inl e) = Return (Inl e)"
| "answer_or rest (Inr found) = (case found of Some result \<Rightarrow> Return (Inr result) | None \<Rightarrow> rest)"

lemma resolve_found:
  assumes "run J E oth (bind (resolveExisting us cmd) (answer_or rest)) n w = Some (Inr res, w')"
  obtains (found) "stored J us cmd res (w_table (oth n w))" and "w' = oth n w"
  | (absent) "run J E oth rest (Suc n) (oth n w) = Some (Inr res, w')"
proof (cases "db_fault (se_db (E n)) = NoFault")
  case True
  show thesis
  proof (cases "row_of (w_table (oth n w)) (cmd_key cmd)")
    case None
    with True assms absent show thesis by (simp add: run_resolveExisting)
  next
    case (Some r)
    with True assms have "same_command cmd r \<and> res = submitResult us r True \<and> w' = oth n w"
      by (simp add: run_resolveExisting split: if_splits)
    with Some found stored_existing show thesis by metis
  qed
next
  case False
  with assms show thesis by (cases "db_fault (se_db (E n))") (simp_all add: run_resolveExisting)
qed

text \<open>
  What the insertion of a new row answered decides the rest of a submission: a new row is
  published; a row that another submission put there first is looked up again.
\<close>

definition after_insert ::
  "(uuid \<Rightarrow> string) \<Rightarrow> SubmitCommand \<Rightarrow> (store_error, Event) result \<Rightarrow> (service_error, SubmitResult) result prog" where
  "after_insert us cmd inserted = (case inserted of
     Inl ErrDuplicateSourceRequest \<Rightarrow>
       bind (resolveExisting us cmd) (answer_or (Return (Inl (ErrStorageUnavailable ''insert notification''))))
   | Inl e \<Rightarrow> Return (Inl (ErrStorageUnavailable ''insert notification''))
   | Inr event \<Rightarrow>
       bind (PublishAndMark us (ev_ID event)) (\<lambda>_. Return (Inr (submitResult us event False))))"

lemma answer_or_cases:
  "(\<lambda>existing. case existing of Inl e \<Rightarrow> Return (Inl e) | Inr (Some result) \<Rightarrow> Return (Inr result) | Inr None \<Rightarrow> q)
    = answer_or q"
  "(\<lambda>existing. Return (case existing of Inl e \<Rightarrow> Inl e | Inr (Some result) \<Rightarrow> Inr result | Inr None \<Rightarrow> Inl e0))
    = answer_or (Return (Inl e0))"
  by (auto simp: fun_eq_iff split: sum.split option.split)

lemma Submit_checked:
  "submit_checks reg cmd = None \<Longrightarrow> Submit us reg cmd =
     bind (resolveExisting us cmd)
       (answer_or (NewUUID (\<lambda>i. RepoInsert (submit_event i cmd) (after_insert us cmd))))"
  unfolding Submit_def after_insert_def[abs_def] answer_or_cases by simp

lemma inserted_stored:
  assumes "repository_only J oth"
    and ins: "Insert J env (submit_event i cmd) t = (x, w_table w)" and "table_wf (w_table w)"
    and run: "run J E oth (after_insert us cmd x) n w = Some (Inr res, w')"
  shows "stored J us cmd res (w_table w') \<and> db_steps J (w_table w) (w_table w')"
proof (cases x)
  case (Inr ev)
  with run_publish_steps[OF assms(1)] run[unfolded after_insert_def]
  have p: "res = submitResult us ev False" "db_steps J (w_table w) (w_table w')" by fastforce+
  moreover have "stored J us cmd res (w_table w)"
    using Insert_stored ins Inr p(1) by blast
  ultimately show ?thesis using stored_steps assms(3) by blast
next
  case (Inl e)
  have oth: "db_steps J (w_table w) (w_table (oth n w))" using assms(1) by (simp add: repository_only_def)
  have "e = ErrDuplicateSourceRequest" using run Inl by (cases e) (simp_all add: after_insert_def)
  with run[unfolded after_insert_def] Inl show ?thesis by simp (erule resolve_found; simp add: oth)
qed

lemma submit_stored:
  assumes wf: "table_wf (w_table w)" and "repository_only J oth"
    and run: "run J E oth (Submit us reg cmd) n w = Some (Inr res, w')"
  shows "stored J us cmd res (w_table w') \<and> db_steps J (w_table w) (w_table w')"
proof -
  have oth: "db_steps J (w_table v) (w_table (oth k v))" for k v
    using assms(2) by (simp add: repository_only_def)
  have "submit_checks reg cmd = None"
    using run by (cases "submit_checks reg cmd") (auto simp: Submit_def)
  from run[unfolded Submit_checked[OF this]] show ?thesis
  proof (cases rule: resolve_found)
    case found
    with oth show ?thesis by simp
  next
    case absent
    define w3 where "w3 = oth (Suc (Suc n)) (oth (Suc n) (oth n w))"
    obtain x t4 where ins: "Insert J (se_db (E (Suc (Suc n)))) (submit_event (se_uuid (E (Suc n))) cmd) (w_table w3)
        = (x, t4)" by fastforce
    have "db_steps J (w_table w) (w_table w3)"
      unfolding w3_def using oth by (meson rtranclp_trans)
    moreover have "db_step J (w_table w3) t4" using ins by (metis db_step_Insert snd_conv)
    ultimately have t4: "db_steps J (w_table w) t4" by simp
    from absent ins have "run J E oth (after_insert us cmd x) (Suc (Suc (Suc n))) (w3\<lparr>w_table := t4\<rparr>)
        = Some (Inr res, w')" by (simp add: w3_def)
    from inserted_stored[OF assms(2) _ _ this] ins db_steps_wf[OF t4 wf]
    have "stored J us cmd res (w_table w') \<and> db_steps J t4 (w_table w')" by simp
    with t4 show ?thesis by (metis rtranclp_trans)
  qed
qed

lemma submit_repeated:
  assumes wf: "table_wf (w_table w)" and "r \<in> set (w_table w)" and "source_key r = cmd_key cmd"
    and "submit_checks reg cmd = None" and "db_fault (se_db (E 0)) = NoFault"
  shows "alone J E (Submit us reg cmd) w =
    Some (if same_command cmd r then Inr (submitResult us r True) else Inl ErrSourceRequestConflict, w)"
  using row_of_unique[OF wf assms(2)] assms(3-5) by (simp add: Submit_def run_resolveExisting)

text \<open>
  C6: A submission that is accepted has stored its request, even if other clients submit
  the same request, workers process it and statements fail in between: the table it leaves
  has a row for the source request that asks for the same provider, action and payload,
  and the answer names that row.
\<close>

theorem submit_accepted_is_stored:
  assumes "table_wf (w_table w)" and "repository_only J oth" and "jsonb_faithful J (sc_Payload cmd)"
    and "run J E oth (Submit us reg cmd) n w = Some (Inr res, w')"
  shows "\<exists>r \<in> set (w_table w'). ev_SourceSystem r = sc_SourceSystem cmd
    \<and> ev_SourceRequestID r = sc_SourceRequestID cmd \<and> ev_ProviderCode r = sc_ProviderCode cmd
    \<and> ev_ProviderAction r = sc_ProviderAction cmd
    \<and> canonicalEqual (ev_Payload r) (sc_Payload cmd) \<and> us (ev_ID r) = sr_EventID res"
  using submit_stored[OF assms(1,2,4)] assms(3)
  by (fastforce simp: stored_def source_key_def cmd_key_def jsonb_faithful_def split: if_splits)

text \<open>A payload and the text jsonb makes of it can differ for the code.\<close>

lemma rewritten_number_differs: "\<not> canonicalEqual ''[100]'' ''[1e2]''"
  by code_simp

text \<open>
  C5: Repeating an accepted submission at any later time, after any further history of the
  database, adds no row, publishes nothing and leaves the world as it is; it is answered from
  the stored row of that source request, the one the first answer named. The answer is that
  event as a duplicate if the stored payload is canonically equal to the submitted one, and a
  conflict otherwise. The stored payload is what PostgreSQL gave back for the first
  submission's text, so the conflict arises exactly when jsonb rewrites a payload into one
  that the code does not consider equal (numbers: 1e2 is read back as 100); a submission
  that was once answered as a duplicate is answered so again.
\<close>

theorem submit_idempotent:
  assumes "table_wf (w_table w)" and "repository_only J oth"
    and "run J E oth (Submit us reg cmd) n w = Some (Inr res, w')"
    and "db_steps J (w_table w') (w_table later)" and "db_fault (se_db (E' 0)) = NoFault"
  shows "\<exists>r \<in> set (w_table later). source_key r = cmd_key cmd \<and> us (ev_ID r) = sr_EventID res
    \<and> alone J E' (Submit us reg cmd) later =
        Some (if canonicalEqual (ev_Payload r) (sc_Payload cmd) then Inr (submitResult us r True)
              else Inl ErrSourceRequestConflict, later)
    \<and> (if sr_Duplicate res then canonicalEqual (ev_Payload r) (sc_Payload cmd)
       else J (sc_Payload cmd) = Some (ev_Payload r))"
proof -
  from submit_stored[OF assms(1-3)] have st: "stored J us cmd res (w_table w')"
      and wf: "table_wf (w_table w')"
    using assms(1) db_steps_wf by blast+
  have checks: "submit_checks reg cmd = None"
    using assms(3) by (cases "submit_checks reg cmd") (auto simp: Submit_def)
  from stored_steps[OF assms(4) wf st] obtain r where
    r: "r \<in> set (w_table later)" "source_key r = cmd_key cmd" "us (ev_ID r) = sr_EventID res"
      "same_command cmd r \<longleftrightarrow> canonicalEqual (ev_Payload r) (sc_Payload cmd)"
      "if sr_Duplicate res then canonicalEqual (ev_Payload r) (sc_Payload cmd)
       else J (sc_Payload cmd) = Some (ev_Payload r)"
    unfolding stored_def same_command_def by blast
  from submit_repeated[of later r cmd reg E' J us, OF db_steps_wf[OF assms(4) wf] r(1,2) checks assms(5)] r
  show ?thesis by (intro bexI[of _ r]) simp_all
qed

end
