(* ===== verification/End_To_End.thy ===== *)
theory End_To_End
  imports Processor_Laws Service_Laws
begin

text \<open>
  From the submission to the answer of a status query: the application service, the worker
  and the repository composed the way the processes compose them.
\<close>

section \<open>The submitted row\<close>

lemma submitted_row_fields [simp]:
  "ev_ID (submitted_row E cmd payload) = se_uuid (E 1)"
  "ev_SourceSystem (submitted_row E cmd payload) = sc_SourceSystem cmd"
  "ev_SourceRequestID (submitted_row E cmd payload) = sc_SourceRequestID cmd"
  "ev_ProviderCode (submitted_row E cmd payload) = sc_ProviderCode cmd"
  "ev_ProviderAction (submitted_row E cmd payload) = sc_ProviderAction cmd"
  "ev_Payload (submitted_row E cmd payload) = payload"
  "ev_Status (submitted_row E cmd payload) = PENDING" "ev_AttemptCount (submitted_row E cmd payload) = 0"
  "ev_NextAttemptAt (submitted_row E cmd payload) = db_now (se_db (E 2))"
  "ev_LeaseToken (submitted_row E cmd payload) = None" "ev_LeaseUntil (submitted_row E cmd payload) = None"
  "ev_LastResult (submitted_row E cmd payload) = None"
  "source_key (submitted_row E cmd payload) = cmd_key cmd"
  by (simp_all add: submitted_row_def new_row_def submit_event_def source_key_def cmd_key_def Let_def)

lemma submitted_table_wf:
  assumes "table_wf t" and "row_of t (cmd_key cmd) = None" and "lookup_row (se_uuid (E 1)) t = None"
  shows "table_wf (t @ [submitted_row E cmd payload])"
  using assms by (auto simp: table_wf_def row_wf_def row_of_None lookup_row_None)

text \<open>
  The worker side of a first delivery of the submitted row: nothing fails, the worker's
  clock is not behind the submission's, the breaker lets it through, a slot is free, and the
  adapter confirms.
\<close>

definition first_delivery_confirmed ::
  "(nat \<Rightarrow> step_env) \<Rightarrow> (nat \<Rightarrow> step_env) \<Rightarrow> proc_config \<Rightarrow> Delivery \<Rightarrow> SubmitCommand \<Rightarrow> string \<Rightarrow> world \<Rightarrow>
   ResolvedAction \<Rightarrow> provider_result \<Rightarrow> bool" where
  "first_delivery_confirmed E D p d cmd payload w ra res \<longleftrightarrow>
     no_faults D \<and> dl_EventID d = se_uuid (E 1) \<and> db_now (se_db (E 2)) \<le> db_now (se_db (D 2))
     \<and> Lookup (px_Registry p) (sc_ProviderCode cmd) (sc_ProviderAction cmd) = Some ra
     \<and> (let k = key (sc_ProviderCode cmd) (sc_ProviderAction cmd) in
        bd_Allowed (fst (Allow (se_now (D 3)) k (w_breakers w)))
        \<and> (\<exists>rel ls. Acquire (se_acquire (D 4)) k (w_limiters w) = Some (Inr rel, ls)))
     \<and> ad_SendActionRequest (ra_Adapter ra) (se_network (D 9))
          ((ra_Context ra)\<lparr>ac_SourceSystem := sc_SourceSystem cmd, ac_SourceRequestID := sc_SourceRequestID cmd\<rparr>)
          (sc_ProviderAction cmd) payload = Inr (Some res)
     \<and> pr_Success res"

lemma first_delivery_reaches:
  assumes "first_delivery_confirmed E D p d cmd payload w ra res" and "table_wf (w_table w)"
    and "row_of (w_table w) (cmd_key cmd) = None" and "lookup_row (se_uuid (E 1)) (w_table w) = None"
  shows "\<exists>permit bs. reaches_provider D p d
    (w\<lparr>w_table := w_table w @ [submitted_row E cmd payload], w_messages := ms\<rparr>)
    (submitted_row E cmd payload) permit bs (Inr (Some res))"
proof -
  let ?r = "submitted_row E cmd payload" and ?t = "w_table w @ [submitted_row E cmd payload]"
  have "lookup_row (dl_EventID d) ?t = Some ?r"
    using assms(1,4) by (simp add: first_delivery_confirmed_def lookup_row_append)
  moreover have "claimable (db_now (se_db (D 2))) (dl_EventID d) ?r"
    using assms(1) by (simp add: first_delivery_confirmed_def claimable_def)
  ultimately have "deliverable D d ?t ?r" using assms(1) submitted_table_wf[of "w_table w" cmd E payload, OF assms(2-4)]
    by (simp add: deliverable_def first_delivery_confirmed_def)
  moreover have "within_limit d ?r"
    by (simp add: within_limit_def) (metis word_gt_0 word_less_def uint_0_eq)
  ultimately show ?thesis using assms(1)
    by (auto simp: reaches_provider_def first_delivery_confirmed_def call_context_def Let_def
        prod_eq_iff)
qed

text \<open>
  C13: A submitted notification is delivered. When a new valid request is submitted and the
  worker handles the message it published, with the provider confirming and its response
  storable, the submission is
  answered as accepted, its id is handed to the broker once, the worker acknowledges, the
  provider is called exactly once, for this source request and with the stored payload, and
  a status query by the source request answers SUCCEEDED after one attempt with the
  provider's response; no other row is touched.
\<close>

theorem submitted_is_delivered:
  assumes "no_faults E" and "submit_checks reg cmd = None" and "row_of (w_table w) (cmd_key cmd) = None"
    and "J (sc_Payload cmd) = Some payload" and "columns_fit (submit_event (se_uuid (E 1)) cmd)"
    and "lookup_row (se_uuid (E 1)) (w_table w) = None" and "se_publish (E 3) = Published True"
    and "table_wf (w_table w)" and "first_delivery_confirmed E D p d cmd payload w ra res" and "no_faults Q"
    and "storable J (pr_ProviderResponse res)"
  shows "\<exists>answer w1 w2 r c. alone J E (Submit us reg cmd) w = Some (Inr answer, w1)
    \<and> sr_EventID answer = us (se_uuid (E 1)) \<and> \<not> sr_Duplicate answer
    \<and> w_messages w1 = w_messages w @ [dl_EventID d]
    \<and> alone J D (HandleDelivery p d) w1 = Some (None, w2)
    \<and> w_calls w2 = w_calls w @ [c] \<and> call_key (call_ctx c) = cmd_key cmd \<and> call_payload c = payload
    \<and> alone J Q (GetStatus \<lparr>sq_SourceSystem = sc_SourceSystem cmd, sq_SourceRequestID = sc_SourceRequestID cmd\<rparr>) w2
        = Some (Inr r, w2)
    \<and> ev_Status r = SUCCEEDED \<and> ev_AttemptCount r = 1 \<and> ev_ProviderResponse r = Option.bind (pr_ProviderResponse res) J
    \<and> (\<forall>j. j \<noteq> dl_EventID d \<longrightarrow> lookup_row j (w_table w2) = lookup_row j (w_table w))"
proof -
  let ?r = "submitted_row E cmd payload"
  define w1 where "w1 = w\<lparr>w_table := w_table w @ [?r],
    w_messages := w_messages w @ accepted (se_publish (E 3)) (se_uuid (E 1))\<rparr>"
  have id: "dl_EventID d = se_uuid (E 1)" and ok: "pr_Success res"
    using assms(9) by (simp_all add: first_delivery_confirmed_def)
  note sub = submit_new[of E reg cmd w J payload us, OF assms(1-6)]
  from first_delivery_reaches[of E D p d cmd payload w ra res, OF assms(9,8,3,6)] obtain permit bs where
    "reaches_provider D p d w1 ?r permit bs (Inr (Some res))" unfolding w1_def by blast
  from confirmed_delivery[OF this ok assms(11)] obtain w2 r c where
    del: "alone J D (HandleDelivery p d) w1 = Some (None, w2)" "confined d w1 w2"
    and r: "lookup_row (dl_EventID d) (w_table w2) = Some r" "life r = LSucceeded 1"
      "ev_ProviderResponse r = Option.bind (pr_ProviderResponse res) J"
    and c: "w_calls w2 = w_calls w1 @ [c]" "call_key (call_ctx c) = cmd_key cmd" "call_payload c = payload"
    and keys: "keys_of (w_table w2) = keys_of (w_table w1)" by auto
  have row: "lookup_row (dl_EventID d) (w_table w1) = Some ?r"
    using assms(6) by (simp add: w1_def lookup_row_append id)
  have "row_of (w_table w2) (cmd_key cmd) = Some r"
    using keys_same_row[OF keys _ row r(1)] submitted_table_wf[of "w_table w" cmd E payload, OF assms(8,3,6)] by (simp add: w1_def)
  moreover have "sc_SourceSystem cmd \<noteq> []" "sc_SourceRequestID cmd \<noteq> []"
    using assms(2) by (auto simp: submit_checks_def split: if_splits)
  ultimately have "alone J Q (GetStatus \<lparr>sq_SourceSystem = sc_SourceSystem cmd,
      sq_SourceRequestID = sc_SourceRequestID cmd\<rparr>) w2 = Some (Inr r, w2)"
    using assms(10) by (simp add: GetStatus_def FindBySourceRequest_row_of cmd_key_def no_faults_def)
  moreover have "ev_Status r = SUCCEEDED \<and> ev_AttemptCount r = 1"
    using r(2) by (auto simp: life_def split: Status.splits option.splits)
  moreover have "lookup_row j (w_table w2) = lookup_row j (w_table w)" if "j \<noteq> dl_EventID d" for j
    using del(2) that by (simp add: confined_def other_rows_kept_def w1_def lookup_row_append id split: option.split)
  ultimately show ?thesis using sub del(1) c r(3) assms(7)
    by (intro exI[of _ w1] exI[of _ w2] exI[of _ r] exI[of _ c] exI) (auto simp: w1_def id accepted_def)
qed

end
