(* ===== verification/Retries.thy ===== *)
theory Retries
  imports Processor_Laws Compensator_Laws System
begin

text \<open>
  Several deliveries of one notification in a row: how a retried notification ends, and what
  becomes of an answer the repository cannot store.
\<close>

section \<open>What a handler running alone leaves in the table\<close>

primrec keeps_contract :: "'a prog \<Rightarrow> bool" where
  "keeps_contract (Return x) = True"
| "keeps_contract (NewUUID k) = (\<forall>r. keeps_contract (k r))"
| "keeps_contract (TimeNow k) = (\<forall>r. keeps_contract (k r))"
| "keeps_contract (RepoInsert ev k) = (\<forall>r. keeps_contract (k r))"
| "keeps_contract (RepoClaim i tok d now k) = (\<forall>r. keeps_contract (k r))"
| "keeps_contract (RepoExec x k) = (op_ok x \<and> (\<forall>r. keeps_contract (k r)))"
| "keeps_contract (RepoFind a b k) = (\<forall>r. keeps_contract (k r))"
| "keeps_contract (RepoGet i k) = (\<forall>r. keeps_contract (k r))"
| "keeps_contract (RepoPending n k) = (\<forall>r. keeps_contract (k r))"
| "keeps_contract (RepoExpired n k) = (\<forall>r. keeps_contract (k r))"
| "keeps_contract (BreakerAllow a k) = (\<forall>r. keeps_contract (k r))"
| "keeps_contract (BreakerObserve p b k) = keeps_contract k"
| "keeps_contract (BreakerAbort p k) = keeps_contract k"
| "keeps_contract (LimiterAcquire a k) = (\<forall>r. keeps_contract (k r))"
| "keeps_contract (LimiterRelease r' k) = keeps_contract k"
| "keeps_contract (ProviderSend a ac act pl k) = (\<forall>r. keeps_contract (k r))"
| "keeps_contract (BrokerPublish i k) = (\<forall>r. keeps_contract (k r))"

lemma keeps_contract_bind:
  "keeps_contract q \<Longrightarrow> (\<And>x. keeps_contract (f x)) \<Longrightarrow> keeps_contract (bind q f)"
  by (induction q) auto

lemma keeps_contract_HandleDelivery: "keeps_contract (HandleDelivery p d)"
  by (auto simp: HandleDelivery_def process_def finishExhaustedBeforeProvider_def retryOrFail_def
      releaseForRequeue_def deferForOpenCircuit_def attempt_def finish_attempt_def Let_def
      intro!: keeps_contract_bind split: sum.splits store_error.splits option.splits)

lemma table_of_update:
  "w_table (w\<lparr>w_breakers := bs\<rparr>) = w_table w" "w_table (w\<lparr>w_limiters := ls\<rparr>) = w_table w"
  "w_table (w\<lparr>w_calls := cs\<rparr>) = w_table w" "w_table (w\<lparr>w_messages := ms\<rparr>) = w_table w"
  by simp_all

lemma alone_db_steps:
  assumes "keeps_contract q" and "run J E (\<lambda>_ w. w) q n w = Some (x, w')"
  shows "db_steps J (w_table w) (w_table w')"
  using assms
proof (induction q arbitrary: n w)
  case (RepoInsert ev k)
  then show ?case
    by (fastforce simp: Let_def intro: converse_rtranclp_into_rtranclp db_step_Insert)
next
  case (RepoClaim i tok d now k)
  let ?t = "snd (Claim (se_db (E n)) i tok d now (w_table w))"
  have "db_step J (w_table w) ?t"
    using db_step_write[of "OpClaim i tok d now" J "w_table w" "se_db (E n)"] by (simp add: error_of_def)
  with RepoClaim show ?case by (fastforce simp: Let_def intro: converse_rtranclp_into_rtranclp)
next
  case (RepoExec y k)
  then show ?case
    by (fastforce simp: Let_def intro: converse_rtranclp_into_rtranclp db_step_write)
qed (auto simp: Let_def split: option.splits, (metis rangeI table_of_update)+)

lemma delivery_keeps_request:
  assumes "alone J E (HandleDelivery p d) w = Some (x, w')" and "table_wf (w_table w)"
    and "lookup_row i (w_table w) = Some r" and "lookup_row i (w_table w') = Some r'"
  shows "table_wf (w_table w') \<and> same_request r r'"
proof -
  have steps: "db_steps J (w_table w) (w_table w')"
    using keeps_contract_HandleDelivery assms(1) by (rule alone_db_steps)
  then have wf: "table_wf (w_table w')" using assms(2) by (rule db_steps_wf)
  from db_steps_same_request[OF steps assms(2)] assms(3) obtain q where
    q: "q \<in> set (w_table w')" "same_request r q" by (auto dest: lookup_row_SomeD)
  have "ev_ID r = i" using assms(3) by (auto dest: lookup_row_SomeD)
  with wf q have "lookup_row i (w_table w') = Some q"
    by (simp add: table_wf_def same_request_def lookup_row_in_set)
  with assms(4) wf q(2) show ?thesis by simp
qed

section \<open>A notification whose provider keeps failing\<close>

text \<open>One delivery after the other, each with its own environment.\<close>

primrec deliver_rounds ::
  "jsonb \<Rightarrow> (nat \<Rightarrow> nat \<Rightarrow> step_env) \<Rightarrow> proc_config \<Rightarrow> (nat \<Rightarrow> Delivery) \<Rightarrow> nat \<Rightarrow> world \<Rightarrow> world option" where
  "deliver_rounds J E p D 0 w = Some w"
| "deliver_rounds J E p D (Suc k) w =
     Option.bind (deliver_rounds J E p D k w) (\<lambda>w'. map_option snd (alone J (E k) (HandleDelivery p (D k)) w'))"

text \<open>
  A round in which no statement fails, a slot is free, and the adapter does not confirm (a
  failure, an error of its own or a nil result).
\<close>

definition failing_round :: "jsonb \<Rightarrow> (nat \<Rightarrow> step_env) \<Rightarrow> ResolvedAction \<Rightarrow> Event \<Rightarrow> Limiters \<Rightarrow> bool" where
  "failing_round J E ra r ls \<longleftrightarrow> no_faults E
     \<and> (\<exists>rel ls'. Acquire (se_acquire (E 4)) (action_key r) ls = Some (Inr rel, ls'))
     \<and> (let result = fst (judge (ad_SendActionRequest (ra_Adapter ra) (se_network (E 9)) (call_context ra r)
                                  (ev_ProviderAction r) (ev_Payload r)))
        in \<not> pr_Success result \<and> storable J (pr_ProviderResponse result))"

text \<open>The world after \<open>k\<close> failed calls of at most \<open>m\<close>.\<close>

definition after_failures :: "uuid \<Rightarrow> nat \<Rightarrow> Event \<Rightarrow> world \<Rightarrow> nat \<Rightarrow> world \<Rightarrow> Event \<Rightarrow> bool" where
  "after_failures i m r w k w' r' \<longleftrightarrow> table_wf (w_table w') \<and> lookup_row i (w_table w') = Some r'
     \<and> same_request r r' \<and> w_breakers w' = w_breakers w \<and> w_limiters w' = w_limiters w
     \<and> life r' = (if k = 0 then LPending else if k < m then LWaiting (int k) else LFailed (int k))
     \<and> (\<exists>cs. w_calls w' = w_calls w @ cs \<and> length cs = k
          \<and> (\<forall>c \<in> set cs. call_key (call_ctx c) = source_key r \<and> call_payload c = ev_Payload r))"

lemma waiting_row:
  assumes "table_wf t" and "lookup_row i t = Some r" and "life r = LWaiting n"
  shows "waiting r \<and> ev_AttemptCount r = n"
  using assms by (auto simp: table_wf_def row_wf_def life_def waiting_def requeue_requested_def
      dest!: lookup_row_SomeD split: Status.splits option.splits)

lemma pending_row:
  assumes "table_wf t" and "lookup_row i t = Some r" and "life r = LPending"
  shows "ev_Status r = PENDING \<and> ev_AttemptCount r = 0"
  using assms by (auto simp: table_wf_def row_wf_def life_def
      dest!: lookup_row_SomeD split: Status.splits option.splits)

lemma same_request_call:
  "same_request r r' \<Longrightarrow> action_key r' = action_key r \<and> call_context ra r' = call_context ra r"
  by (simp add: same_request_def call_context_def source_key_def)

lemma attempts_of_round:
  assumes "after_failures i m r w k w' r'" and "k < m"
  shows "ev_AttemptCount r' = int k"
  using assms pending_row[of "w_table w'" i r'] waiting_row[of "w_table w'" i r' "int k"]
  by (cases "k = 0") (simp_all add: after_failures_def)

lemma failing_round_reaches:
  assumes "after_failures i m r w k w' r'" and "k < m" and "claimable (db_now (se_db (E 2))) i r'"
    and "failing_round J E ra r (w_limiters w)" and "dl_EventID d = i"
    and "uint (dl_MaxAttempts d) = int m" and "m \<le> 32767"
    and "Lookup (px_Registry p) (ev_ProviderCode r) (ev_ProviderAction r) = Some ra"
    and "w_breakers w (action_key r) = None"
  shows "\<exists>answer. reaches_provider E p d w' r' zero_permit (w_breakers w) answer
    \<and> \<not> pr_Success (fst (judge answer)) \<and> storable J (pr_ProviderResponse (fst (judge answer)))"
proof -
  note n = attempts_of_round[OF assms(1,2)]
  have st: "table_wf (w_table w')" "lookup_row i (w_table w') = Some r'" "same_request r r'"
    "w_breakers w' = w_breakers w" "w_limiters w' = w_limiters w"
    using assms(1) by (simp_all add: after_failures_def)
  have "deliverable E d (w_table w') r'"
    using st(1,2) assms(2-5,7) n by (simp add: deliverable_def failing_round_def)
  moreover have "within_limit d r'" using assms(2,6) n by (simp add: within_limit_def)
  ultimately show ?thesis
    using st(3-5) same_request_call[OF st(3), of ra] assms(4,8,9)
    by (auto simp: reaches_provider_def failing_round_def Allow_def same_request_def Let_def)
qed

lemma no_permit: "Observe now zero_permit obs bs = bs"
  by (simp add: Observe_def on_breaker_def zero_permit_def)

lemma one_more_failure:
  assumes "after_failures i m r w k w' r'" and "k < m" and "claimable (db_now (se_db (E 2))) i r'"
    and "failing_round J E ra r (w_limiters w)" and "dl_EventID d = i"
    and "uint (dl_MaxAttempts d) = int m" and "m \<le> 32767"
    and "Lookup (px_Registry p) (ev_ProviderCode r) (ev_ProviderAction r) = Some ra"
    and "w_breakers w (action_key r) = None"
  shows "\<exists>res w'' r''. alone J E (HandleDelivery p d) w' = Some (res, w'')
    \<and> after_failures i m r w (Suc k) w'' r''"
proof -
  have st: "table_wf (w_table w')" "lookup_row i (w_table w') = Some r'" "same_request r r'"
    "w_limiters w' = w_limiters w"
    using assms(1) by (simp_all add: after_failures_def)
  from assms(1) obtain cs where cs: "w_calls w' = w_calls w @ cs" "length cs = k"
    "\<forall>c \<in> set cs. call_key (call_ctx c) = source_key r \<and> call_payload c = ev_Payload r"
    by (auto simp: after_failures_def)
  from failing_round_reaches[OF assms] obtain answer where
    reach: "reaches_provider E p d w' r' zero_permit (w_breakers w) answer"
      and fail: "\<not> pr_Success (fst (judge answer))" "storable J (pr_ProviderResponse (fst (judge answer)))"
    by blast
  from unconfirmed_delivery[OF reach fail] attempts_of_round[OF assms(1,2)] assms(5,6) obtain w'' r'' c res where
    run: "alone J E (HandleDelivery p d) w' = Some (res, w'')" "confined d w' w''"
      and r'': "lookup_row i (w_table w'') = Some r''" "w_breakers w'' = w_breakers w"
        "life r'' = (if Suc k < m then LWaiting (int k + 1) else LFailed (int k + 1))"
      and c: "w_calls w'' = w_calls w' @ [c]" "call_key (call_ctx c) = source_key r'" "call_payload c = ev_Payload r'"
    using assms(2) by (auto simp: Let_def no_permit word_less_def split: if_splits)
  from delivery_keeps_request[OF run(1) st(1,2) r''(1)] have k: "table_wf (w_table w'')" "same_request r' r''"
    by auto
  have "w_calls w'' = w_calls w @ (cs @ [c])" "length (cs @ [c]) = Suc k"
    "\<forall>c \<in> set (cs @ [c]). call_key (call_ctx c) = source_key r \<and> call_payload c = ev_Payload r"
    using cs c st(3) by (auto simp: same_request_def)
  with run k r'' st(3,4) show ?thesis
    by (auto simp: after_failures_def same_request_def confined_def add.commute)
qed

text \<open>A finished row is left alone by every further delivery of its id.\<close>

lemma finished_not_delivered:
  assumes "after_failures i m r w m w' r'" and "0 < m" and "dl_EventID d = i"
    and "db_fault (se_db (E 2)) = NoFault"
  shows "alone J E (HandleDelivery p d) w' = Some (None, w')"
proof (rule delivery_not_claimable)
  show "table_wf (w_table w')" using assms(1) by (simp add: after_failures_def)
  have "life r' = LFailed (int m)" using assms(1,2) by (simp add: after_failures_def)
  then have "ev_Status r' = FAILED" by (auto simp: life_def split: Status.splits option.splits)
  then show "\<forall>q. lookup_row (dl_EventID d) (w_table w') = Some q \<longrightarrow>
      \<not> claimable (db_now (se_db (E 2))) (dl_EventID d) q"
    using assms(1,3) by (simp add: after_failures_def claimable_def waiting_def)
qed (rule assms(4))

lemma rounds_fail:
  assumes "table_wf (w_table w)" and "lookup_row i (w_table w) = Some r" and "life r = LPending"
    and "ev_NextAttemptAt r \<le> db_now (se_db (E 0 2))"
    and "0 < m" and "m \<le> 32767" and "\<And>k. dl_EventID (D k) = i" and "\<And>k. uint (dl_MaxAttempts (D k)) = int m"
    and "Lookup (px_Registry p) (ev_ProviderCode r) (ev_ProviderAction r) = Some ra"
    and "w_breakers w (action_key r) = None"
    and "\<And>k. k < m \<Longrightarrow> failing_round J (E k) ra r (w_limiters w)" and "\<And>k. db_fault (se_db (E k 2)) = NoFault"
  shows "\<exists>w' r'. deliver_rounds J E p D k w = Some w' \<and> after_failures i m r w (min k m) w' r'
    \<and> (k = 0 \<longrightarrow> r' = r)"
proof (induction k)
  case 0
  show ?case using assms(1-3) by (auto simp: after_failures_def same_request_def)
next
  case (Suc k)
  then obtain w' r' where at_k: "deliver_rounds J E p D k w = Some w'" "after_failures i m r w (min k m) w' r'"
    "k = 0 \<longrightarrow> r' = r" by blast
  show ?case
  proof (cases "k < m")
    case True
    have "claimable (db_now (se_db (E k 2))) i r'"
    proof (cases "k = 0")
      case True
      with at_k(3) pending_row[OF assms(1-3)] assms(2,4) show ?thesis
        by (auto simp: claimable_def dest: lookup_row_SomeD)
    next
      case False
      with \<open>k < m\<close> at_k(2) waiting_row[of "w_table w'" i r' "int k"] show ?thesis
        by (auto simp: after_failures_def intro!: waiting_claimable dest: lookup_row_SomeD)
    qed
    with one_more_failure[of i m r w k w' r' "E k" J ra "D k" p] True at_k(2) assms(6-11) obtain res w'' r'' where
      "alone J (E k) (HandleDelivery p (D k)) w' = Some (res, w'')" "after_failures i m r w (Suc k) w'' r''"
      by auto
    with at_k(1) True show ?thesis by (auto simp: min_def)
  next
    case False
    with at_k(2) have "after_failures i m r w m w' r'" by simp
    from finished_not_delivered[OF this assms(5), of "D k" "E k" J p] assms(7,12) at_k(1) this False
    show ?thesis by (auto simp: min_def)
  qed
qed

text \<open>
  C9: A notification whose provider never confirms ends as FAILED after exactly
  max_attempts calls. Deliver a fresh row again and again while every attempt fails (with no
  circuit breaker on its action, so that every round reaches the provider): the row is never
  lost and never called more often; after \<open>k\<close> deliveries \<open>k\<close> calls have been made, each for
  this source request and with the stored payload, and the row waits for the next; from
  max_attempts deliveries on it is FAILED and further messages for it are dropped.
\<close>

theorem retries_end:
  assumes "table_wf (w_table w)" and "lookup_row i (w_table w) = Some r" and "life r = LPending"
    and "ev_NextAttemptAt r \<le> db_now (se_db (E 0 2))"
    and "0 < m" and "m \<le> 32767" and "\<forall>k. dl_EventID (D k) = i \<and> uint (dl_MaxAttempts (D k)) = int m"
    and "Lookup (px_Registry p) (ev_ProviderCode r) (ev_ProviderAction r) = Some ra"
    and "w_breakers w (action_key r) = None"
    and "\<forall>k < m. failing_round J (E k) ra r (w_limiters w)" and "\<forall>k. db_fault (se_db (E k 2)) = NoFault"
  shows "\<exists>w' r' cs. deliver_rounds J E p D k w = Some w' \<and> lookup_row i (w_table w') = Some r'
    \<and> life r' = (if k = 0 then LPending else if k < m then LWaiting (int k) else LFailed (int m))
    \<and> w_calls w' = w_calls w @ cs \<and> length cs = min k m
    \<and> (\<forall>c \<in> set cs. call_key (call_ctx c) = source_key r \<and> call_payload c = ev_Payload r)"
proof -
  from rounds_fail[of w i r E m D p ra J k] assms obtain w' r' where
    "deliver_rounds J E p D k w = Some w'" "after_failures i m r w (min k m) w' r'" by blast
  then show ?thesis
    using assms(5) by (auto simp: after_failures_def min_def split: if_splits)
qed

section \<open>A confirmation that cannot be stored\<close>

text \<open>
  C10: A confirmed notification is sent again when its response cannot be stored. The response
  record is valid JSON, but PostgreSQL refuses some of it (a NUL in the body is enough): then
  the statement that would make the row SUCCEEDED fails, the delivery ends with an error, the
  row stays leased with its attempt counted, and when the lease has expired the compensator
  gives it back to be claimed and called once more, although the provider has confirmed.
\<close>

theorem unstorable_confirmation_is_resent:
  assumes "reaches_provider E p d w r permit bs (Inr (Some res))" and "pr_Success res"
    and "\<not> storable J (pr_ProviderResponse res)" and "no_faults F"
    and "\<forall>n. db_now (se_db (E 7)) + px_LeaseDuration p < db_now (se_db (F n))"
  shows "\<exists>w1 w2 r1 r2 c. alone J E (HandleDelivery p d) w
        = Some (Some (OtherError ''invalid input syntax for type json''), w1)
    \<and> w_calls w1 = w_calls w @ [c] \<and> call_key (call_ctx c) = source_key r \<and> call_answer c = Inr (Some res)
    \<and> lookup_row (dl_EventID d) (w_table w1) = Some r1
    \<and> life r1 = LLeased (se_uuid (E 0)) (ev_AttemptCount r + 1)
    \<and> alone J F (recoverOne us lease r1) w1 = Some ((), w2)
    \<and> lookup_row (dl_EventID d) (w_table w2) = Some r2 \<and> life r2 = LWaiting (ev_AttemptCount r + 1)
    \<and> (\<forall>now. claimable now (dl_EventID d) r2)"
proof -
  have "\<not> storable J (pr_ProviderResponse (fst (judge (Inr (Some res)))))"
    using assms(3) by (simp add: judge_def)
  from delivery_unstorable[OF assms(1) this] obtain w1 r1 c where
    run: "alone J E (HandleDelivery p d) w = Some (Some (OtherError ''invalid input syntax for type json''), w1)"
      and r1: "lookup_row (dl_EventID d) (w_table w1) = Some r1"
        "life r1 = LLeased (se_uuid (E 0)) (ev_AttemptCount r + 1)"
        "ev_LeaseUntil r1 = Some (db_now (se_db (E 7)) + px_LeaseDuration p)"
      and c: "w_calls w1 = w_calls w @ [c]" "call_key (call_ctx c) = source_key r" "call_answer c = Inr (Some res)"
    by blast
  have "table_wf (w_table w)" "lookup_row (dl_EventID d) (w_table w) = Some r"
    using assms(1) by (simp_all add: reaches_provider_def deliverable_def)
  with delivery_keeps_request[OF run _ _ r1(1)] have "table_wf (w_table w1)" by blast
  moreover have id: "ev_ID r1 = dl_EventID d" using r1(1) by (auto dest: lookup_row_SomeD)
  ultimately have "expired_row F (w_table w1) r1"
    using r1 assms(4,5) by (simp add: expired_row_def lease_expired_def life_leased_iff)
  from recovered_row[OF this, of J us lease] obtain w2 r2 where
    "alone J F (recoverOne us lease r1) w1 = Some ((), w2)" "lookup_row (dl_EventID d) (w_table w2) = Some r2"
      "life r2 = LWaiting (ev_AttemptCount r + 1)" "\<forall>now. claimable now (dl_EventID d) r2"
    using r1(2) by (auto simp: id life_leased_iff)
  with run r1 c show ?thesis by blast
qed

end
