(* ===== verification/Witnesses_Flow.thy ===== *)
theory Witnesses_Flow
  imports Confirmation Compensator_Laws Loadtest Termination End_To_End Retries
begin

text \<open>
  Concrete inputs for the properties of the repository, the worker, the compensator, the
  service and the whole system: one notification for a loopback endpoint, from submission
  to its end.
\<close>

section \<open>One notification\<close>

definition wit_now :: instant where
  "wit_now = 1700000000 * second"

definition wit_db :: db_env where
  "wit_db = \<lparr>db_now = wit_now, db_fault = NoFault, db_tie = (\<lambda>_. 0)\<rparr>"

definition wit_transport :: "int \<Rightarrow> transport" where
  "wit_transport status = (\<lambda>_. Inr \<lparr>wr_StatusCode = status, wr_Header = [], wr_Body = ''ok'',
     wr_readError = None\<rparr>)"

text \<open>An undisturbed environment in which the endpoint answers every request with a status.\<close>

definition wit_env :: "int \<Rightarrow> nat \<Rightarrow> step_env" where
  "wit_env status n =
     \<lparr>se_db = wit_db, se_now = wit_now, se_uuid = of_nat n + 7,
      se_acquire = \<lparr>aq_wait = None, aq_done = None, aq_prefer_done = False\<rparr>,
      se_network = \<lparr>nt_http = wit_transport status, nt_now = wit_now, nt_cancelled = False,
        nt_cause = ''context canceled'', nt_smtp = \<lambda>_ _. None, nt_boundary = ''b0'',
        nt_fcm = \<lparr>fe_cause = None, fe_NewApp = \<lambda>_ _. None, fe_Send = \<lambda>_ _. Inr ''m''\<rparr>\<rparr>,
      se_publish = Published True\<rparr>"

definition wit_action :: ResolvedAction where
  "wit_action = resolve_action (Some 1048576) [] LoadtestHTTP ''loadtest_http'' [] ''request''
     \<lparr>cf_Description = [], cf_BaseURL = [], cf_Path = ''http://127.0.0.1/x'', cf_Method = ''POST'',
      cf_TimeoutMs = 1000, cf_RequestsPerSecond = 0, cf_MaxConcurrency = 2, cf_CircuitBreaker = None\<rparr>"

definition wit_proc :: proc_config where
  "wit_proc = \<lparr>px_Registry = [(key ''loadtest_http'' ''request'', wit_action)],
     px_LeaseDuration = 60 * second\<rparr>"

definition wit_command :: SubmitCommand where
  "wit_command = \<lparr>sc_SourceSystem = ''shop'', sc_SourceRequestID = ''1'',
     sc_ProviderCode = ''loadtest_http'', sc_ProviderAction = ''request'', sc_Payload = ''{}''\<rparr>"

definition wit_row :: Event where
  "wit_row = new_row 0 ''{}'' (submit_event 8 wit_command)"

definition wit_waiting :: "int \<Rightarrow> Event" where
  "wit_waiting n = wit_row\<lparr>ev_Status := PROCESSING, ev_AttemptCount := n,
     ev_LeaseUntil := Some 0,
     ev_LastResult := Some (marshal_finished (finished_zero\<lparr>lr_Outcome := OutcomeRequeueRequested\<rparr>))\<rparr>"

definition wit_world :: "Event list \<Rightarrow> world" where
  "wit_world t = \<lparr>w_table = t, w_breakers = Map.empty, w_limiters = Map.empty, w_calls = [],
     w_messages = []\<rparr>"

definition wit_delivery :: Delivery where
  "wit_delivery = mk_delivery \<lparr>rq_DefaultRequeueDelay = 30 * second, rq_MaxRequeueDelay = 900 * second,
     rq_MaxAttempts = 3\<rparr> 8 1"

lemma wit_row_fields:
  "ev_ID wit_row = 8" "source_key wit_row = (''shop'', ''1'')" "ev_Status wit_row = PENDING"
  "ev_AttemptCount wit_row = 0" "ev_NextAttemptAt wit_row = 0" "ev_EnqueuedAt wit_row = None"
  "ev_LeaseToken wit_row = None" "ev_LeaseUntil wit_row = None" "ev_LastResult wit_row = None"
  "ev_ProviderCode wit_row = ''loadtest_http''" "ev_ProviderAction wit_row = ''request''"
  "ev_Payload wit_row = ''{}''"
  by (simp_all add: wit_row_def new_row_def submit_event_def wit_command_def source_key_def)

lemma wit_waiting_fields:
  "ev_ID (wit_waiting n) = 8" "source_key (wit_waiting n) = (''shop'', ''1'')"
  "ev_Status (wit_waiting n) = PROCESSING" "ev_AttemptCount (wit_waiting n) = n"
  "ev_LeaseToken (wit_waiting n) = None" "ev_LeaseUntil (wit_waiting n) = Some 0"
  "waiting (wit_waiting n)" "requeue_requested (ev_LastResult (wit_waiting n))"
  "ev_ProviderCode (wit_waiting n) = ''loadtest_http''" "ev_ProviderAction (wit_waiting n) = ''request''"
  "ev_Payload (wit_waiting n) = ''{}''"
  using wit_row_fields by (simp_all add: wit_waiting_def waiting_def source_key_def)

lemma wit_tables:
  "table_wf [wit_row]" "0 \<le> n \<Longrightarrow> n \<le> 32767 \<Longrightarrow> table_wf [wit_waiting n]"
  by (simp_all add: table_wf_def row_wf_def wit_row_fields wit_waiting_fields)

lemma wit_storable [simp]: "storable Some resp"
  by (simp add: storable_def)

lemma wit_no_faults: "no_faults (wit_env status)"
  by (simp add: no_faults_def wit_env_def wit_db_def)

lemma wit_deliverable:
  "deliverable (wit_env status) wit_delivery [wit_row] wit_row"
  "0 \<le> n \<Longrightarrow> n < 32767 \<Longrightarrow> deliverable (wit_env status) wit_delivery [wit_waiting n] (wit_waiting n)"
  using wit_tables(1) wit_tables(2)[of n] wit_no_faults
  by (simp_all add: deliverable_def wit_delivery_def mk_delivery_def wit_row_fields wit_waiting_fields
      claimable_def wit_env_def wit_db_def wit_now_def second_def)

lemma wit_lookup: "Lookup (px_Registry wit_proc) ''loadtest_http'' ''request'' = Some wit_action"
  by (simp add: Lookup_def wit_proc_def)

lemma wit_limit: "within_limit wit_delivery r = (ev_AttemptCount r < 3)"
  by (simp add: within_limit_def wit_delivery_def mk_delivery_def)

section \<open>Deliveries\<close>

theorem handlers_terminate_witness:
  "\<exists>q r w'. reaches Some (wit_env 200) (\<lambda>_ w. w) (HandleDelivery wit_proc wit_delivery) 0 (wit_world [wit_row])
         q 2 (wit_world [wit_row]) \<and> (2::nat) \<le> 0 + 15
     \<and> run Some (wit_env 200) (\<lambda>_ w. w) (Submit (\<lambda>_. []) (px_Registry wit_proc) wit_command) 0 (wit_world [])
         = Some (r, w')"
proof -
  let ?E = "wit_env 200" and ?w = "wit_world [wit_row]"
  have "reaches Some ?E (\<lambda>_ w. w) q n ?w q n ?w" for n and q :: "handler_result prog" by (rule here)
  then obtain q where r: "reaches Some ?E (\<lambda>_ w. w) (HandleDelivery wit_proc wit_delivery) 0 ?w q 2 ?w"
    unfolding HandleDelivery_def numeral_2_eq_2 by (meson there step.simps(2,3))
  from handlers_terminate[of Some ?E "\<lambda>_ w. w" wit_proc wit_delivery 0 ?w] r have "(2::nat) \<le> 0 + 15" by blast
  moreover from handlers_terminate[of Some ?E "\<lambda>_ w. w" wit_proc wit_delivery 0 "wit_world []" "\<lambda>_. []"
      "px_Registry wit_proc" wit_command] obtain x w' where
    "run Some ?E (\<lambda>_ w. w) (Submit (\<lambda>_. []) (px_Registry wit_proc) wit_command) 0 (wit_world []) = Some (x, w')" by blast
  ultimately show ?thesis using r by blast
qed

theorem delivery_exhausted_witness:
  "\<exists>w' r'. alone Some (wit_env 200) (HandleDelivery wit_proc wit_delivery) (wit_world [wit_waiting 3]) =
       Some (None, w') \<and> lookup_row 8 (w_table w') = Some r' \<and> life r' = LFailed 3 \<and> w_calls w' = []"
proof -
  have "deliverable (wit_env 200) wit_delivery (w_table (wit_world [wit_waiting 3])) (wit_waiting 3)"
    using wit_deliverable(2)[of 3] by (simp add: wit_world_def)
  moreover have "0 < dl_MaxAttempts wit_delivery"
    and "uint (dl_MaxAttempts wit_delivery) \<le> ev_AttemptCount (wit_waiting 3)"
    by (simp_all add: wit_delivery_def mk_delivery_def wit_waiting_fields)
  ultimately show ?thesis
    using delivery_exhausted[of "wit_env 200" wit_delivery "wit_world [wit_waiting 3]" "wit_waiting 3"
        Some wit_proc]
    by (auto simp: wit_waiting_fields wit_world_def wit_delivery_def mk_delivery_def)
qed

definition wit_tripped :: actionBreaker where
  "wit_tripped = \<lparr>ab_failureThreshold = 2, ab_openDuration = 30 * second, ab_state = breakerOpen,
     ab_consecutiveFailure = 2, ab_generation = 1, ab_openUntil = wit_now + 20 * second,
     ab_halfOpenInFlight = False\<rparr>"

theorem delivery_circuit_open_witness:
  "\<exists>w' delay. alone Some (wit_env 200) (HandleDelivery wit_proc wit_delivery)
       ((wit_world [wit_row])\<lparr>w_breakers := [key ''loadtest_http'' ''request'' \<mapsto> wit_tripped]\<rparr>) =
       Some (Some (RequeueError ''provider circuit is open'' delay False), w')
     \<and> w_calls w' = [] \<and> 20 * second \<le> delay"
proof -
  let ?w = "(wit_world [wit_row])\<lparr>w_breakers := [key ''loadtest_http'' ''request'' \<mapsto> wit_tripped]\<rparr>"
  have "Allow (se_now (wit_env 200 3)) (action_key wit_row) (w_breakers ?w) =
      (refusal (20 * second), w_breakers ?w)"
    by (simp add: Allow_def allow_def wit_tripped_def wit_row_fields wit_env_def wit_now_def second_def
        time_sub_def go_arith)
  moreover have "deliverable (wit_env 200) wit_delivery (w_table ?w) wit_row"
    using wit_deliverable(1) by (simp add: wit_world_def)
  ultimately show ?thesis
    using delivery_circuit_open[of "wit_env 200" wit_delivery ?w wit_row wit_proc wit_action
        "refusal (20 * second)" "w_breakers ?w" Some] wit_lookup
    by (auto simp: wit_limit wit_row_fields refusal_def wit_world_def)
qed

lemma wit_answer:
  "\<exists>r. ad_SendActionRequest LoadtestHTTP (se_network (wit_env status n)) (call_context wit_action q)
       ''request'' payload = Inr (Some r) \<and> pr_Success r = (200 \<le> status \<and> status < 300)
     \<and> pr_ProviderResponse r \<noteq> None"
  by (simp add: LoadtestHTTP_def loadtest_SendActionRequest_def loadtestActionRequest_def Send_def Do_def
      call_context_def wit_action_def resolve_action_def wit_env_def wit_transport_def result_zero_def
      Let_def)

lemma wit_reaches:
  assumes "deliverable (wit_env status) wit_delivery (w_table w) r" and "ev_AttemptCount r < 3"
    and "ev_ProviderCode r = ''loadtest_http''" and "ev_ProviderAction r = ''request''"
    and "w_breakers w = Map.empty" and "w_limiters w = Map.empty"
  shows "\<exists>ans. reaches_provider (wit_env status) wit_proc wit_delivery w r zero_permit Map.empty
       (Inr (Some ans)) \<and> pr_Success ans = (200 \<le> status \<and> status < 300) \<and> pr_ProviderResponse ans \<noteq> None"
proof -
  obtain ans where ans: "ad_SendActionRequest LoadtestHTTP (se_network (wit_env status 9))
      (call_context wit_action r) ''request'' (ev_Payload r) = Inr (Some ans)"
      "pr_Success ans = (200 \<le> status \<and> status < 300)" "pr_ProviderResponse ans \<noteq> None"
    using wit_answer by blast
  have "ra_Adapter wit_action = LoadtestHTTP" by (simp add: wit_action_def resolve_action_def)
  with ans assms wit_lookup show ?thesis
    by (intro exI[of _ ans]) (simp add: reaches_provider_def wit_limit Allow_def Acquire_def)
qed

theorem delivery_success_witness:
  "\<exists>w' r' c. alone Some (wit_env 200) (HandleDelivery wit_proc wit_delivery) (wit_world [wit_row]) =
       Some (None, w') \<and> lookup_row 8 (w_table w') = Some r' \<and> life r' = LSucceeded 1
     \<and> w_calls w' = [c] \<and> call_payload c = ''{}''"
proof -
  obtain r where r: "reaches_provider (wit_env 200) wit_proc wit_delivery (wit_world [wit_row]) wit_row
      zero_permit Map.empty (Inr (Some r))" "pr_Success r"
    using wit_reaches[of 200 "wit_world [wit_row]" wit_row] wit_deliverable(1)
    by (auto simp: wit_world_def wit_row_fields)
  from delivery_success[OF this, of Some, OF wit_storable] show ?thesis
    by (auto simp: wit_row_fields wit_world_def wit_delivery_def mk_delivery_def)
qed

theorem delivery_failure_witness:
  "\<exists>w' r' c res. alone Some (wit_env 503) (HandleDelivery wit_proc wit_delivery) (wit_world [wit_row]) =
       Some (res, w') \<and> lookup_row 8 (w_table w') = Some r' \<and> w_calls w' = [c] \<and> waiting r'"
proof -
  obtain r where r: "reaches_provider (wit_env 503) wit_proc wit_delivery (wit_world [wit_row]) wit_row
      zero_permit Map.empty (Inr (Some r))" "\<not> pr_Success r"
    using wit_reaches[of 503 "wit_world [wit_row]" wit_row] wit_deliverable(1)
    by (auto simp: wit_world_def wit_row_fields)
  then have "\<not> pr_Success (fst (judge (Inr (Some r))))" by (simp add: judge_def)
  from delivery_failure[OF r(1) this, of Some, OF wit_storable] show ?thesis
    by (auto simp: wit_row_fields wit_world_def wit_delivery_def mk_delivery_def Let_def split: if_splits)
qed

theorem retries_end_witness:
  "\<exists>w' r' cs. deliver_rounds Some (\<lambda>_. wit_env 503) wit_proc (\<lambda>_. wit_delivery) 5 (wit_world [wit_row]) = Some w'
     \<and> lookup_row 8 (w_table w') = Some r' \<and> life r' = LFailed 3 \<and> w_calls w' = cs \<and> length cs = 3"
proof -
  let ?w = "wit_world [wit_row]"
  have t: "table_wf (w_table ?w)" "lookup_row 8 (w_table ?w) = Some wit_row" "life wit_row = LPending"
    "ev_NextAttemptAt wit_row \<le> db_now (se_db (wit_env 503 2))" "w_breakers ?w (action_key wit_row) = None"
    using wit_tables(1) by (simp_all add: wit_world_def wit_row_fields life_def wit_env_def wit_db_def
        wit_now_def second_def)
  have d: "\<forall>k :: nat. dl_EventID wit_delivery = 8 \<and> uint (dl_MaxAttempts wit_delivery) = int 3"
    by (simp add: wit_delivery_def mk_delivery_def)
  have l: "Lookup (px_Registry wit_proc) (ev_ProviderCode wit_row) (ev_ProviderAction wit_row) = Some wit_action"
    using wit_lookup by (simp add: wit_row_fields)
  obtain ans where "ad_SendActionRequest LoadtestHTTP (se_network (wit_env 503 9)) (call_context wit_action wit_row)
      ''request'' ''{}'' = Inr (Some ans)" "\<not> pr_Success ans"
    using wit_answer[of 503 9 wit_row "''{}''"] by auto
  moreover have "ra_Adapter wit_action = LoadtestHTTP" by (simp add: wit_action_def resolve_action_def)
  ultimately have "failing_round Some (wit_env 503) wit_action wit_row (w_limiters ?w)"
    using wit_no_faults by (simp add: failing_round_def wit_row_fields wit_world_def Acquire_def judge_def)
  then have f: "\<forall>k < 3 :: nat. failing_round Some (wit_env 503) wit_action wit_row (w_limiters ?w)"
    "\<forall>k :: nat. db_fault (se_db (wit_env 503 2)) = NoFault"
    by (simp_all add: wit_env_def wit_db_def)
  from retries_end[of ?w 8 wit_row "\<lambda>_. wit_env 503" 3 "\<lambda>_. wit_delivery" wit_proc wit_action Some 5,
      OF t(1-4) _ _ d l t(5) f]
  show ?thesis by (auto simp: wit_world_def)
qed

definition wit_later :: "nat \<Rightarrow> step_env" where
  "wit_later n = (wit_env 200 n)\<lparr>se_db := \<lparr>db_now = wit_now + 3600 * second, db_fault = NoFault, db_tie = (\<lambda>_. 0)\<rparr>\<rparr>"

text \<open>A database that refuses every response.\<close>

theorem unstorable_confirmation_is_resent_witness:
  "\<exists>w1 w2 r1 r2. alone (\<lambda>_. None) (wit_env 200) (HandleDelivery wit_proc wit_delivery) (wit_world [wit_row])
        = Some (Some (OtherError ''invalid input syntax for type json''), w1)
     \<and> length (w_calls w1) = 1 \<and> lookup_row 8 (w_table w1) = Some r1
     \<and> alone (\<lambda>_. None) wit_later (recoverOne (\<lambda>_. []) (60 * second) r1) w1 = Some ((), w2)
     \<and> lookup_row 8 (w_table w2) = Some r2 \<and> claimable wit_now 8 r2"
proof -
  obtain ans where reach: "reaches_provider (wit_env 200) wit_proc wit_delivery (wit_world [wit_row]) wit_row
      zero_permit Map.empty (Inr (Some ans))" and ok: "pr_Success ans" "pr_ProviderResponse ans \<noteq> None"
    using wit_reaches[of 200 "wit_world [wit_row]" wit_row] wit_deliverable(1)
    by (auto simp: wit_world_def wit_row_fields)
  then have "\<not> storable (\<lambda>_. None) (pr_ProviderResponse ans)" by (auto simp: storable_def)
  moreover have "no_faults wit_later" by (simp add: no_faults_def wit_later_def)
  moreover have "\<forall>n. db_now (se_db (wit_env 200 7)) + px_LeaseDuration wit_proc < db_now (se_db (wit_later n))"
    by (simp add: wit_later_def wit_env_def wit_db_def wit_proc_def second_def)
  ultimately have "\<exists>w1 w2 r1 r2 c. alone (\<lambda>_. None) (wit_env 200) (HandleDelivery wit_proc wit_delivery) (wit_world [wit_row])
        = Some (Some (OtherError ''invalid input syntax for type json''), w1)
    \<and> w_calls w1 = w_calls (wit_world [wit_row]) @ [c] \<and> lookup_row 8 (w_table w1) = Some r1
    \<and> alone (\<lambda>_. None) wit_later (recoverOne (\<lambda>_. []) (60 * second) r1) w1 = Some ((), w2)
    \<and> lookup_row 8 (w_table w2) = Some r2 \<and> claimable wit_now 8 r2"
    using unstorable_confirmation_is_resent[of "wit_env 200" wit_proc wit_delivery "wit_world [wit_row]" wit_row
        zero_permit Map.empty ans "\<lambda>_. None" wit_later "\<lambda>_. []" "60 * second", OF reach ok(1)]
    by (auto simp: wit_delivery_def mk_delivery_def)
  then show ?thesis by (fastforce simp: wit_world_def)
qed

section \<open>The repository\<close>

definition wit_stored :: Event where
  "wit_stored = new_row wit_now ''{}'' (submit_event 8 wit_command)"

lemma wit_columns: "columns_fit (submit_event i wit_command)"
  unfolding columns_fit_def submit_event_def wit_command_def by (simp add: char_length_def)

lemma wit_insert:
  "Insert Some wit_db (submit_event 8 wit_command) [] =
     (Inr ((submit_event 8 wit_command)\<lparr>ev_CreatedAt := wit_now, ev_UpdatedAt := wit_now, ev_Status := PENDING\<rparr>),
      [wit_stored])"
  using wit_columns[of 8]
  by (simp add: Insert_def wit_db_def violates_unique_def wit_stored_def)
    (simp add: submit_event_def wit_command_def)

lemma wit_reachable: "db_reachable Some [wit_stored]"
  using db_reachable.one_more[OF db_reachable.empty_table, of Some "[wit_stored]"]
    db_step_Insert[of Some "[]" wit_db "submit_event 8 wit_command"]
  by (simp add: wit_insert)

definition wit_claimed :: Event where
  "wit_claimed = claim_row wit_now 5 (60 * second) wit_now wit_stored"

lemma wit_stored_fields:
  "ev_ID wit_stored = 8" "ev_Status wit_stored = PENDING" "ev_NextAttemptAt wit_stored = wit_now"
  "ev_AttemptCount wit_stored = 0" "ev_EnqueuedAt wit_stored = None" "ev_LeaseToken wit_stored = None"
  "source_key wit_stored = (''shop'', ''1'')" "ev_Payload wit_stored = ''{}''"
  "ev_ProviderCode wit_stored = ''loadtest_http''" "ev_ProviderAction wit_stored = ''request''"
  by (simp_all add: wit_stored_def new_row_def submit_event_def wit_command_def source_key_def)

lemma wit_claim:
  "Claim wit_db 8 5 (60 * second) wit_now [wit_stored] = (Inr wit_claimed, [wit_claimed])"
  by (simp add: Claim_def wit_db_def claimable_def wit_stored_fields wit_claimed_def update_where_def Let_def)

lemma wit_claim_step: "db_step Some [wit_stored] [wit_claimed]"
  using db_step_write[of "OpClaim 8 5 (60 * second) wit_now" Some "[wit_stored]" wit_db]
  by (simp add: error_of_def wit_claim)

theorem repository_invariant_witness:
  "db_reachable Some [wit_stored] \<and> table_wf [wit_stored]"
  using repository_invariant[OF wit_reachable] wit_reachable by blast

theorem repository_refines_lifecycle_witness:
  "db_step Some [wit_stored] [wit_claimed]
   \<and> (\<exists>r' \<in> set [wit_claimed]. ev_ID r' = 8 \<and> ev_Payload r' = ''{}'' \<and> life_step LPending (life r'))"
  using repository_refines_lifecycle[OF wit_reachable wit_claim_step, of wit_stored] wit_claim_step
  by (simp add: wit_stored_fields life_def)

definition wit_done :: Event where
  "wit_done = wit_claimed\<lparr>ev_Status := SUCCEEDED, ev_LeaseToken := None, ev_LeaseUntil := None,
     ev_LastResult := Some JNull, ev_ProviderResponse := None, ev_UpdatedAt := wit_now\<rparr>"

lemma wit_done_step: "db_step Some [wit_claimed] [wit_done]"
  using db_step_write[of "OpMarkSucceeded 8 5 JNull None" Some "[wit_claimed]" wit_db]
  by (simp add: MarkSucceeded_def with_response_def guarded_update_def exec_update_def wit_db_def update_where_def
      held_by_def wit_done_def wit_claimed_def claim_row_def wit_stored_fields)

theorem finished_rows_are_final_witness:
  "ev_Status wit_done = SUCCEEDED
   \<and> lookup_row 8 (snd (Claim wit_db 8 6 (60 * second) wit_now [wit_done])) = Some wit_done"
proof -
  have "db_reachable Some [wit_done]"
    by (rule db_reachable.one_more[OF db_reachable.one_more[OF wit_reachable wit_claim_step] wit_done_step])
  moreover have "(db_step Some)\<^sup>*\<^sup>* [wit_done] (snd (Claim wit_db 8 6 (60 * second) wit_now [wit_done]))"
    using db_step_write[of "OpClaim 8 6 (60 * second) wit_now" Some "[wit_done]" wit_db]
    by (simp add: error_of_def r_into_rtranclp)
  ultimately show ?thesis
    using finished_rows_are_final[of Some "[wit_done]" _ wit_done]
    by (simp add: wit_done_def wit_claimed_def claim_row_def wit_stored_fields)
qed

theorem claim_is_exclusive_witness:
  "fst (Claim wit_db 8 5 (60 * second) wit_now [wit_stored]) = Inr wit_claimed
   \<and> (\<exists>e. fst (Claim wit_db 8 6 (60 * second) wit_now
         (snd (call_exec Some \<lparr>rc_env = wit_db, rc_op = OpMarkEnqueued 8\<rparr> [wit_claimed]))) = Inl e)"
proof -
  let ?cs = "[\<lparr>rc_env = wit_db, rc_op = OpMarkEnqueued 8\<rparr>]"
  have "table_wf [wit_stored]" using wit_reachable by (rule db_reachable_wf)
  moreover have "fst (Claim wit_db 8 5 (60 * second) wit_now [wit_stored]) = Inr wit_claimed"
    by (simp add: wit_claim)
  ultimately show ?thesis
    using claim_is_exclusive[of "[wit_stored]" wit_db 8 5 "60 * second" wit_now wit_claimed ?cs _ Some
        wit_db 6 "60 * second" wit_now]
    by (simp add: wit_claim)
qed

section \<open>Recovery\<close>

theorem publish_scan_repairs_witness:
  "\<exists>w' u. alone Some (wit_env 200) (scanPendingPublish (\<lambda>_. [])
       \<lparr>cc_PublishScanInterval = second, cc_PublishBatchSize = 10, cc_LeaseScanInterval = second,
        cc_LeaseScanBatchSize = 10\<rparr>) (wit_world [wit_stored]) = Some ((), w')
     \<and> w_messages w' = [8]
     \<and> lookup_row 8 (w_table w') = Some (wit_stored\<lparr>ev_EnqueuedAt := Some u, ev_UpdatedAt := u\<rparr>)"
proof -
  let ?cfg = "\<lparr>cc_PublishScanInterval = second, cc_PublishBatchSize = 10, cc_LeaseScanInterval = second,
        cc_LeaseScanBatchSize = 10\<rparr>"
  let ?w = "wit_world [wit_stored]"
  have t: "w_table ?w = [wit_stored]" "w_messages ?w = []" by (simp_all add: wit_world_def)
  have wf: "table_wf (w_table ?w)" using db_reachable_wf[OF wit_reachable] by (simp add: t)
  have pub: "\<forall>n. se_publish (wit_env 200 n) = Published True" by (simp add: wit_env_def)
  have row: "life wit_stored = LPending" "ev_EnqueuedAt wit_stored = None" "ev_ID wit_stored = 8"
      "ev_NextAttemptAt wit_stored \<le> db_now (se_db (wit_env 200 0))"
    by (simp_all add: wit_stored_fields life_def wit_env_def wit_db_def)
  from publish_scan_repairs[of ?w "wit_env 200" True 10 ?cfg Some "\<lambda>_. []", OF wf wit_no_faults pub]
  obtain w' rs where w': "alone Some (wit_env 200) (scanPendingPublish (\<lambda>_. []) ?cfg) ?w = Some ((), w')"
      "w_messages w' = map ev_ID rs" "distinct (map ev_ID rs)"
    and sel: "\<forall>r \<in> set rs. lookup_row (ev_ID r) (w_table ?w) = Some r
      \<and> (\<exists>u. lookup_row (ev_ID r) (w_table w') = Some (r\<lparr>ev_EnqueuedAt := Some u, ev_UpdatedAt := u\<rparr>))"
    and keep: "\<forall>i. i \<notin> ev_ID ` set rs \<longrightarrow> lookup_row i (w_table w') = lookup_row i (w_table ?w)"
    and left: "\<forall>i r'. lookup_row i (w_table w') = Some r' \<longrightarrow> i \<notin> ev_ID ` set rs \<longrightarrow> life r' = LPending \<longrightarrow>
      ev_EnqueuedAt r' = None \<longrightarrow> ev_NextAttemptAt r' \<le> db_now (se_db (wit_env 200 0)) \<longrightarrow> length rs = 10"
    by (simp add: t) blast
  have sub: "set rs \<subseteq> {wit_stored}" using sel by (auto simp: t split: if_splits)
  have "rs \<noteq> []"
  proof
    assume "rs = []"
    with keep left row show False by (auto simp: t)
  qed
  moreover have "distinct rs" using w'(3) by (simp add: distinct_map)
  ultimately have "rs = [wit_stored]" using sub by (cases rs; cases "tl rs") auto
  with w' sel row show ?thesis by auto
qed

theorem recovery_restores_witness:
  "\<exists>w' r'. alone Some (wit_env 200) (recoverOne (\<lambda>_. []) (60 * second) (wit_waiting 2))
       (wit_world [wit_waiting 2]) = Some ((), w')
     \<and> lookup_row 8 (w_table w') = Some r' \<and> life r' = LWaiting 2 \<and> w_messages w' = [8]"
proof -
  have "expired_row (wit_env 200) (w_table (wit_world [wit_waiting 2])) (wit_waiting 2)"
    using wit_tables(2)[of 2] wit_no_faults
    by (simp add: expired_row_def wit_world_def wit_waiting_fields lease_expired_def wit_env_def
        wit_db_def wit_now_def second_def)
  from recovery_restores[OF this, of Some "\<lambda>_. []" "60 * second"] show ?thesis
    by (fastforce simp: wit_waiting_fields wit_world_def wit_env_def accepted_def)
qed

section \<open>Submission\<close>

lemma wit_checks: "submit_checks (px_Registry wit_proc) wit_command = None"
proof -
  have "json_valid ''{}''" by code_simp
  then show ?thesis
    using wit_lookup by (simp add: submit_checks_def wit_command_def wit_action_def resolve_action_def
        LoadtestHTTP_def loadtest_Validate_def loadtestActionRequest_def)
qed

lemma wit_faithful: "jsonb_faithful Some (sc_Payload wit_command)"
  by (simp add: jsonb_faithful_def canonicalEqual_def split: option.split)

definition wit_accepted :: SubmitResult where
  "wit_accepted = \<lparr>sr_EventID = ''id'', sr_SourceSystem = ''shop'', sr_SourceRequestID = ''1'',
     sr_Status = ''PENDING'', sr_Duplicate = False, sr_AcceptedAt = wit_now\<rparr>"

definition wit_enqueued :: Event where
  "wit_enqueued = wit_stored\<lparr>ev_EnqueuedAt := Some wit_now, ev_UpdatedAt := wit_now\<rparr>"

lemma wit_submit:
  "alone Some (wit_env s) (Submit (\<lambda>_. ''id'') (px_Registry wit_proc) wit_command) (wit_world []) =
     Some (Inr wit_accepted, (wit_world [wit_enqueued])\<lparr>w_messages := [8]\<rparr>)"
proof -
  have e: "se_db (wit_env s n) = wit_db" "se_publish (wit_env s n) = Published True"
    "se_uuid (wit_env s 1) = 8" "se_uuid (wit_env s (Suc 0)) = 8" "db_fault wit_db = NoFault" for n
    by (simp_all add: wit_env_def wit_db_def)
  have m: "MarkEnqueued wit_db 8 [wit_stored] = (None, [wit_enqueued])"
    by (simp add: MarkEnqueued_def exec_update_def wit_db_def update_where_def wit_stored_fields
        wit_enqueued_def)
  show ?thesis
    by (simp add: Submit_def wit_checks run_resolveExisting e wit_world_def wit_insert m
        PublishAndMark_def publish_result_def accepted_def)
      (simp add: submitResult_def submit_event_def wit_command_def wit_accepted_def)
qed

theorem submit_answers_witness:
  "\<exists>res w'. alone Some (wit_env 200) (Submit (\<lambda>_. ''id'') (px_Registry wit_proc) wit_command) (wit_world [])
     = Some (Inr res, w') \<and> w_messages w' = [8] \<and> length (w_table w') = 1"
proof -
  have "Some (sc_Payload wit_command) = Some ''{}''" by (simp add: wit_command_def)
  then show ?thesis
    using submit_answers[of "wit_env 200" Some wit_command "''{}''" "wit_world []" "\<lambda>_. ''id''"
        "px_Registry wit_proc"] wit_no_faults wit_columns
    by (simp add: wit_checks wit_world_def wit_env_def accepted_def)
qed

lemma wit_alone: "repository_only Some (\<lambda>_ w. w)"
  by (simp add: repository_only_def)

theorem submit_accepted_is_stored_witness:
  "\<exists>r \<in> set (w_table ((wit_world [wit_enqueued])\<lparr>w_messages := [8]\<rparr>)).
     ev_SourceSystem r = ''shop'' \<and> canonicalEqual (ev_Payload r) ''{}''"
proof -
  have "table_wf (w_table (wit_world []))" by (simp add: wit_world_def table_wf_def)
  from submit_accepted_is_stored[OF this wit_alone wit_faithful wit_submit[of 200]] show ?thesis
    by (auto simp: wit_command_def)
qed

theorem submit_idempotent_witness:
  "\<exists>res'. alone Some (wit_env 200) (Submit (\<lambda>_. ''id'') (px_Registry wit_proc) wit_command)
       ((wit_world [wit_enqueued])\<lparr>w_messages := [8]\<rparr>)
     = Some (Inr res', (wit_world [wit_enqueued])\<lparr>w_messages := [8]\<rparr>) \<and> sr_Duplicate res'"
proof -
  have "table_wf (w_table (wit_world []))" by (simp add: wit_world_def table_wf_def)
  moreover have "db_fault (se_db (wit_env 200 0)) = NoFault" by (simp add: wit_env_def wit_db_def)
  moreover have "canonicalEqual q (sc_Payload wit_command)" if "Some (sc_Payload wit_command) = Some q" for q
    using that by (simp add: canonicalEqual_def split: option.split)
  ultimately show ?thesis
    using submit_idempotent[OF _ wit_alone wit_submit[of 200] rtranclp.rtrancl_refl, of "wit_env 200"]
    by (fastforce simp: submitResult_def split: if_splits)
qed

section \<open>From submission to status\<close>

lemma wit_first_delivery:
  "\<exists>res. first_delivery_confirmed (wit_env 200) (wit_env 200) wit_proc wit_delivery wit_command ''{}''
     (wit_world []) wit_action res"
proof -
  let ?r = "submit_event 8 wit_command"
  obtain res where res: "ad_SendActionRequest LoadtestHTTP (se_network (wit_env 200 9))
      (call_context wit_action ?r) ''request'' ''{}'' = Inr (Some res)" "pr_Success res"
    using wit_answer[of 200 9 ?r "''{}''"] by auto
  moreover have "ra_Adapter wit_action = LoadtestHTTP" by (simp add: wit_action_def resolve_action_def)
  moreover have "se_uuid (wit_env 200 1) = 8" "db_now (se_db (wit_env 200 n)) = wit_now" for n
    by (simp_all add: wit_env_def wit_db_def)
  ultimately show ?thesis
    using wit_no_faults wit_lookup
    by (intro exI[of _ res]) (simp add: first_delivery_confirmed_def wit_delivery_def mk_delivery_def
        wit_command_def wit_world_def Allow_def Acquire_def call_context_def submit_event_def)
qed

theorem submitted_is_delivered_witness:
  "\<exists>answer w1 w2 r. alone Some (wit_env 200) (Submit (\<lambda>_. ''id'') (px_Registry wit_proc) wit_command) (wit_world [])
       = Some (Inr answer, w1) \<and> w_messages w1 = [8]
     \<and> alone Some (wit_env 200) (HandleDelivery wit_proc wit_delivery) w1 = Some (None, w2)
     \<and> length (w_calls w2) = 1
     \<and> alone Some (wit_env 200) (GetStatus \<lparr>sq_SourceSystem = ''shop'', sq_SourceRequestID = ''1''\<rparr>) w2 = Some (Inr r, w2)
     \<and> ev_Status r = SUCCEEDED \<and> ev_AttemptCount r = 1"
proof -
  obtain res where res: "first_delivery_confirmed (wit_env 200) (wit_env 200) wit_proc wit_delivery wit_command
      ''{}'' (wit_world []) wit_action res"
    using wit_first_delivery by blast
  have t: "row_of (w_table (wit_world [])) (cmd_key wit_command) = None"
    "lookup_row (se_uuid (wit_env 200 1)) (w_table (wit_world [])) = None" "table_wf (w_table (wit_world []))"
    "Some (sc_Payload wit_command) = Some ''{}''" "se_publish (wit_env 200 3) = Published True"
    by (simp_all add: wit_world_def table_wf_def wit_command_def wit_env_def)
  have f: "dl_EventID wit_delivery = 8" "w_messages (wit_world []) = []" "w_calls (wit_world []) = []"
    "sc_SourceSystem wit_command = ''shop''" "sc_SourceRequestID wit_command = ''1''"
    by (simp_all add: wit_world_def wit_command_def wit_delivery_def mk_delivery_def)
  from submitted_is_delivered[of "wit_env 200" "px_Registry wit_proc" wit_command "wit_world []" Some "''{}''"
      "wit_env 200" wit_proc wit_delivery wit_action res "wit_env 200" "\<lambda>_. ''id''",
      OF wit_no_faults wit_checks t(1,4) wit_columns t(2,5,3) res wit_no_faults wit_storable]
  show ?thesis unfolding f by fastforce
qed

section \<open>The registry\<close>

definition wit_loopback :: url_parser where
  "wit_loopback s = Some \<lparr>u_Scheme = ''http'', u_Host = ''127.0.0.1'', u_Hostname = ''127.0.0.1'',
     u_HasUser = False, u_Path = ''/x'', u_RawQuery = [], u_Fragment = []\<rparr>"

definition wit_configure :: "string \<rightharpoonup> (loadtestHTTPConfig \<Rightarrow> (string, provider_Config \<times> adapter) result)" where
  "wit_configure = [''loadtest_http'' \<mapsto>
     (\<lambda>cfg. map_sum id (\<lambda>pc. (pc, LoadtestHTTP)) (loadtest_Config wit_loopback cfg))]"

definition wit_providers :: "(string \<times> loadtestHTTPConfig) list" where
  "wit_providers = [(''loadtest_http'',
     \<lparr>lc_EndpointURL = ''http://127.0.0.1/x'', lc_TimeoutMs = 1000, lc_MaxConcurrency = 2\<rparr>)]"

theorem registry_answers_configuration_witness:
  "\<exists>reg. Build wit_configure (Resolve Map.empty) (Some 1048576) [] wit_providers [] = Inr reg
     \<and> Lookup reg ''loadtest_http'' ''request'' \<noteq> None \<and> Lookup reg ''other'' ''request'' = None"
proof -
  have conf: "\<exists>cf. loadtest_Config wit_loopback (snd (hd wit_providers)) =
      Inr \<lparr>pc_CredentialRef = [], pc_Actions = [(''request'', cf)]\<rparr>"
    by (simp add: loadtest_Config_def validateLoadtestEndpoint_def wit_loopback_def wit_providers_def
        literal_loopback_def bare_url_def loadtestActionRequest_def)
  then obtain cf where cf: "loadtest_Config wit_loopback (snd (hd wit_providers)) =
      Inr \<lparr>pc_CredentialRef = [], pc_Actions = [(''request'', cf)]\<rparr>" by blast
  then obtain reg where b: "Build wit_configure (Resolve Map.empty) (Some 1048576) [] wit_providers [] = Inr reg"
    by (simp add: wit_configure_def wit_providers_def Resolve_def)
  have a: "distinct (map fst wit_providers)" "\<forall>c \<in> set (map fst wit_providers). CHR ''/'' \<notin> set c"
    "actions_distinct wit_configure wit_providers"
    using cf by (auto simp: wit_providers_def actions_distinct_def wit_configure_def)
  have "Lookup reg ''loadtest_http'' ''request'' =
      configured wit_configure (Resolve Map.empty) (Some 1048576) [] wit_providers ''loadtest_http'' ''request''"
    by (rule registry_answers_configuration[OF b a]) simp
  moreover have "Lookup reg ''other'' ''request'' =
      configured wit_configure (Resolve Map.empty) (Some 1048576) [] wit_providers ''other'' ''request''"
    by (rule registry_answers_configuration[OF b a]) simp
  ultimately show ?thesis
    using b cf by (intro exI[of _ reg]) (simp add: configured_def wit_configure_def wit_providers_def Resolve_def)
qed

section \<open>The system\<close>

definition wit_submitted :: world where
  "wit_submitted = (wit_world [wit_enqueued])\<lparr>w_messages := [8]\<rparr>"

lemma wit_system_submitted: "system Some 3 wit_submitted []"
proof -
  have "system Some 3 (wit_world []) []" unfolding wit_world_def by (rule system.boot)
  then show ?thesis
    using system_run[OF _ task.submission[of 3 "\<lambda>_. ''id''" "px_Registry wit_proc" wit_command],
        of Some "wit_world []" "[]" "wit_env 200" "()" wit_submitted] wit_submit[of 200]
    by (simp add: run_map_prog wit_submitted_def)
qed

lemma wit_enqueued_fields:
  "ev_ID wit_enqueued = 8" "ev_Status wit_enqueued = PENDING" "ev_NextAttemptAt wit_enqueued = wit_now"
  "ev_AttemptCount wit_enqueued = 0" "source_key wit_enqueued = (''shop'', ''1'')"
  "ev_LeaseToken wit_enqueued = None" "ev_LeaseUntil wit_enqueued = None" "ev_LastResult wit_enqueued = None"
  "ev_ProviderCode wit_enqueued = ''loadtest_http''" "ev_ProviderAction wit_enqueued = ''request''"
  "ev_Payload wit_enqueued = ''{}''"
  by (simp_all add: wit_enqueued_def wit_stored_def new_row_def submit_event_def wit_command_def source_key_def)

text \<open>The delivery runs to a success.\<close>

lemma wit_delivered:
  "\<exists>w r. system Some 3 w [] \<and> r \<in> set (w_table w) \<and> ev_Status r = SUCCEEDED
     \<and> calls_for w (''shop'', ''1'') = 1"
proof -
  have "table_wf [wit_enqueued]" by (simp add: table_wf_def row_wf_def wit_enqueued_fields)
  then have "deliverable (wit_env 200) wit_delivery (w_table wit_submitted) wit_enqueued"
    using wit_no_faults
    by (simp add: deliverable_def wit_submitted_def wit_world_def wit_enqueued_fields claimable_def
        wit_delivery_def mk_delivery_def wit_env_def wit_db_def)
  then obtain ans where reach: "reaches_provider (wit_env 200) wit_proc wit_delivery wit_submitted wit_enqueued
      zero_permit Map.empty (Inr (Some ans))" and ok: "pr_Success ans"
    using wit_reaches[of 200 wit_submitted wit_enqueued]
    by (auto simp: wit_submitted_def wit_world_def wit_enqueued_fields)
  from reach show ?thesis
  proof (cases rule: delivery_attempt[where J = Some and n = 13])
    case (reached w11 rel ev11 c)
    have d8: "dl_EventID wit_delivery = 8" by (simp add: wit_delivery_def mk_delivery_def)
    from reached ok obtain w' r' where run: "alone Some (wit_env 200) (HandleDelivery wit_proc wit_delivery) wit_submitted
          = Some (None, w')" and calls: "w_calls w' = [c]"
        and row: "lookup_row 8 (w_table w') = Some r'" "ev_Status r' = SUCCEEDED"
      by (simp add: finish_attempt_def judge_def Let_def MarkSucceeded_def with_response_storable held_update_on_row[OF reached(2-5), unfolded d8]
          on_row_lookup settle_def d8 wit_submitted_def wit_world_def)
    have t: "task 3 (map_prog (\<lambda>_. ()) (HandleDelivery wit_proc wit_delivery))"
      by (rule task.delivery) (simp_all add: wit_delivery_def mk_delivery_def)
    have sys: "system Some 3 w' []"
      using system_run[OF wit_system_submitted t, of "wit_env 200" "()" w'] run by (simp add: run_map_prog)
    have "calls_for w' (''shop'', ''1'') = 1"
      using reached(13) by (simp add: calls_for_def calls count_where_def wit_enqueued_fields)
    with sys row show ?thesis by (auto dest!: lookup_row_SomeD)
  qed
qed

theorem provider_calls_bounded_witness:
  "\<exists>w. system Some 3 w [] \<and> calls_for w (''shop'', ''1'') = 1
     \<and> int (calls_for w (''shop'', ''1'')) \<le> 3
     \<and> int (calls_for w (''shop'', ''1'')) \<le> budget (w_table w) (''shop'', ''1'')"
  using wit_delivered provider_calls_bounded[of Some 3 _ "[]" "(''shop'', ''1'')"] by auto

theorem succeeded_means_confirmed_witness:
  "\<exists>w r c res. system Some 3 w [] \<and> r \<in> set (w_table w) \<and> ev_Status r = SUCCEEDED
     \<and> c \<in> set (w_calls w) \<and> call_key (call_ctx c) = source_key r
     \<and> call_answer c = Inr (Some res) \<and> pr_Success res"
  using wit_delivered succeeded_means_confirmed[of Some 3 _ "[]"] by blast

end
