(* ===== verification/Smtp.thy ===== *)
theory Smtp
  imports Adapters
begin

text \<open>
  internal/provider/adapters/smtp_email.go: one transactional email over SMTP. The address
  grammar of net/mail, the printing of an address and the quoted-printable writer are the
  parameter \<open>mail_lib\<close>; the encoding of the subject (mime.QEncoding) is modelled. The error
  text of package encoding/json inside the payload error is left out.
\<close>

section \<open>Configuration\<close>

definition smtpActionSend :: string where "smtpActionSend = ''send''"
definition smtpMaxPayloadBytes :: int where "smtpMaxPayloadBytes = 262144"
definition smtpMaxRecipients :: int where "smtpMaxRecipients = 100"
definition smtpTLSStartTLS :: string where "smtpTLSStartTLS = ''starttls''"
definition smtpTLSImplicit :: string where "smtpTLSImplicit = ''implicit_tls''"
definition smtpTLSDisabled :: string where "smtpTLSDisabled = ''disabled''"

record mail_address =
  ma_Name :: string
  ma_Address :: string

record mail_lib =
  ml_ParseAddress :: "string \<Rightarrow> mail_address option"
  ml_String :: "mail_address \<Rightarrow> string"
  ml_QuotedPrintable :: "string \<Rightarrow> string"

record smtpEmailConfig =
  sg_PasswordRef :: string
  sg_Host :: string
  sg_Port :: int
  sg_TLSMode :: string
  sg_Username :: string
  sg_FromAddress :: string
  sg_FromName :: string
  sg_TimeoutMs :: int
  sg_RequestsPerSecond :: rat
  sg_MaxConcurrency :: int
  sg_CircuitBreaker :: "adapterCircuitBreakerConfig option"

record smtpSendRuntimeConfig =
  sx_Host :: string
  sx_Address :: string
  sx_TLSMode :: string
  sx_Username :: string
  sx_From :: mail_address
  sx_Initialized :: bool

definition CRLF :: string where "CRLF = [byte 13, byte 10]"

definition validateSMTPHost :: "string \<Rightarrow> string option" where
  "validateSMTPHost host =
     (if host = [] then Some ''must not be empty''
      else if ContainsAny host (''/@?# '' @ map byte [9, 13, 10])
      then Some ''must be a hostname or IP address without scheme, path, credentials, or whitespace''
      else None)"

definition parseSingleAddress :: "mail_lib \<Rightarrow> string \<Rightarrow> string \<Rightarrow> (string, mail_address) result" where
  "parseSingleAddress ml raw field =
     (if ContainsAny raw CRLF then Inl (field @ '' must not contain CR or LF'')
      else case ml_ParseAddress ml (TrimSpace raw) of
             None \<Rightarrow> Inl (field @ '' must be one valid email address'')
           | Some address \<Rightarrow>
             if TrimSpace (ma_Address address) = []
             then Inl (field @ '' must be one valid email address'')
             else Inr address)"

text \<open>\<open>net.JoinHostPort\<close>: a host with a colon is put into brackets.\<close>

definition JoinHostPort :: "string \<Rightarrow> string \<Rightarrow> string" where
  "JoinHostPort host port =
     (if CHR '':'' \<in> set host then ''['' @ host @ '']:'' @ port else host @ '':'' @ port)"

definition smtp_description :: string where
  "smtp_description =
     map byte [233, 128, 154, 232, 191, 135, 32, 83, 77, 84, 80, 32, 229, 143, 145, 233, 128, 129, 231,
     186, 175, 230, 150, 135, 230, 156, 172, 230, 136, 150, 32, 72, 84, 77, 76, 32, 233, 130,
     174, 228, 187, 182, 239, 188, 155, 230, 136, 144, 229, 138, 159, 228, 187, 133, 232,
     161, 168, 231, 164, 186, 32, 83, 77, 84, 80, 32, 230, 156, 141, 229, 138, 161, 229, 153,
     168, 229, 183, 178, 230, 142, 165, 229, 143, 151, 239, 188, 140, 228, 184, 141, 228,
     187, 163, 232, 161, 168, 230, 156, 128, 231, 187, 136, 233, 128, 129, 232, 190, 190]"

definition smtp_mode :: "string \<Rightarrow> string" where
  "smtp_mode raw = (let m = ToLower (TrimSpace raw) in if m = [] then smtpTLSStartTLS else m)"

definition mode_problem :: "(string \<Rightarrow> bool) \<Rightarrow> string \<Rightarrow> string \<Rightarrow> string option" where
  "mode_problem ip_loopback tlsMode host =
     (if tlsMode = smtpTLSStartTLS \<or> tlsMode = smtpTLSImplicit then None
      else if tlsMode = smtpTLSDisabled then
        if isLoopbackHost ip_loopback host then None
        else Some ''actions.send.tls_mode disabled is allowed only for a loopback test server''
      else Some ''actions.send.tls_mode must be starttls, implicit_tls, or disabled'')"

text \<open>The normalised configuration and the runtime configuration kept in the adapter.\<close>

definition smtp_Config ::
  "mail_lib \<Rightarrow> (string \<Rightarrow> bool) \<Rightarrow> smtpEmailConfig \<Rightarrow>
   (string, provider_Config \<times> smtpSendRuntimeConfig) result" where
  "smtp_Config ml ip_loopback cfg =
     (case validateDeliveryLimits (sg_TimeoutMs cfg) (sg_RequestsPerSecond cfg) (sg_MaxConcurrency cfg) of
        Some e \<Rightarrow> Inl (''actions.send: '' @ e)
      | None \<Rightarrow>
      let host = TrimSpace (sg_Host cfg) in
      (case validateSMTPHost host of
        Some e \<Rightarrow> Inl (''actions.send.host: '' @ e)
      | None \<Rightarrow>
      if sg_Port cfg < 1 \<or> 65535 < sg_Port cfg
      then Inl ''actions.send.port must be between 1 and 65535''
      else
      let tlsMode = smtp_mode (sg_TLSMode cfg) in
      (case mode_problem ip_loopback tlsMode host of
        Some e \<Rightarrow> Inl e
      | None \<Rightarrow>
      let username = TrimSpace (sg_Username cfg); passwordRef = TrimSpace (sg_PasswordRef cfg) in
      if (username = []) \<noteq> (passwordRef = [])
      then Inl ''username and password_ref must either both be configured or both be empty''
      else
      (case parseSingleAddress ml (sg_FromAddress cfg) ''from_address'' of
        Inl e \<Rightarrow> Inl (''actions.send.'' @ e)
      | Inr from \<Rightarrow>
      (case normalizeCircuitBreaker (sg_CircuitBreaker cfg) of
        Inl e \<Rightarrow> Inl (''actions.send.circuit_breaker: '' @ e)
      | Inr breaker \<Rightarrow>
        Inr (\<lparr>pc_CredentialRef = passwordRef,
              pc_Actions = [(smtpActionSend,
                \<lparr>cf_Description = smtp_description, cf_BaseURL = [], cf_Path = [],
                 cf_Method = ''SMTP'', cf_TimeoutMs = sg_TimeoutMs cfg,
                 cf_RequestsPerSecond = sg_RequestsPerSecond cfg,
                 cf_MaxConcurrency = sg_MaxConcurrency cfg, cf_CircuitBreaker = breaker\<rparr>)]\<rparr>,
             \<lparr>sx_Host = host, sx_Address = JoinHostPort host (Itoa (sg_Port cfg)),
              sx_TLSMode = tlsMode, sx_Username = username,
              sx_From = from\<lparr>ma_Name := TrimSpace (sg_FromName cfg)\<rparr>,
              sx_Initialized = True\<rparr>))))))"

section \<open>Payloads\<close>

record smtpPayload =
  sp_To :: "string list"
  sp_Subject :: string
  sp_Text :: string
  sp_HTML :: string

record normalizedSMTPPayload =
  ns_Recipients :: "mail_address list"
  ns_Subject :: string
  ns_Text :: string
  ns_HTML :: string

text \<open>A list of strings; a null item is the empty string, null as a whole empties the list.\<close>

fun string_items :: "json list \<Rightarrow> string list option" where
  "string_items [] = Some []"
| "string_items (JString s # vs) = map_option ((#) s) (string_items vs)"
| "string_items (JNull # vs) = map_option ((#) []) (string_items vs)"
| "string_items _ = None"

definition smtp_field :: "string \<Rightarrow> json \<Rightarrow> smtpPayload \<Rightarrow> smtpPayload option" where
  "smtp_field k v p =
     (if EqualFold k ''to'' then
        (case v of
           JArray vs \<Rightarrow> map_option (\<lambda>xs. p\<lparr>sp_To := xs\<rparr>) (string_items vs)
         | JNull \<Rightarrow> Some (p\<lparr>sp_To := []\<rparr>)
         | _ \<Rightarrow> None)
      else if EqualFold k ''subject'' then set_string (\<lambda>s. p\<lparr>sp_Subject := s\<rparr>) p v
      else if EqualFold k ''text'' then set_string (\<lambda>s. p\<lparr>sp_Text := s\<rparr>) p v
      else if EqualFold k ''html'' then set_string (\<lambda>s. p\<lparr>sp_HTML := s\<rparr>) p v
      else None)"

definition decode_smtp :: "string \<Rightarrow> smtpPayload option" where
  "decode_smtp payload =
     (let zero = \<lparr>sp_To = [], sp_Subject = [], sp_Text = [], sp_HTML = []\<rparr> in
      case decode_first payload of
        Some (JObject ms) \<Rightarrow> decode_struct smtp_field ms zero
      | Some JNull \<Rightarrow> Some zero
      | _ \<Rightarrow> None)"

fun parse_recipients ::
  "mail_lib \<Rightarrow> int \<Rightarrow> string list \<Rightarrow> (string, mail_address list) result" where
  "parse_recipients ml i [] = Inr []"
| "parse_recipients ml i (raw # rs) =
     (case parseSingleAddress ml raw (''to['' @ Itoa i @ '']'') of
        Inl e \<Rightarrow> Inl e
      | Inr address \<Rightarrow> map_sum id ((#) address) (parse_recipients ml (i + 1) rs))"

definition normalizeSMTPPayload :: "mail_lib \<Rightarrow> string \<Rightarrow> (string, normalizedSMTPPayload) result" where
  "normalizeSMTPPayload ml payload =
     (if smtpMaxPayloadBytes < int (length payload)
      then Inl (''payload is '' @ Itoa (int (length payload)) @ '' bytes; maximum is ''
                @ Itoa smtpMaxPayloadBytes @ '' bytes'')
      else
      case decode_smtp payload of
        None \<Rightarrow> Inl ''payload must be a JSON object with only to, subject, text, and html''
      | Some v \<Rightarrow>
        if sp_To v = [] then Inl ''payload.to must contain at least one recipient''
        else if smtpMaxRecipients < int (length (sp_To v))
        then Inl (''payload.to contains '' @ Itoa (int (length (sp_To v)))
                  @ '' recipients; maximum is '' @ Itoa smtpMaxRecipients)
        else if TrimSpace (sp_Subject v) = [] then Inl ''payload.subject must be a non-empty string''
        else if ContainsAny (sp_Subject v) CRLF then Inl ''payload.subject must not contain CR or LF''
        else if sp_Text v = [] \<and> sp_HTML v = []
        then Inl ''payload.text or payload.html must be non-empty''
        else
          map_sum id (\<lambda>rs. \<lparr>ns_Recipients = rs, ns_Subject = sp_Subject v, ns_Text = sp_Text v,
                            ns_HTML = sp_HTML v\<rparr>) (parse_recipients ml 0 (sp_To v)))"

section \<open>The message\<close>

text \<open>\<open>mime.QEncoding.Encode\<close> for UTF-8: words of at most 63 encoded characters, runes kept whole.\<close>

definition needs_encoding :: "string \<Rightarrow> bool" where
  "needs_encoding s = list_ex (\<lambda>c. (code c < 32 \<or> 126 < code c) \<and> code c \<noteq> 9) s"

definition q_plain :: "char \<Rightarrow> bool" where
  "q_plain c \<longleftrightarrow> 32 \<le> code c \<and> code c \<le> 126 \<and> c \<noteq> CHR ''='' \<and> c \<noteq> CHR ''?'' \<and> c \<noteq> CHR ''_''"

definition upper_hex :: "nat \<Rightarrow> char" where
  "upper_hex n = (if n < 10 then char_of (48 + n) else char_of (55 + n))"

definition q_byte :: "char \<Rightarrow> string" where
  "q_byte c =
     (if c = CHR '' '' then ''_'' else if q_plain c then [c]
      else [CHR ''='', upper_hex (code c div 16), upper_hex (code c mod 16)])"

text \<open>The bytes taken at once from the head of a text, and the length of their encoding.\<close>

definition rune_span :: "string \<Rightarrow> nat" where
  "rune_span s = (if q_plain (hd s) then 1 else max 1 (rune_length s))"

definition encoded_length :: "string \<Rightarrow> nat" where
  "encoded_length s = (if q_plain (hd s) then 1 else 3 * rune_span s)"

function q_words :: "nat \<Rightarrow> string \<Rightarrow> string" where
  "q_words cur [] = []"
| "q_words cur (c # s) =
     (if 63 < cur + encoded_length (c # s)
      then ''?= =?UTF-8?q?'' @ concat (map q_byte (take (rune_span (c # s)) (c # s)))
           @ q_words (encoded_length (c # s)) (drop (rune_span (c # s)) (c # s))
      else concat (map q_byte (take (rune_span (c # s)) (c # s)))
           @ q_words (cur + encoded_length (c # s)) (drop (rune_span (c # s)) (c # s)))"
  by pat_completeness auto
termination by (relation "measure (\<lambda>(_, s). length s)") (auto simp: rune_span_def)

definition QEncode :: "string \<Rightarrow> string" where
  "QEncode s = (if needs_encoding s then ''=?UTF-8?q?'' @ q_words 0 s @ ''?='' else s)"

text \<open>\<open>time.RFC1123Z\<close> of an instant in UTC.\<close>

definition month_name :: "int \<Rightarrow> string" where
  "month_name m =
     (if m = 1 then ''Jan'' else if m = 2 then ''Feb'' else if m = 3 then ''Mar''
      else if m = 4 then ''Apr'' else if m = 5 then ''May'' else if m = 6 then ''Jun''
      else if m = 7 then ''Jul'' else if m = 8 then ''Aug'' else if m = 9 then ''Sep''
      else if m = 10 then ''Oct'' else if m = 11 then ''Nov'' else ''Dec'')"

definition rfc1123z :: "instant \<Rightarrow> string" where
  "rfc1123z t =
     (let secs = t div second; days = secs div 86400; s = secs mod 86400;
          (y, m, d) = civil_from_days days;
          weekday = [''Sun'', ''Mon'', ''Tue'', ''Wed'', ''Thu'', ''Fri'', ''Sat''] ! nat ((days + 4) mod 7)
      in weekday @ '', '' @ pad 2 d @ '' '' @ month_name m @ '' '' @ pad 4 y @ '' '' @
         pad 2 (s div 3600) @ '':'' @ pad 2 (s mod 3600 div 60) @ '':'' @ pad 2 (s mod 60) @ '' +0000'')"

definition stableMessageID :: "string \<Rightarrow> string \<Rightarrow> string \<Rightarrow> string \<Rightarrow> string" where
  "stableMessageID sourceSystem sourceRequestID fromAddress payload =
     (let seed = (if sourceSystem = [] \<and> sourceRequestID = [] then payload
                  else sourceSystem @ [byte 0] @ sourceRequestID);
          tail = rev (takeWhile (\<lambda>c. c \<noteq> CHR ''@'') (rev fromAddress));
          domain = (if CHR ''@'' \<in> set fromAddress \<and> tail \<noteq> [] then tail
                    else ''notification-delivery.local'')
      in ''<'' @ hex_EncodeToString (take 16 (Sum256 seed)) @ ''@'' @ domain @ ''>'')"

definition header_line :: "string \<times> string \<Rightarrow> string" where
  "header_line h = fst h @ '': '' @ snd h @ CRLF"

text \<open>
  A part of \<open>multipart.Writer\<close>: the delimiter (with a line break before it unless it is the
  first), the headers in the order of their names, and the body.
\<close>

definition writeMIMEPart :: "mail_lib \<Rightarrow> string \<Rightarrow> bool \<Rightarrow> string \<Rightarrow> string \<Rightarrow> string" where
  "writeMIMEPart ml boundary first contentType body =
     (if first then [] else CRLF) @ ''--'' @ boundary @ CRLF
     @ header_line (''Content-Transfer-Encoding'', ''quoted-printable'')
     @ header_line (''Content-Type'', contentType) @ CRLF @ ml_QuotedPrintable ml body"

definition plain_type :: string where "plain_type = ''text/plain; charset=UTF-8''"
definition html_type :: string where "html_type = ''text/html; charset=UTF-8''"

definition content_headers :: "string \<Rightarrow> normalizedSMTPPayload \<Rightarrow> (string \<times> string) list" where
  "content_headers boundary m =
     (if ns_Text m \<noteq> [] \<and> ns_HTML m \<noteq> []
      then [(''Content-Type'', ''multipart/alternative; boundary='' @ go_q boundary)]
      else [(''Content-Type'', if ns_Text m = [] then html_type else plain_type),
            (''Content-Transfer-Encoding'', ''quoted-printable'')])"

definition message_body :: "mail_lib \<Rightarrow> string \<Rightarrow> normalizedSMTPPayload \<Rightarrow> string" where
  "message_body ml boundary m =
     (if ns_Text m \<noteq> [] \<and> ns_HTML m \<noteq> []
      then writeMIMEPart ml boundary True plain_type (ns_Text m)
           @ writeMIMEPart ml boundary False html_type (ns_HTML m)
           @ CRLF @ ''--'' @ boundary @ ''--'' @ CRLF
      else ml_QuotedPrintable ml (if ns_Text m = [] then ns_HTML m else ns_Text m))"

definition message_headers ::
  "mail_lib \<Rightarrow> string \<Rightarrow> mail_address \<Rightarrow> string \<Rightarrow> string \<Rightarrow> instant \<Rightarrow> string \<Rightarrow>
   normalizedSMTPPayload \<Rightarrow> (string \<times> string) list" where
  "message_headers ml payload from sourceSystem sourceRequestID now boundary m =
     [(''Date'', rfc1123z now),
      (''From'', ml_String ml from),
      (''To'', Join (map (ml_String ml) (ns_Recipients m)) '', ''),
      (''Subject'', QEncode (ns_Subject m)),
      (''Message-ID'', stableMessageID sourceSystem sourceRequestID (ma_Address from) payload),
      (''MIME-Version'', ''1.0'')]
     @ content_headers boundary m"

definition buildSMTPMessage ::
  "mail_lib \<Rightarrow> string \<Rightarrow> string \<Rightarrow> mail_address \<Rightarrow> string \<Rightarrow> string \<Rightarrow> instant \<Rightarrow> (string, string) result" where
  "buildSMTPMessage ml boundary payload from sourceSystem sourceRequestID now =
     (case normalizeSMTPPayload ml payload of
        Inl e \<Rightarrow> Inl e
      | Inr m \<Rightarrow>
        Inr (concat (map header_line
               (message_headers ml payload from sourceSystem sourceRequestID now boundary m))
             @ CRLF @ message_body ml boundary m))"

section \<open>The session\<close>

text \<open>
  A session ends with the calls it made, the stage it reached and the failure, if any. The
  deferred closing of the connection is left out.
\<close>

type_synonym smtp_run = "smtp_command list \<times> string \<times> smtp_failure option"

definition smtp_call ::
  "smtp_server \<Rightarrow> string \<Rightarrow> smtp_command \<Rightarrow> (smtp_command list \<Rightarrow> smtp_run) \<Rightarrow>
   smtp_command list \<Rightarrow> smtp_run" where
  "smtp_call srv stage c k h =
     (case srv h c of Some f \<Rightarrow> (h @ [c], stage, Some f) | None \<Rightarrow> k (h @ [c]))"

definition dialSMTP :: "smtpSendRuntimeConfig \<Rightarrow> smtp_command" where
  "dialSMTP cfg =
     Dial (if sx_TLSMode cfg = smtpTLSImplicit then Some (sx_Host cfg) else None) (sx_Address cfg)"

definition no_starttls :: smtp_failure where
  "no_starttls =
     \<lparr>sf_text = ''SMTP server does not advertise STARTTLS'', sf_code = None, sf_timeout = False\<rparr>"

definition secure_session ::
  "smtp_server \<Rightarrow> smtpSendRuntimeConfig \<Rightarrow> (smtp_command list \<Rightarrow> smtp_run) \<Rightarrow>
   smtp_command list \<Rightarrow> smtp_run" where
  "secure_session srv cfg k h =
     (if sx_TLSMode cfg = smtpTLSStartTLS then
        (case srv h Extension of
           Some _ \<Rightarrow> (h @ [Extension], ''starttls'', Some no_starttls)
         | None \<Rightarrow> smtp_call srv ''starttls'' (StartTLS (sx_Host cfg)) k (h @ [Extension]))
      else k h)"

definition authenticate ::
  "smtp_server \<Rightarrow> smtpSendRuntimeConfig \<Rightarrow> string \<Rightarrow> (smtp_command list \<Rightarrow> smtp_run) \<Rightarrow>
   smtp_command list \<Rightarrow> smtp_run" where
  "authenticate srv cfg password k h =
     (if sx_Username cfg \<noteq> [] then smtp_call srv ''auth'' (Auth (sx_Username cfg) password) k h
      else k h)"

fun rcpt_all ::
  "smtp_server \<Rightarrow> string list \<Rightarrow> (smtp_command list \<Rightarrow> smtp_run) \<Rightarrow> smtp_command list \<Rightarrow> smtp_run" where
  "rcpt_all srv [] k h = k h"
| "rcpt_all srv (r # rs) k h = smtp_call srv ''recipient'' (Rcpt r) (rcpt_all srv rs k) h"

text \<open>A failed write still closes the data writer; the failure of \<open>Quit\<close> is ignored.\<close>

definition write_data :: "smtp_server \<Rightarrow> string \<Rightarrow> smtp_command list \<Rightarrow> smtp_run" where
  "write_data srv message h =
     (case srv h (DataWrite message) of
        Some f \<Rightarrow> (h @ [DataWrite message, DataClose], ''data_write'', Some f)
      | None \<Rightarrow>
        (case srv (h @ [DataWrite message]) DataClose of
           Some f \<Rightarrow> (h @ [DataWrite message, DataClose], ''data_commit'', Some f)
         | None \<Rightarrow> (h @ [DataWrite message, DataClose, Quit], ''accepted'', None)))"

definition smtp_timeout :: "int \<Rightarrow> duration" where
  "smtp_timeout timeoutMs =
     (let timeout = wrap64 (timeoutMs * millisecond) in if timeout \<le> 0 then 10 * second else timeout)"

definition smtp_session ::
  "smtp_server \<Rightarrow> int \<Rightarrow> smtpSendRuntimeConfig \<Rightarrow> string \<Rightarrow> string list \<Rightarrow> string \<Rightarrow>
   smtp_command list \<Rightarrow> smtp_run" where
  "smtp_session srv timeoutMs cfg password recipients message =
     smtp_call srv ''connect'' (dialSMTP cfg)
      (smtp_call srv ''connection_deadline'' (SetDeadline (smtp_timeout timeoutMs))
       (smtp_call srv ''greeting'' (NewClient (sx_Host cfg))
        (secure_session srv cfg
         (authenticate srv cfg password
          (smtp_call srv ''mail_from'' (Mail (ma_Address (sx_From cfg)))
           (rcpt_all srv recipients
            (smtp_call srv ''data_open'' DataOpen (write_data srv message))))))))"

definition sendSMTP ::
  "smtp_server \<Rightarrow> int \<Rightarrow> smtpSendRuntimeConfig \<Rightarrow> string \<Rightarrow> string list \<Rightarrow> string \<Rightarrow> smtp_run" where
  "sendSMTP srv timeoutMs cfg password recipients message =
     smtp_session srv timeoutMs cfg password recipients message []"

definition classifySMTPFailure :: "string option \<Rightarrow> string \<Rightarrow> smtp_failure \<Rightarrow> provider_result" where
  "classifySMTPFailure cause stage err =
     (case cause of
        Some c \<Rightarrow> result_zero\<lparr>pr_ErrorClass := ''SMTP_CONTEXT_CANCELED'', pr_Message := c\<rparr>
      | None \<Rightarrow>
        let (class, availabilityFailure) =
          (case sf_code err of
             Some c \<Rightarrow>
               if 400 \<le> c \<and> c < 500 then (''SMTP_TEMPORARY_REJECTION'', True)
               else (''SMTP_PERMANENT_REJECTION'', False)
           | None \<Rightarrow>
               if sf_timeout err then (''SMTP_TIMEOUT'', True)
               else if stage = ''connect'' \<or> stage = ''greeting'' \<or> stage = ''starttls''
               then (''SMTP_CONNECTION_FAILURE'', True)
               else if stage = ''data_write'' \<or> stage = ''data_commit''
               then (''SMTP_ACCEPTANCE_UNCONFIRMED'', True)
               else (''SMTP_PROTOCOL_ERROR'', True))
        in result_zero\<lparr>pr_AvailabilityFailure := availabilityFailure, pr_ErrorClass := class,
                       pr_Message := sf_text err\<rparr>)"

section \<open>The adapter\<close>

definition smtp_Validate :: "mail_lib \<Rightarrow> string \<Rightarrow> string \<Rightarrow> validate_error option" where
  "smtp_Validate ml action payload =
     (if action \<noteq> smtpActionSend
      then Some (OtherValidateError (''smtp_email: unsupported action '' @ go_q action))
      else case normalizeSMTPPayload ml payload of
             Inl e \<Rightarrow> Some (ValidationError [e]) | Inr _ \<Rightarrow> None)"

definition smtp_accepted :: provider_result where
  "smtp_accepted =
     result_zero\<lparr>pr_Success := True, pr_Message := ''SMTP server accepted the message'',
       pr_ProviderResponse := Some (struct_text
         [(''accepted'', ''true''), (''stage'', quote ''smtp_data_accepted'')])\<rparr>"

definition smtp_SendActionRequest ::
  "mail_lib \<Rightarrow> smtpSendRuntimeConfig \<Rightarrow> network \<Rightarrow> ActionContext \<Rightarrow> string \<Rightarrow> string \<Rightarrow>
   (string, provider_result option) result" where
  "smtp_SendActionRequest ml rc net ac action payload =
     (if action \<noteq> smtpActionSend then Inl (''smtp_email: unsupported action '' @ go_q action)
      else if \<not> sx_Initialized rc then Inl ''smtp_email: adapter config was not initialized''
      else
      case normalizeSMTPPayload ml payload of
        Inl e \<Rightarrow> Inl (''normalize SMTP payload: '' @ e)
      | Inr normalized \<Rightarrow>
        (case buildSMTPMessage ml (nt_boundary net) payload (sx_From rc) (ac_SourceSystem ac)
                (ac_SourceRequestID ac) (nt_now net) of
           Inl e \<Rightarrow> Inl (''build SMTP message: '' @ e)
         | Inr message \<Rightarrow>
           if sx_Username rc \<noteq> [] \<and> ac_Credential ac = []
           then Inl ''smtp_email: resolved SMTP password is empty''
           else
           (case sendSMTP (nt_smtp net) (ac_TimeoutMs ac) rc (ac_Credential ac)
                   (map ma_Address (ns_Recipients normalized)) message of
              (_, stage, Some err) \<Rightarrow>
                Inr (Some (classifySMTPFailure
                  (if nt_cancelled net then Some (nt_cause net) else None) stage err))
            | (_, _, None) \<Rightarrow> Inr (Some smtp_accepted))))"

definition SMTPEmail :: "mail_lib \<Rightarrow> smtpSendRuntimeConfig \<Rightarrow> adapter" where
  "SMTPEmail ml rc =
     \<lparr>ad_Validate = smtp_Validate ml, ad_SendActionRequest = smtp_SendActionRequest ml rc\<rparr>"

lemma smtp_send_cases:
  assumes "smtp_SendActionRequest ml rc net ac action payload = Inr r"
  obtains cause stage err where "r = Some (classifySMTPFailure cause stage err)" "action = smtpActionSend"
  | "r = Some smtp_accepted" "action = smtpActionSend"
  using assms unfolding smtp_SendActionRequest_def
  by (auto split: if_splits sum.splits prod.splits option.splits)

lemma classifySMTPFailure_simps [simp]:
  "\<not> pr_Success (classifySMTPFailure cause stage err)"
  by (simp add: classifySMTPFailure_def result_zero_def split: option.split prod.split)

interpretation smtp: action_adapter "SMTPEmail ml rc" smtpActionSend for ml rc
proof
  fix net ac a p r
  show "ad_SendActionRequest (SMTPEmail ml rc) net ac a p \<noteq> Inr None"
    unfolding SMTPEmail_def adapter.simps by (metis smtp_send_cases option.distinct(1))
  assume "ad_SendActionRequest (SMTPEmail ml rc) net ac a p = Inr (Some r)" and "pr_Success r"
  then have "r = smtp_accepted" unfolding SMTPEmail_def adapter.simps
    by (metis classifySMTPFailure_simps option.inject smtp_send_cases)
  then show "\<not> pr_AvailabilityFailure r \<and> pr_ProviderResponse r \<noteq> None"
    by (simp add: smtp_accepted_def result_zero_def)
qed (auto simp: SMTPEmail_def smtp_Validate_def smtp_SendActionRequest_def)

section \<open>A session follows its script\<close>

text \<open>
  The calls of a delivery in their order. A session makes a prefix of them, and succeeds
  exactly when every call before the last one is accepted.
\<close>

definition smtp_script ::
  "int \<Rightarrow> smtpSendRuntimeConfig \<Rightarrow> string \<Rightarrow> string list \<Rightarrow> string \<Rightarrow> smtp_command list" where
  "smtp_script timeoutMs cfg password recipients message =
     [dialSMTP cfg, SetDeadline (smtp_timeout timeoutMs), NewClient (sx_Host cfg)]
     @ (if sx_TLSMode cfg = smtpTLSStartTLS then [Extension, StartTLS (sx_Host cfg)] else [])
     @ (if sx_Username cfg \<noteq> [] then [Auth (sx_Username cfg) password] else [])
     @ [Mail (ma_Address (sx_From cfg))] @ map Rcpt recipients
     @ [DataOpen, DataWrite message, DataClose, Quit]"

fun all_accepted :: "smtp_server \<Rightarrow> smtp_command list \<Rightarrow> smtp_command list \<Rightarrow> bool" where
  "all_accepted srv h [] \<longleftrightarrow> True"
| "all_accepted srv h (c # cs) \<longleftrightarrow> srv h c = None \<and> all_accepted srv (h @ [c]) cs"

definition follows ::
  "smtp_server \<Rightarrow> (smtp_command list \<Rightarrow> smtp_run) \<Rightarrow> smtp_command list \<Rightarrow> bool" where
  "follows srv k s \<longleftrightarrow> s \<noteq> [] \<and> (\<forall>h. \<exists>n \<le> length s. fst (k h) = h @ take n s
     \<and> (\<forall>i < n. s ! i \<noteq> DataClose \<longrightarrow> all_accepted srv h (take i s))
     \<and> (snd (snd (k h)) = None \<longleftrightarrow> all_accepted srv h (butlast s))
     \<and> (snd (snd (k h)) = None \<longrightarrow> n = length s))"

lemma followsI:
  assumes "s \<noteq> []"
    and "\<And>h. \<exists>n \<le> length s. fst (k h) = h @ take n s
      \<and> (\<forall>i < n. s ! i \<noteq> DataClose \<longrightarrow> all_accepted srv h (take i s))
      \<and> (snd (snd (k h)) = None \<longleftrightarrow> all_accepted srv h (butlast s))
      \<and> (snd (snd (k h)) = None \<longrightarrow> n = length s)"
  shows "follows srv k s"
  using assms by (auto simp: follows_def)

lemma followsE:
  assumes "follows srv k s"
  obtains n where "n \<le> length s" "fst (k h) = h @ take n s"
    "\<And>i. i < n \<Longrightarrow> s ! i \<noteq> DataClose \<Longrightarrow> all_accepted srv h (take i s)"
    "snd (snd (k h)) = None \<longleftrightarrow> all_accepted srv h (butlast s)"
    "snd (snd (k h)) = None \<Longrightarrow> n = length s"
  using assms unfolding follows_def by blast

lemma follows_call:
  assumes "follows srv k s" and "\<And>h f. srv h c = Some f \<Longrightarrow> \<exists>e. q h = (h @ [c], st, Some e)"
    and "\<And>h. srv h c = None \<Longrightarrow> q h = k (h @ [c])"
  shows "follows srv q (c # s)"
proof (rule followsI)
  fix h
  from assms(1) have s: "s \<noteq> []" by (simp add: follows_def)
  show "\<exists>n \<le> length (c # s). fst (q h) = h @ take n (c # s)
      \<and> (\<forall>i < n. (c # s) ! i \<noteq> DataClose \<longrightarrow> all_accepted srv h (take i (c # s)))
      \<and> (snd (snd (q h)) = None \<longleftrightarrow> all_accepted srv h (butlast (c # s)))
      \<and> (snd (snd (q h)) = None \<longrightarrow> n = length (c # s))"
  proof (cases "srv h c")
    case None
    from followsE[OF assms(1), of "h @ [c]"] obtain n where n: "n \<le> length s"
      "fst (k (h @ [c])) = (h @ [c]) @ take n s"
      "\<And>i. i < n \<Longrightarrow> s ! i \<noteq> DataClose \<Longrightarrow> all_accepted srv (h @ [c]) (take i s)"
      "snd (snd (k (h @ [c]))) = None \<longleftrightarrow> all_accepted srv (h @ [c]) (butlast s)"
      "snd (snd (k (h @ [c]))) = None \<Longrightarrow> n = length s" by blast
    from n(3) None have "all_accepted srv h (take i (c # s))" if "i < Suc n" "(c # s) ! i \<noteq> DataClose" for i
      using that by (cases i) auto
    with n assms(3)[OF None] None s show ?thesis
      by (intro exI[of _ "Suc n"]) auto
  next
    case (Some f)
    with assms(2)[OF Some] s show ?thesis by (intro exI[of _ 1]) auto
  qed
qed simp

lemma follows_smtp_call: "follows srv k s \<Longrightarrow> follows srv (smtp_call srv st c k) (c # s)"
  by (erule follows_call[where st = st]) (auto simp: smtp_call_def)

lemma follows_rcpt: "follows srv k s \<Longrightarrow> follows srv (rcpt_all srv rs k) (map Rcpt rs @ s)"
proof (induction rs)
  case (Cons r rs)
  then have "follows srv (smtp_call srv ''recipient'' (Rcpt r) (rcpt_all srv rs k)) (Rcpt r # map Rcpt rs @ s)"
    by (intro follows_smtp_call) simp
  moreover have "rcpt_all srv (r # rs) k = smtp_call srv ''recipient'' (Rcpt r) (rcpt_all srv rs k)"
    by (rule ext) simp
  ultimately show ?case by simp
next
  case Nil
  moreover have "rcpt_all srv [] k = k" by (rule ext) simp
  ultimately show ?case by simp
qed

lemma follows_secure:
  assumes "follows srv k s"
  shows "follows srv (secure_session srv cfg k)
    ((if sx_TLSMode cfg = smtpTLSStartTLS then [Extension, StartTLS (sx_Host cfg)] else []) @ s)"
proof (cases "sx_TLSMode cfg = smtpTLSStartTLS")
  case True
  have "follows srv (secure_session srv cfg k) (Extension # StartTLS (sx_Host cfg) # s)"
    by (rule follows_call[OF follows_smtp_call[OF assms], where st = "''starttls''"])
      (auto simp: secure_session_def True)
  with True show ?thesis by simp
next
  case False
  then have "secure_session srv cfg k = k" by (intro ext) (simp add: secure_session_def)
  with False assms show ?thesis by simp
qed

lemma follows_authenticate:
  assumes "follows srv k s"
  shows "follows srv (authenticate srv cfg password k)
    ((if sx_Username cfg \<noteq> [] then [Auth (sx_Username cfg) password] else []) @ s)"
proof (cases "sx_Username cfg = []")
  case True
  then have "authenticate srv cfg password k = k" by (intro ext) (simp add: authenticate_def)
  with True assms show ?thesis by simp
next
  case False
  then have "authenticate srv cfg password k = smtp_call srv ''auth'' (Auth (sx_Username cfg) password) k"
    by (intro ext) (simp add: authenticate_def)
  with False follows_smtp_call[OF assms] show ?thesis by simp
qed

lemma follows_write: "follows srv (write_data srv m) [DataWrite m, DataClose, Quit]"
proof (rule followsI)
  fix h
  let ?n = "if snd (snd (write_data srv m h)) = None then 3 else 2 :: nat"
  show "\<exists>n \<le> length [DataWrite m, DataClose, Quit].
      fst (write_data srv m h) = h @ take n [DataWrite m, DataClose, Quit]
      \<and> (\<forall>i < n. [DataWrite m, DataClose, Quit] ! i \<noteq> DataClose \<longrightarrow>
           all_accepted srv h (take i [DataWrite m, DataClose, Quit]))
      \<and> (snd (snd (write_data srv m h)) = None \<longleftrightarrow> all_accepted srv h (butlast [DataWrite m, DataClose, Quit]))
      \<and> (snd (snd (write_data srv m h)) = None \<longrightarrow> n = length [DataWrite m, DataClose, Quit])"
    by (rule exI[of _ ?n])
      (auto simp: write_data_def less_Suc_eq numeral_3_eq_3 numeral_2_eq_2 split: option.splits)
qed simp

lemma smtp_session_follows:
  "follows srv (smtp_session srv timeoutMs cfg password recipients message)
    (smtp_script timeoutMs cfg password recipients message)"
  unfolding smtp_session_def smtp_script_def append_Cons append_Nil
  by (intro follows_smtp_call follows_secure follows_authenticate follows_rcpt follows_write)

text \<open>What a session did: a prefix of its script, in which every call waited for the ones before.\<close>

lemma sendSMTP_script:
  assumes "sendSMTP srv t cfg pw rs m = (h, stage, r)"
  obtains n where "n \<le> length (smtp_script t cfg pw rs m)" "h = take n (smtp_script t cfg pw rs m)"
    "\<And>i. i < n \<Longrightarrow> smtp_script t cfg pw rs m ! i \<noteq> DataClose \<Longrightarrow>
       all_accepted srv [] (take i (smtp_script t cfg pw rs m))"
    "r = None \<longleftrightarrow> all_accepted srv [] (butlast (smtp_script t cfg pw rs m))"
    "r = None \<Longrightarrow> h = smtp_script t cfg pw rs m"
proof -
  let ?s = "smtp_script t cfg pw rs m"
  from smtp_session_follows[of srv t cfg pw rs m, unfolded follows_def, THEN conjunct2, THEN spec, of "[]"]
  obtain n where n: "n \<le> length ?s \<and> fst (smtp_session srv t cfg pw rs m []) = [] @ take n ?s
      \<and> (\<forall>i < n. ?s ! i \<noteq> DataClose \<longrightarrow> all_accepted srv [] (take i ?s))
      \<and> (snd (snd (smtp_session srv t cfg pw rs m [])) = None \<longleftrightarrow> all_accepted srv [] (butlast ?s))
      \<and> (snd (snd (smtp_session srv t cfg pw rs m [])) = None \<longrightarrow> n = length ?s)"
    by (rule exE)
  note session = assms[unfolded sendSMTP_def]
  show thesis
  proof (rule that)
    show "n \<le> length ?s" using n by (rule conjunct1)
    show h: "h = take n ?s" using n by (simp add: session)
    show "all_accepted srv [] (take i ?s)" if "i < n" "?s ! i \<noteq> DataClose" for i using n that by blast
    show "r = None \<longleftrightarrow> all_accepted srv [] (butlast ?s)" using n by (simp add: session)
    show "h = ?s" if "r = None" using n h that by (simp add: session)
  qed
qed

section \<open>Properties\<close>

lemma nth_middle:
  assumes "i < length (a @ b @ c)" and "(a @ b @ c) ! i = x" and "x \<notin> set a" and "x \<notin> set c"
  obtains k where "k < length b" "i = length a + k" "b ! k = x"
proof (cases "i < length a")
  case True
  with assms(2,3) show thesis by (auto simp: nth_append)
next
  case False
  then obtain k where i: "i = length a + k" by (metis le_add_diff_inverse linorder_not_less)
  with assms that[of k] show thesis by (cases "k < length b") (auto simp: nth_append)
qed

lemma smtp_script_auth:
  assumes "i < length (smtp_script t cfg pw rs m)" and "smtp_script t cfg pw rs m ! i = Auth u p"
  shows "u = sx_Username cfg \<and> p = pw \<and> u \<noteq> []
    \<and> i = (if sx_TLSMode cfg = smtpTLSStartTLS then 5 else 3)"
proof -
  let ?pre = "[dialSMTP cfg, SetDeadline (smtp_timeout t), NewClient (sx_Host cfg)]
     @ (if sx_TLSMode cfg = smtpTLSStartTLS then [Extension, StartTLS (sx_Host cfg)] else [])"
  let ?auth = "if sx_Username cfg \<noteq> [] then [Auth (sx_Username cfg) pw] else []"
  let ?post = "[Mail (ma_Address (sx_From cfg))] @ map Rcpt rs @ [DataOpen, DataWrite m, DataClose, Quit]"
  have s: "smtp_script t cfg pw rs m = ?pre @ ?auth @ ?post" by (simp add: smtp_script_def)
  have "Auth u p \<notin> set ?pre" "Auth u p \<notin> set ?post" by (auto simp: dialSMTP_def)
  with assms nth_middle[of i ?pre ?auth ?post "Auth u p"] obtain k where
      "k < length ?auth" "i = length ?pre + k" "?auth ! k = Auth u p" unfolding s by blast
  then show ?thesis by (auto split: if_splits)
qed

text \<open>
  C34: The SMTP password is protected on the wire. With an accepted configuration, whatever
  the server answers, the credentials are only sent for the configured user, and only on a
  connection that was opened with TLS against the configured host, after a STARTTLS against
  that host that the server accepted earlier in the session, or to the local machine.
\<close>

theorem smtp_credentials_protected:
  assumes "smtp_Config ml ip cfg = Inr (pc, rc)"
    and "sendSMTP srv t rc pw rs m = (h, stage, r)" and "i < length h" and "h ! i = Auth u p"
  shows "u = sx_Username rc \<and> p = pw \<and> pc_CredentialRef pc \<noteq> []
    \<and> ((\<exists>a. h ! 0 = Dial (Some (sx_Host rc)) a \<and> srv [] (h ! 0) = None)
       \<or> (\<exists>j < i. h ! j = StartTLS (sx_Host rc) \<and> srv (take j h) (h ! j) = None)
       \<or> isLoopbackHost ip (sx_Host rc))"
proof -
  let ?s = "smtp_script t rc pw rs m"
  from sendSMTP_script[OF assms(2)] obtain n where n: "n \<le> length ?s" "h = take n ?s"
      "\<And>i. i < n \<Longrightarrow> ?s ! i \<noteq> DataClose \<Longrightarrow> all_accepted srv [] (take i ?s)" by metis
  from n assms(3,4) have i: "i < n" "i < length ?s" "?s ! i = Auth u p" by auto
  note auth = smtp_script_auth[OF i(2,3)]
  from n(3)[OF i(1)] i(3) have acc: "all_accepted srv [] (take i ?s)" by simp
  from n(2) i(1) have h: "h ! j = ?s ! j" "take j h = take j ?s" if "j \<le> i" for j using that by auto
  from assms(1) have cfg: "sx_TLSMode rc \<in> {smtpTLSStartTLS, smtpTLSImplicit}
      \<or> isLoopbackHost ip (sx_Host rc)" "sx_Username rc \<noteq> [] \<Longrightarrow> pc_CredentialRef pc \<noteq> []"
    by (auto simp: smtp_Config_def mode_problem_def Let_def split: option.splits sum.splits if_splits)
  show ?thesis
  proof (cases "sx_TLSMode rc = smtpTLSStartTLS")
    case True
    with auth acc h[of 4] have "h ! 4 = StartTLS (sx_Host rc) \<and> srv (take 4 h) (h ! 4) = None"
      by (simp add: smtp_script_def eval_nat_numeral)
    moreover have "4 < i" using True auth by simp
    ultimately show ?thesis using auth cfg(2) by metis
  next
    case False
    with auth acc h[of 0] cfg show ?thesis
      by (auto simp: smtp_script_def eval_nat_numeral dialSMTP_def)
  qed
qed

text \<open>
  C35: An email whose payload was accepted at submission is either delivered to the server
  or reported as failed, and nothing in between: the adapter answers with success exactly
  when the server accepted, in this order, the connection, the security layer, the login,
  the sender, each recipient of the payload, and the complete message; a failing \<open>QUIT\<close>
  afterwards does not turn it into a failure.
\<close>

theorem smtp_delivery:
  assumes "ad_Validate (SMTPEmail ml rc) smtpActionSend payload = None" and "sx_Initialized rc"
    and "sx_Username rc = [] \<or> ac_Credential ac \<noteq> []"
  shows "\<exists>n msg r. normalizeSMTPPayload ml payload = Inr n
    \<and> buildSMTPMessage ml (nt_boundary net) payload (sx_From rc) (ac_SourceSystem ac)
        (ac_SourceRequestID ac) (nt_now net) = Inr msg
    \<and> ad_SendActionRequest (SMTPEmail ml rc) net ac smtpActionSend payload = Inr (Some r)
    \<and> (pr_Success r \<longleftrightarrow> all_accepted (nt_smtp net) []
         (butlast (smtp_script (ac_TimeoutMs ac) rc (ac_Credential ac)
            (map ma_Address (ns_Recipients n)) msg)))"
proof -
  from assms(1) obtain n where n: "normalizeSMTPPayload ml payload = Inr n"
    by (auto simp: SMTPEmail_def smtp_Validate_def split: sum.splits)
  then obtain msg where msg: "buildSMTPMessage ml (nt_boundary net) payload (sx_From rc)
      (ac_SourceSystem ac) (ac_SourceRequestID ac) (nt_now net) = Inr msg"
    by (simp add: buildSMTPMessage_def)
  obtain h stage e where run: "sendSMTP (nt_smtp net) (ac_TimeoutMs ac) rc (ac_Credential ac)
      (map ma_Address (ns_Recipients n)) msg = (h, stage, e)" by (metis prod_cases3)
  from sendSMTP_script[OF run] have e: "e = None \<longleftrightarrow> all_accepted (nt_smtp net) []
      (butlast (smtp_script (ac_TimeoutMs ac) rc (ac_Credential ac) (map ma_Address (ns_Recipients n)) msg))"
    by metis
  have "\<exists>r. ad_SendActionRequest (SMTPEmail ml rc) net ac smtpActionSend payload = Inr (Some r)
      \<and> (pr_Success r \<longleftrightarrow> e = None)"
    using assms(2,3) by (cases e) (auto simp: SMTPEmail_def smtp_SendActionRequest_def n msg run smtp_accepted_def)
  with n msg e show ?thesis by blast
qed

section \<open>No header can be injected\<close>

definition one_line :: "string \<Rightarrow> bool" where
  "one_line s = list_all (\<lambda>c. code c \<noteq> 13 \<and> code c \<noteq> 10) s"

lemma one_line_simps [simp]:
  "one_line []" "one_line (c # s) \<longleftrightarrow> code c \<noteq> 13 \<and> code c \<noteq> 10 \<and> one_line s"
  "one_line (s @ t) \<longleftrightarrow> one_line s \<and> one_line t"
  by (auto simp: one_line_def)

lemma one_line_subset: "set s \<subseteq> set t \<Longrightarrow> one_line t \<Longrightarrow> one_line s"
  by (auto simp: one_line_def list_all_iff)

lemma one_line_concat [simp]: "one_line (concat ss) \<longleftrightarrow> list_all one_line ss"
  by (induction ss) auto

lemma one_line_iff: "one_line s \<longleftrightarrow> \<not> ContainsAny s CRLF"
proof -
  have "c = byte n \<longleftrightarrow> code c = n" if "n < 256" for c n
    using that by (auto simp: byte_def code_def)
  from this[of 13] this[of 10] show ?thesis
    by (auto simp: one_line_def ContainsAny_def CRLF_def list_all_iff list_ex_iff)
qed

lemma code_Char [simp]: "code (Char b0 b1 b2 b3 b4 b5 b6 b7) = of_char (Char b0 b1 b2 b3 b4 b5 b6 b7)"
  by (simp add: code_def)

lemma code_char_of [simp]: "n < 256 \<Longrightarrow> code (char_of n) = n"
  by (simp add: code_def)

lemma one_line_nat_digits [simp]: "one_line (nat_digits n)"
  by (induction n rule: nat_digits.induct) (subst nat_digits.simps, simp)

lemma one_line_pad [simp]: "one_line (pad n x)"
proof -
  have "one_line (replicate k (CHR ''0''))" for k by (induction k) (auto simp: code_def)
  then show ?thesis by (simp add: pad_def Itoa_def Let_def code_def)
qed

lemma one_line_Join: "one_line sep \<Longrightarrow> list_all one_line xs \<Longrightarrow> one_line (Join xs sep)"
  by (induction xs sep rule: Join.induct) auto

lemma of_char_div_16: "(of_char c :: nat) div 16 < 16"
proof -
  have "(of_char c :: nat) < 256" by (metis mod_less_divisor of_char_mod_256 zero_less_numeral)
  then show ?thesis by (intro less_mult_imp_div_less) simp
qed

lemma one_line_upper_hex: "n < 16 \<Longrightarrow> code (upper_hex n) \<noteq> 13 \<and> code (upper_hex n) \<noteq> 10"
  by (auto simp: upper_hex_def)

lemma one_line_q_byte [simp]: "one_line (q_byte c)"
proof -
  have "code c div 16 < 16" "code c mod 16 < 16" by (simp_all add: code_def of_char_div_16)
  from one_line_upper_hex[OF this(1)] one_line_upper_hex[OF this(2)]
  show ?thesis by (auto simp: q_byte_def q_plain_def code_def[of "CHR ''_''"] code_def[of "CHR ''=''"])
qed

lemma one_line_q_words [simp]: "one_line (q_words cur s)"
proof (induction cur s rule: q_words.induct)
  case (2 cur c s)
  have "list_all one_line (map q_byte xs)" for xs by (induction xs) auto
  with 2 show ?case by simp
qed simp

lemma one_line_QEncode [simp]: "one_line (QEncode s)"
proof (cases "needs_encoding s")
  case False
  then have "one_line s" by (auto simp: needs_encoding_def one_line_def list_all_iff list_ex_iff)
  with False show ?thesis by (simp add: QEncode_def)
qed (simp add: QEncode_def code_def)

lemma one_line_hex [simp]: "one_line (hex_EncodeToString s)"
proof -
  have "\<forall>n < 16. code (''0123456789abcdef'' ! n) \<noteq> 13 \<and> code (''0123456789abcdef'' ! n) \<noteq> 10"
    by (simp add: code_def numeral_eq_Suc All_less_Suc)
  then show ?thesis by (simp add: of_char_div_16 hex_EncodeToString_def Let_def list_all_iff)
qed

lemma TrimLeft_subset: "set (TrimLeftSpace_fuel n s) \<subseteq> set s"
  by (induction n s rule: TrimLeftSpace_fuel.induct)
    (auto split: option.split dest: in_set_dropD)

lemma TrimRight_subset: "set (TrimRightSpace_fuel n s) \<subseteq> set s"
  by (induction n s rule: TrimRightSpace_fuel.induct)
    (auto split: option.split dest: in_set_takeD)

lemma TrimSpace_subset: "set (TrimSpace s) \<subseteq> set s"
  unfolding TrimSpace_def Let_def using TrimLeft_subset TrimRight_subset by blast

text \<open>
  What the code relies on of net/mail: an address read from one line is on one line, and a
  printed address is, whatever its display name.
\<close>

definition mail_one_line :: "mail_lib \<Rightarrow> bool" where
  "mail_one_line ml \<longleftrightarrow>
     (\<forall>s a. ml_ParseAddress ml s = Some a \<longrightarrow> one_line s \<longrightarrow> one_line (ma_Address a))
     \<and> (\<forall>a. one_line (ma_Address a) \<longrightarrow> one_line (ml_String ml a))"

lemma parseSingleAddress_one_line:
  assumes "mail_one_line ml" and "parseSingleAddress ml raw field = Inr a"
  shows "one_line (ma_Address a)"
proof -
  from assms(2) have "ml_ParseAddress ml (TrimSpace raw) = Some a" and "one_line raw"
    by (auto simp: parseSingleAddress_def one_line_iff split: if_splits option.splits)
  with assms(1) one_line_subset[OF TrimSpace_subset] show ?thesis by (simp add: mail_one_line_def)
qed

lemma parse_recipients_one_line:
  assumes "mail_one_line ml"
  shows "parse_recipients ml i rs = Inr as \<Longrightarrow> list_all (\<lambda>a. one_line (ma_Address a)) as \<and> length as = length rs"
proof (induction rs arbitrary: i as)
  case (Cons r rs)
  then obtain a as' where "parseSingleAddress ml r (''to['' @ Itoa i @ '']'') = Inr a"
      "parse_recipients ml (i + 1) rs = Inr as'" "as = a # as'"
    by (auto split: sum.splits simp: map_sum_def)
  with Cons.IH parseSingleAddress_one_line[OF assms] show ?case by auto
qed simp

lemma normalizeSMTP_one_line:
  assumes "mail_one_line ml" and "normalizeSMTPPayload ml payload = Inr n"
  shows "list_all (\<lambda>a. one_line (ma_Address a)) (ns_Recipients n)
    \<and> 0 < length (ns_Recipients n) \<and> int (length (ns_Recipients n)) \<le> smtpMaxRecipients"
proof -
  from assms(2) obtain v where v: "decode_smtp payload = Some v"
    by (cases "decode_smtp payload") (auto simp: normalizeSMTPPayload_def split: if_splits)
  with assms(2) have "parse_recipients ml 0 (sp_To v) = Inr (ns_Recipients n)"
      "sp_To v \<noteq> []" "int (length (sp_To v)) \<le> smtpMaxRecipients"
    by (auto simp: normalizeSMTPPayload_def map_sum_def not_less split: if_splits sum.splits)
  with parse_recipients_one_line[OF assms(1), of 0 "sp_To v"] show ?thesis by auto
qed

lemma stableMessageID_one_line:
  assumes "one_line from"
  shows "one_line (stableMessageID sys rid from payload)"
proof -
  have "set (rev (takeWhile (\<lambda>c. c \<noteq> CHR ''@'') (rev from))) \<subseteq> set from"
    by (auto dest: set_takeWhileD)
  from one_line_subset[OF this assms] show ?thesis
    by (simp add: stableMessageID_def Let_def code_def)
qed

lemma rfc1123z_one_line: "one_line (rfc1123z t)"
proof -
  let ?days = "[''Sun'', ''Mon'', ''Tue'', ''Wed'', ''Thu'', ''Fri'', ''Sat'']"
  have "list_all one_line ?days" by (simp add: code_def)
  moreover have "nat ((d + 4) mod 7) < length ?days" for d :: int by (simp add: nat_less_iff)
  ultimately have "one_line (?days ! nat ((d + 4) mod 7))" for d :: int
    by (metis list_all_length)
  then show ?thesis
    by (simp add: rfc1123z_def Let_def month_name_def code_def split: prod.split)
qed

text \<open>
  C36: No payload can inject a header. With an accepted configuration, the built message
  starts with exactly the headers the code names, each on a line of its own with a value
  without line breaks, whatever recipients, subject and bodies the payload carries; an empty
  line ends them. A message has between one and a hundred recipients.
\<close>

theorem smtp_headers_safe:
  assumes "mail_one_line ml" and "one_line boundary" and "smtp_Config ml ip cfg = Inr (pc, rc)"
    and "buildSMTPMessage ml boundary payload (sx_From rc) sys rid now = Inr msg"
  shows "\<exists>headers body n. msg = concat (map header_line headers) @ CRLF @ body
    \<and> normalizeSMTPPayload ml payload = Inr n
    \<and> 0 < length (ns_Recipients n) \<and> int (length (ns_Recipients n)) \<le> smtpMaxRecipients
    \<and> map fst (take 7 headers) = [''Date'', ''From'', ''To'', ''Subject'', ''Message-ID'', ''MIME-Version'', ''Content-Type'']
    \<and> (drop 7 headers = [] \<or> drop 7 headers = [(''Content-Transfer-Encoding'', ''quoted-printable'')])
    \<and> (\<forall>h \<in> set headers. one_line (snd h))"
proof -
  from assms(4) obtain n where n: "normalizeSMTPPayload ml payload = Inr n"
    and msg: "msg = concat (map header_line (message_headers ml payload (sx_From rc) sys rid now boundary n))
             @ CRLF @ message_body ml boundary n"
    by (auto simp: buildSMTPMessage_def split: sum.splits)
  from assms(3) obtain frm where "parseSingleAddress ml (sg_FromAddress cfg) ''from_address'' = Inr frm"
      and "sx_From rc = frm\<lparr>ma_Name := TrimSpace (sg_FromName cfg)\<rparr>"
    by (auto simp: smtp_Config_def Let_def split: option.splits sum.splits if_splits)
  with parseSingleAddress_one_line[OF assms(1)] have "one_line (ma_Address (sx_From rc))" by auto
  moreover note to = normalizeSMTP_one_line[OF assms(1) n]
  have "one_line (Join (map (ml_String ml) (ns_Recipients n)) '', '')"
    using to assms(1) by (intro one_line_Join) (auto simp: list_all_iff mail_one_line_def code_def)
  ultimately have "\<forall>h \<in> set (message_headers ml payload (sx_From rc) sys rid now boundary n). one_line (snd h)"
    using assms(1,2) stableMessageID_one_line rfc1123z_one_line
    by (auto simp: message_headers_def content_headers_def mail_one_line_def go_q_def plain_type_def
        html_type_def code_def)
  with n msg to show ?thesis
    by (intro exI[of _ "message_headers ml payload (sx_From rc) sys rid now boundary n"] exI[of _ n]
        exI[of _ "message_body ml boundary n"]) (simp add: message_headers_def content_headers_def)
qed

end
