(* ===== verification/Firebase.thy ===== *)
theory Firebase
  imports Adapters
begin

text \<open>
  internal/provider/adapters/firebase_push.go: one push through Firebase Cloud Messaging.
  The library is the parameter \<open>fcm_service\<close> of the network; the cached messaging client is
  the adapter's state. The error text of package encoding/json inside payload and credential
  errors is left out, and of several bad keys of \<open>data\<close>, whose order Go leaves open, the
  first one of the payload is reported.
\<close>

section \<open>Configuration\<close>

definition firebasePushActionSend :: string where "firebasePushActionSend = ''send''"
definition firebasePushMaxPayload :: int where "firebasePushMaxPayload = 4096"

record firebasePushConfig =
  fc_ProjectID :: string
  fc_CredentialsRef :: string
  fc_TimeoutMs :: int
  fc_RequestsPerSecond :: rat
  fc_MaxConcurrency :: int
  fc_CircuitBreaker :: "adapterCircuitBreakerConfig option"

record firebase_state =
  fs_projectID :: string
  fs_credentialsRequired :: bool
  fs_initialized :: bool
  fs_client :: "fcm_client option"

definition NewFirebasePush :: firebase_state where
  "NewFirebasePush =
     \<lparr>fs_projectID = [], fs_credentialsRequired = False, fs_initialized = False, fs_client = None\<rparr>"

definition validateFirebaseProjectID :: "string \<Rightarrow> string option" where
  "validateFirebaseProjectID projectID =
     (if projectID = [] then Some ''must not be empty''
      else if 128 < length projectID then Some ''must not exceed 128 characters''
      else if ContainsAny projectID (''/'' @ [byte 92] @ ''?#@ '' @ map byte [9, 13, 10])
      then Some ''must not contain whitespace, URL delimiters, or credentials''
      else None)"

definition firebase_description :: string where
  "firebase_description =
     map byte [233, 128, 154, 232, 191, 135, 32, 70, 105, 114, 101, 98, 97, 115, 101, 32, 67, 108, 111,
     117, 100, 32, 77, 101, 115, 115, 97, 103, 105, 110, 103, 32, 229, 144, 145, 229, 141,
     149, 228, 184, 170, 32, 105, 79, 83, 32, 230, 136, 150, 32, 65, 110, 100, 114, 111, 105,
     100, 32, 232, 174, 190, 229, 164, 135, 229, 143, 145, 233, 128, 129, 230, 142, 168, 233,
     128, 129, 239, 188, 155, 230, 136, 144, 229, 138, 159, 228, 187, 133, 232, 161, 168,
     231, 164, 186, 32, 70, 67, 77, 32, 229, 183, 178, 230, 142, 165, 229, 143, 151]"

definition firebase_Config ::
  "firebasePushConfig \<Rightarrow> firebase_state \<Rightarrow> (string, provider_Config \<times> firebase_state) result" where
  "firebase_Config cfg st =
     (let projectID = TrimSpace (fc_ProjectID cfg) in
      case validateFirebaseProjectID projectID of
        Some e \<Rightarrow> Inl (''project_id: '' @ e)
      | None \<Rightarrow>
      (case validateDeliveryLimits (fc_TimeoutMs cfg) (fc_RequestsPerSecond cfg) (fc_MaxConcurrency cfg) of
        Some e \<Rightarrow> Inl (''actions.send: '' @ e)
      | None \<Rightarrow>
      (case normalizeCircuitBreaker (fc_CircuitBreaker cfg) of
        Inl e \<Rightarrow> Inl (''actions.send.circuit_breaker: '' @ e)
      | Inr breaker \<Rightarrow>
        let credentialsRef = TrimSpace (fc_CredentialsRef cfg) in
        Inr (\<lparr>pc_CredentialRef = credentialsRef,
              pc_Actions = [(firebasePushActionSend,
                \<lparr>cf_Description = firebase_description, cf_BaseURL = [], cf_Path = [],
                 cf_Method = ''FCM'', cf_TimeoutMs = fc_TimeoutMs cfg,
                 cf_RequestsPerSecond = fc_RequestsPerSecond cfg,
                 cf_MaxConcurrency = fc_MaxConcurrency cfg, cf_CircuitBreaker = breaker\<rparr>)]\<rparr>,
             st\<lparr>fs_projectID := projectID, fs_credentialsRequired := (credentialsRef \<noteq> []),
                fs_initialized := True, fs_client := None\<rparr>))))"

section \<open>Payloads\<close>

record firebaseNotification =
  fy_Title :: string
  fy_Body :: string
  fy_ImageURL :: string

record firebaseAndroidOverrides =
  fo_Priority :: string
  fo_ChannelID :: string
  fo_Sound :: string

record firebaseIOSOverrides =
  fi_Sound :: string
  fi_Badge :: "int option"
  fi_ContentAvailable :: bool

record firebasePushPayload =
  fl_FID :: string
  fl_Token :: string
  fl_Notification :: "firebaseNotification option"
  fl_Data :: "(string \<times> string) list"
  fl_Android :: "firebaseAndroidOverrides option"
  fl_IOS :: "firebaseIOSOverrides option"

text \<open>A struct behind a pointer: null is nil, an object decodes into the struct that is there.\<close>

definition decode_pointer ::
  "(string \<Rightarrow> json \<Rightarrow> 'a \<Rightarrow> 'a option) \<Rightarrow> 'a \<Rightarrow> 'a option \<Rightarrow> json \<Rightarrow> 'a option option" where
  "decode_pointer f zero old v =
     (case v of
        JNull \<Rightarrow> Some None
      | JObject ms \<Rightarrow> map_option Some (decode_struct f ms (case old of None \<Rightarrow> zero | Some x \<Rightarrow> x))
      | _ \<Rightarrow> None)"

definition notification_field :: "string \<Rightarrow> json \<Rightarrow> firebaseNotification \<Rightarrow> firebaseNotification option" where
  "notification_field k v n =
     (if EqualFold k ''title'' then set_string (\<lambda>s. n\<lparr>fy_Title := s\<rparr>) n v
      else if EqualFold k ''body'' then set_string (\<lambda>s. n\<lparr>fy_Body := s\<rparr>) n v
      else if EqualFold k ''image_url'' then set_string (\<lambda>s. n\<lparr>fy_ImageURL := s\<rparr>) n v
      else None)"

definition android_field :: "string \<Rightarrow> json \<Rightarrow> firebaseAndroidOverrides \<Rightarrow> firebaseAndroidOverrides option" where
  "android_field k v a =
     (if EqualFold k ''priority'' then set_string (\<lambda>s. a\<lparr>fo_Priority := s\<rparr>) a v
      else if EqualFold k ''channel_id'' then set_string (\<lambda>s. a\<lparr>fo_ChannelID := s\<rparr>) a v
      else if EqualFold k ''sound'' then set_string (\<lambda>s. a\<lparr>fo_Sound := s\<rparr>) a v
      else None)"

definition ios_field :: "string \<Rightarrow> json \<Rightarrow> firebaseIOSOverrides \<Rightarrow> firebaseIOSOverrides option" where
  "ios_field k v i =
     (if EqualFold k ''sound'' then set_string (\<lambda>s. i\<lparr>fi_Sound := s\<rparr>) i v
      else if EqualFold k ''badge'' then
        (case v of
           JNumber n \<Rightarrow> map_option (\<lambda>b. i\<lparr>fi_Badge := Some b\<rparr>) (parse_int64 n)
         | JNull \<Rightarrow> Some (i\<lparr>fi_Badge := None\<rparr>)
         | _ \<Rightarrow> None)
      else if EqualFold k ''content_available'' then
        (case v of JBool b \<Rightarrow> Some (i\<lparr>fi_ContentAvailable := b\<rparr>) | JNull \<Rightarrow> Some i | _ \<Rightarrow> None)
      else None)"

text \<open>The members of a \<open>map[string]string\<close> are added to the entries that are there.\<close>

fun data_entries :: "(string \<times> json) list \<Rightarrow> (string \<times> string) list \<Rightarrow> (string \<times> string) list option" where
  "data_entries [] d = Some d"
| "data_entries ((k, JString s) # ms) d = data_entries ms (AList.update k s d)"
| "data_entries ((k, JNull) # ms) d = data_entries ms (AList.update k [] d)"
| "data_entries _ d = None"

definition firebase_field :: "string \<Rightarrow> json \<Rightarrow> firebasePushPayload \<Rightarrow> firebasePushPayload option" where
  "firebase_field k v p =
     (if EqualFold k ''fid'' then set_string (\<lambda>s. p\<lparr>fl_FID := s\<rparr>) p v
      else if EqualFold k ''token'' then set_string (\<lambda>s. p\<lparr>fl_Token := s\<rparr>) p v
      else if EqualFold k ''notification'' then
        map_option (\<lambda>x. p\<lparr>fl_Notification := x\<rparr>)
          (decode_pointer notification_field \<lparr>fy_Title = [], fy_Body = [], fy_ImageURL = []\<rparr>
             (fl_Notification p) v)
      else if EqualFold k ''data'' then
        (case v of
           JObject ms \<Rightarrow> map_option (\<lambda>d. p\<lparr>fl_Data := d\<rparr>) (data_entries ms (fl_Data p))
         | JNull \<Rightarrow> Some (p\<lparr>fl_Data := []\<rparr>)
         | _ \<Rightarrow> None)
      else if EqualFold k ''android'' then
        map_option (\<lambda>x. p\<lparr>fl_Android := x\<rparr>)
          (decode_pointer android_field \<lparr>fo_Priority = [], fo_ChannelID = [], fo_Sound = []\<rparr>
             (fl_Android p) v)
      else if EqualFold k ''ios'' then
        map_option (\<lambda>x. p\<lparr>fl_IOS := x\<rparr>)
          (decode_pointer ios_field \<lparr>fi_Sound = [], fi_Badge = None, fi_ContentAvailable = False\<rparr>
             (fl_IOS p) v)
      else None)"

definition firebase_zero :: firebasePushPayload where
  "firebase_zero =
     \<lparr>fl_FID = [], fl_Token = [], fl_Notification = None, fl_Data = [], fl_Android = None, fl_IOS = None\<rparr>"

text \<open>The first value of the text and what follows it; \<open>ensureJSONEOF\<close> on the rest.\<close>

definition decode_firebase :: "string \<Rightarrow> (firebasePushPayload \<times> string) option" where
  "decode_firebase payload =
     (case parse payload of
        Some (JObject ms, rest) \<Rightarrow> map_option (\<lambda>p. (p, rest)) (decode_struct firebase_field ms firebase_zero)
      | Some (JNull, rest) \<Rightarrow> Some (firebase_zero, rest)
      | _ \<Rightarrow> None)"

definition ensureJSONEOF :: "string \<Rightarrow> string option" where
  "ensureJSONEOF rest =
     (if skip_ws rest = [] then None
      else if parse rest \<noteq> None then Some ''payload must contain exactly one JSON value''
      else Some ''payload contains trailing invalid JSON'')"

definition validateHTTPSURL :: "url_parser \<Rightarrow> string \<Rightarrow> string option" where
  "validateHTTPSURL url_parser raw =
     (case url_parser raw of
        Some u \<Rightarrow>
          if u_Scheme u \<noteq> ''https'' \<or> u_Host u = [] \<or> u_HasUser u \<or> u_Fragment u \<noteq> []
          then Some ''must be an absolute HTTPS URL without credentials or fragment'' else None
      | None \<Rightarrow> Some ''must be an absolute HTTPS URL without credentials or fragment'')"

definition notification_problem :: "url_parser \<Rightarrow> firebaseNotification \<Rightarrow> string option" where
  "notification_problem url_parser n =
     (if TrimSpace (fy_Title n) = [] \<and> TrimSpace (fy_Body n) = []
      then Some ''payload.notification.title or payload.notification.body must be non-empty''
      else if fy_ImageURL n \<noteq> []
      then map_option (\<lambda>e. ''payload.notification.image_url: '' @ e)
             (validateHTTPSURL url_parser (fy_ImageURL n))
      else None)"

definition reserved_key :: "string \<Rightarrow> bool" where
  "reserved_key k \<longleftrightarrow>
     (let l = ToLower k in
      l = ''from'' \<or> l = ''message_type'' \<or> HasPrefix l ''google.'' \<or> HasPrefix l ''gcm.'')"

fun data_problem :: "(string \<times> string) list \<Rightarrow> string option" where
  "data_problem [] = None"
| "data_problem ((k, v) # d) =
     (if TrimSpace k = [] then Some ''payload.data keys must be non-empty''
      else if reserved_key k then Some (''payload.data key '' @ go_q k @ '' is reserved by FCM'')
      else data_problem d)"

definition only_blank :: "string \<Rightarrow> bool" where
  "only_blank s \<longleftrightarrow> TrimSpace s = [] \<and> s \<noteq> []"

definition android_problem :: "firebaseAndroidOverrides \<Rightarrow> string option" where
  "android_problem a =
     (if fo_Priority a \<noteq> [] \<and> fo_Priority a \<noteq> ''normal'' \<and> fo_Priority a \<noteq> ''high''
      then Some ''payload.android.priority must be normal or high''
      else if only_blank (fo_ChannelID a)
      then Some ''payload.android.channel_id must not contain only whitespace''
      else if only_blank (fo_Sound a)
      then Some ''payload.android.sound must not contain only whitespace''
      else None)"

definition ios_problem :: "firebaseIOSOverrides \<Rightarrow> string option" where
  "ios_problem i =
     (if (case fi_Badge i of None \<Rightarrow> False | Some b \<Rightarrow> b < 0)
      then Some ''payload.ios.badge must be zero or greater''
      else if only_blank (fi_Sound i)
      then Some ''payload.ios.sound must not contain only whitespace''
      else None)"

definition problem_of :: "('a \<Rightarrow> string option) \<Rightarrow> 'a option \<Rightarrow> string option" where
  "problem_of f x = Option.bind x f"

text \<open>The first problem of a list of checks.\<close>

definition first_problem :: "string option list \<Rightarrow> string option" where
  "first_problem ps = Option.bind (List.find (\<lambda>p. p \<noteq> None) ps) id"

definition normalizeFirebasePushPayload :: "url_parser \<Rightarrow> string \<Rightarrow> (string, firebasePushPayload) result" where
  "normalizeFirebasePushPayload url_parser payload =
     (if firebasePushMaxPayload < int (length payload)
      then Inl (''payload is '' @ Itoa (int (length payload)) @ '' bytes; maximum is ''
                @ Itoa firebasePushMaxPayload @ '' bytes'')
      else
      case decode_firebase payload of
        None \<Rightarrow> Inl ''payload must be a JSON object using only the documented Firebase push fields''
      | Some (decoded, rest) \<Rightarrow>
        (case ensureJSONEOF rest of
           Some e \<Rightarrow> Inl e
         | None \<Rightarrow>
           let value = decoded\<lparr>fl_FID := TrimSpace (fl_FID decoded), fl_Token := TrimSpace (fl_Token decoded),
                 fl_Android := map_option (\<lambda>a. a\<lparr>fo_Priority := ToLower (TrimSpace (fo_Priority a))\<rparr>)
                                 (fl_Android decoded)\<rparr> in
           (case first_problem
                  [if (fl_FID value = []) = (fl_Token value = [])
                   then Some ''payload must specify exactly one non-empty fid or token'' else None,
                   if fl_Notification value = None \<and> fl_Data value = []
                   then Some ''payload.notification or payload.data must be provided'' else None,
                   problem_of (notification_problem url_parser) (fl_Notification value),
                   data_problem (fl_Data value),
                   problem_of android_problem (fl_Android value),
                   problem_of ios_problem (fl_IOS value)] of
              Some e \<Rightarrow> Inl e
            | None \<Rightarrow> Inr value)))"

section \<open>The message\<close>

definition android_config :: "firebaseAndroidOverrides \<Rightarrow> fcm_android" where
  "android_config a =
     \<lparr>fa_Priority = fo_Priority a,
      fa_Notification =
        (if fo_ChannelID a \<noteq> [] \<or> fo_Sound a \<noteq> []
         then Some \<lparr>fa_ChannelID = fo_ChannelID a, fa_Sound = fo_Sound a\<rparr> else None)\<rparr>"

definition apns_config :: "firebaseIOSOverrides option \<Rightarrow> string \<Rightarrow> fcm_apns option" where
  "apns_config ios imageURL =
     (if ios = None \<and> imageURL = [] then None
      else Some \<lparr>fp_Aps =
             \<lparr>fp_Sound = (case ios of None \<Rightarrow> [] | Some i \<Rightarrow> fi_Sound i),
              fp_Badge = (case ios of None \<Rightarrow> None | Some i \<Rightarrow> fi_Badge i),
              fp_ContentAvailable = (case ios of None \<Rightarrow> False | Some i \<Rightarrow> fi_ContentAvailable i),
              fp_MutableContent = (imageURL \<noteq> [])\<rparr>,
             fp_ImageURL = (if imageURL \<noteq> [] then Some imageURL else None)\<rparr>)"

definition buildFirebaseMessage :: "url_parser \<Rightarrow> string \<Rightarrow> (string, fcm_message) result" where
  "buildFirebaseMessage url_parser payload =
     (case normalizeFirebasePushPayload url_parser payload of
        Inl e \<Rightarrow> Inl e
      | Inr value \<Rightarrow>
        let imageURL = (case fl_Notification value of None \<Rightarrow> [] | Some n \<Rightarrow> fy_ImageURL n) in
        Inr \<lparr>fm_Fid = fl_FID value, fm_Token = fl_Token value, fm_Data = fl_Data value,
             fm_Notification =
               map_option (\<lambda>n. \<lparr>fn_Title = fy_Title n, fn_Body = fy_Body n, fn_ImageURL = fy_ImageURL n\<rparr>)
                 (fl_Notification value),
             fm_Android = map_option android_config (fl_Android value),
             fm_APNS = apns_config (fl_IOS value) imageURL\<rparr>)"

section \<open>The client\<close>

text \<open>An error of the adapter's own, about which every question is answered with no.\<close>

definition own_error :: fcm_error where
  "own_error = \<lparr>fx_HTTPStatus = None, fx_kinds = []\<rparr>"

definition newFirebaseMessagingClient ::
  "fcm_service \<Rightarrow> string \<Rightarrow> string \<Rightarrow> (fcm_error, fcm_client) result" where
  "newFirebaseMessagingClient svc projectID credential =
     (let create = (\<lambda>cred. case fe_NewApp svc projectID cred of
                             Some e \<Rightarrow> Inl e | None \<Rightarrow> Inr (projectID, cred)) in
      if TrimSpace credential = [] then create None
      else
        case Option.bind (unmarshal credential) (decode_string_field ''type'') of
          None \<Rightarrow> Inl own_error
        | Some t \<Rightarrow> if t \<noteq> ''service_account'' then Inl own_error else create (Some credential))"

text \<open>
  The client is created on the first use and kept; the second look at the field, under the
  write lock, finds the same value here, where calls follow one another.
\<close>

definition messagingClient ::
  "fcm_service \<Rightarrow> string \<Rightarrow> firebase_state \<Rightarrow> (fcm_error, fcm_client) result \<times> firebase_state" where
  "messagingClient svc credential st =
     (case fs_client st of
        Some c \<Rightarrow> (Inr c, st)
      | None \<Rightarrow>
        (case newFirebaseMessagingClient svc (fs_projectID st) credential of
           Inl e \<Rightarrow> (Inl e, st)
         | Inr c \<Rightarrow> (Inr c, st\<lparr>fs_client := Some c\<rparr>)))"

section \<open>Failures\<close>

definition fcm_verdict :: "ctx_cause option \<Rightarrow> fcm_error \<Rightarrow> string \<Rightarrow> string \<times> string \<times> bool" where
  "fcm_verdict cause err phase =
     (let is = (\<lambda>k. k \<in> set (fx_kinds err)) in
      if cause = Some CauseDeadline \<or> is CtxDeadlineExceeded \<or> is DeadlineExceeded
      then (''FCM_TIMEOUT'', ''Firebase Cloud Messaging request timed out'', True)
      else if cause = Some CauseCanceled \<or> is CtxCanceled \<or> is Cancelled
      then (''FCM_CONTEXT_CANCELED'', ''Firebase Cloud Messaging request was canceled'', False)
      else if is Unregistered
      then (''FCM_TARGET_UNREGISTERED'',
            ''the Firebase installation ID or registration token is no longer registered'', False)
      else if is ThirdPartyAuthError
      then (''FCM_APNS_AUTH_ERROR'', ''Firebase rejected the configured APNs credentials'', False)
      else if is SenderIDMismatch
      then (''FCM_SENDER_ID_MISMATCH'',
            ''the target does not belong to the configured Firebase sender'', False)
      else if is MessageInvalidArgument \<or> is InvalidArgumentError
      then (''FCM_INVALID_ARGUMENT'', ''Firebase rejected the message as invalid'', False)
      else if is QuotaExceeded \<or> is ResourceExhausted
      then (''FCM_QUOTA_EXCEEDED'',
            ''Firebase Cloud Messaging quota or rate limit was exceeded'', True)
      else if is MessageUnavailable \<or> is UnavailableError
      then (''FCM_UNAVAILABLE'', ''Firebase Cloud Messaging is temporarily unavailable'', True)
      else if is MessageInternal \<or> is InternalError
      then (''FCM_INTERNAL_ERROR'', ''Firebase Cloud Messaging returned an internal error'', True)
      else if is UnauthenticatedError
      then (''FCM_UNAUTHENTICATED'', ''Firebase rejected the configured credential'', False)
      else if is PermissionDenied
      then (''FCM_PERMISSION_DENIED'',
            ''the configured credential cannot send Firebase Cloud Messaging messages'', False)
      else if is NetError
      then (''FCM_TRANSPORT_ERROR'', ''Firebase Cloud Messaging could not be reached'', True)
      else if phase = ''client_init''
      then (''FCM_CLIENT_INIT_ERROR'',
            ''the Firebase messaging client could not be initialized'', False)
      else (''FCM_SEND_ERROR'',
            ''Firebase Cloud Messaging rejected or could not process the message'', False))"

definition classifyFirebasePushFailure ::
  "ctx_cause option \<Rightarrow> fcm_error \<Rightarrow> string \<Rightarrow> provider_result" where
  "classifyFirebasePushFailure cause err phase =
     (let (class, msg, unavailable) = fcm_verdict cause err phase;
          httpStatus = (case fx_HTTPStatus err of None \<Rightarrow> 0 | Some s \<Rightarrow> s) in
      result_zero\<lparr>pr_HTTPStatus := httpStatus, pr_ErrorClass := class, pr_Message := msg,
        pr_AvailabilityFailure := unavailable,
        pr_ProviderResponse :=
          (if httpStatus = 0 then None
           else Some (struct_text [(''error_class'', quote class), (''http_status'', Itoa httpStatus)]))\<rparr>)"

section \<open>The adapter\<close>

definition firebase_Validate :: "url_parser \<Rightarrow> string \<Rightarrow> string \<Rightarrow> validate_error option" where
  "firebase_Validate url_parser action payload =
     (if action \<noteq> firebasePushActionSend
      then Some (OtherValidateError (''firebase_push: unsupported action '' @ go_q action))
      else case normalizeFirebasePushPayload url_parser payload of
             Inl e \<Rightarrow> Some (ValidationError [e]) | Inr _ \<Rightarrow> None)"

definition fcm_answer :: "fcm_service \<Rightarrow> fcm_client \<Rightarrow> fcm_message \<Rightarrow> provider_result" where
  "fcm_answer svc client message =
     (case fe_Send svc client message of
        Inl e \<Rightarrow> classifyFirebasePushFailure (fe_cause svc) e ''send''
      | Inr messageID \<Rightarrow>
        if TrimSpace messageID = []
        then result_zero\<lparr>pr_AvailabilityFailure := True, pr_ErrorClass := ''FCM_PROTOCOL_ERROR'',
                         pr_Message := ''FCM returned success without a message ID''\<rparr>
        else result_zero\<lparr>pr_Success := True, pr_Message := ''FCM accepted the message'',
               pr_ProviderResponse := Some (struct_text
                 [(''accepted'', ''true''), (''message_id'', quote messageID)])\<rparr>)"

definition firebase_SendActionRequest ::
  "url_parser \<Rightarrow> fcm_service \<Rightarrow> ActionContext \<Rightarrow> string \<Rightarrow> string \<Rightarrow> firebase_state \<Rightarrow>
   (string, provider_result option) result \<times> firebase_state" where
  "firebase_SendActionRequest url_parser svc ac action payload st =
     (if action \<noteq> firebasePushActionSend
      then (Inl (''firebase_push: unsupported action '' @ go_q action), st)
      else
      case buildFirebaseMessage url_parser payload of
        Inl e \<Rightarrow> (Inl (''build Firebase message: '' @ e), st)
      | Inr message \<Rightarrow>
        if \<not> fs_initialized st then (Inl ''firebase_push: adapter config was not initialized'', st)
        else if fs_credentialsRequired st \<and> TrimSpace (ac_Credential ac) = []
        then (Inr (Some (result_zero\<lparr>pr_ErrorClass := ''FCM_CREDENTIAL_EMPTY'',
                pr_Message := ''the configured Firebase service-account credential resolved to an empty value''\<rparr>)), st)
        else if wrap64 (ac_TimeoutMs ac * millisecond) \<le> 0
        then (Inl ''firebase_push: timeout_ms must be greater than zero'', st)
        else
        (case messagingClient svc (ac_Credential ac) st of
           (Inl e, st') \<Rightarrow> (Inr (Some (classifyFirebasePushFailure (fe_cause svc) e ''client_init'')), st')
         | (Inr client, st') \<Rightarrow> (Inr (Some (fcm_answer svc client message)), st')))"

definition FirebasePush :: "url_parser \<Rightarrow> firebase_state \<Rightarrow> adapter" where
  "FirebasePush url_parser st =
     \<lparr>ad_Validate = firebase_Validate url_parser,
      ad_SendActionRequest = (\<lambda>net ac action payload.
        fst (firebase_SendActionRequest url_parser (nt_fcm net) ac action payload st))\<rparr>"

lemma classifyFirebase_not_success [simp]:
  "\<not> pr_Success (classifyFirebasePushFailure cause err phase)"
  by (simp add: classifyFirebasePushFailure_def result_zero_def Let_def split: prod.split)

lemma fcm_answer_success:
  assumes "pr_Success (fcm_answer svc c m)"
  obtains i where "fe_Send svc c m = Inr i" "TrimSpace i \<noteq> []"
    "\<not> pr_AvailabilityFailure (fcm_answer svc c m)"
    "pr_ProviderResponse (fcm_answer svc c m)
       = Some (struct_text [(''accepted'', ''true''), (''message_id'', quote i)])"
  using assms by (auto simp: fcm_answer_def result_zero_def split: sum.splits if_splits)

lemma firebase_send_cases:
  assumes "firebase_SendActionRequest up svc ac a p st = (Inr r, st')"
  obtains (answered) m c where "a = firebasePushActionSend" "buildFirebaseMessage up p = Inr m"
    "messagingClient svc (ac_Credential ac) st = (Inr c, st')" "r = Some (fcm_answer svc c m)"
    "fs_credentialsRequired st \<longrightarrow> TrimSpace (ac_Credential ac) \<noteq> []"
  | (refused) x where "a = firebasePushActionSend" "r = Some x" "\<not> pr_Success x"
proof -
  have "\<not> pr_Success (result_zero\<lparr>pr_ErrorClass := x, pr_Message := y\<rparr>)" for x y
    by (simp add: result_zero_def)
  with assms that show thesis unfolding firebase_SendActionRequest_def
    by (auto split: if_splits sum.splits prod.splits)
qed

interpretation firebase: action_adapter "FirebasePush up st" firebasePushActionSend for up st
proof
  fix net ac a p r
  show "ad_SendActionRequest (FirebasePush up st) net ac a p \<noteq> Inr None"
    unfolding FirebasePush_def adapter.simps
    by (metis firebase_send_cases option.distinct(1) prod.collapse)
  assume r: "ad_SendActionRequest (FirebasePush up st) net ac a p = Inr (Some r)" and s: "pr_Success r"
  then obtain st' where "firebase_SendActionRequest up (nt_fcm net) ac a p st = (Inr (Some r), st')"
    unfolding FirebasePush_def adapter.simps by (metis prod.collapse)
  then show "\<not> pr_AvailabilityFailure r \<and> pr_ProviderResponse r \<noteq> None"
  proof (cases rule: firebase_send_cases)
    case (answered m c)
    with s fcm_answer_success[of "nt_fcm net" c m] show ?thesis by auto
  qed (use s in auto)
qed (auto simp: FirebasePush_def firebase_Validate_def firebase_SendActionRequest_def)

section \<open>Properties\<close>

text \<open>The state after any number of calls, each against a service of its own.\<close>

definition firebase_run ::
  "url_parser \<Rightarrow> (fcm_service \<times> ActionContext \<times> string \<times> string) list \<Rightarrow> firebase_state \<Rightarrow> firebase_state" where
  "firebase_run up calls st =
     fold (\<lambda>(svc, ac, a, p) st. snd (firebase_SendActionRequest up svc ac a p st)) calls st"

definition firebase_inv :: "string \<Rightarrow> bool \<Rightarrow> firebase_state \<Rightarrow> bool" where
  "firebase_inv project required st \<longleftrightarrow>
     fs_projectID st = project \<and> fs_credentialsRequired st = required \<and> fs_initialized st
     \<and> (case fs_client st of None \<Rightarrow> True | Some c \<Rightarrow> fst c = project \<and> (required \<longrightarrow> snd c \<noteq> None))"

lemma newClient_what:
  assumes "newFirebaseMessagingClient svc project credential = Inr c"
  shows "fst c = project \<and> (TrimSpace credential \<noteq> [] \<longrightarrow> snd c = Some credential)"
  using assms by (auto simp: newFirebaseMessagingClient_def Let_def split: if_splits option.splits)

lemma messagingClient_keeps:
  assumes "messagingClient svc credential st = (x, st')" and "firebase_inv project required st"
    and "required \<longrightarrow> TrimSpace credential \<noteq> []"
  shows "firebase_inv project required st' \<and> (fs_client st \<noteq> None \<longrightarrow> st' = st)
    \<and> (\<forall>c. x = Inr c \<longrightarrow> fs_client st' = Some c)"
  using assms newClient_what[of svc "fs_projectID st" credential]
  by (auto simp: messagingClient_def firebase_inv_def split: option.splits sum.splits)

lemma firebase_send_keeps:
  assumes "firebase_inv project required st"
  shows "firebase_inv project required (snd (firebase_SendActionRequest up svc ac a p st))"
proof (cases "messagingClient svc (ac_Credential ac) st")
  case (Pair x st')
  from messagingClient_keeps[OF Pair assms] assms show ?thesis
    by (auto simp: firebase_SendActionRequest_def Pair firebase_inv_def split: sum.splits)
qed

lemma firebase_run_keeps: "firebase_inv project required st \<Longrightarrow> firebase_inv project required (firebase_run up calls st)"
  unfolding firebase_run_def
  by (induction calls arbitrary: st) (auto simp: firebase_send_keeps)

lemma data_problem_None: "data_problem d = None \<Longrightarrow> (k, v) \<in> set d \<Longrightarrow> \<not> reserved_key k"
  by (induction d rule: data_problem.induct) (auto split: if_splits)

lemma buildFirebase_target:
  assumes "buildFirebaseMessage up p = Inr m"
  shows "(fm_Fid m = []) \<noteq> (fm_Token m = []) \<and> (\<forall>(k, v) \<in> set (fm_Data m). \<not> reserved_key k)
    \<and> int (length p) \<le> firebasePushMaxPayload"
proof -
  from assms obtain v where v: "normalizeFirebasePushPayload up p = Inr v"
      and m: "fm_Fid m = fl_FID v" "fm_Token m = fl_Token v" "fm_Data m = fl_Data v"
    by (auto simp: buildFirebaseMessage_def Let_def split: sum.splits)
  from v have "(fl_FID v = []) \<noteq> (fl_Token v = [])" "data_problem (fl_Data v) = None"
      "int (length p) \<le> firebasePushMaxPayload"
    by (auto simp: normalizeFirebasePushPayload_def first_problem_def Let_def
        split: if_splits option.splits prod.splits)
  with m data_problem_None show ?thesis by auto
qed

text \<open>
  C37: A push is reported accepted only when Firebase answered with a message id. After any
  sequence of calls of a configured adapter, a success means that a client of the configured
  project, created with a credential whenever one is configured and then kept, sent the
  message built from the payload and got a non-blank message id; the message names exactly
  one target and no reserved data key, and its payload is within the limit.
\<close>

theorem fcm_success_on_the_wire:
  assumes "firebase_Config cfg st0 = Inr (pc, st)"
    and "firebase_SendActionRequest up svc ac a p (firebase_run up calls st) = (Inr (Some r), st')"
    and "pr_Success r"
  shows "\<exists>m c i. buildFirebaseMessage up p = Inr m \<and> fe_Send svc c m = Inr i \<and> TrimSpace i \<noteq> []
    \<and> fst c = TrimSpace (fc_ProjectID cfg) \<and> (pc_CredentialRef pc \<noteq> [] \<longrightarrow> snd c \<noteq> None)
    \<and> fs_client st' = Some c
    \<and> (fs_client (firebase_run up calls st) \<noteq> None \<longrightarrow> st' = firebase_run up calls st)
    \<and> (fm_Fid m = []) \<noteq> (fm_Token m = []) \<and> (\<forall>(k, v) \<in> set (fm_Data m). \<not> reserved_key k)
    \<and> int (length p) \<le> firebasePushMaxPayload"
proof -
  let ?st = "firebase_run up calls st" and ?req = "pc_CredentialRef pc \<noteq> []"
  from assms(1) have "firebase_inv (TrimSpace (fc_ProjectID cfg)) ?req st"
    by (auto simp: firebase_Config_def firebase_inv_def Let_def split: option.splits sum.splits)
  note inv = firebase_run_keeps[OF this, of up calls]
  from assms(2) show ?thesis
  proof (cases rule: firebase_send_cases)
    case (answered m c)
    from messagingClient_keeps[OF answered(3) inv] answered(5) inv
    have c: "fst c = TrimSpace (fc_ProjectID cfg)" "?req \<longrightarrow> snd c \<noteq> None" "fs_client st' = Some c"
      "fs_client ?st \<noteq> None \<longrightarrow> st' = ?st" by (auto simp: firebase_inv_def)
    from fcm_answer_success[of svc c m] answered(4) assms(3) obtain i
      where i: "fe_Send svc c m = Inr i" "TrimSpace i \<noteq> []" by auto
    show ?thesis
      by (rule exI[of _ m], rule exI[of _ c], rule exI[of _ i])
        (use c i answered(2) buildFirebase_target[OF answered(2)] in simp)
  qed (use assms(3) in auto)
qed

end
