(* ===== verification/Builtin.thy ===== *)
theory Builtin
  imports Webhook Loadtest Lark Smtp Firebase
begin

text \<open>
  The compiled-in adapters (provider/adapters/register.go), strict decoding of their
  configuration (provider.DecodeConfig) and the registry both processes build at start-up
  (bootstrap/registry.go). The YAML library is the parameter \<open>yaml_lib\<close>: how a raw node is
  encoded again and how the text decodes into the private struct of each adapter. The
  registry holds \<open>FirebasePush\<close> with the state its configuration leaves; the messaging
  client it caches on first use is the subject of theory \<open>Firebase\<close>.
\<close>

record 'y yaml_lib =
  yl_Marshal :: "'y \<Rightarrow> (string, string) result"
  yl_Lark :: "string \<Rightarrow> (string, larkBotConfig) result"
  yl_SMTP :: "string \<Rightarrow> (string, smtpEmailConfig) result"
  yl_Webhook :: "string \<Rightarrow> (string, webhookConfig) result"
  yl_Firebase :: "string \<Rightarrow> (string, firebasePushConfig) result"
  yl_Loadtest :: "string \<Rightarrow> (string, loadtestHTTPConfig) result"

definition DecodeConfig ::
  "('y \<Rightarrow> (string, string) result) \<Rightarrow> (string \<Rightarrow> (string, 'c) result) \<Rightarrow> 'y \<Rightarrow> (string, 'c) result" where
  "DecodeConfig marshal decoder raw =
     (case marshal raw of
        Inl e \<Rightarrow> Inl (''encode provider config: '' @ e)
      | Inr encoded \<Rightarrow>
        (case decoder encoded of Inl e \<Rightarrow> Inl (''decode provider config: '' @ e) | Inr c \<Rightarrow> Inr c))"

text \<open>An adapter's \<open>Config\<close>: decode, validate and normalise.\<close>

definition config_of ::
  "('y \<Rightarrow> (string, 'c) result) \<Rightarrow> ('c \<Rightarrow> (string, provider_Config \<times> adapter) result) \<Rightarrow>
   'y \<Rightarrow> (string, provider_Config \<times> adapter) result" where
  "config_of decoder conf raw = (case decoder raw of Inl e \<Rightarrow> Inl e | Inr c \<Rightarrow> conf c)"

definition larkBotProviderCode :: string where "larkBotProviderCode = ''lark-bot''"
definition smtpEmailProviderCode :: string where "smtpEmailProviderCode = ''smtp-email''"
definition webhookProviderCode :: string where "webhookProviderCode = ''webhook''"
definition firebasePushProviderCode :: string where "firebasePushProviderCode = ''firebase-push''"
definition loadtestHTTPProviderCode :: string where "loadtestHTTPProviderCode = ''loadtest-http''"

definition Register_adapters ::
  "url_parser \<Rightarrow> (string \<Rightarrow> bool) \<Rightarrow> mail_lib \<Rightarrow> 'y yaml_lib \<Rightarrow>
   string \<rightharpoonup> ('y \<Rightarrow> (string, provider_Config \<times> adapter) result)" where
  "Register_adapters url_parser ip_loopback ml yl = fold (\<lambda>(c, a). RegisterAdapter c a)
     [(larkBotProviderCode, config_of (DecodeConfig (yl_Marshal yl) (yl_Lark yl))
        (\<lambda>c. map_sum id (\<lambda>pc. (pc, LarkBot)) (lark_Config url_parser c))),
      (smtpEmailProviderCode, config_of (DecodeConfig (yl_Marshal yl) (yl_SMTP yl))
        (\<lambda>c. map_sum id (\<lambda>(pc, rc). (pc, SMTPEmail ml rc)) (smtp_Config ml ip_loopback c))),
      (webhookProviderCode, config_of (DecodeConfig (yl_Marshal yl) (yl_Webhook yl))
        (\<lambda>c. map_sum id (\<lambda>(pc, auth). (pc, Webhook auth)) (webhook_Config url_parser ip_loopback c))),
      (firebasePushProviderCode, config_of (DecodeConfig (yl_Marshal yl) (yl_Firebase yl))
        (\<lambda>c. map_sum id (\<lambda>(pc, st). (pc, FirebasePush url_parser st))
               (firebase_Config c NewFirebasePush))),
      (loadtestHTTPProviderCode, config_of (DecodeConfig (yl_Marshal yl) (yl_Loadtest yl))
        (\<lambda>c. map_sum id (\<lambda>pc. (pc, LoadtestHTTP)) (loadtest_Config url_parser c)))] Map.empty"

text \<open>\<open>loaded\<close> is what \<open>config.LoadProviders\<close> returns, \<open>env\<close> the process environment.\<close>

definition BuildRegistry ::
  "url_parser \<Rightarrow> (string \<Rightarrow> bool) \<Rightarrow> mail_lib \<Rightarrow> 'y yaml_lib \<Rightarrow> (string \<rightharpoonup> string) \<Rightarrow>
   (string, (string \<times> 'y) list) result \<Rightarrow> int option \<Rightarrow> string list \<Rightarrow> (string, Registry) result" where
  "BuildRegistry url_parser ip_loopback ml yl env loaded httpClient allowedRespHeaders =
     (case loaded of
        Inl e \<Rightarrow> Inl (''load providers config: '' @ e)
      | Inr providers \<Rightarrow>
        (case Build (Register_adapters url_parser ip_loopback ml yl) (Resolve env) httpClient
                allowedRespHeaders providers [] of
           Inl e \<Rightarrow> Inl (''build provider registry: '' @ e)
         | Inr reg \<Rightarrow> Inr reg))"

section \<open>Every configured action is served by an adapter that keeps the contract\<close>

text \<open>What an adapter's configuration guarantees of the one action it enables.\<close>

definition good_config :: "provider_Config \<times> adapter \<Rightarrow> bool" where
  "good_config ca \<longleftrightarrow> (\<exists>action cf. pc_Actions (fst ca) = [(action, cf)] \<and> CHR ''/'' \<notin> set action
     \<and> action_adapter (snd ca) action \<and> 0 < cf_TimeoutMs cf \<and> 0 < cf_MaxConcurrency cf)"

lemma map_sum_Inr: "map_sum id f x = Inr y \<longleftrightarrow> (\<exists>z. x = Inr z \<and> y = f z)"
  by (cases x) auto

lemmas config_splits = option.splits sum.splits if_splits

lemma lark_Config_good: "lark_Config up c = Inr pc \<Longrightarrow> good_config (pc, LarkBot)"
  using lark.action_adapter_axioms
  by (auto simp: good_config_def lark_Config_def validateDeliveryLimits_def actionSend_def
      split: config_splits)

lemma smtp_Config_good: "smtp_Config ml ip c = Inr (pc, rc) \<Longrightarrow> good_config (pc, SMTPEmail ml rc)"
  using smtp.action_adapter_axioms
  by (auto simp: good_config_def smtp_Config_def validateDeliveryLimits_def smtpActionSend_def Let_def
      split: config_splits)

lemma webhook_Config_good: "webhook_Config up ip c = Inr (pc, auth) \<Longrightarrow> good_config (pc, Webhook auth)"
  using webhook.action_adapter_axioms
  by (auto simp: good_config_def webhook_Config_def validateDeliveryLimits_def webhookActionDeliver_def
      Let_def split: config_splits)

lemma firebase_Config_good:
  "firebase_Config c st0 = Inr (pc, st) \<Longrightarrow> good_config (pc, FirebasePush up st)"
  using firebase.action_adapter_axioms
  by (auto simp: good_config_def firebase_Config_def validateDeliveryLimits_def
      firebasePushActionSend_def Let_def split: config_splits)

lemma loadtest_Config_good: "loadtest_Config up c = Inr pc \<Longrightarrow> good_config (pc, LoadtestHTTP)"
  using loadtest.action_adapter_axioms
  by (auto simp: good_config_def loadtest_Config_def loadtestActionRequest_def split: config_splits)

lemma config_of_good:
  assumes "\<And>c y. conf c = Inr y \<Longrightarrow> good_config y"
  shows "config_of d conf raw = Inr x \<Longrightarrow> good_config x"
  using assms by (auto simp: config_of_def split: sum.splits)

lemmas builtin_good = lark_Config_good smtp_Config_good webhook_Config_good firebase_Config_good
  loadtest_Config_good

lemmas builtin_codes = larkBotProviderCode_def smtpEmailProviderCode_def webhookProviderCode_def
  firebasePushProviderCode_def loadtestHTTPProviderCode_def

lemma Register_adapters_good:
  assumes "Register_adapters up ip ml yl c = Some conf" and "conf raw = Inr x"
  shows "good_config x \<and> CHR ''/'' \<notin> set c"
proof -
  have "CHR ''/'' \<notin> set c" using assms(1)
    by (auto simp: Register_adapters_def RegisterAdapter_def builtin_codes split: if_splits)
  moreover have "good_config x" using assms
    unfolding Register_adapters_def RegisterAdapter_def fold_simps prod.case fun_upd_apply
    by (auto split: if_splits elim!: config_of_good[rotated] simp: map_sum_Inr builtin_good)
  ultimately show ?thesis by blast
qed

fun good_entry :: "string \<times> ResolvedAction \<Rightarrow> bool" where
  "good_entry (k, ra) \<longleftrightarrow> (\<exists>c a. k = key c a \<and> CHR ''/'' \<notin> set c \<and> CHR ''/'' \<notin> set a
     \<and> action_adapter (ra_Adapter ra) a \<and> 0 < ra_TimeoutMs ra \<and> 0 < ra_MaxConcurrency ra
     \<and> ac_ProviderCode (ra_Context ra) = c \<and> ac_ProviderAction (ra_Context ra) = a)"

lemma set_update_subset: "set (AList.update k v al) \<subseteq> insert (k, v) (set al)"
  by (induction al) auto

lemma Build_good:
  assumes "\<And>c conf raw x. configure c = Some conf \<Longrightarrow> conf raw = Inr x \<Longrightarrow> good_config x \<and> CHR ''/'' \<notin> set c"
  shows "Build configure resolve client headers providers reg = Inr reg' \<Longrightarrow>
    \<forall>e \<in> set reg. good_entry e \<Longrightarrow> \<forall>e \<in> set reg'. good_entry e"
proof (induction providers arbitrary: reg)
  case (Cons x providers)
  obtain c raw where x: "x = (c, raw)" by fastforce
  from Cons.prems(1) x obtain conf pc a cred where p: "configure c = Some conf" "conf raw = Inr (pc, a)"
      and rest: "Build configure resolve client headers providers
        (fold (\<lambda>(action, cf). AList.update (key c action)
           (resolve_action client headers a c cred action cf)) (pc_Actions pc) reg) = Inr reg'"
    by (auto split: option.splits sum.splits if_splits)
  from assms[OF p] obtain action cf where g: "pc_Actions pc = [(action, cf)]" "CHR ''/'' \<notin> set action"
      "CHR ''/'' \<notin> set c" "action_adapter a action" "0 < cf_TimeoutMs cf" "0 < cf_MaxConcurrency cf"
    by (auto simp: good_config_def)
  let ?ra = "resolve_action client headers a c cred action cf"
  from g have "good_entry (key c action, ?ra)" by (auto simp: resolve_action_def)
  with Cons.prems(2) set_update_subset[of "key c action" ?ra reg]
  have "\<forall>e \<in> set (AList.update (key c action) ?ra reg). good_entry e" by blast
  with Cons.IH[of "AList.update (key c action) ?ra reg"] rest g(1) show ?case by simp
qed simp

lemma key_unique:
  assumes "key c a = key c' a'" and "CHR ''/'' \<notin> set c'" and "CHR ''/'' \<notin> set a'"
  shows "c = c' \<and> a = a'"
proof -
  from arg_cong[OF assms(1), of "\<lambda>s. count_list s (CHR ''/'')"] assms(2,3)
  have "CHR ''/'' \<notin> set c" by (simp add: key_def count_list_0_iff)
  with assms show ?thesis using key_inj by blast
qed

lemma BuildRegistry_entry:
  assumes "BuildRegistry up ip ml yl env loaded client headers = Inr reg"
    and "Lookup reg c action = Some ra"
  shows "action_adapter (ra_Adapter ra) action \<and> 0 < ra_TimeoutMs ra \<and> 0 < ra_MaxConcurrency ra
    \<and> ac_ProviderCode (ra_Context ra) = c \<and> ac_ProviderAction (ra_Context ra) = action"
proof -
  from assms(1) obtain providers where b: "Build (Register_adapters up ip ml yl) (Resolve env) client
      headers providers [] = Inr reg"
    by (auto simp: BuildRegistry_def split: sum.splits)
  have "\<forall>e \<in> set reg. good_entry e"
    by (rule Build_good[OF _ b]) (blast dest: Register_adapters_good, simp)
  with assms(2) have "good_entry (key c action, ra)" unfolding Lookup_def by (blast dest: map_of_SomeD)
  then obtain c' a' where "key c action = key c' a'" "CHR ''/'' \<notin> set c'" "CHR ''/'' \<notin> set a'"
      and "action_adapter (ra_Adapter ra) a'" "0 < ra_TimeoutMs ra" "0 < ra_MaxConcurrency ra"
        "ac_ProviderCode (ra_Context ra) = c'" "ac_ProviderAction (ra_Context ra) = a'"
    by auto
  with key_unique[of c action c' a'] show ?thesis by simp
qed

text \<open>
  C32: Every action the built registry answers for is served by an adapter that keeps its
  contract, whatever the configuration: it refuses every other action, never answers with a
  nil result, and what the worker takes for a success is an answer to this action that is
  recorded and never counts against the breaker. Its timeout and concurrency are positive,
  and the context carries the looked-up provider and action.
\<close>

theorem configured_adapters_keep_the_contract:
  assumes "BuildRegistry up ip ml yl env loaded client headers = Inr reg"
    and "Lookup reg c action = Some ra"
  shows "ac_ProviderCode (ra_Context ra) = c \<and> ac_ProviderAction (ra_Context ra) = action
    \<and> 0 < ra_TimeoutMs ra \<and> 0 < ra_MaxConcurrency ra
    \<and> ad_SendActionRequest (ra_Adapter ra) net ac a p \<noteq> Inr None
    \<and> (a \<noteq> action \<longrightarrow> (\<exists>e. ad_Validate (ra_Adapter ra) a p = Some (OtherValidateError e))
                     \<and> (\<exists>e. ad_SendActionRequest (ra_Adapter ra) net ac a p = Inl e))
    \<and> (pr_Success (fst (judge (ad_SendActionRequest (ra_Adapter ra) net ac a p))) \<longrightarrow>
         a = action \<and> snd (judge (ad_SendActionRequest (ra_Adapter ra) net ac a p)) = BreakerReachable
         \<and> pr_ProviderResponse (fst (judge (ad_SendActionRequest (ra_Adapter ra) net ac a p))) \<noteq> None)"
proof -
  note ra = BuildRegistry_entry[OF assms]
  with action_adapter.never_nil[of "ra_Adapter ra" action net ac a p]
    action_adapter.other_action_invalid[of "ra_Adapter ra" action a p]
    action_adapter.other_action_not_sent[of "ra_Adapter ra" action a net ac p]
    action_adapter.judged_success[of "ra_Adapter ra" action net ac a p]
  show ?thesis by simp
qed

end
