(* ===== verification/Connections.thy ===== *)
theory Connections
  imports RabbitMQ NSQ Memory_Broker
begin

text \<open>
  How the broker backends are chosen, connected and kept alive: the switches of mq.go, the
  connection set-up and the consumer loop of rabbitmq.go, and the start of the NSQ consumer.
  The calls of the AMQP and NSQ libraries are recorded in order; what they answer is an
  arbitrary function of the calls before.
\<close>

section \<open>RabbitMQ connections\<close>

text \<open>Channel 0 is the consumer's or publisher's, channel 1 the one for retries.\<close>

datatype amqp_call =
    AmqpDial string
  | OpenChannel nat
  | ConfirmMode nat
  | Topology topology_call
  | Qos int
  | CloseChannel nat
  | CloseConnection

type_synonym amqp_broker = "amqp_call list \<Rightarrow> amqp_call \<Rightarrow> string option"
type_synonym amqp_run = "amqp_call list \<times> string option"

text \<open>One call: on failure the clean-up calls and the error, otherwise the continuation.\<close>

definition amqp_step ::
  "amqp_broker \<Rightarrow> string \<Rightarrow> amqp_call list \<Rightarrow> amqp_call \<Rightarrow> (amqp_call list \<Rightarrow> amqp_run) \<Rightarrow>
   amqp_call list \<Rightarrow> amqp_run" where
  "amqp_step broker what cleanup c k h =
     (case broker h c of Some e \<Rightarrow> (h @ [c] @ cleanup, Some (what @ e)) | None \<Rightarrow> k (h @ [c]))"

definition topology_step ::
  "amqp_broker \<Rightarrow> RabbitMQConfig \<Rightarrow> amqp_call list \<Rightarrow> (amqp_call list \<Rightarrow> amqp_run) \<Rightarrow>
   amqp_call list \<Rightarrow> amqp_run" where
  "topology_step broker cfg cleanup k h =
     (case declareTopology (\<lambda>t. broker h (Topology t)) cfg of
        (Some e, made) \<Rightarrow> (h @ map Topology made @ cleanup, Some e)
      | (None, made) \<Rightarrow> k (h @ map Topology made))"

definition newRabbitMQPublisher :: "amqp_broker \<Rightarrow> RabbitMQConfig \<Rightarrow> amqp_run" where
  "newRabbitMQPublisher broker cfg =
     amqp_step broker ''rabbitmq dial: '' [] (AmqpDial (rc_URL cfg))
      (amqp_step broker ''rabbitmq channel: '' [CloseConnection] (OpenChannel 0)
       (amqp_step broker ''rabbitmq confirm mode: '' [CloseConnection] (ConfirmMode 0)
        (topology_step broker cfg [CloseConnection] (\<lambda>h. (h, None))))) []"

definition newRabbitMQConsumer :: "RabbitMQConfig \<Rightarrow> (string, RabbitMQConfig) result" where
  "newRabbitMQConsumer cfg =
     (case validateRequeueConfig ''rabbitmq'' (rc_RequeueConfig cfg) of
        Inl e \<Rightarrow> Inl e | Inr _ \<Rightarrow> Inr cfg)"

definition connect :: "amqp_broker \<Rightarrow> RabbitMQConfig \<Rightarrow> int \<Rightarrow> amqp_run" where
  "connect broker cfg concurrency =
     amqp_step broker ''rabbitmq dial: '' [] (AmqpDial (rc_URL cfg))
      (amqp_step broker ''rabbitmq channel: '' [CloseConnection] (OpenChannel 0)
       (topology_step broker cfg [CloseChannel 0, CloseConnection]
        (amqp_step broker ''rabbitmq retry channel: '' [CloseChannel 0, CloseConnection] (OpenChannel 1)
         (amqp_step broker ''rabbitmq retry confirm mode: ''
            [CloseChannel 1, CloseChannel 0, CloseConnection] (ConfirmMode 1)
          (amqp_step broker ''rabbitmq qos: ''
             [CloseChannel 1, CloseChannel 0, CloseConnection] (Qos (prefetch cfg concurrency))
           (\<lambda>h. (h, None))))))) []"

text \<open>
  What \<open>Start\<close> decides: the size of the semaphore and the delay between reconnects; an error
  of the first connection is returned, later ones are retried by the loop.
\<close>

definition rabbit_concurrency :: "int \<Rightarrow> int" where
  "rabbit_concurrency concurrency = (if concurrency < 1 then 1 else concurrency)"

definition rabbit_Start ::
  "amqp_broker \<Rightarrow> RabbitMQConfig \<Rightarrow> int \<Rightarrow> (string, int \<times> duration) result" where
  "rabbit_Start broker cfg concurrency =
     (case connect broker cfg (rabbit_concurrency concurrency) of
        (_, Some e) \<Rightarrow> Inl e
      | (_, None) \<Rightarrow> Inr (rabbit_concurrency concurrency, reconnectDelay cfg))"

text \<open>
  Closing the parts that exist; of the consumer only the error of the connection is reported,
  and a closed retry channel is forgotten so that a second \<open>Close\<close> does not close it again.
\<close>

definition close_calls :: "amqp_broker \<Rightarrow> nat list \<Rightarrow> bool \<Rightarrow> amqp_call list \<Rightarrow> amqp_run" where
  "close_calls broker channels conn h =
     (let h' = h @ map CloseChannel channels in
      if conn then (h' @ [CloseConnection], broker h' CloseConnection) else (h', None))"

definition rabbit_publisher_Close :: "amqp_broker \<Rightarrow> bool \<Rightarrow> bool \<Rightarrow> amqp_run" where
  "rabbit_publisher_Close broker ch conn = close_calls broker (if ch then [0] else []) conn []"

definition rabbit_consumer_Close :: "amqp_broker \<Rightarrow> bool \<Rightarrow> bool \<Rightarrow> bool \<Rightarrow> amqp_run \<times> bool" where
  "rabbit_consumer_Close broker retryCh ch conn =
     (close_calls broker ((if retryCh then [1] else []) @ (if ch then [0] else [])) conn [], False)"

text \<open>
  What a history of calls leaves open: the connection, and the channels in the order they
  would be closed. Opening counts when the broker did not refuse it; \<open>h\<close> are the calls before.
\<close>

fun open_after ::
  "amqp_broker \<Rightarrow> amqp_call list \<Rightarrow> amqp_call list \<Rightarrow> bool \<times> nat list \<Rightarrow> bool \<times> nat list" where
  "open_after broker h [] s = s"
| "open_after broker h (c # cs) (conn, channels) =
     open_after broker (h @ [c]) cs
       (case c of
          AmqpDial u \<Rightarrow> (broker h c = None, channels)
        | OpenChannel n \<Rightarrow> (conn, if broker h c = None then n # channels else channels)
        | CloseChannel n \<Rightarrow> (conn, remove1 n channels)
        | CloseConnection \<Rightarrow> (False, channels)
        | _ \<Rightarrow> (conn, channels))"

definition left_open :: "amqp_broker \<Rightarrow> amqp_call list \<Rightarrow> bool \<times> nat list" where
  "left_open broker h = open_after broker [] h (False, [])"

section \<open>The consumer loop\<close>

text \<open>
  \<open>runLoop\<close>, \<open>consumeUntilClosed\<close> and \<open>waitAndReconnect\<close> as one state machine with the places
  the goroutine can be at: the condition of the loop, the call of \<open>Consume\<close>, the select on the
  deliveries, the select on the semaphore with a delivery in hand, the go statement, the
  select on the timer, the call of \<open>connect\<close>, and the end. The context is done from some
  moment on (\<open>rs_done\<close>); that alone moves nothing: a select takes any of its ready cases, so a
  delivery or the timer may still win against a context that is done. \<open>rs_sem\<close> counts the
  values in the semaphore's buffer of \<open>rs_slots\<close>, \<open>rs_running\<close> are the deliveries whose
  handler goroutine has not ended, and \<open>rs_open\<close> counts the connections that were made and
  that nobody has closed.
\<close>

datatype loop_phase =
    AtHead
  | Subscribing
  | Selecting
  | Acquiring amqp_delivery
  | Spawning amqp_delivery
  | Waiting
  | Connecting
  | Returned

record rabbit_loop =
  rs_phase :: loop_phase
  rs_done :: bool
  rs_slots :: nat
  rs_sem :: nat
  rs_running :: "amqp_delivery list"
  rs_open :: nat

datatype loop_event =
    ContextDone
  | HeadCheck
  | ConsumeFails
  | ConsumeStarts
  | SeesDone
  | ConnectionCloses
  | DeliveriesClose
  | Takes amqp_delivery
  | Acquires
  | Spawns amqp_delivery
  | HandlerReturns nat
  | TimerFires
  | Connects amqp_broker

definition remove_at :: "nat \<Rightarrow> 'a list \<Rightarrow> 'a list" where
  "remove_at n xs = take n xs @ drop (Suc n) xs"

text \<open>The phases in which the goroutine stands at a select with a case for the context.\<close>

fun at_select :: "loop_phase \<Rightarrow> bool" where
  "at_select Selecting = True"
| "at_select (Acquiring d) = True"
| "at_select Waiting = True"
| "at_select _ = False"

inductive loop_step :: "RabbitMQConfig \<Rightarrow> rabbit_loop \<Rightarrow> loop_event \<Rightarrow> rabbit_loop \<Rightarrow> bool" for cfg where
  context_done: "loop_step cfg s ContextDone (s\<lparr>rs_done := True\<rparr>)"
| head_check: "rs_phase s = AtHead \<Longrightarrow>
    loop_step cfg s HeadCheck (s\<lparr>rs_phase := if rs_done s then Returned else Subscribing\<rparr>)"
| consume_fails: "rs_phase s = Subscribing \<Longrightarrow> loop_step cfg s ConsumeFails (s\<lparr>rs_phase := Waiting\<rparr>)"
| consume_starts: "rs_phase s = Subscribing \<Longrightarrow> loop_step cfg s ConsumeStarts (s\<lparr>rs_phase := Selecting\<rparr>)"
| sees_done: "at_select (rs_phase s) \<Longrightarrow> rs_done s \<Longrightarrow> loop_step cfg s SeesDone (s\<lparr>rs_phase := Returned\<rparr>)"
| connection_closes: "rs_phase s = Selecting \<Longrightarrow>
    loop_step cfg s ConnectionCloses (s\<lparr>rs_phase := Waiting, rs_open := rs_open s - 1\<rparr>)"
| deliveries_close: "rs_phase s = Selecting \<Longrightarrow>
    loop_step cfg s DeliveriesClose (s\<lparr>rs_phase := Waiting\<rparr>)"
| takes: "rs_phase s = Selecting \<Longrightarrow> loop_step cfg s (Takes d) (s\<lparr>rs_phase := Acquiring d\<rparr>)"
| acquires: "rs_phase s = Acquiring d \<Longrightarrow> rs_sem s < rs_slots s \<Longrightarrow>
    loop_step cfg s Acquires (s\<lparr>rs_phase := Spawning d, rs_sem := rs_sem s + 1\<rparr>)"
| spawns: "rs_phase s = Spawning d \<Longrightarrow>
    loop_step cfg s (Spawns d) (s\<lparr>rs_phase := Selecting, rs_running := rs_running s @ [d]\<rparr>)"
| handler_returns: "n < length (rs_running s) \<Longrightarrow> 0 < rs_sem s \<Longrightarrow>
    loop_step cfg s (HandlerReturns n)
      (s\<lparr>rs_running := remove_at n (rs_running s), rs_sem := rs_sem s - 1\<rparr>)"
| timer_fires: "rs_phase s = Waiting \<Longrightarrow> loop_step cfg s TimerFires (s\<lparr>rs_phase := Connecting\<rparr>)"
| connects: "rs_phase s = Connecting \<Longrightarrow> connect b cfg (int (rs_slots s)) = (h, r) \<Longrightarrow>
    loop_step cfg s (Connects b)
      (s\<lparr>rs_phase := if r = None then AtHead else Waiting,
         rs_open := rs_open s + (if fst (left_open b h) then 1 else 0)\<rparr>)"

inductive loop_run :: "RabbitMQConfig \<Rightarrow> rabbit_loop \<Rightarrow> loop_event list \<Rightarrow> rabbit_loop \<Rightarrow> bool" for cfg where
  none: "loop_run cfg s [] s"
| more: "loop_step cfg s e s' \<Longrightarrow> loop_run cfg s' es s'' \<Longrightarrow> loop_run cfg s (e # es) s''"

inductive_cases loop_stepE: "loop_step cfg s e s'"
inductive_cases loop_runE: "loop_run cfg s (e # es) s'"
inductive_simps loop_run_Nil [simp]: "loop_run cfg s [] s'"

text \<open>The loop as \<open>Start\<close> leaves it: one connection, every slot free.\<close>

definition loop_start :: "int \<Rightarrow> rabbit_loop" where
  "loop_start concurrency =
     \<lparr>rs_phase = AtHead, rs_done = False, rs_slots = nat (rabbit_concurrency concurrency), rs_sem = 0,
      rs_running = [], rs_open = 1\<rparr>"

section \<open>NSQ\<close>

datatype nsq_call =
    AddHandler
  | AddConcurrentHandlers int
  | ConnectToLookupds "string list"
  | StopProducer
  | StopConsumer
  | AwaitStopped

definition newNSQPublisher :: "string option \<Rightarrow> NSQConfig \<Rightarrow> (string, string) result" where
  "newNSQPublisher err cfg =
     (case err of Some e \<Rightarrow> Inl (''nsq producer: '' @ e) | None \<Rightarrow> Inr (nq_Topic cfg))"

definition nsq_Start :: "string option \<Rightarrow> NSQConfig \<Rightarrow> int \<Rightarrow> nsq_call list \<times> string option" where
  "nsq_Start err cfg concurrency =
     ([if 1 < concurrency then AddConcurrentHandlers concurrency else AddHandler,
       ConnectToLookupds (nq_LookupdAddrs cfg)],
      case err of Some e \<Rightarrow> Some (''nsq connect to lookupd: '' @ e) | None \<Rightarrow> None)"

text \<open>Closing the producer, and closing the consumer once its handlers are done.\<close>

definition nsq_publisher_Close :: "nsq_call list" where
  "nsq_publisher_Close = [StopProducer]"

definition nsq_consumer_Close :: "nsq_call list" where
  "nsq_consumer_Close = [StopConsumer, AwaitStopped]"

section \<open>The driver switches (mq.go)\<close>

record MQConfig =
  mq_Driver :: string
  mq_Memory :: MemoryConfig
  mq_NSQ :: NSQConfig
  mq_RabbitMQ :: RabbitMQConfig

text \<open>What the connecting libraries answer: the AMQP broker and the constructors of go-nsq.\<close>

record mq_env =
  me_amqp :: amqp_broker
  me_nsq :: "string option"

datatype mq_backend = NSQBackend NSQConfig | RabbitBackend RabbitMQConfig

definition driver_error :: "string \<Rightarrow> string" where
  "driver_error driver =
     (if driver = ''memory'' then ''mq: memory driver requires one shared MemoryBroker in cmd/server''
      else ''mq: unknown driver '' @ go_q driver @ '' (want '' @ go_q ''memory'' @ '', ''
           @ go_q ''nsq'' @ '' or '' @ go_q ''rabbitmq'' @ '')'')"

definition NewPublisher :: "mq_env \<Rightarrow> MQConfig \<Rightarrow> (string, mq_backend) result" where
  "NewPublisher env cfg =
     (if mq_Driver cfg = ''nsq'' then
        (case newNSQPublisher (me_nsq env) (mq_NSQ cfg) of
           Inl e \<Rightarrow> Inl e | Inr _ \<Rightarrow> Inr (NSQBackend (mq_NSQ cfg)))
      else if mq_Driver cfg = ''rabbitmq'' then
        (case newRabbitMQPublisher (me_amqp env) (mq_RabbitMQ cfg) of
           (_, Some e) \<Rightarrow> Inl e | (_, None) \<Rightarrow> Inr (RabbitBackend (mq_RabbitMQ cfg)))
      else Inl (driver_error (mq_Driver cfg)))"

definition NewConsumer :: "mq_env \<Rightarrow> MQConfig \<Rightarrow> (string, mq_backend) result" where
  "NewConsumer env cfg =
     (if mq_Driver cfg = ''nsq'' then
        (case newNSQConsumer (me_nsq env) (mq_NSQ cfg) of
           Inl e \<Rightarrow> Inl e | Inr _ \<Rightarrow> Inr (NSQBackend (mq_NSQ cfg)))
      else if mq_Driver cfg = ''rabbitmq'' then
        (case newRabbitMQConsumer (mq_RabbitMQ cfg) of
           Inl e \<Rightarrow> Inl e | Inr c \<Rightarrow> Inr (RabbitBackend c))
      else Inl (driver_error (mq_Driver cfg)))"

section \<open>Setting up a connection\<close>

lemma open_after_append:
  "open_after b h (xs @ ys) s = open_after b (h @ xs) ys (open_after b h xs s)"
  by (induction b h xs s rule: open_after.induct) simp_all

lemma open_after_topology [simp]: "open_after b h (map Topology ts) s = s"
  by (cases s, induction ts arbitrary: h) simp_all

lemma left_open_snoc:
  "left_open b (h @ cs) = open_after b h cs (left_open b h)"
  by (simp add: left_open_def open_after_append)

text \<open>
  One step of a set-up keeps the books: where the call fails, the clean-up has to lead to
  \<open>bad\<close>; where it succeeds, the rest of the set-up has to keep them from the new state on.
\<close>

definition keeps_books ::
  "amqp_broker \<Rightarrow> bool \<times> nat list \<Rightarrow> bool \<times> nat list \<Rightarrow> amqp_run \<Rightarrow> bool" where
  "keeps_books b good bad run \<longleftrightarrow>
     left_open b (fst run) = (if snd run = None then good else bad)"

lemma books_step:
  assumes "left_open b h = s"
    and "b h c \<noteq> None \<Longrightarrow> open_after b h (c # cleanup) s = bad"
    and "b h c = None \<Longrightarrow> open_after b h [c] s = s'"
    and "\<And>h'. left_open b h' = s' \<Longrightarrow> keeps_books b good bad (k h')"
  shows "keeps_books b good bad (amqp_step b what cleanup c k h)"
  using assms by (auto simp: amqp_step_def keeps_books_def left_open_snoc split: option.split)

lemma books_topology:
  assumes "left_open b h = s" and "\<And>h'. open_after b h' cleanup s = bad"
    and "\<And>h'. left_open b h' = s \<Longrightarrow> keeps_books b good bad (k h')"
  shows "keeps_books b good bad (topology_step b cfg cleanup k h)"
proof (cases "declareTopology (\<lambda>t. b h (Topology t)) cfg")
  case (Pair r made)
  have "left_open b (h @ map Topology made) = s" by (simp add: left_open_snoc assms(1))
  with assms(3) have "keeps_books b good bad (k (h @ map Topology made))" by blast
  with Pair assms(1,2) show ?thesis
    by (cases r) (simp_all add: topology_step_def keeps_books_def left_open_snoc open_after_append)
qed

text \<open>
  A consumer's connection is set up whole, with both channels, or what was opened is closed
  again, the channels too; a publisher relies on the connection to close its channel.
\<close>

lemma connect_books: "keeps_books b (True, [1, 0]) (False, []) (connect b cfg n)"
  unfolding connect_def
  by (rule books_step[where s' = "(True, [])"], simp add: left_open_def, simp, simp,
      rule books_step[where s' = "(True, [0])"], assumption, simp, simp,
      rule books_topology, assumption, simp,
      rule books_step[where s' = "(True, [1, 0])"], assumption, simp, simp,
      rule books_step[where s' = "(True, [1, 0])"], assumption, simp, simp,
      rule books_step[where s' = "(True, [1, 0])"], assumption, simp, simp,
      simp add: keeps_books_def)

lemma publisher_books:
  "snd (newRabbitMQPublisher b cfg) \<noteq> None \<Longrightarrow> \<not> fst (left_open b (fst (newRabbitMQPublisher b cfg)))"
  unfolding newRabbitMQPublisher_def
  by (auto simp: amqp_step_def topology_step_def left_open_def open_after_append split: option.splits prod.splits)

section \<open>The loop in order\<close>

lemma length_remove_at: "n < length xs \<Longrightarrow> length (remove_at n xs) = length xs - 1"
  by (simp add: remove_at_def)

lemma loop_run_append:
  "loop_run cfg s (es @ es') s'' \<longleftrightarrow> (\<exists>s'. loop_run cfg s es s' \<and> loop_run cfg s' es' s'')"
proof (induction es arbitrary: s)
  case (Cons e es)
  have "loop_run cfg s (e # zs) s3 \<longleftrightarrow> (\<exists>s2. loop_step cfg s e s2 \<and> loop_run cfg s2 zs s3)" for zs s3
    by (auto elim: loop_runE intro: loop_run.more)
  with Cons.IH show ?case by auto
qed simp

text \<open>
  The semaphore: its values are the handlers that have not ended, and one more between taking
  a slot and the go statement, so that a handler that ends never waits to give its slot back.
\<close>

definition slots_inv :: "rabbit_loop \<Rightarrow> bool" where
  "slots_inv s \<longleftrightarrow> rs_sem s \<le> rs_slots s
     \<and> rs_sem s = length (rs_running s) + (case rs_phase s of Spawning d \<Rightarrow> 1 | _ \<Rightarrow> 0)"

lemma loop_step_slots:
  "loop_step cfg s e s' \<Longrightarrow> slots_inv s \<Longrightarrow> slots_inv s' \<and> rs_slots s' = rs_slots s"
  by (induction rule: loop_step.induct)
    (auto simp: slots_inv_def length_remove_at elim!: at_select.elims split: loop_phase.splits)

lemma loop_run_slots:
  "loop_run cfg s es s' \<Longrightarrow> slots_inv s \<Longrightarrow> slots_inv s' \<and> rs_slots s' = rs_slots s"
  by (induction rule: loop_run.induct) (use loop_step_slots in fastforce)+

text \<open>The deliveries taken from the broker and those handed to a handler, in order.\<close>

definition taken :: "loop_event list \<Rightarrow> amqp_delivery list" where
  "taken es = List.map_filter (\<lambda>e. case e of Takes d \<Rightarrow> Some d | _ \<Rightarrow> None) es"

definition spawned :: "loop_event list \<Rightarrow> amqp_delivery list" where
  "spawned es = List.map_filter (\<lambda>e. case e of Spawns d \<Rightarrow> Some d | _ \<Rightarrow> None) es"

fun in_hand :: "loop_phase \<Rightarrow> amqp_delivery list" where
  "in_hand (Acquiring d) = [d]"
| "in_hand (Spawning d) = [d]"
| "in_hand _ = []"

lemma loop_step_order:
  assumes "loop_step cfg s e s'"
  shows "in_hand (rs_phase s) @ taken [e] = spawned [e] @ in_hand (rs_phase s')
    \<or> rs_phase s' = Returned \<and> taken [e] = [] \<and> spawned [e] = []"
  using assms by (induction rule: loop_step.induct)
    (auto simp: taken_def spawned_def map_filter_simps elim!: at_select.elims)

lemma loop_step_returned:
  assumes "loop_step cfg s e s'" and "rs_phase s = Returned"
  shows "rs_phase s' = Returned \<and> taken [e] = [] \<and> spawned [e] = []"
  using assms by (induction rule: loop_step.induct) (auto simp: taken_def spawned_def map_filter_simps)

lemma taken_Cons: "taken (e # es) = taken [e] @ taken es" "spawned (e # es) = spawned [e] @ spawned es"
  by (simp_all add: taken_def spawned_def List.map_filter_def)

lemma loop_run_returned:
  "loop_run cfg s es s' \<Longrightarrow> rs_phase s = Returned \<Longrightarrow>
   rs_phase s' = Returned \<and> taken es = [] \<and> spawned es = []"
proof (induction rule: loop_run.induct)
  case (more s e s' es s'')
  with loop_step_returned show ?case by (simp add: taken_Cons(1)[of e es] taken_Cons(2)[of e es])
qed (simp add: taken_def spawned_def map_filter_simps)

lemma loop_run_order:
  "loop_run cfg s es s' \<Longrightarrow> \<exists>left. in_hand (rs_phase s) @ taken es = spawned es @ left
     \<and> (left = in_hand (rs_phase s') \<or> rs_phase s' = Returned \<and> length left \<le> 1)"
proof (induction rule: loop_run.induct)
  case (none s)
  show ?case by (simp add: taken_def spawned_def map_filter_simps)
next
  case (more s e s' es s'')
  from loop_step_order[OF more(1)] show ?case
  proof (elim disjE conjE)
    assume "in_hand (rs_phase s) @ taken [e] = spawned [e] @ in_hand (rs_phase s')"
    with more.IH show ?thesis
      by (metis append.assoc taken_Cons)
  next
    assume *: "rs_phase s' = Returned" "taken [e] = []" "spawned [e] = []"
    with loop_run_returned[OF more(2)] have "rs_phase s'' = Returned" "taken (e # es) = []" "spawned (e # es) = []"
      by (simp_all add: taken_Cons(1)[of e es] taken_Cons(2)[of e es])
    moreover have "length (in_hand (rs_phase s)) \<le> 1" by (cases "rs_phase s") simp_all
    ultimately show ?thesis by simp
  qed
qed

text \<open>After the context is done: calls of \<open>Consume\<close> and connections that are still made.\<close>

fun subscribes :: "loop_event \<Rightarrow> bool" where
  "subscribes ConsumeFails = True"
| "subscribes ConsumeStarts = True"
| "subscribes _ = False"

fun reconnects :: "RabbitMQConfig \<Rightarrow> nat \<Rightarrow> loop_event \<Rightarrow> bool" where
  "reconnects cfg slots (Connects b) = (snd (connect b cfg (int slots)) = None)"
| "reconnects cfg slots _ = False"

definition last_calls :: "loop_phase \<Rightarrow> nat" where
  "last_calls p = (if p = Subscribing then 1 else 0)"

definition last_connections :: "loop_phase \<Rightarrow> nat" where
  "last_connections p = (if p = AtHead \<or> p = Returned then 0 else 1)"

lemma done_step:
  assumes "loop_step cfg s e s'" and "rs_done s"
  shows "rs_done s' \<and> rs_slots s' = rs_slots s
    \<and> (if subscribes e then 1 else 0) + last_calls (rs_phase s') \<le> last_calls (rs_phase s)
    \<and> (if reconnects cfg (rs_slots s) e then 1 else 0) + last_connections (rs_phase s') \<le> last_connections (rs_phase s)"
  using assms by (induction rule: loop_step.induct)
    (auto simp: last_calls_def last_connections_def elim!: at_select.elims)

lemma done_run:
  "loop_run cfg s es s' \<Longrightarrow> rs_done s \<Longrightarrow>
   length (filter subscribes es) \<le> last_calls (rs_phase s)
   \<and> length (filter (reconnects cfg (rs_slots s)) es) \<le> last_connections (rs_phase s)"
proof (induction rule: loop_run.induct)
  case (more s e s' es s'')
  from done_step[OF more(1,4)] more.IH show ?case by auto
qed simp

text \<open>A loop whose context is done can always return, whatever its handlers do.\<close>

lemma done_can_return:
  assumes "rs_done s" and "rs_phase s \<noteq> Returned"
  shows "\<exists>es s'. loop_run cfg s es s' \<and> rs_phase s' = Returned \<and> length es \<le> 2
    \<and> taken es = [] \<and> (\<forall>n. HandlerReturns n \<notin> set es)"
proof -
  let ?ret = "\<lambda>es. \<exists>s'. loop_run cfg s es s' \<and> rs_phase s' = Returned"
  note steps = loop_run.intros loop_step.intros
  have two: "?ret [e1, SeesDone]" if "loop_step cfg s e1 s1" "at_select (rs_phase s1)" for e1 s1
  proof -
    have "rs_done s1" using done_step[OF that(1) assms(1)] by simp
    with that show ?thesis
      by (intro exI[of _ "s1\<lparr>rs_phase := Returned\<rparr>"]) (auto intro: steps)
  qed
  have one: "?ret [SeesDone]" if "at_select (rs_phase s)"
    using that assms(1) by (intro exI[of _ "s\<lparr>rs_phase := Returned\<rparr>"]) (auto intro: steps)
  have "?ret [HeadCheck] \<or> ?ret [SeesDone] \<or> ?ret [ConsumeStarts, SeesDone] \<or> (\<exists>d. ?ret [Spawns d, SeesDone])
    \<or> (\<exists>b. ?ret [Connects b, SeesDone])"
  proof (cases "rs_phase s")
    case AtHead
    have "loop_step cfg s HeadCheck (s\<lparr>rs_phase := Returned\<rparr>)"
      using loop_step.head_check[OF AtHead, of cfg] assms(1) by simp
    then have "?ret [HeadCheck]" by (intro exI[of _ "s\<lparr>rs_phase := Returned\<rparr>"]) (auto intro: steps)
    then show ?thesis by blast
  next
    case Subscribing
    from two[OF loop_step.consume_starts[OF this]] show ?thesis by simp
  next
    case (Spawning d)
    from two[OF loop_step.spawns[OF this]] show ?thesis by auto
  next
    case Connecting
    let ?b = "\<lambda>_ _. Some ''down''"
    obtain h e where "connect ?b cfg (int (rs_slots s)) = (h, Some e)"
      by (simp add: connect_def amqp_step_def)
    from two[OF loop_step.connects[OF Connecting this]] show ?thesis by auto
  qed (use one assms(2) in simp_all)
  moreover have "length es \<le> 2 \<and> taken es = [] \<and> (\<forall>n. HandlerReturns n \<notin> set es)"
    if "es \<in> {[HeadCheck], [SeesDone], [ConsumeStarts, SeesDone], [Spawns d, SeesDone], [Connects b, SeesDone]}" for es d b
    using that by (auto simp: taken_def map_filter_simps)
  ultimately show ?thesis by (elim disjE exE) (metis insertI1 insertI2)+
qed

text \<open>
  C39: The RabbitMQ consumer keeps its connections, its concurrency and its deliveries in
  order. Setting up a connection either succeeds with both channels open and the prefetch at
  least the concurrency, or everything it opened, channels and connection, is closed again.
  Over every sequence of lost channels, lost connections, reconnects, deliveries and
  handlers that end: at most the configured number of handlers runs, and a handler that ends
  never has to wait for the semaphore; the deliveries are handed to handlers in the order they
  were taken, each once, and only the last one taken can be left without a handler, while the
  loop holds it or because the loop has returned (it stays unacknowledged and RabbitMQ
  delivers it again). Once the context is done, the loop calls Consume at most once more and
  makes at most one more connection, and at any moment it can return within two of its own
  steps, without taking a delivery and without waiting for a handler.
\<close>

theorem rabbit_consumer_in_order:
  assumes "loop_run cfg (loop_start n) es s"
  shows "left_open b (fst (connect b cfg (rabbit_concurrency n)))
      = (if snd (connect b cfg (rabbit_concurrency n)) = None then (True, [1, 0]) else (False, []))
    \<and> rabbit_concurrency n \<le> prefetch cfg (rabbit_concurrency n)
    \<and> int (length (rs_running s)) \<le> max n 1 \<and> (rs_running s \<noteq> [] \<longrightarrow> 0 < rs_sem s)
    \<and> (\<exists>left. taken es = spawned es @ left \<and> (left = in_hand (rs_phase s) \<or> rs_phase s = Returned \<and> length left \<le> 1))
    \<and> (\<forall>xs ys. es = xs @ ContextDone # ys \<longrightarrow> length (filter subscribes ys) \<le> 1
         \<and> length (filter (reconnects cfg (nat (max n 1))) ys) \<le> 1)
    \<and> (rs_done s \<and> rs_phase s \<noteq> Returned \<longrightarrow>
         (\<exists>es' s'. loop_run cfg s es' s' \<and> rs_phase s' = Returned \<and> length es' \<le> 2
           \<and> taken es' = [] \<and> (\<forall>k. HandlerReturns k \<notin> set es')))"
proof (intro conjI allI impI)
  have start: "slots_inv (loop_start n)" "rs_slots (loop_start n) = nat (max n 1)"
    by (auto simp: loop_start_def slots_inv_def rabbit_concurrency_def max_def)
  note inv = loop_run_slots[OF assms start(1)]
  then show "int (length (rs_running s)) \<le> max n 1" "rs_running s \<noteq> [] \<Longrightarrow> 0 < rs_sem s"
    using start(2) by (auto simp: slots_inv_def)
  show "left_open b (fst (connect b cfg (rabbit_concurrency n)))
      = (if snd (connect b cfg (rabbit_concurrency n)) = None then (True, [1, 0]) else (False, []))"
    using connect_books[of b cfg "rabbit_concurrency n"] by (simp add: keeps_books_def)
  show "rabbit_concurrency n \<le> prefetch cfg (rabbit_concurrency n)"
    by (simp add: prefetch_def rabbit_concurrency_def Let_def)
  show "\<exists>left. taken es = spawned es @ left \<and> (left = in_hand (rs_phase s) \<or> rs_phase s = Returned \<and> length left \<le> 1)"
    using loop_run_order[OF assms] by (simp add: loop_start_def)
  show "\<exists>es' s'. loop_run cfg s es' s' \<and> rs_phase s' = Returned \<and> length es' \<le> 2
      \<and> taken es' = [] \<and> (\<forall>k. HandlerReturns k \<notin> set es')" if "rs_done s \<and> rs_phase s \<noteq> Returned"
    using done_can_return[of s cfg] inv that by simp
  fix xs ys
  assume "es = xs @ ContextDone # ys"
  with assms obtain s1 s2 where "loop_run cfg (loop_start n) xs s1" "loop_step cfg s1 ContextDone s2" "loop_run cfg s2 ys s"
    by (auto simp: loop_run_append elim!: loop_runE)
  moreover from this(2) have "rs_done s2" "rs_slots s2 = rs_slots s1" by (cases rule: loop_step.cases; simp)+
  ultimately have "length (filter subscribes ys) \<le> last_calls (rs_phase s2)"
      "length (filter (reconnects cfg (nat (max n 1))) ys) \<le> last_connections (rs_phase s2)"
    using done_run[of cfg s2 ys s] loop_run_slots[OF _ start(1)] start(2) by metis+
  then show "length (filter subscribes ys) \<le> 1" "length (filter (reconnects cfg (nat (max n 1))) ys) \<le> 1"
    by (auto simp: last_calls_def last_connections_def split: if_splits)
qed

text \<open>
  A channel that is lost while its connection lives leaves that connection behind: the loop
  connects anew and nothing closes the old one, so each such loss adds an open connection.
\<close>

lemma channel_loss_leaves_connections:
  assumes "snd (connect b cfg (rabbit_concurrency n)) = None"
  shows "loop_run cfg (loop_start n) (concat (replicate k [HeadCheck, ConsumeFails, TimerFires, Connects b]))
     (loop_start n\<lparr>rs_open := Suc k\<rparr>)"
proof (induction k)
  case 0
  have "loop_start n\<lparr>rs_open := Suc 0\<rparr> = loop_start n" by (simp add: loop_start_def)
  then show ?case by (simp add: loop_run.none)
next
  case (Suc k)
  let ?s = "\<lambda>p m. loop_start n\<lparr>rs_phase := p, rs_open := m\<rparr>"
  obtain h where h: "connect b cfg (int (rs_slots (loop_start n))) = (h, None)"
    using assms by (cases "connect b cfg (rabbit_concurrency n)") (auto simp: loop_start_def rabbit_concurrency_def)
  then have "fst (left_open b h)"
    using connect_books[of b cfg "int (rs_slots (loop_start n))"] by (simp add: keeps_books_def)
  with h have "loop_step cfg (?s AtHead (Suc k)) HeadCheck (?s Subscribing (Suc k))"
      "loop_step cfg (?s Subscribing (Suc k)) ConsumeFails (?s Waiting (Suc k))"
      "loop_step cfg (?s Waiting (Suc k)) TimerFires (?s Connecting (Suc k))"
      "loop_step cfg (?s Connecting (Suc k)) (Connects b) (?s AtHead (Suc (Suc k)))"
    using head_check[of "?s AtHead (Suc k)"] consume_fails[of "?s Subscribing (Suc k)"]
      timer_fires[of "?s Waiting (Suc k)"] connects[of "?s Connecting (Suc k)" b cfg h None]
    by (simp_all add: loop_start_def)
  then have "loop_run cfg (?s AtHead (Suc k)) [HeadCheck, ConsumeFails, TimerFires, Connects b] (?s AtHead (Suc (Suc k)))"
    by (blast intro: loop_run.intros)
  moreover have "?s AtHead m = loop_start n\<lparr>rs_open := m\<rparr>" for m by (simp add: loop_start_def)
  ultimately have "loop_run cfg (loop_start n)
      (concat (replicate k [HeadCheck, ConsumeFails, TimerFires, Connects b]) @ [HeadCheck, ConsumeFails, TimerFires, Connects b])
      (loop_start n\<lparr>rs_open := Suc (Suc k)\<rparr>)" unfolding loop_run_append using Suc by metis
  then show ?case by (simp flip: replicate_append_same)
qed

end
