(* ===== verification/Endpoints.thy ===== *)
theory Endpoints
  imports Api
begin

text \<open>
  The layers around the handlers: the gRPC server with its interceptors (grpcapi/server.go,
  grpcapi/interceptor.go), the MCP endpoint (mcpapi/handler.go), the recovery of the REST
  router, and what a caller without an accepted token gets from each of them. A handler may
  panic here; how gRPC and the MCP library dispatch a request to a handler is a parameter,
  and log lines are left out except for the status the MCP access log reports.
\<close>

datatype 'r outcome = Returns 'r | Panics string

section \<open>REST\<close>

text \<open>The recovery the router installs around every handler.\<close>

definition recovered_reply :: "(errorCode \<Rightarrow> string) \<Rightarrow> http_reply outcome \<Rightarrow> http_reply" where
  "recovered_reply msg x =
     (case x of Returns r \<Rightarrow> r | Panics _ \<Rightarrow> Reply (writeError msg 500 errInternal))"

section \<open>gRPC\<close>

definition recoveryUnaryInterceptor ::
  "(grpc_code \<times> string, 'r) result outcome prog \<Rightarrow> (grpc_code \<times> string, 'r) result prog" where
  "recoveryUnaryInterceptor handler =
     bind handler (\<lambda>x. Return (case x of
       Returns r \<Rightarrow> r | Panics _ \<Rightarrow> Inl (Internal, ''internal server error'')))"

text \<open>
  The chain of a unary call: recovery outside, then the token check, then the handler.
  \<open>fullMethod\<close> is the name of the called method.
\<close>

definition unary_call ::
  "string list option \<Rightarrow> string \<Rightarrow> string list option \<Rightarrow>
   (grpc_code \<times> string, 'r) result outcome prog \<Rightarrow> (grpc_code \<times> string, 'r) result prog" where
  "unary_call v fullMethod authorization handler =
     recoveryUnaryInterceptor
       (case authUnaryInterceptor v fullMethod authorization of
          Some e \<Rightarrow> Return (Returns (Inl (Unauthenticated, e)))
        | None \<Rightarrow> handler)"

definition authStreamInterceptor ::
  "string list option \<Rightarrow> string \<Rightarrow> string list option \<Rightarrow> (grpc_code \<times> string) option prog \<Rightarrow>
   (grpc_code \<times> string) option prog" where
  "authStreamInterceptor v fullMethod authorization handler =
     (if isHealthMethod fullMethod then handler
      else case verifyIncomingToken v authorization of
             Some e \<Rightarrow> Return (Some (Unauthenticated, e))
           | None \<Rightarrow> handler)"

record grpc_Options =
  gp_MaxReceiveMessageBytes :: int
  gp_ReflectionEnabled :: bool

text \<open>\<open>None\<close> as the message size leaves the library's default.\<close>

record grpc_server =
  gs_MaxRecvMsgSize :: "int option"
  gs_Services :: "string list"
  gs_Serving :: bool
  gs_Reflection :: bool

definition grpc_New :: "grpc_Options \<Rightarrow> grpc_server" where
  "grpc_New opts =
     \<lparr>gs_MaxRecvMsgSize =
        (if 0 < gp_MaxReceiveMessageBytes opts then Some (gp_MaxReceiveMessageBytes opts) else None),
      gs_Services = [''notification.v1.NotificationService'', ''grpc.health.v1.Health''],
      gs_Serving = True, gs_Reflection = gp_ReflectionEnabled opts\<rparr>"

section \<open>MCP\<close>

text \<open>
  \<open>mr_Token\<close> is the bearer token the MCP library finds in the request, if any;
  \<open>mr_SecFetchSite\<close> and \<open>mr_Origin\<close> are empty when the header is missing.
\<close>

record mcp_request =
  mr_Method :: string
  mr_Host :: string
  mr_SecFetchSite :: string
  mr_Origin :: string
  mr_Token :: "string option"
  mr_Body :: string

text \<open>\<open>http.MaxBytesReader\<close>: the readable bytes, and whether reading them all ends in an error.\<close>

definition limitRequestBody :: "int \<Rightarrow> string \<Rightarrow> string \<times> bool" where
  "limitRequestBody limit body =
     (if limit \<le> 0 then (body, False) else (take (nat limit) body, limit < int (length body)))"

definition mcp_authorized :: "string list option \<Rightarrow> string option \<Rightarrow> bool" where
  "mcp_authorized v token = (case token of None \<Rightarrow> False | Some t \<Rightarrow> Verify v t)"

text \<open>
  \<open>http.CrossOriginProtection\<close> without exemptions; \<open>url_host\<close> is the host \<open>url.Parse\<close> reads
  from an origin.
\<close>

definition same_origin :: "(string \<Rightarrow> string option) \<Rightarrow> mcp_request \<Rightarrow> bool" where
  "same_origin url_host q \<longleftrightarrow>
     mr_Method q = ''GET'' \<or> mr_Method q = ''HEAD'' \<or> mr_Method q = ''OPTIONS''
     \<or> (if mr_SecFetchSite q = []
        then mr_Origin q = [] \<or> url_host (mr_Origin q) = Some (mr_Host q)
        else mr_SecFetchSite q = ''same-origin'' \<or> mr_SecFetchSite q = ''none'')"

datatype 'r mcp_reply = McpRefused int | McpHandled 'r

definition NewHandler ::
  "(string \<Rightarrow> string option) \<Rightarrow> string list option \<Rightarrow> int \<Rightarrow> (string \<times> bool \<Rightarrow> 'r prog) \<Rightarrow>
   mcp_request \<Rightarrow> 'r mcp_reply prog" where
  "NewHandler url_host v limit streamable q =
     (let body = limitRequestBody limit (mr_Body q) in
      if \<not> mcp_authorized v (mr_Token q) then Return (McpRefused 401)
      else if \<not> same_origin url_host q then Return (McpRefused 403)
      else bind (streamable body) (\<lambda>r. Return (McpHandled r)))"

text \<open>
  The writer behind the access log keeps the last status written, or 200 from the first body
  bytes on; a handler that writes nothing is logged as 200.
\<close>

datatype response_write = WriteHeader int | WriteBody string

fun statusWriter :: "int \<Rightarrow> response_write list \<Rightarrow> int" where
  "statusWriter status [] = status"
| "statusWriter status (WriteHeader s # ws) = statusWriter s ws"
| "statusWriter status (WriteBody b # ws) = statusWriter (if status = 0 then 200 else status) ws"

definition accessLogger_status :: "response_write list \<Rightarrow> int" where
  "accessLogger_status ws = (let status = statusWriter 0 ws in if status = 0 then 200 else status)"

lemma statusWriter_body: "status \<noteq> 0 \<Longrightarrow> statusWriter status (map WriteBody bs) = status"
  by (induction bs) auto

text \<open>A handler that writes its status first is logged with the status the client saw.\<close>

lemma logged_status:
  "s \<noteq> 0 \<Longrightarrow> accessLogger_status (WriteHeader s # map WriteBody bs) = s"
  "accessLogger_status (map WriteBody bs) = 200"
  by (simp_all add: accessLogger_status_def statusWriter_body Let_def)
    (cases bs; simp add: statusWriter_body)

section \<open>Access\<close>

text \<open>What the two interceptors make of a call without an accepted token.\<close>

lemma anonymous_grpc:
  assumes "verifyIncomingToken v md \<noteq> None"
  shows "if isHealthMethod fullMethod
     then unary_call v fullMethod md handler = recoveryUnaryInterceptor handler
       \<and> authStreamInterceptor v fullMethod md stream = stream
     else \<exists>e. unary_call v fullMethod md handler = Return (Inl (Unauthenticated, e))
       \<and> authStreamInterceptor v fullMethod md stream = Return (Some (Unauthenticated, e))"
  using assms
  by (auto simp: unary_call_def authUnaryInterceptor_def recoveryUnaryInterceptor_def authStreamInterceptor_def)

text \<open>The paths of the API; every path below \<open>/v1\<close> belongs to the group behind the token check.\<close>

fun behind_token :: "route \<Rightarrow> bool" where
  "behind_token Providers = True"
| "behind_token CreateMessage = True"
| "behind_token (GetMessage i) = True"
| "behind_token _ = False"

lemma find_route_v1:
  "HasPrefix path ''/v1'' \<Longrightarrow> find_route sw path = Some (v, i) \<Longrightarrow> behind_token i"
  by (auto simp: find_route_def HasPrefix_iff Let_def split: if_splits)

lemma find_route_cases:
  assumes "find_route sw path = Some (v, i)"
  shows "i = Readyz \<longleftrightarrow> path = ''/readyz''" "i = Docs \<Longrightarrow> sw" "i = DocsFile f \<Longrightarrow> sw \<and> path = ''/docs'' @ f"
  using assms by (auto simp: find_route_def HasPrefix_iff TrimPrefix_def Let_def split: if_splits)

lemma anonymous_router:
  assumes "\<not> bearerAuth (dp_AuthVerifier d) (rq_Authorization q)"
  shows "NewRouter us pf d now q = Return
    (let msg = localizedErrorMessage pf (rq_AcceptLanguage q) in
     case find_route (dp_SwaggerEnabled d) (rq_Path q) of
       None \<Rightarrow> ([], Reply (writeError msg 404 errRouteNotFound))
     | Some (v, i) \<Rightarrow>
         if rq_Method q \<noteq> v then ([], Reply (writeError msg 405 errMethodNotAllowed))
         else if behind_token i then ([], Reply (writeError msg 401 errUnauthenticated))
         else (case i of
                 Readyz \<Rightarrow> map_prod id Reply (readyz msg (dp_Ready d) now)
               | Docs \<Rightarrow> ([], Redirect 307 ''/docs/index.html'')
               | DocsFile f \<Rightarrow> ([], swaggerHandler (case dp_AuthTokens d of [] \<Rightarrow> [] | t # _ \<Rightarrow> t) f)
               | _ \<Rightarrow> ([], Reply healthz)))"
  using assms by (auto simp: NewRouter_def authenticated_def Let_def split: option.split route.split)

text \<open>
  C38: What a caller without an accepted bearer token can do. A REST request with a refused
  token reads and writes no notification and publishes nothing, and its answer depends
  neither on the registry nor on the body it sends. Under /v1 it asks no dependency and gets 401, or 404 or 405
  where there is no such route. The one request that makes the server ask its dependencies
  is GET /readyz, which tells one bit. Every other answer is a fixed page: the liveness
  probe, an error, or the Swagger pages when they are enabled, of which /docs/index.html
  contains the first configured token; with the pages disabled no answer depends on the
  tokens beyond the refusal. A gRPC call or stream of a method outside the health service is
  answered with Unauthenticated, one of the health service reaches its handler, and an MCP
  request is answered with 401.
\<close>

theorem anonymous_access_is_confined:
  assumes "\<not> bearerAuth (dp_AuthVerifier d) (rq_Authorization q)"
    and "verifyIncomingToken (dp_AuthVerifier d) md \<noteq> None"
    and "\<not> mcp_authorized (dp_AuthVerifier d) (mr_Token mq)"
  shows "\<exists>asked r. NewRouter us pf d now q = Return (asked, r)
    \<and> NewRouter us pf (d\<lparr>dp_Registry := reg'\<rparr>) now (q\<lparr>rq_Body := body'\<rparr>) = Return (asked, r)
    \<and> (HasPrefix (rq_Path q) ''/v1'' \<longrightarrow> asked = []
         \<and> (\<exists>a. r = Reply a \<and> ap_Data a = EmptyData \<and> ap_HTTPStatus a \<in> {401, 404, 405}
              \<and> (\<forall>i. find_route (dp_SwaggerEnabled d) (rq_Path q) = Some (rq_Method q, i) \<longrightarrow> ap_HTTPStatus a = 401)))
    \<and> (asked \<noteq> [] \<longrightarrow> rq_Method q = ''GET'' \<and> rq_Path q = ''/readyz'')
    \<and> (rq_Path q = ''/readyz'' \<longrightarrow> (\<exists>a. r = Reply a \<and> ap_HTTPStatus a \<in> {200, 503, 405}))
    \<and> (\<forall>t. r = DocsIndex t \<longrightarrow> dp_SwaggerEnabled d \<and> rq_Path q = ''/docs/index.html''
         \<and> t = quote (case dp_AuthTokens d of [] \<Rightarrow> [] | t # _ \<Rightarrow> t))
    \<and> (\<not> dp_SwaggerEnabled d \<longrightarrow> NewRouter us pf (d\<lparr>dp_AuthTokens := ts'\<rparr>) now q = Return (asked, r)
         \<and> (\<exists>a. r = Reply a \<and> (ap_Data a = EmptyData \<or> rq_Path q = ''/readyz'' \<and> ap_Data a = ReadinessData True)))
    \<and> (if isHealthMethod fullMethod
       then unary_call (dp_AuthVerifier d) fullMethod md handler = recoveryUnaryInterceptor handler
         \<and> authStreamInterceptor (dp_AuthVerifier d) fullMethod md stream = stream
       else \<exists>e. unary_call (dp_AuthVerifier d) fullMethod md handler = Return (Inl (Unauthenticated, e))
         \<and> authStreamInterceptor (dp_AuthVerifier d) fullMethod md stream = Return (Some (Unauthenticated, e)))
    \<and> NewHandler url_host (dp_AuthVerifier d) limit tools mq = Return (McpRefused 401)"
proof -
  obtain x where "NewRouter us pf d now q = Return x" using anonymous_router[OF assms(1)] by blast
  then obtain asked r where ar: "NewRouter us pf d now q = Return (asked, r)" by (cases x) simp
  have "NewRouter us pf (d\<lparr>dp_Registry := reg'\<rparr>) now (q\<lparr>rq_Body := body'\<rparr>) = NewRouter us pf d now q"
    using assms(1) by (simp add: anonymous_router Let_def cong: option.case_cong prod.case_cong route.case_cong if_cong)
  moreover have "NewRouter us pf (d\<lparr>dp_AuthTokens := ts'\<rparr>) now q = NewRouter us pf d now q" if "\<not> dp_SwaggerEnabled d"
    using assms(1) that find_route_cases(3)[of "dp_SwaggerEnabled d"]
    by (auto simp: anonymous_router Let_def split: option.split route.split)
  moreover have "asked = [] \<and> (\<exists>a. r = Reply a \<and> ap_Data a = EmptyData \<and> ap_HTTPStatus a \<in> {401, 404, 405}
       \<and> (\<forall>i. find_route (dp_SwaggerEnabled d) (rq_Path q) = Some (rq_Method q, i) \<longrightarrow> ap_HTTPStatus a = 401))"
    if "HasPrefix (rq_Path q) ''/v1''"
    using ar find_route_v1[OF that]
    by (auto simp: anonymous_router[OF assms(1)] writeError_def Let_def split: option.splits if_splits)
  moreover have "rq_Method q = ''GET'' \<and> rq_Path q = ''/readyz''" if "asked \<noteq> []"
    using ar that find_route_cases[of "dp_SwaggerEnabled d" "rq_Path q"]
    by (auto simp: anonymous_router[OF assms(1)] Let_def find_route_def split: option.splits if_splits route.splits)
  moreover have "\<exists>a. r = Reply a \<and> ap_HTTPStatus a \<in> {200, 503, 405}" if "rq_Path q = ''/readyz''"
    using ar that by (auto simp: anonymous_router[OF assms(1)] readyz_def writeError_def writeSuccess_def Let_def
        find_route_def split: option.splits if_splits prod.splits)
  moreover have "dp_SwaggerEnabled d \<and> rq_Path q = ''/docs/index.html'' \<and> t = quote (case dp_AuthTokens d of [] \<Rightarrow> [] | t # _ \<Rightarrow> t)"
    if "r = DocsIndex t" for t
    using ar that find_route_cases(3)[of "dp_SwaggerEnabled d" "rq_Path q"]
    by (auto simp: anonymous_router[OF assms(1)] Let_def swaggerHandler_def readyz_def
        split: option.splits if_splits route.splits prod.splits)
  moreover have "\<exists>a. r = Reply a \<and> (ap_Data a = EmptyData \<or> rq_Path q = ''/readyz'' \<and> ap_Data a = ReadinessData True)"
    if "\<not> dp_SwaggerEnabled d"
    using ar that find_route_cases[of "dp_SwaggerEnabled d" "rq_Path q"]
    by (auto simp: anonymous_router[OF assms(1)] Let_def readyz_def writeError_def writeSuccess_def healthz_def
        split: option.splits if_splits route.splits prod.splits)
  moreover note anonymous_grpc[OF assms(2), of fullMethod handler stream]
  moreover have "NewHandler url_host (dp_AuthVerifier d) limit tools mq = Return (McpRefused 401)"
    using assms(3) by (simp add: NewHandler_def Let_def)
  ultimately show ?thesis using ar by auto
qed

end
