(* ===== verification/Startup.thy ===== *)
theory Startup
  imports Builtin Connections Limiter Compensator Endpoints
begin

text \<open>
  Start-up of the two processes: the configuration structs and their loading
  (internal/config), the database set-up (store/postgres.go, store/database.go), the worker
  (worker/worker.go) and the wiring of cmd/worker and cmd/server. Every step that reaches out
  (reading a file, connecting, migrating, listening) is an outcome of the environment; the
  order of the steps, what is refused and how the parts are connected is the model.
\<close>

section \<open>Configuration (config.go, server.go, worker.go)\<close>

record DatabaseConfig =
  db_Driver :: string
  db_DSN :: string
  db_AutoCreate :: bool
  db_MaxConns :: int
  db_MinConns :: int

record LeaseConfig =
  ls_Duration :: duration
  ls_RenewInterval :: duration

record HTTPClientConfig =
  hc_MaxResponseBytes :: int
  hc_AllowedRespHeaders :: "string list"

record WorkerRuntimeConfig =
  wt_Lease :: LeaseConfig
  wt_Concurrency :: int
  wt_Compensator :: CompensatorConfig
  wt_HTTPClient :: HTTPClientConfig

record WorkerConfig =
  wk_Database :: DatabaseConfig
  wk_MQ :: MQConfig
  wk_ProvidersFile :: string
  wk_Runtime :: WorkerRuntimeConfig
  wk_AutoMigrate :: bool

record MCPConfig =
  mp_Enabled :: bool
  mp_Path :: string
  mp_MaxBodyBytes :: int

record GRPCConfig =
  gr_Enabled :: bool
  gr_Addr :: string
  gr_ShutdownTimeout :: duration
  gr_MaxReceiveMessageBytes :: int
  gr_ReflectionEnabled :: bool

record HTTPConfig =
  ht_Addr :: string
  ht_ReadTimeout :: duration
  ht_WriteTimeout :: duration
  ht_ShutdownTimeout :: duration
  ht_MaxBodyBytes :: int

record ServerConfig =
  sv_HTTP :: HTTPConfig
  sv_MCP :: MCPConfig
  sv_GRPC :: GRPCConfig
  sv_SwaggerEnabled :: bool
  sv_Database :: DatabaseConfig
  sv_MQ :: MQConfig
  sv_Worker :: WorkerRuntimeConfig
  sv_AuthTokens :: "string list"
  sv_ProvidersFile :: string
  sv_AutoMigrate :: bool

text \<open>
  \<open>expandEnv\<close>: each match of \<open>${NAME}\<close> or \<open>${NAME:-default}\<close> is replaced, from left to
  right; the replacement is not scanned again. \<open>env_ref\<close> recognises a match at the head of a
  text and returns the name, the default and the rest.
\<close>

definition name_start :: "char \<Rightarrow> bool" where
  "name_start c \<longleftrightarrow> c = CHR ''_'' \<or> is_alnum c \<and> \<not> is_digit c"

definition name_char :: "char \<Rightarrow> bool" where
  "name_char c \<longleftrightarrow> c = CHR ''_'' \<or> is_alnum c"

definition env_ref :: "string \<Rightarrow> (string \<times> string option \<times> string) option" where
  "env_ref s =
     (if \<not> HasPrefix s ''${'' then None
      else
        let body = drop 2 s; name = takeWhile name_char body; r = dropWhile name_char body in
        if name = [] \<or> \<not> name_start (hd name) then None
        else if HasPrefix r ''}'' then Some (name, None, drop 1 r)
        else if HasPrefix r '':-'' then
          (let def = takeWhile (\<lambda>c. c \<noteq> CHR ''}'') (drop 2 r);
               tail = dropWhile (\<lambda>c. c \<noteq> CHR ''}'') (drop 2 r) in
           if tail = [] then None else Some (name, Some def, drop 1 tail))
        else None)"

lemma env_ref_shorter: "env_ref s = Some (name, def, rest) \<Longrightarrow> length rest < length s"
proof -
  assume a: "env_ref s = Some (name, def, rest)"
  then have s: "length s \<ge> 2" by (auto simp: env_ref_def HasPrefix_iff split: if_splits)
  from a show ?thesis using s length_dropWhile_le[of name_char "drop 2 s"]
      length_dropWhile_le[of "\<lambda>c. c \<noteq> CHR ''}''" "drop 2 (dropWhile name_char (drop 2 s))"]
    by (auto simp: env_ref_def Let_def split: if_splits)
qed

function expandEnv :: "(string \<rightharpoonup> string) \<Rightarrow> string \<Rightarrow> string" where
  "expandEnv env [] = []"
| "expandEnv env (c # s) =
     (case env_ref (c # s) of
        None \<Rightarrow> c # expandEnv env s
      | Some (name, def, rest) \<Rightarrow>
          (case env name of
             Some v \<Rightarrow> v
           | None \<Rightarrow> (case def of Some d \<Rightarrow> d | None \<Rightarrow> [])) @ expandEnv env rest)"
  by pat_completeness auto
termination
  by (relation "measure (\<lambda>(_, s). length s)") (auto dest: env_ref_shorter)

text \<open>\<open>file\<close> is what reading the file yields, \<open>unmarshal_yaml\<close> the YAML library.\<close>

definition loadYAML ::
  "(string \<Rightarrow> (string, 'c) result) \<Rightarrow> (string \<rightharpoonup> string) \<Rightarrow> string \<Rightarrow> (string, string) result \<Rightarrow>
   (string, 'c) result" where
  "loadYAML unmarshal_yaml env path file =
     (case file of
        Inl e \<Rightarrow> Inl (''read config '' @ path @ '': '' @ e)
      | Inr raw \<Rightarrow>
        (case unmarshal_yaml (expandEnv env raw) of
           Inl e \<Rightarrow> Inl (''parse config '' @ path @ '': '' @ e)
         | Inr c \<Rightarrow> Inr c))"

definition LoadServer ::
  "(string \<Rightarrow> (string, ServerConfig) result) \<Rightarrow> (string \<rightharpoonup> string) \<Rightarrow> (string \<Rightarrow> (string, string) result) \<Rightarrow>
   string \<Rightarrow> (string, ServerConfig) result" where
  "LoadServer unmarshal_yaml env ReadFile path = loadYAML unmarshal_yaml env path (ReadFile path)"

definition LoadWorker ::
  "(string \<Rightarrow> (string, WorkerConfig) result) \<Rightarrow> (string \<rightharpoonup> string) \<Rightarrow> (string \<Rightarrow> (string, string) result) \<Rightarrow>
   string \<Rightarrow> (string, WorkerConfig) result" where
  "LoadWorker unmarshal_yaml env ReadFile path = loadYAML unmarshal_yaml env path (ReadFile path)"

text \<open>The providers file is a map from provider codes to raw nodes.\<close>

definition LoadProviders ::
  "(string \<Rightarrow> (string, (string \<times> 'y) list) result) \<Rightarrow> (string \<rightharpoonup> string) \<Rightarrow>
   (string \<Rightarrow> (string, string) result) \<Rightarrow> string \<Rightarrow> (string, (string \<times> 'y) list) result" where
  "LoadProviders unmarshal_yaml env ReadFile path = loadYAML unmarshal_yaml env path (ReadFile path)"

section \<open>Database (postgres.go, database.go)\<close>

definition validatePostgresDriver :: "string \<Rightarrow> string option" where
  "validatePostgresDriver driver =
     (if ToLower (TrimSpace driver) \<in> {[], ''postgres'', ''postgresql'', ''pg''} then None
      else Some (''unsupported database driver '' @ go_q driver @ '': only PostgreSQL is supported''))"

text \<open>
  What the drivers answer: the database name in the DSN, the connection to the maintenance
  database, whether the database exists, and the creation (\<open>Some (code, text)\<close> with the SQL
  state of the error); the opening of the pool, its handle, the ping and the schema script.
\<close>

record db_outcomes =
  do_ParseConfig :: "(string, string) result"
  do_Connect :: "string option"
  do_Exists :: "(string, bool) result"
  do_Create :: "(string \<times> string) option"
  do_Open :: "string option"
  do_Handle :: "string option"
  do_Ping :: "string option"
  do_Migrate :: "string option"

definition postgresAdminConfig :: "(string, string) result \<Rightarrow> (string, string \<times> string) result" where
  "postgresAdminConfig parsed =
     (case parsed of
        Inl e \<Rightarrow> Inl (''parse PostgreSQL DSN: '' @ e)
      | Inr database \<Rightarrow>
        let target = TrimSpace database in
        if target = [] then Inl ''PostgreSQL DSN must include a database name''
        else Inr (''postgres'', target))"

definition ensurePostgresDatabase :: "db_outcomes \<Rightarrow> string option" where
  "ensurePostgresDatabase dbo =
     (case postgresAdminConfig (do_ParseConfig dbo) of
        Inl e \<Rightarrow> Some e
      | Inr (_, target) \<Rightarrow>
        (case do_Connect dbo of
           Some e \<Rightarrow> Some (''connect to PostgreSQL maintenance database: '' @ e)
         | None \<Rightarrow>
           (case do_Exists dbo of
              Inl e \<Rightarrow> Some (''check database '' @ go_q target @ '': '' @ e)
            | Inr True \<Rightarrow> None
            | Inr False \<Rightarrow>
              (case do_Create dbo of
                 None \<Rightarrow> None
               | Some (sqlstate, e) \<Rightarrow>
                   if sqlstate = ''42P04'' then None
                   else Some (''create database '' @ go_q target @ '': '' @ e)))))"

definition EnsureDatabase :: "db_outcomes \<Rightarrow> string \<Rightarrow> string option" where
  "EnsureDatabase dbo driver =
     (case validatePostgresDriver driver of Some e \<Rightarrow> Some e | None \<Rightarrow> ensurePostgresDatabase dbo)"

text \<open>The sizes set on the pool, \<open>None\<close> where the library's default stays.\<close>

definition NewPool ::
  "db_outcomes \<Rightarrow> int \<Rightarrow> int \<Rightarrow> string \<Rightarrow> (string, int option \<times> int option) result" where
  "NewPool dbo maxConns minConns driver =
     (case validatePostgresDriver driver of
        Some e \<Rightarrow> Inl e
      | None \<Rightarrow>
        (case do_Open dbo of
           Some e \<Rightarrow> Inl (''open database: '' @ e)
         | None \<Rightarrow>
           (case do_Handle dbo of
              Some e \<Rightarrow> Inl (''resolve sql database: '' @ e)
            | None \<Rightarrow>
              (case do_Ping dbo of
                 Some e \<Rightarrow> Inl (''ping: '' @ e)
               | None \<Rightarrow> Inr (if 0 < maxConns then Some maxConns else None,
                             if 0 < minConns then Some minConns else None)))))"

definition Migrate :: "db_outcomes \<Rightarrow> string option" where
  "Migrate dbo = map_option (\<lambda>e. ''migrate: '' @ e) (do_Migrate dbo)"

text \<open>The steps both commands begin with.\<close>

definition open_database :: "db_outcomes \<Rightarrow> DatabaseConfig \<Rightarrow> bool \<Rightarrow> string option" where
  "open_database dbo cfg autoMigrate =
     (case (if db_AutoCreate cfg then EnsureDatabase dbo (db_Driver cfg) else None) of
        Some e \<Rightarrow> Some (''ensure database: '' @ e)
      | None \<Rightarrow>
        (case NewPool dbo (db_MaxConns cfg) (db_MinConns cfg) (db_Driver cfg) of
           Inl e \<Rightarrow> Some (''connect to database: '' @ e)
         | Inr _ \<Rightarrow>
           (case do_Handle dbo of
              Some e \<Rightarrow> Some (''resolve database handle: '' @ e)
            | None \<Rightarrow>
              if autoMigrate then map_option (\<lambda>e. ''migrate: '' @ e) (Migrate dbo) else None)))"

section \<open>The worker process (cmd/worker/main.go, worker.go)\<close>

record worker_runtime =
  rt_Processor :: proc_config
  rt_Limiters :: Limiters
  rt_Breakers :: Breakers
  rt_Compensator :: CompensatorConfig
  rt_LeaseDuration :: duration
  rt_Concurrency :: int

text \<open>A limiter and, where configured, a breaker for every action of the registry.\<close>

definition register_limiters :: "Registry \<Rightarrow> Limiters" where
  "register_limiters reg =
     fold (\<lambda>(k, ra). Register_limiter k (ra_RequestsPerSecond ra) (ra_MaxConcurrency ra)) reg (\<lambda>_. None)"

definition register_breakers :: "Registry \<Rightarrow> Breakers" where
  "register_breakers reg = fold (\<lambda>(k, ra). Register k (ra_CircuitBreaker ra)) reg (\<lambda>_. None)"

definition new_worker :: "Registry \<Rightarrow> WorkerRuntimeConfig \<Rightarrow> worker_runtime" where
  "new_worker reg cfg =
     \<lparr>rt_Processor = \<lparr>px_Registry = reg, px_LeaseDuration = ls_Duration (wt_Lease cfg)\<rparr>,
      rt_Limiters = register_limiters reg, rt_Breakers = register_breakers reg,
      rt_Compensator = wt_Compensator cfg, rt_LeaseDuration = ls_Duration (wt_Lease cfg),
      rt_Concurrency = (if wt_Concurrency cfg \<le> 0 then 1 else wt_Concurrency cfg)\<rparr>"

text \<open>
  What a process finds around it: the libraries, its environment, and the outcomes of the
  steps that reach out. \<open>pe_providers\<close> is how the YAML library decodes the providers file.
\<close>

record 'y process_env =
  pe_url :: url_parser
  pe_ip :: "string \<Rightarrow> bool"
  pe_mail :: mail_lib
  pe_yaml :: "'y yaml_lib"
  pe_vars :: "string \<rightharpoonup> string"
  pe_files :: "string \<Rightarrow> (string, string) result"
  pe_providers :: "string \<Rightarrow> (string, (string \<times> 'y) list) result"
  pe_db :: db_outcomes
  pe_mq :: mq_env
  pe_random :: "(string, string) result"
  pe_grpc_listen :: "string option"

definition build_registry ::
  "'y process_env \<Rightarrow> string \<Rightarrow> int option \<Rightarrow> string list \<Rightarrow> (string, Registry) result" where
  "build_registry pe file client headers =
     BuildRegistry (pe_url pe) (pe_ip pe) (pe_mail pe) (pe_yaml pe) (pe_vars pe)
       (LoadProviders (pe_providers pe) (pe_vars pe) (pe_files pe) file) client headers"

definition worker_run :: "'y process_env \<Rightarrow> (string, WorkerConfig) result \<Rightarrow> (string, worker_runtime) result" where
  "worker_run pe loaded =
     (case loaded of
        Inl e \<Rightarrow> Inl e
      | Inr cfg \<Rightarrow>
      if mq_Driver (wk_MQ cfg) = ''memory''
      then Inl (''mq driver '' @ go_q ''memory'' @ '' is in-process only; run cmd/server with its embedded worker'')
      else
      (case open_database (pe_db pe) (wk_Database cfg) (wk_AutoMigrate cfg) of
        Some e \<Rightarrow> Inl e
      | None \<Rightarrow>
      let http = wt_HTTPClient (wk_Runtime cfg) in
      (case build_registry pe (wk_ProvidersFile cfg) (Some (New_client (hc_MaxResponseBytes http)))
              (hc_AllowedRespHeaders http) of
        Inl e \<Rightarrow> Inl e
      | Inr reg \<Rightarrow>
      (case NewPublisher (pe_mq pe) (wk_MQ cfg) of
        Inl e \<Rightarrow> Inl (''connect to mq publisher: '' @ e)
      | Inr _ \<Rightarrow>
      (case NewConsumer (pe_mq pe) (wk_MQ cfg) of
        Inl e \<Rightarrow> Inl (''connect to mq consumer: '' @ e)
      | Inr _ \<Rightarrow> Inr (new_worker reg (wk_Runtime cfg)))))))"

text \<open>
  \<open>Worker.Run\<close>: the compensator's loops run beside the consumer; a consumer that does not
  start is the error, otherwise the result of closing it once the context is done.
\<close>

definition Worker_Run :: "string option \<Rightarrow> string option \<Rightarrow> string option" where
  "Worker_Run start_error close_error = (case start_error of Some e \<Rightarrow> Some e | None \<Rightarrow> close_error)"

section \<open>The server process (cmd/server/main.go)\<close>

definition validateMCPPath :: "string \<Rightarrow> string option" where
  "validateMCPPath path =
     (if path = [] \<or> path = ''/'' \<or> \<not> HasPrefix path ''/'' \<or> HasSuffix path ''/''
         \<or> ContainsAny path (''{} '' @ map byte [9, 13, 10])
      then Some ''mcp.path must be a non-root exact HTTP path such as /mcp'' else None)"

record server_runtime =
  sn_Deps :: Deps
  sn_Embedded :: "worker_runtime option"
  sn_Broker :: "MemoryBroker option"
  sn_MCPPath :: "string option"
  sn_GRPCAddr :: "string option"

fun memory_error_text :: "memory_error \<Rightarrow> string" where
  "memory_error_text ErrMemoryQueueFull = ''mq: memory queue is full''"
| "memory_error_text ErrMemoryClosed = ''mq: memory broker is closed''"
| "memory_error_text (MemoryError e) = e"

text \<open>The broker of the server: its own memory queue, or a publisher of an external one.\<close>

definition server_broker :: "mq_env \<Rightarrow> MQConfig \<Rightarrow> (string, MemoryBroker option) result" where
  "server_broker env cfg =
     (if mq_Driver cfg = ''memory'' then
        (case NewMemoryBroker (mq_Memory cfg) of
           Inl e \<Rightarrow> Inl (''create memory mq: '' @ memory_error_text e) | Inr b \<Rightarrow> Inr (Some b))
      else
        (case NewPublisher env cfg of
           Inl e \<Rightarrow> Inl (''connect to mq: '' @ e) | Inr _ \<Rightarrow> Inr None))"

text \<open>
  The readiness check: the ping of the database, then the memory broker where the server
  has one, both as they are when the check runs.
\<close>

definition server_ready :: "bool \<Rightarrow> readiness_check" where
  "server_ready memoryBroker now =
     (case now Database of
        Some e \<Rightarrow> ([Database], Some e)
      | None \<Rightarrow> if memoryBroker then ([Database, Broker], now Broker) else ([Database], None))"

text \<open>What the two answer at some moment: the ping, and the \<open>Ready\<close> of the memory broker.\<close>

fun server_answers :: "string option \<Rightarrow> MemoryBroker \<Rightarrow> dependency_answers" where
  "server_answers ping b Database = ping"
| "server_answers ping b Broker = map_option memory_error_text (Ready b)"

definition server_deps :: "ServerConfig \<Rightarrow> Registry \<Rightarrow> string list \<Rightarrow> MemoryBroker option \<Rightarrow> Deps" where
  "server_deps cfg reg authTokens broker =
     \<lparr>dp_Registry = reg, dp_AuthVerifier = Some (NewVerifier authTokens), dp_AuthTokens = authTokens,
      dp_MaxBodyBytes = ht_MaxBodyBytes (sv_HTTP cfg), dp_SwaggerEnabled = sv_SwaggerEnabled cfg,
      dp_Ready = Some (server_ready (broker \<noteq> None))\<rparr>"

definition listener_problem :: "'y process_env \<Rightarrow> ServerConfig \<Rightarrow> string option" where
  "listener_problem pe cfg =
     (case (if mp_Enabled (sv_MCP cfg) then validateMCPPath (mp_Path (sv_MCP cfg)) else None) of
        Some e \<Rightarrow> Some e
      | None \<Rightarrow>
        if gr_Enabled (sv_GRPC cfg) then
          if TrimSpace (gr_Addr (sv_GRPC cfg)) = []
          then Some ''grpc.addr must be configured when gRPC is enabled''
          else map_option (\<lambda>e. ''listen for gRPC on '' @ gr_Addr (sv_GRPC cfg) @ '': '' @ e)
                 (pe_grpc_listen pe)
        else None)"

definition server_run :: "'y process_env \<Rightarrow> (string, ServerConfig) result \<Rightarrow> (string, server_runtime) result" where
  "server_run pe loaded =
     (case loaded of
        Inl e \<Rightarrow> Inl e
      | Inr cfg \<Rightarrow>
      (case ResolveAuthTokens (pe_random pe) (sv_AuthTokens cfg) of
        Inl e \<Rightarrow> Inl e
      | Inr (authTokens, _) \<Rightarrow>
      (case open_database (pe_db pe) (sv_Database cfg) (sv_AutoMigrate cfg) of
        Some e \<Rightarrow> Inl e
      | None \<Rightarrow>
      let memory = (mq_Driver (sv_MQ cfg) = ''memory''); rt = sv_Worker cfg in
      if memory \<and> ls_Duration (wt_Lease rt) \<le> 0
      then Inl (''worker.lease.duration must be greater than zero for mq driver '' @ go_q ''memory'')
      else
      (case build_registry pe (sv_ProvidersFile cfg)
              (if memory then Some (New_client (hc_MaxResponseBytes (wt_HTTPClient rt))) else None)
              (if memory then hc_AllowedRespHeaders (wt_HTTPClient rt) else []) of
        Inl e \<Rightarrow> Inl e
      | Inr reg \<Rightarrow>
      (case server_broker (pe_mq pe) (sv_MQ cfg) of
        Inl e \<Rightarrow> Inl e
      | Inr broker \<Rightarrow>
      (case listener_problem pe cfg of
        Some e \<Rightarrow> Inl e
      | None \<Rightarrow>
        Inr \<lparr>sn_Deps = server_deps cfg reg authTokens broker,
             sn_Embedded = (if broker = None then None else Some (new_worker reg rt)),
             sn_Broker = broker,
             sn_MCPPath = (if mp_Enabled (sv_MCP cfg) then Some (mp_Path (sv_MCP cfg)) else None),
             sn_GRPCAddr = (if gr_Enabled (sv_GRPC cfg) then Some (gr_Addr (sv_GRPC cfg)) else None)\<rparr>))))))"

text \<open>The request goes to the MCP endpoint exactly on its path, to the router otherwise.\<close>

definition mcp_serves :: "server_runtime \<Rightarrow> string \<Rightarrow> bool" where
  "mcp_serves sv path \<longleftrightarrow> sn_MCPPath sv = Some path"

text \<open>
  What the goroutines of the server report when their part ends. A listener that ends while
  the context is alive always reports an error, also when it was closed in an orderly way; it
  reports nothing once the context is done. The embedded worker reports in any case.
\<close>

datatype serve_end = ServerClosed | ServeFailed string

definition serve_report :: "string \<Rightarrow> bool \<Rightarrow> serve_end option \<Rightarrow> string option" where
  "serve_report name ctx_done err =
     (if ctx_done then None
      else case err of
             Some (ServeFailed e) \<Rightarrow> Some e
           | _ \<Rightarrow> Some (name @ '' server stopped unexpectedly''))"

definition worker_report :: "bool \<Rightarrow> string option \<Rightarrow> string option" where
  "worker_report ctx_done err =
     (if err = None \<and> \<not> ctx_done then Some ''embedded memory worker stopped unexpectedly'' else err)"

text \<open>Why the server stops, and what it returns after both shutdowns.\<close>

datatype stop_reason =
    Signalled
  | HTTPStopped string
  | GRPCStopped string
  | WorkerStopped "string option"

definition normalizedShutdownTimeout :: "duration \<Rightarrow> duration" where
  "normalizedShutdownTimeout timeout = (if timeout \<le> 0 then 15 * second else timeout)"

text \<open>\<open>took\<close> is how long the graceful stop takes; the forced stop ends it at the timeout.\<close>

definition gracefulStopGRPC :: "(duration \<Rightarrow> string) \<Rightarrow> duration \<Rightarrow> duration \<Rightarrow> string option" where
  "gracefulStopGRPC print took timeout =
     (if took < timeout then None
      else Some (''gRPC graceful shutdown exceeded '' @ print timeout @ ''; forced stop''))"

definition stop_error :: "stop_reason \<Rightarrow> string option" where
  "stop_error reason =
     (case reason of
        Signalled \<Rightarrow> None
      | HTTPStopped e \<Rightarrow> Some (''http server: '' @ e)
      | GRPCStopped e \<Rightarrow> Some (''grpc server: '' @ e)
      | WorkerStopped None \<Rightarrow> None
      | WorkerStopped (Some e) \<Rightarrow> Some (''embedded memory worker: '' @ e))"

definition server_exit :: "stop_reason \<Rightarrow> string option \<Rightarrow> string option \<Rightarrow> string list" where
  "server_exit reason httpShutdownErr grpcShutdownErr =
     (case stop_error reason of
        Some e \<Rightarrow> [e]
      | None \<Rightarrow> (case httpShutdownErr of None \<Rightarrow> [] | Some e \<Rightarrow> [e])
               @ (case grpcShutdownErr of None \<Rightarrow> [] | Some e \<Rightarrow> [e]))"

text \<open>
  A part of the server that ends by itself is never taken for a clean exit: while the context
  is alive the server returns an error.
\<close>

lemma unexpected_stop_is_an_error:
  "serve_report name False err \<noteq> None" "server_exit (HTTPStopped e) h g \<noteq> []"
  "server_exit (GRPCStopped e) h g \<noteq> []" "server_exit (WorkerStopped (worker_report False err')) h g \<noteq> []"
  by (auto simp: server_exit_def stop_error_def worker_report_def serve_report_def
      split: option.splits serve_end.splits if_splits)

text \<open>A started server checks its callers against at least one token, on every protocol.\<close>

lemma ResolveAuthTokens_some: "ResolveAuthTokens random tokens = Inr (ts, g) \<Longrightarrow> ts \<noteq> []"
  by (auto simp: ResolveAuthTokens_def Let_def split: if_splits sum.splits)

lemma started_server_verifies:
  assumes "server_run pe loaded = Inr sv"
  shows "\<exists>ts. ts \<noteq> [] \<and> dp_AuthVerifier (sn_Deps sv) = Some (NewVerifier ts)
    \<and> dp_AuthTokens (sn_Deps sv) = ts"
  using assms ResolveAuthTokens_some
  by (fastforce simp: server_run_def server_deps_def Let_def split: sum.splits option.splits if_splits prod.splits)

text \<open>
  The probe of a started server: it answers 200 exactly when the database answers the ping
  and the server's memory broker, if it has one, is open and started.
\<close>

lemma started_server_is_ready:
  assumes "server_run pe loaded = Inr sv"
  shows "readyz msg (dp_Ready (sn_Deps sv)) (server_answers ping b) =
    (if ping \<noteq> None then ([Database], writeError msg 503 errDependencyUnavailable)
     else if sn_Broker sv = None then ([Database], writeSuccess 200 (ReadinessData True))
     else ([Database, Broker], if Ready b = None then writeSuccess 200 (ReadinessData True)
                               else writeError msg 503 errDependencyUnavailable))"
proof -
  from assms have "dp_Ready (sn_Deps sv) = Some (server_ready (sn_Broker sv \<noteq> None))"
    by (auto simp: server_run_def server_deps_def Let_def split: sum.splits option.splits if_splits prod.splits)
  then show ?thesis by (auto simp: readyz_def server_ready_def split: option.split)
qed

section \<open>The runtime is wired\<close>

lemma Build_entries:
  assumes "Build configure resolve client headers providers reg = Inr reg'"
    and "distinct (map fst reg)" and "\<forall>(k, ra) \<in> set reg. ac_HTTPClient (ra_Context ra) = client"
  shows "distinct (map fst reg') \<and> (\<forall>(k, ra) \<in> set reg'. ac_HTTPClient (ra_Context ra) = client)"
  using assms
proof (induction providers arbitrary: reg)
  case (Cons x providers)
  obtain c raw where x: "x = (c, raw)" by fastforce
  let ?add = "\<lambda>a cred (action, cf). AList.update (key c action) (resolve_action client headers a c cred action cf)"
  from Cons.prems(1) x obtain conf pc a cred where "configure c = Some conf" "conf raw = Inr (pc, a)" and
    rest: "Build configure resolve client headers providers (fold (?add a cred) (pc_Actions pc) reg) = Inr reg'"
    by (auto split: option.splits sum.splits if_splits)
  have "distinct (map fst r) \<and> (\<forall>(k, ra) \<in> set r. ac_HTTPClient (ra_Context ra) = client) \<Longrightarrow>
      distinct (map fst (fold (?add a cred) as r))
      \<and> (\<forall>(k, ra) \<in> set (fold (?add a cred) as r). ac_HTTPClient (ra_Context ra) = client)" for as r
  proof (induction as arbitrary: r)
    case (Cons y ys)
    obtain action cf where y: "y = (action, cf)" by fastforce
    let ?ra = "resolve_action client headers a c cred action cf"
    have "distinct (map fst (AList.update (key c action) ?ra r))"
      using Cons.prems by (simp add: distinct_update)
    moreover have "\<forall>(k, ra) \<in> set (AList.update (key c action) ?ra r). ac_HTTPClient (ra_Context ra) = client"
      using Cons.prems set_update_subset[of "key c action" ?ra r] by (auto simp: resolve_action_def)
    ultimately show ?case using Cons.IH[of "AList.update (key c action) ?ra r"] by (simp add: y)
  qed simp
  with Cons.IH[OF rest] Cons.prems(2,3) show ?case by blast
qed simp

lemma fold_register:
  assumes "distinct (map fst reg)" and "\<And>k v m. f k v m = m(k := g v (m k))" and "\<And>v. g v None = h v"
  shows "fold (\<lambda>(k, v). f k v) reg m k =
    (case map_of reg k of None \<Rightarrow> m k | Some v \<Rightarrow> g v (m k))"
  using assms(1)
proof (induction reg arbitrary: m)
  case (Cons x reg)
  obtain k' v where x: "x = (k', v)" by fastforce
  with Cons.prems have "map_of reg k' = None" by (auto simp: map_of_eq_None_iff)
  with Cons x show ?case by (auto simp: assms(2) split: option.split)
qed simp

lemma register_limiters_lookup:
  assumes "distinct (map fst reg)" and "map_of reg k = Some ra"
  shows "register_limiters reg k = Register_limiter k (ra_RequestsPerSecond ra) (ra_MaxConcurrency ra) (\<lambda>_. None) k"
  using fold_register[of reg "\<lambda>k ra. Register_limiter k (ra_RequestsPerSecond ra) (ra_MaxConcurrency ra)"
      "\<lambda>ra _. Register_limiter [] (ra_RequestsPerSecond ra) (ra_MaxConcurrency ra) (\<lambda>_. None) []", OF assms(1)] assms(2)
  by (simp add: register_limiters_def Register_limiter_def)

lemma register_breakers_lookup:
  assumes "distinct (map fst reg)" and "map_of reg k = Some ra"
  shows "register_breakers reg k = map_option new_breaker (ra_CircuitBreaker ra)"
  using fold_register[of reg "\<lambda>k ra. Register k (ra_CircuitBreaker ra)"
      "\<lambda>ra old. case ra_CircuitBreaker ra of None \<Rightarrow> old | Some c \<Rightarrow> Some (new_breaker c)", OF assms(1)] assms(2)
  by (auto simp: register_breakers_def Register_def fun_upd_idem split: option.split)

text \<open>
  C33: A process that starts is wired completely. Whether cmd/worker or the embedded worker of
  cmd/server, for every action its registry answers there is a limiter with exactly the
  configured positive number of slots, all free, a closed breaker exactly when one is
  configured, and an HTTP client; it handles at least one delivery at a time, and the lease
  of the processor is the one the compensator uses. The embedded worker's lease is positive.
\<close>

theorem runtime_is_wired:
  assumes "worker_run pe wloaded = Inr w \<or> server_run pe sloaded = Inr sv \<and> sn_Embedded sv = Some w"
    and "Lookup (px_Registry (rt_Processor w)) c a = Some ra"
  shows "(\<exists>al. rt_Limiters w (key c a) = Some al \<and> al_inUse al = 0
      \<and> al_sem al = Some (nat (ra_MaxConcurrency ra)) \<and> 0 < ra_MaxConcurrency ra)
    \<and> rt_Breakers w (key c a) = map_option new_breaker (ra_CircuitBreaker ra)
    \<and> ac_HTTPClient (ra_Context ra) \<noteq> None \<and> 1 \<le> rt_Concurrency w
    \<and> px_LeaseDuration (rt_Processor w) = rt_LeaseDuration w
    \<and> (worker_run pe wloaded \<noteq> Inr w \<longrightarrow> 0 < rt_LeaseDuration w)"
proof -
  obtain reg cfg client headers path where w: "w = new_worker reg cfg"
      and b: "build_registry pe path (Some client) headers = Inr reg"
      and lease: "worker_run pe wloaded \<noteq> Inr w \<longrightarrow> 0 < ls_Duration (wt_Lease cfg)"
    using assms(1)
  proof (elim disjE conjE)
    assume r: "worker_run pe wloaded = Inr w"
    then obtain wc where wc: "wloaded = Inr wc" by (cases wloaded) (auto simp: worker_run_def)
    with r obtain reg where "w = new_worker reg (wk_Runtime wc)"
        "build_registry pe (wk_ProvidersFile wc) (Some (New_client (hc_MaxResponseBytes (wt_HTTPClient (wk_Runtime wc)))))
           (hc_AllowedRespHeaders (wt_HTTPClient (wk_Runtime wc))) = Inr reg"
      by (auto simp: worker_run_def Let_def split: sum.splits option.splits if_splits)
    with r that show thesis by blast
  next
    assume r: "server_run pe sloaded = Inr sv" "sn_Embedded sv = Some w"
    then obtain sc where "sloaded = Inr sc" by (cases sloaded) (auto simp: server_run_def)
    with r obtain reg where "w = new_worker reg (sv_Worker sc)" "0 < ls_Duration (wt_Lease (sv_Worker sc))"
        "build_registry pe (sv_ProvidersFile sc) (Some (New_client (hc_MaxResponseBytes (wt_HTTPClient (sv_Worker sc)))))
           (hc_AllowedRespHeaders (wt_HTTPClient (sv_Worker sc))) = Inr reg"
      by (auto simp: server_run_def server_broker_def Let_def split: sum.splits option.splits if_splits)
    with that show thesis by blast
  qed
  from w have reg: "px_Registry (rt_Processor w) = reg" by (simp add: new_worker_def)
  from b[unfolded build_registry_def] obtain providers where
    "Build (Register_adapters (pe_url pe) (pe_ip pe) (pe_mail pe) (pe_yaml pe)) (Resolve (pe_vars pe))
       (Some client) headers providers [] = Inr reg"
    by (auto simp: BuildRegistry_def split: sum.splits)
  from Build_entries[OF this] have d: "distinct (map fst reg)"
    and h: "\<forall>(k, ra) \<in> set reg. ac_HTTPClient (ra_Context ra) = Some client" by auto
  from assms(2) reg have m: "map_of reg (key c a) = Some ra" by (simp add: Lookup_def)
  have pos: "0 < ra_MaxConcurrency ra"
    using BuildRegistry_entry[OF b[unfolded build_registry_def]] assms(2) reg by blast
  have "ac_HTTPClient (ra_Context ra) = Some client" using h map_of_SomeD[OF m] by auto
  with w lease pos register_limiters_lookup[OF d m] register_breakers_lookup[OF d m] show ?thesis
    by (auto simp: new_worker_def Register_limiter_def)
qed

end
