(* ===== verification/Witnesses_Adapters.thy ===== *)
theory Witnesses_Adapters
  imports Startup
begin

text \<open>
  Concrete instances of the properties of the SMTP and Firebase adapters, of the registry
  of the compiled-in adapters, of the access rules, of the RabbitMQ consumer and of start-up.
\<close>

section \<open>SMTP\<close>

text \<open>A mail library that takes every text for an address and prints it in angle brackets.\<close>

definition wit_mail :: mail_lib where
  "wit_mail = \<lparr>ml_ParseAddress = (\<lambda>s. Some \<lparr>ma_Name = [], ma_Address = s\<rparr>),
     ml_String = (\<lambda>a. ''<'' @ ma_Address a @ ''>''), ml_QuotedPrintable = id\<rparr>"

definition wit_smtp_config :: smtpEmailConfig where
  "wit_smtp_config = \<lparr>sg_PasswordRef = ''pw'', sg_Host = ''mail'', sg_Port = 587, sg_TLSMode = [],
     sg_Username = ''u'', sg_FromAddress = ''a@b'', sg_FromName = [], sg_TimeoutMs = 1000,
     sg_RequestsPerSecond = 1, sg_MaxConcurrency = 1, sg_CircuitBreaker = None\<rparr>"

definition wit_smtp :: smtpSendRuntimeConfig where
  "wit_smtp = \<lparr>sx_Host = ''mail'', sx_Address = ''mail:587'', sx_TLSMode = smtpTLSStartTLS,
     sx_Username = ''u'', sx_From = \<lparr>ma_Name = [], ma_Address = ''a@b''\<rparr>, sx_Initialized = True\<rparr>"

definition wit_email :: string where
  "wit_email = ''{'' @ quote ''to'' @ '':['' @ quote ''c@d'' @ ''],'' @ quote ''subject'' @ '':''
     @ quote ''s'' @ '','' @ quote ''text'' @ '':'' @ quote ''t'' @ ''}''"

lemma wit_trims:
  "TrimSpace ''mail'' = ''mail''" "TrimSpace ''u'' = ''u''" "TrimSpace ''pw'' = ''pw''"
  "TrimSpace ''a@b'' = ''a@b''" "TrimSpace ''c@d'' = ''c@d''" "TrimSpace ''s'' = ''s''"
  "TrimSpace ''p'' = ''p''" "TrimSpace ''t'' = ''t''" "TrimSpace ''m'' = ''m''" "TrimSpace ''k'' = ''k''"
  by (simp_all add: TrimSpace_visible visible_def)

lemma wit_empty: "TrimSpace [] = []" "ToLower [] = []"
  by (simp_all add: TrimSpace_def ToLower_def)

lemma wit_port: "Itoa 587 = ''587''"
proof -
  have "char_of (53::nat) = CHR ''5''" "char_of (56::nat) = CHR ''8''" "char_of (55::nat) = CHR ''7''"
    by code_simp+
  then show ?thesis by (simp add: Itoa_def nat_digits.simps)
qed

lemma wit_smtp_checks:
  "validateSMTPHost ''mail'' = None" "ContainsAny ''a@b'' CRLF = False"
  "ContainsAny ''c@d'' CRLF = False" "ContainsAny ''s'' CRLF = False" "smtp_mode [] = smtpTLSStartTLS"
  "mode_problem (\<lambda>_. False) smtpTLSStartTLS ''mail'' = None" "JoinHostPort ''mail'' ''587'' = ''mail:587''"
  by code_simp+

lemma wit_smtp_accepted: "\<exists>pc. smtp_Config wit_mail (\<lambda>_. False) wit_smtp_config = Inr (pc, wit_smtp)"
  by (simp add: smtp_Config_def wit_smtp_config_def wit_smtp_def validateDeliveryLimits_def wit_trims wit_empty
      wit_port wit_smtp_checks parseSingleAddress_def wit_mail_def normalizeCircuitBreaker_def Let_def)

lemma wit_mail_one_line: "mail_one_line wit_mail"
  by (simp add: mail_one_line_def wit_mail_def)

lemma wit_email_decoded:
  "decode_smtp wit_email = Some \<lparr>sp_To = [''c@d''], sp_Subject = ''s'', sp_Text = ''t'', sp_HTML = []\<rparr>"
  "smtpMaxPayloadBytes < int (length wit_email) = False"
  by code_simp+

lemma wit_email_normal:
  "normalizeSMTPPayload wit_mail wit_email = Inr \<lparr>ns_Recipients = [\<lparr>ma_Name = [], ma_Address = ''c@d''\<rparr>],
     ns_Subject = ''s'', ns_Text = ''t'', ns_HTML = []\<rparr>"
  by (simp add: normalizeSMTPPayload_def wit_email_decoded wit_trims wit_empty wit_smtp_checks smtpMaxRecipients_def
      parseSingleAddress_def wit_mail_def)

theorem smtp_credentials_protected_witness:
  "\<exists>pc h stage r. smtp_Config wit_mail (\<lambda>_. False) wit_smtp_config = Inr (pc, wit_smtp)
     \<and> sendSMTP (\<lambda>_ _. None) 1000 wit_smtp ''k'' [''c@d''] ''m'' = (h, stage, r)
     \<and> 5 < length h \<and> h ! 5 = Auth ''u'' ''k'' \<and> pc_CredentialRef pc \<noteq> []
     \<and> (\<exists>j < 5. h ! j = StartTLS ''mail'')"
proof -
  obtain pc where pc: "smtp_Config wit_mail (\<lambda>_. False) wit_smtp_config = Inr (pc, wit_smtp)"
    using wit_smtp_accepted by blast
  obtain h stage r where run: "sendSMTP (\<lambda>_ _. None) 1000 wit_smtp ''k'' [''c@d''] ''m'' = (h, stage, r)"
    by (metis prod_cases3)
  then have h: "5 < length h" "h ! 5 = Auth ''u'' ''k''" "h ! 0 = Dial None ''mail:587''"
    by (auto simp: sendSMTP_def smtp_session_def smtp_call_def secure_session_def authenticate_def
        write_data_def dialSMTP_def wit_smtp_def smtpTLSStartTLS_def smtpTLSImplicit_def)
  have "\<not> isLoopbackHost (\<lambda>_. False) ''mail''" by code_simp
  with smtp_credentials_protected[OF pc run h(1,2)] h pc run show ?thesis
    by (auto simp: wit_smtp_def)
qed

definition wit_firebase_service :: fcm_service where
  "wit_firebase_service = \<lparr>fe_cause = None, fe_NewApp = \<lambda>_ _. None, fe_Send = \<lambda>_ _. Inr ''m''\<rparr>"

definition wit_mail_network :: network where
  "wit_mail_network = \<lparr>nt_http = \<lambda>_. Inl \<lparr>he_op = None, he_text = []\<rparr>,
     nt_now = 0, nt_cancelled = False, nt_cause = [],
     nt_smtp = \<lambda>_ _. None, nt_boundary = ''b'', nt_fcm = wit_firebase_service\<rparr>"

definition wit_mail_context :: ActionContext where
  "wit_mail_context = \<lparr>ac_ProviderCode = ''mail'', ac_ProviderAction = ''send'', ac_BaseURL = [],
     ac_Path = [], ac_Method = ''SMTP'', ac_Credential = ''k'', ac_TimeoutMs = 1000,
     ac_SourceSystem = ''shop'', ac_SourceRequestID = ''1'', ac_HTTPClient = None,
     ac_AllowedRespHeaders = []\<rparr>"

lemma all_accepted_yes: "all_accepted (\<lambda>_ _. None) h cs"
  by (induction cs arbitrary: h) auto

theorem smtp_delivery_witness:
  "\<exists>r. ad_SendActionRequest (SMTPEmail wit_mail wit_smtp) wit_mail_network wit_mail_context
         smtpActionSend wit_email = Inr (Some r) \<and> pr_Success r"
proof -
  have valid: "ad_Validate (SMTPEmail wit_mail wit_smtp) smtpActionSend wit_email = None"
    by (simp add: SMTPEmail_def smtp_Validate_def wit_email_normal)
  have srv: "nt_smtp wit_mail_network = (\<lambda>_ _. None)" by (simp add: wit_mail_network_def)
  have ready: "sx_Initialized wit_smtp" "sx_Username wit_smtp = [] \<or> ac_Credential wit_mail_context \<noteq> []"
    by (simp_all add: wit_smtp_def wit_mail_context_def)
  from smtp_delivery[OF valid ready, of wit_mail_network] show ?thesis
    unfolding srv by (auto simp: all_accepted_yes)
qed

theorem smtp_headers_safe_witness:
  "\<exists>msg headers body. buildSMTPMessage wit_mail ''b'' wit_email (sx_From wit_smtp) ''shop'' ''1'' 0 = Inr msg
     \<and> msg = concat (map header_line headers) @ CRLF @ body
     \<and> map fst (take 4 headers) = [''Date'', ''From'', ''To'', ''Subject'']
     \<and> (\<forall>h \<in> set headers. one_line (snd h))"
proof -
  obtain pc where pc: "smtp_Config wit_mail (\<lambda>_. False) wit_smtp_config = Inr (pc, wit_smtp)"
    using wit_smtp_accepted by blast
  obtain msg where msg: "buildSMTPMessage wit_mail ''b'' wit_email (sx_From wit_smtp) ''shop'' ''1'' 0 = Inr msg"
    by (simp add: buildSMTPMessage_def wit_email_normal)
  have "one_line ''b''" by (simp add: code_def)
  from smtp_headers_safe[OF wit_mail_one_line this pc msg] obtain headers body where
      h: "msg = concat (map header_line headers) @ CRLF @ body" "\<forall>h \<in> set headers. one_line (snd h)"
      "map fst (take 7 headers) = [''Date'', ''From'', ''To'', ''Subject'', ''Message-ID'', ''MIME-Version'', ''Content-Type'']"
    by (elim exE conjE) (rule that, assumption+)
  from arg_cong[OF h(3), of "take 4"] have "map fst (take 4 headers) = [''Date'', ''From'', ''To'', ''Subject'']"
    by (simp add: take_map)
  with msg h(1,2) show ?thesis by (intro exI conjI)
qed

section \<open>Firebase\<close>

definition wit_push :: string where
  "wit_push = ''{'' @ quote ''token'' @ '':'' @ quote ''t'' @ '','' @ quote ''data'' @ '':{'' @ quote ''k'' @ '':''
     @ quote ''v'' @ ''}}''"

definition wit_firebase_config :: firebasePushConfig where
  "wit_firebase_config = \<lparr>fc_ProjectID = ''p'', fc_CredentialsRef = [], fc_TimeoutMs = 1000,
     fc_RequestsPerSecond = 1, fc_MaxConcurrency = 1, fc_CircuitBreaker = None\<rparr>"

definition wit_firebase_state :: firebase_state where
  "wit_firebase_state =
     \<lparr>fs_projectID = ''p'', fs_credentialsRequired = False, fs_initialized = True, fs_client = None\<rparr>"

lemma wit_firebase_checks:
  "validateFirebaseProjectID ''p'' = None" "reserved_key ''k'' = False" "ensureJSONEOF [] = None"
  "firebasePushMaxPayload < int (length wit_push) = False"
  "decode_firebase wit_push = Some (\<lparr>fl_FID = [], fl_Token = ''t'', fl_Notification = None,
     fl_Data = [(''k'', ''v'')], fl_Android = None, fl_IOS = None\<rparr>, [])"
  by code_simp+

theorem fcm_success_on_the_wire_witness:
  "\<exists>pc r st' m. firebase_Config wit_firebase_config NewFirebasePush = Inr (pc, wit_firebase_state)
     \<and> firebase_SendActionRequest (\<lambda>_. None) wit_firebase_service (wit_mail_context\<lparr>ac_Credential := []\<rparr>)
         firebasePushActionSend wit_push wit_firebase_state = (Inr (Some r), st')
     \<and> pr_Success r \<and> fs_client st' = Some (''p'', None)
     \<and> buildFirebaseMessage (\<lambda>_. None) wit_push = Inr m \<and> fe_Send wit_firebase_service (''p'', None) m = Inr ''m''"
proof -
  obtain pc where pc: "firebase_Config wit_firebase_config NewFirebasePush = Inr (pc, wit_firebase_state)"
    by (simp add: firebase_Config_def wit_firebase_config_def wit_firebase_checks validateDeliveryLimits_def
        normalizeCircuitBreaker_def NewFirebasePush_def wit_firebase_state_def wit_trims wit_empty Let_def)
  obtain m where m: "buildFirebaseMessage (\<lambda>_. None) wit_push = Inr m"
    by (simp add: buildFirebaseMessage_def normalizeFirebasePushPayload_def wit_firebase_checks wit_trims wit_empty
        first_problem_def problem_of_def Let_def)
  define r where "r = fcm_answer wit_firebase_service (''p'', None) m"
  have r: "pr_Success r"
    by (simp add: r_def fcm_answer_def wit_firebase_service_def wit_trims result_zero_def)
  have run: "firebase_SendActionRequest (\<lambda>_. None) wit_firebase_service (wit_mail_context\<lparr>ac_Credential := []\<rparr>)
         firebasePushActionSend wit_push wit_firebase_state
       = (Inr (Some r), wit_firebase_state\<lparr>fs_client := Some (''p'', None)\<rparr>)"
    by (simp add: firebase_SendActionRequest_def m wit_firebase_state_def wit_mail_context_def wrap64_def
        millisecond_def messagingClient_def newFirebaseMessagingClient_def wit_empty r_def
        wit_firebase_service_def)
  have "firebase_run (\<lambda>_. None) [] wit_firebase_state = wit_firebase_state" by (simp add: firebase_run_def)
  with fcm_success_on_the_wire[OF pc _ r, of "\<lambda>_. None" wit_firebase_service
      "wit_mail_context\<lparr>ac_Credential := []\<rparr>" firebasePushActionSend wit_push "[]"] pc r run m
  show ?thesis by (auto simp: wit_firebase_service_def)
qed

section \<open>The registry\<close>

definition wit_yaml :: "unit yaml_lib" where
  "wit_yaml = \<lparr>yl_Marshal = \<lambda>_. Inr [], yl_Lark = \<lambda>_. Inl [], yl_SMTP = \<lambda>_. Inl [], yl_Webhook = \<lambda>_. Inl [],
     yl_Firebase = \<lambda>_. Inr wit_firebase_config, yl_Loadtest = \<lambda>_. Inl []\<rparr>"

definition wit_providers :: "(string \<times> unit) list" where
  "wit_providers = [(firebasePushProviderCode, ())]"

lemma wit_firebase_accepted:
  "\<exists>cf. firebase_Config wit_firebase_config NewFirebasePush
     = Inr (\<lparr>pc_CredentialRef = [], pc_Actions = [(firebasePushActionSend, cf)]\<rparr>, wit_firebase_state)"
  by (simp add: firebase_Config_def wit_firebase_config_def wit_firebase_checks validateDeliveryLimits_def
      normalizeCircuitBreaker_def NewFirebasePush_def wit_firebase_state_def wit_trims wit_empty Let_def)

lemma wit_registered:
  "Register_adapters up ip ml yl firebasePushProviderCode
     = Some (config_of (DecodeConfig (yl_Marshal yl) (yl_Firebase yl))
        (\<lambda>c. map_sum id (\<lambda>(pc, st). (pc, FirebasePush up st)) (firebase_Config c NewFirebasePush)))"
  by (simp add: Register_adapters_def RegisterAdapter_def builtin_codes)

lemma wit_built:
  "\<exists>reg ra. BuildRegistry up ip ml wit_yaml env (Inr wit_providers) client headers = Inr reg
     \<and> Lookup reg firebasePushProviderCode firebasePushActionSend = Some ra"
proof -
  obtain cf where "firebase_Config wit_firebase_config NewFirebasePush
     = Inr (\<lparr>pc_CredentialRef = [], pc_Actions = [(firebasePushActionSend, cf)]\<rparr>, wit_firebase_state)"
    using wit_firebase_accepted by blast
  then show ?thesis
    by (simp add: BuildRegistry_def wit_providers_def wit_registered config_of_def DecodeConfig_def wit_yaml_def
        Resolve_def Lookup_def)
qed

theorem configured_adapters_keep_the_contract_witness:
  "\<exists>reg ra. BuildRegistry (\<lambda>_. None) (\<lambda>_. False) wit_mail wit_yaml (\<lambda>_. None) (Inr wit_providers) (Some 1) [] = Inr reg
     \<and> Lookup reg firebasePushProviderCode firebasePushActionSend = Some ra
     \<and> 0 < ra_MaxConcurrency ra
     \<and> (\<exists>e. ad_SendActionRequest (ra_Adapter ra) wit_mail_network wit_mail_context ''other'' [] = Inl e)"
proof -
  from wit_built[of "\<lambda>_. None" "\<lambda>_. False" wit_mail "\<lambda>_. None" "Some 1" "[]"] obtain reg ra where
      b: "BuildRegistry (\<lambda>_. None) (\<lambda>_. False) wit_mail wit_yaml (\<lambda>_. None) (Inr wit_providers) (Some 1) [] = Inr reg"
      "Lookup reg firebasePushProviderCode firebasePushActionSend = Some ra" by blast
  have "''other'' \<noteq> firebasePushActionSend" by (simp add: firebasePushActionSend_def)
  with configured_adapters_keep_the_contract[OF b, of wit_mail_network wit_mail_context "''other''" "[]"] b
  show ?thesis by blast
qed

section \<open>Access\<close>

definition wit_deps :: Deps where
  "wit_deps = \<lparr>dp_Registry = [], dp_AuthVerifier = Some [''k''], dp_AuthTokens = [''k''],
     dp_MaxBodyBytes = 0, dp_SwaggerEnabled = False, dp_Ready = Some (server_ready True)\<rparr>"

definition wit_anonymous :: http_request where
  "wit_anonymous = \<lparr>rq_Method = ''GET'', rq_Path = ''/v1/providers'', rq_SourceSystem = [],
     rq_Authorization = [], rq_AcceptLanguage = [], rq_Body = []\<rparr>"

definition wit_mcp :: mcp_request where
  "wit_mcp = \<lparr>mr_Method = ''POST'', mr_Host = ''h'', mr_SecFetchSite = [], mr_Origin = [], mr_Token = Some ''guess'',
     mr_Body = ''{}''\<rparr>"

theorem anonymous_access_is_confined_witness:
  "(\<exists>a. NewRouter (\<lambda>_. []) (\<lambda>_. None) wit_deps (\<lambda>_. None) wit_anonymous = Return ([], Reply a) \<and> ap_HTTPStatus a = 401)
   \<and> NewRouter (\<lambda>_. []) (\<lambda>_. None) (wit_deps\<lparr>dp_AuthTokens := [''z'']\<rparr>) (\<lambda>_. None) wit_anonymous
     = NewRouter (\<lambda>_. []) (\<lambda>_. None) wit_deps (\<lambda>_. None) wit_anonymous
   \<and> (\<exists>e. unary_call (dp_AuthVerifier wit_deps) ''/svc/Get'' None (Return (Returns (Inr ())))
            = Return (Inl (Unauthenticated, e)))
   \<and> NewHandler (\<lambda>_. None) (dp_AuthVerifier wit_deps) 0 (\<lambda>_. Return ()) wit_mcp = Return (McpRefused 401)"
proof -
  have route: "find_route (dp_SwaggerEnabled wit_deps) (rq_Path wit_anonymous) = Some (rq_Method wit_anonymous, Providers)"
    by (simp add: wit_deps_def wit_anonymous_def find_route_def Let_def)
  have refused: "\<not> bearerAuth (dp_AuthVerifier wit_deps) (rq_Authorization wit_anonymous)"
      "verifyIncomingToken (dp_AuthVerifier wit_deps) None \<noteq> None"
      "\<not> mcp_authorized (dp_AuthVerifier wit_deps) (mr_Token wit_mcp)"
    by (simp_all add: wit_anonymous_def wit_deps_def wit_mcp_def bearerAuth_def verifyIncomingToken_def
        HasPrefix_def mcp_authorized_def Verify_def)
  have "HasPrefix (rq_Path wit_anonymous) ''/v1''" "\<not> isHealthMethod ''/svc/Get''" "\<not> dp_SwaggerEnabled wit_deps"
    by (simp_all add: wit_anonymous_def isHealthMethod_def HasPrefix_def wit_deps_def)
  with anonymous_access_is_confined[OF refused, of "\<lambda>_. []" "\<lambda>_. None" "\<lambda>_. None" "[]" "[]" "[''z'']" "''/svc/Get''"
      "Return (Returns (Inr ()))" "Return None" "\<lambda>_. None" 0 "\<lambda>_. Return ()"] route
  show ?thesis by fastforce
qed

section \<open>The RabbitMQ consumer\<close>

definition wit_limits :: RequeueConfig where
  "wit_limits = \<lparr>rq_DefaultRequeueDelay = 30 * second, rq_MaxRequeueDelay = 900 * second, rq_MaxAttempts = 3\<rparr>"

definition wit_amqp :: RabbitMQConfig where
  "wit_amqp = \<lparr>rc_URL = ''amqp://mq'', rc_Exchange = ''n'', rc_ExchangeType = ''direct'',
     rc_RoutingKey = [], rc_Queue = ''n'', rc_Durable = True, rc_PrefetchCount = 0, rc_ReconnectDelay = 0,
     rc_RequeueConfig = wit_limits\<rparr>"

definition wit_message :: amqp_delivery where
  "wit_message = \<lparr>ad_Headers = None, ad_Body = ''{}'', ad_Properties = no_properties\<rparr>"

text \<open>The context is done while a delivery is in hand; the loop still starts its handler, then sees it.\<close>

theorem rabbit_consumer_in_order_witness:
  "\<exists>s. loop_run wit_amqp (loop_start 2)
       [HeadCheck, ConsumeStarts, Takes wit_message, ContextDone, Acquires, Spawns wit_message, SeesDone] s
     \<and> rs_phase s = Returned \<and> rs_running s = [wit_message] \<and> int (length (rs_running s)) \<le> 2 \<and> 0 < rs_sem s
     \<and> left_open (\<lambda>_ _. Some ''down'') (fst (connect (\<lambda>_ _. Some ''down'') wit_amqp (rabbit_concurrency 2))) = (False, [])"
proof -
  let ?s = "\<lambda>p d k r. \<lparr>rs_phase = p, rs_done = d, rs_slots = 2, rs_sem = k, rs_running = r, rs_open = 1\<rparr>"
  let ?es = "[HeadCheck, ConsumeStarts, Takes wit_message, ContextDone, Acquires, Spawns wit_message, SeesDone]"
  let ?stopped = "?s Returned True 1 [wit_message]"
  have s: "loop_start 2 = ?s AtHead False 0 []" by (simp add: loop_start_def rabbit_concurrency_def)
  have "loop_step wit_amqp (?s AtHead False 0 []) HeadCheck (?s Subscribing False 0 [])"
    using head_check[of "?s AtHead False 0 []"] by simp
  moreover have "loop_step wit_amqp (?s Subscribing False 0 []) ConsumeStarts (?s Selecting False 0 [])"
    using consume_starts[of "?s Subscribing False 0 []"] by simp
  moreover have "loop_step wit_amqp (?s Selecting False 0 []) (Takes wit_message) (?s (Acquiring wit_message) False 0 [])"
    using takes[of "?s Selecting False 0 []"] by simp
  moreover have "loop_step wit_amqp (?s (Acquiring wit_message) False 0 []) ContextDone (?s (Acquiring wit_message) True 0 [])"
    using context_done[where s = "?s (Acquiring wit_message) False 0 []"] by simp
  moreover have "loop_step wit_amqp (?s (Acquiring wit_message) True 0 []) Acquires (?s (Spawning wit_message) True 1 [])"
    using acquires[of "?s (Acquiring wit_message) True 0 []"] by simp
  moreover have "loop_step wit_amqp (?s (Spawning wit_message) True 1 []) (Spawns wit_message) (?s Selecting True 1 [wit_message])"
    using spawns[of "?s (Spawning wit_message) True 1 []"] by simp
  moreover have "loop_step wit_amqp (?s Selecting True 1 [wit_message]) SeesDone ?stopped"
    using sees_done[of "?s Selecting True 1 [wit_message]"] by simp
  ultimately have "loop_run wit_amqp (loop_start 2) ?es ?stopped" by (subst s) (blast intro: loop_run.intros)
  from this rabbit_consumer_in_order[OF this, of "\<lambda>_ _. Some ''down''"]
  show ?thesis by (intro exI[of _ ?stopped]) (simp add: connect_def amqp_step_def)
qed

section \<open>Start-up\<close>

definition wit_worker_config :: WorkerConfig where
  "wit_worker_config =
     \<lparr>wk_Database = \<lparr>db_Driver = ''pg'', db_DSN = ''d'', db_AutoCreate = False, db_MaxConns = 4, db_MinConns = 0\<rparr>,
      wk_MQ = \<lparr>mq_Driver = ''nsq'', mq_Memory = \<lparr>mc_BufferSize = 1, mc_RequeueConfig = wit_limits\<rparr>,
        mq_NSQ = \<lparr>nq_NSQDAddr = ''q:1'', nq_LookupdAddrs = [''q:2''], nq_Topic = ''n'', nq_Channel = ''w'',
          nq_RequeueConfig = wit_limits\<rparr>,
        mq_RabbitMQ = wit_amqp\<rparr>,
      wk_ProvidersFile = ''f'',
      wk_Runtime = \<lparr>wt_Lease = \<lparr>ls_Duration = 30 * second, ls_RenewInterval = 10 * second\<rparr>, wt_Concurrency = 0,
        wt_Compensator = \<lparr>cc_PublishScanInterval = second, cc_PublishBatchSize = 1,
          cc_LeaseScanInterval = second, cc_LeaseScanBatchSize = 1\<rparr>,
        wt_HTTPClient = \<lparr>hc_MaxResponseBytes = 0, hc_AllowedRespHeaders = []\<rparr>\<rparr>,
      wk_AutoMigrate = True\<rparr>"

definition wit_process :: "unit process_env" where
  "wit_process =
     \<lparr>pe_url = \<lambda>_. None, pe_ip = \<lambda>_. False, pe_mail = wit_mail, pe_yaml = wit_yaml, pe_vars = \<lambda>_. None,
      pe_files = \<lambda>_. Inr [], pe_providers = \<lambda>_. Inr wit_providers,
      pe_db = \<lparr>do_ParseConfig = Inr ''d'', do_Connect = None, do_Exists = Inr True, do_Create = None,
        do_Open = None, do_Handle = None, do_Ping = None, do_Migrate = None\<rparr>,
      pe_mq = \<lparr>me_amqp = \<lambda>_ _. None, me_nsq = None\<rparr>, pe_random = Inr ''r'', pe_grpc_listen = None\<rparr>"

theorem runtime_is_wired_witness:
  "\<exists>w al. worker_run wit_process (Inr wit_worker_config) = Inr w
     \<and> rt_Limiters w (key firebasePushProviderCode firebasePushActionSend) = Some al
     \<and> al_inUse al = 0 \<and> 1 \<le> rt_Concurrency w"
proof -
  from wit_built obtain reg ra where b: "BuildRegistry (\<lambda>_. None) (\<lambda>_. False) wit_mail wit_yaml (\<lambda>_. None)
        (Inr wit_providers) (Some 1048576) [] = Inr reg"
      "Lookup reg firebasePushProviderCode firebasePushActionSend = Some ra" by blast
  have pg: "TrimSpace ''pg'' = ''pg''" by (simp add: TrimSpace_visible visible_def)
  have "validatePostgresDriver ''pg'' = None"
    by (simp add: validatePostgresDriver_def pg ToLower_def lower_char_def)
  moreover have "validateRequeueConfig ''nsq'' wit_limits = Inr ()"
    by (simp add: validateRequeueConfig_def wit_limits_def second_def word_less_nat_alt)
  ultimately have w: "worker_run wit_process (Inr wit_worker_config)
      = Inr (new_worker reg (wk_Runtime wit_worker_config))"
    using b(1) by (simp add: worker_run_def wit_worker_config_def wit_process_def open_database_def NewPool_def
        Migrate_def build_registry_def LoadProviders_def loadYAML_def New_client_def NewPublisher_def NewConsumer_def newNSQPublisher_def
        newNSQConsumer_def Let_def)
  have r: "Lookup (px_Registry (rt_Processor (new_worker reg (wk_Runtime wit_worker_config))))
      firebasePushProviderCode firebasePushActionSend = Some ra"
    using b(2) by (simp add: new_worker_def)
  from runtime_is_wired[OF disjI1[OF w] r] w show ?thesis by blast
qed

end
