(* ===== verification/Rows.thy ===== *)
theory Rows
  imports Store_Laws
begin

text \<open>
  internal/store/event_repo.go, the scanning of a row: what the driver returns for the
  columns of notification_event, \<open>scanEvent\<close>, and the errors the repository makes of it.
  The other theories read a row as the event it is; here that reading is what scanning
  gives. The driver returns uuids as text; \<open>uuid.Parse\<close> and \<open>String\<close> are parameters.
\<close>

section \<open>Columns\<close>

text \<open>The columns in the order of \<open>eventColumns\<close>, with the types of the schema.\<close>

record columns =
  cl_id :: string
  cl_source_system :: string
  cl_source_request_id :: string
  cl_provider_code :: string
  cl_provider_action :: string
  cl_payload :: string
  cl_status :: Status
  cl_attempt_count :: int
  cl_next_attempt_at :: instant
  cl_enqueued_at :: "instant option"
  cl_lease_token :: "string option"
  cl_lease_until :: "instant option"
  cl_last_result :: "json option"
  cl_provider_response :: "string option"
  cl_created_at :: instant
  cl_updated_at :: instant

text \<open>What a query's only row is: absent, unreadable, or its columns.\<close>

datatype sql_error = ErrNoRows | ScanError string

type_synonym uuid_parser = "string \<Rightarrow> (string, uuid) result"

definition scan_token :: "uuid_parser \<Rightarrow> string option \<Rightarrow> (string, uuid option) result" where
  "scan_token uuid_Parse token =
     (case token of None \<Rightarrow> Inr None | Some s \<Rightarrow> map_sum id Some (uuid_Parse s))"

definition scanEvent :: "uuid_parser \<Rightarrow> (sql_error, columns) result \<Rightarrow> (sql_error, Event) result" where
  "scanEvent uuid_Parse scanner =
     (case scanner of
        Inl e \<Rightarrow> Inl e
      | Inr c \<Rightarrow>
        (case uuid_Parse (cl_id c) of
           Inl e \<Rightarrow> Inl (ScanError e)
         | Inr i \<Rightarrow>
           (case scan_token uuid_Parse (cl_lease_token c) of
              Inl e \<Rightarrow> Inl (ScanError e)
            | Inr tok \<Rightarrow> Inr
                \<lparr>ev_ID = i, ev_SourceSystem = cl_source_system c,
                 ev_SourceRequestID = cl_source_request_id c, ev_ProviderCode = cl_provider_code c,
                 ev_ProviderAction = cl_provider_action c, ev_Payload = cl_payload c,
                 ev_Status = cl_status c, ev_AttemptCount = cl_attempt_count c,
                 ev_NextAttemptAt = cl_next_attempt_at c, ev_EnqueuedAt = cl_enqueued_at c,
                 ev_LeaseToken = tok, ev_LeaseUntil = cl_lease_until c,
                 ev_LastResult = cl_last_result c, ev_ProviderResponse = cl_provider_response c,
                 ev_CreatedAt = cl_created_at c, ev_UpdatedAt = cl_updated_at c\<rparr>)))"

text \<open>\<open>sql.ErrNoRows\<close> becomes the error of the operation, any other error is handed on.\<close>

definition scan_result :: "store_error \<Rightarrow> (sql_error, Event) result \<Rightarrow> (store_error, Event) result" where
  "scan_result none r =
     (case r of
        Inl ErrNoRows \<Rightarrow> Inl none
      | Inl (ScanError e) \<Rightarrow> Inl (DbError e)
      | Inr ev \<Rightarrow> Inr ev)"

text \<open>The loop over the rows of a scan stops at the first row it cannot read.\<close>

fun scan_events :: "uuid_parser \<Rightarrow> columns list \<Rightarrow> (store_error, Event list) result" where
  "scan_events uuid_Parse [] = Inr []"
| "scan_events uuid_Parse (c # cs) =
     (case scan_result ErrNotFound (scanEvent uuid_Parse (Inr c)) of
        Inl e \<Rightarrow> Inl e
      | Inr ev \<Rightarrow> map_sum id ((#) ev) (scan_events uuid_Parse cs))"

fun scan_ids :: "uuid_parser \<Rightarrow> string list \<Rightarrow> (store_error, uuid list) result" where
  "scan_ids uuid_Parse [] = Inr []"
| "scan_ids uuid_Parse (s # ss) =
     (case uuid_Parse s of
        Inl e \<Rightarrow> Inl (DbError e)
      | Inr i \<Rightarrow> map_sum id ((#) i) (scan_ids uuid_Parse ss))"

section \<open>Errors of an insert\<close>

text \<open>PostgreSQL reports an SQLSTATE; \<open>23505\<close> is any violation of a unique constraint.\<close>

datatype db_error = PgError string string | DriverError string

fun error_text :: "db_error \<Rightarrow> string" where
  "error_text (PgError sqlstate message) = message"
| "error_text (DriverError message) = message"

fun isDuplicateSourceRequestError :: "db_error \<Rightarrow> bool" where
  "isDuplicateSourceRequestError (PgError sqlstate message) = (sqlstate = ''23505'')"
| "isDuplicateSourceRequestError (DriverError message) = False"

definition insert_error :: "db_error \<Rightarrow> store_error" where
  "insert_error e = (if isDuplicateSourceRequestError e then ErrDuplicateSourceRequest
                     else DbError (error_text e))"

lemma insert_error_duplicate:
  "insert_error e = ErrDuplicateSourceRequest \<longleftrightarrow> (\<exists>message. e = PgError ''23505'' message)"
  by (cases e) (auto simp: insert_error_def)

section \<open>Reading a row is scanning its columns\<close>

definition row_columns :: "(uuid \<Rightarrow> string) \<Rightarrow> Event \<Rightarrow> columns" where
  "row_columns uuid_String r =
     \<lparr>cl_id = uuid_String (ev_ID r), cl_source_system = ev_SourceSystem r,
      cl_source_request_id = ev_SourceRequestID r, cl_provider_code = ev_ProviderCode r,
      cl_provider_action = ev_ProviderAction r, cl_payload = ev_Payload r,
      cl_status = ev_Status r, cl_attempt_count = ev_AttemptCount r,
      cl_next_attempt_at = ev_NextAttemptAt r, cl_enqueued_at = ev_EnqueuedAt r,
      cl_lease_token = map_option uuid_String (ev_LeaseToken r), cl_lease_until = ev_LeaseUntil r,
      cl_last_result = ev_LastResult r, cl_provider_response = ev_ProviderResponse r,
      cl_created_at = ev_CreatedAt r, cl_updated_at = ev_UpdatedAt r\<rparr>"

text \<open>What scanning needs of the uuid library: text it printed is read back.\<close>

definition uuid_reads :: "(uuid \<Rightarrow> string) \<Rightarrow> uuid_parser \<Rightarrow> bool" where
  "uuid_reads uuid_String uuid_Parse \<longleftrightarrow> (\<forall>i. uuid_Parse (uuid_String i) = Inr i)"

lemma scan_row: "uuid_reads us up \<Longrightarrow> scanEvent up (Inr (row_columns us r)) = Inr r"
  by (simp add: uuid_reads_def scanEvent_def row_columns_def scan_token_def split: option.split)

lemma scan_rows: "uuid_reads us up \<Longrightarrow> scan_events up (map (row_columns us) rs) = Inr rs"
  by (induction rs) (simp_all add: scan_row scan_result_def)

lemma scan_row_ids: "uuid_reads us up \<Longrightarrow> scan_ids up (map (\<lambda>r. us (ev_ID r)) rs) = Inr (map ev_ID rs)"
  by (induction rs) (simp_all add: uuid_reads_def)

definition first_row :: "(uuid \<Rightarrow> string) \<Rightarrow> (Event \<Rightarrow> bool) \<Rightarrow> table \<Rightarrow> (sql_error, columns) result" where
  "first_row uuid_String p t =
     (case List.find p t of None \<Rightarrow> Inl ErrNoRows | Some r \<Rightarrow> Inr (row_columns uuid_String r))"

lemma lookup_is_scan:
  assumes "uuid_reads us up" and "db_fault env = NoFault"
  shows "FindBySourceRequest env sys req t = scan_result ErrNotFound
      (scanEvent up (first_row us (\<lambda>r. ev_SourceSystem r = sys \<and> ev_SourceRequestID r = req) t))"
    and "GetByID env i t = scan_result ErrNotFound (scanEvent up (first_row us (\<lambda>r. ev_ID r = i) t))"
  using assms scan_row[OF assms(1)]
  by (auto simp: FindBySourceRequest_def GetByID_def select_one_def first_row_def scan_result_def
      scanEvent_def[of up "Inl ErrNoRows"] split: option.split)

lemma claim_is_scan:
  assumes "uuid_reads us up" and "db_fault env = NoFault"
    and "\<not> list_ex (\<lambda>r. claimable (db_now env) i r \<and> ev_AttemptCount r = 32767) t"
  shows "fst (Claim env i tok dur now t) = scan_result ErrNotClaimed (scanEvent up
      (map_sum id (\<lambda>_. row_columns us (claim_row (db_now env) tok dur now
          (the (List.find (claimable (db_now env) i) t))))
        (first_row us (claimable (db_now env) i) t)))"
  using assms scan_row[OF assms(1)]
  by (auto simp: Claim_def Let_def first_row_def scan_result_def scanEvent_def[of up "Inl ErrNoRows"]
      split: option.split)

lemma scans_are_scans:
  assumes "uuid_reads us up" and "db_fault env = NoFault"
  shows "SelectExpiredLeases env n t = scan_events up (map (row_columns us) (take n
      (sort_key (\<lambda>r. case ev_LeaseUntil r of Some u \<Rightarrow> u | None \<Rightarrow> 0) (sort_key (\<lambda>r. db_tie env (ev_ID r))
        (filter (\<lambda>r. ev_Status r = PROCESSING \<and> lease_expired (db_now env) r) t)))))"
    and "SelectPendingToPublish env n t = scan_ids up (map (\<lambda>r. us (ev_ID r)) (take n
      (sort_key ev_NextAttemptAt (sort_key (\<lambda>r. db_tie env (ev_ID r))
        (filter (pending_to_publish (db_now env)) t)))))"
  using assms by (simp_all add: SelectExpiredLeases_def SelectPendingToPublish_def select_rows_def
      scan_rows scan_row_ids)

end
