(* ===== verification/Observability.thy ===== *)
theory Observability
  imports Endpoints Startup
begin

text \<open>
  What the processes tell the outside about themselves: the access log of the REST router
  (api/access_log.go), the log of the gRPC server (grpcapi/interceptor.go), the logger
  (logging/logging.go), and the commands around \<open>run\<close> (cmd/server/main.go,
  cmd/worker/main.go). The JSON handler of log/slog and the flag parser of cobra are
  libraries; a log line is the list of its attributes.
\<close>

section \<open>The loggers\<close>

fun level_rank :: "log_level \<Rightarrow> int" where
  "level_rank LevelDebug = -4"
| "level_rank LevelInfo = 0"
| "level_rank LevelWarn = 4"
| "level_rank LevelError = 8"

text \<open>The logger writes the records at or above the level that LOG_LEVEL names.\<close>

definition NewJSON :: "(string \<Rightarrow> string) \<Rightarrow> log_level \<Rightarrow> bool" where
  "NewJSON Getenv level \<longleftrightarrow> level_rank (parseLevel (Getenv ''LOG_LEVEL'')) \<le> level_rank level"

lemma NewJSON_default: "parseLevel (Getenv ''LOG_LEVEL'') = LevelInfo \<Longrightarrow> NewJSON Getenv level \<longleftrightarrow> level \<noteq> LevelDebug"
  by (cases level) (simp_all add: NewJSON_def)

text \<open>Errors are always written.\<close>

lemma NewJSON_errors: "NewJSON Getenv LevelError"
  by (cases "parseLevel (Getenv ''LOG_LEVEL'')") (simp_all add: NewJSON_def)

section \<open>REST\<close>

text \<open>The status of a reply; that of an asset is set by the Swagger library.\<close>

fun reply_status :: "int \<Rightarrow> http_reply \<Rightarrow> int" where
  "reply_status asset (Reply a) = ap_HTTPStatus a"
| "reply_status asset (Redirect s location) = s"
| "reply_status asset (DocsIndex token) = 200"
| "reply_status asset (DocsAsset f) = asset"

definition access_attributes ::
  "string \<Rightarrow> int \<Rightarrow> duration \<Rightarrow> http_request \<Rightarrow> http_reply \<Rightarrow> (string \<times> string) list" where
  "access_attributes clientIP asset latency q reply =
     [(''method'', rq_Method q), (''path'', rq_Path q), (''status'', Itoa (reply_status asset reply)),
      (''latency_ms'', Itoa (milliseconds latency)), (''client_ip'', clientIP)]"

text \<open>The middleware runs the rest of the chain first; without a logger it logs nothing.\<close>

definition accessLogger ::
  "bool \<Rightarrow> string \<Rightarrow> int \<Rightarrow> http_request \<Rightarrow> http_reply prog \<Rightarrow> (http_reply \<times> (string \<times> string) list option) prog" where
  "accessLogger logger clientIP asset q rest =
     TimeNow (\<lambda>startedAt. bind rest (\<lambda>reply.
       if \<not> logger then Return (reply, None)
       else TimeNow (\<lambda>now. Return (reply,
              Some (access_attributes clientIP asset (time_sub now startedAt) q reply)))))"

text \<open>The line says nothing of the credentials, the body or the data of the reply.\<close>

lemma access_log_discreet:
  assumes "reply_status asset reply = reply_status asset reply'"
  shows "access_attributes ip asset latency (q\<lparr>rq_Authorization := a, rq_Body := b\<rparr>) reply
    = access_attributes ip asset latency q reply'"
  using assms by (simp add: access_attributes_def)

section \<open>The Swagger page\<close>

text \<open>The index page, with the JSON text of the token the page starts with.\<close>

definition swaggerIndexHTML :: "string \<Rightarrow> string" where
  \<open>swaggerIndexHTML tokenJSON =
     Join
       [''<!DOCTYPE html>'',
        ''<html lang="en">'',
        ''<head>'',
        ''  <meta charset="UTF-8">'',
        ''  <meta name="viewport" content="width=device-width, initial-scale=1">'',
        ''  <title>Notification Delivery API</title>'',
        ''  <link rel="stylesheet" href="./swagger-ui.css">'',
        ''</head>'',
        ''<body>'',
        ''<div id="swagger-ui"></div>'',
        ''<script src="./swagger-ui-bundle.js"></script>'',
        ''<script src="./swagger-ui-standalone-preset.js"></script>'',
        ''<script>'',
        ''window.onload = function () {'',
        ''  const defaultBearerToken = '' @ tokenJSON @ '';'',
        ''  const ui = SwaggerUIBundle({'',
        ''    url: "doc.json",'',
        ''    dom_id: "#swagger-ui",'',
        ''    validatorUrl: null,'',
        ''    persistAuthorization: true,'',
        ''    presets: [SwaggerUIBundle.presets.apis, SwaggerUIStandalonePreset],'',
        ''    plugins: [SwaggerUIBundle.plugins.DownloadUrl],'',
        ''    layout: "StandaloneLayout",'',
        ''    requestInterceptor: function (request) {'',
        ''      const authorization = request.headers && request.headers.Authorization;'',
        ''      if (authorization && !authorization.startsWith("Bearer ")) {'',
        ''        request.headers.Authorization = "Bearer " + authorization;'',
        ''      }'',
        ''      return request;'',
        ''    }'',
        ''  });'',
        ''  if (defaultBearerToken) {'',
        ''    ui.preauthorizeApiKey("BearerAuth", defaultBearerToken);'',
        ''  }'',
        ''  window.ui = ui;'',
        ''};'',
        ''</script>'',
        ''</body>'',
        ''</html>''] [CHR 0x0A]\<close>

text \<open>
  The token stands inside a script element. Whatever it is, its JSON text has no control
  character and none of the three characters that could end the element or start another.
\<close>

definition inert :: "char \<Rightarrow> bool" where
  "inert c \<longleftrightarrow> 32 \<le> code c \<and> c \<notin> {CHR ''<'', CHR ''>'', CHR ''&''}"

lemma rune_bytes:
  assumes "rune_length (a # t) = n" and "1 < n"
  shows "list_all (\<lambda>c. 128 \<le> code c) (take n (a # t))"
proof -
  from assms have "(\<exists>b u. n = 2 \<and> t = b # u \<and> list_all (\<lambda>c. 128 \<le> code c) [a, b])
    \<or> (\<exists>b c u. n = 3 \<and> t = b # c # u \<and> list_all (\<lambda>c. 128 \<le> code c) [a, b, c])
    \<or> (\<exists>b c d u. n = 4 \<and> t = b # c # d # u \<and> list_all (\<lambda>c. 128 \<le> code c) [a, b, c, d])"
    by (simp add: Let_def is_cont_def split: if_splits list.splits)
  then show ?thesis by (elim disjE exE conjE) (simp_all add: eval_nat_numeral)
qed

lemma inert_chars:
  "list_all inert ''0123456789abcdef''" "list_all inert ''unrt''" "inert (CHR 0x22)" "inert (CHR 0x5C)"
  by code_simp+

lemmas inert_letters [simp] = inert_chars(3,4) inert_chars(1,2)[simplified]

lemma high_inert:
  assumes "128 \<le> code c"
  shows "inert c"
proof -
  have "code (CHR ''<'') = 60" "code (CHR ''>'') = 62" "code (CHR ''&'') = 38" by code_simp+
  with assms show ?thesis by (auto simp: inert_def)
qed

lemma hex_char_inert: "inert (hex_char n)"
proof -
  have "''0123456789abcdef'' ! (n mod 16) \<in> set ''0123456789abcdef''" by (rule nth_mem) simp
  with inert_chars(1) show ?thesis unfolding hex_char_def list_all_iff by blast
qed

lemma escape_byte_inert: "list_all inert (escape_byte c)"
proof (cases "32 \<le> code c \<and> c \<notin> {CHR ''<'', CHR ''>'', CHR ''&''}")
  case True
  then have "inert c" by (simp add: inert_def)
  then show ?thesis by (simp add: escape_byte_def u00_def hex_char_inert)
next
  case False
  then show ?thesis by (auto simp: escape_byte_def u00_def hex_char_inert)
qed

lemma escape_text_inert: "list_all inert (escape_text s)"
proof (induction s rule: escape_text.induct)
  case (2 c s)
  have "list_all inert (take (rune_length (c # s)) (c # s))" if "1 < rune_length (c # s)"
    using rune_bytes[OF refl that] by (rule list.pred_mono_strong) (rule high_inert)
  with 2 show ?case by (simp add: Let_def escape_byte_inert del: rune_length.simps take.simps take_Suc_Cons)
qed simp

lemma token_stays_in_its_string: "list_all inert (quote token)"
  using escape_text_inert[of token] by (simp add: quote_def inert_def)

section \<open>gRPC\<close>

fun code_string :: "grpc_code \<Rightarrow> string" where
  "code_string InvalidArgument = ''InvalidArgument''"
| "code_string AlreadyExists = ''AlreadyExists''"
| "code_string NotFound = ''NotFound''"
| "code_string Unavailable = ''Unavailable''"
| "code_string Internal = ''Internal''"
| "code_string Unauthenticated = ''Unauthenticated''"

fun status_code :: "(grpc_code \<times> string, 'r) result \<Rightarrow> string" where
  "status_code (Inl (c, message)) = code_string c"
| "status_code (Inr response) = ''OK''"

definition grpc_attributes ::
  "string \<Rightarrow> duration \<Rightarrow> (grpc_code \<times> string, 'r) result \<Rightarrow> (string \<times> string) list" where
  "grpc_attributes fullMethod latency answer =
     [(''protocol'', ''grpc''), (''operation'', fullMethod), (''status'', status_code answer),
      (''latency_ms'', Itoa (milliseconds latency))]"

text \<open>A panic unwinds past the log line to the recovery outside.\<close>

definition loggingUnaryInterceptor ::
  "bool \<Rightarrow> string \<Rightarrow> (grpc_code \<times> string, 'r) result outcome prog \<Rightarrow>
   ((grpc_code \<times> string, 'r) result outcome \<times> (string \<times> string) list option) prog" where
  "loggingUnaryInterceptor logger fullMethod handler =
     TimeNow (\<lambda>startedAt. bind handler (\<lambda>x. case x of
       Panics p \<Rightarrow> Return (Panics p, None)
     | Returns answer \<Rightarrow>
         if \<not> logger then Return (Returns answer, None)
         else TimeNow (\<lambda>now. Return (Returns answer,
                Some (grpc_attributes fullMethod (time_sub now startedAt) answer)))))"

lemma loggingUnaryInterceptor_off:
  "loggingUnaryInterceptor False fullMethod handler =
     TimeNow (\<lambda>_. bind handler (\<lambda>x. Return (x, None)))"
  unfolding loggingUnaryInterceptor_def
  by (intro arg_cong[where f = TimeNow] ext arg_cong2[where f = bind] refl) (simp split: outcome.split)

section \<open>The commands\<close>

text \<open>
  \<open>main\<close>: the configuration file is the one the flag names or the default, and the error of
  \<open>run\<close> is logged and makes the exit code 1.
\<close>

definition config_path :: "string \<Rightarrow> string option \<Rightarrow> string" where
  "config_path standard flag = (case flag of None \<Rightarrow> standard | Some path \<Rightarrow> path)"

definition process_exit :: "string \<Rightarrow> string option \<Rightarrow> int \<times> (string \<times> string) option" where
  "process_exit message err = (case err of None \<Rightarrow> (0, None) | Some e \<Rightarrow> (1, Some (message, e)))"

definition server_main :: "(string \<Rightarrow> string option) \<Rightarrow> string option \<Rightarrow> int \<times> (string \<times> string) option" where
  "server_main start flag =
     process_exit ''server exited with error'' (start (config_path ''config/server.yaml'' flag))"

definition worker_main :: "(string \<Rightarrow> string option) \<Rightarrow> string option \<Rightarrow> int \<times> (string \<times> string) option" where
  "worker_main start flag =
     process_exit ''worker exited with error'' (start (config_path ''config/worker.yaml'' flag))"

lemma exit_code_reports:
  "fst (server_main start flag) = 0 \<longleftrightarrow> start (config_path ''config/server.yaml'' flag) = None"
  "fst (worker_main start flag) = 0 \<longleftrightarrow> start (config_path ''config/worker.yaml'' flag) = None"
  by (auto simp: server_main_def worker_main_def process_exit_def split: option.split)

end
