(* ===== verification/Spec2Isabelle.thy ===== *)
theory Spec2Isabelle
  imports Witnesses Witnesses_Flow Witnesses_Adapters Rows Observability
begin

text \<open>
  GopherPost is a notification delivery service in Go. A source system submits a
  notification for one action of one provider; the service stores it once, hands its id to a
  message queue, and workers deliver it with retries, rate limits and a circuit breaker
  until it is SUCCEEDED or FAILED. This library models the service's own logic and proves
  what makes it correct.

  \<^bold>\<open>The parts and how they interact.\<close> A protocol handler (REST, gRPC or MCP) checks its
  caller, binds the request and calls \<open>Submit\<close> of the application service, which validates
  the payload with the provider's adapter, inserts one row per source request and publishes
  the row's id (\<open>PublishAndMark\<close>). A broker backend (memory, RabbitMQ, NSQ) hands the id to
  \<open>HandleDelivery\<close> of a worker, which claims the row under a fresh lease token, asks the
  breaker and the limiter of the action, marks the row, calls the adapter and stores the
  outcome; an error asks the broker to redeliver. The compensator publishes rows whose
  publication was lost and recovers rows whose lease expired. The table is the only shared
  truth: all of its writes are single guarded SQL statements.

  \<^bold>\<open>Theories and sources\<close> (paths below src/internal):
  \<^item> \<open>Prelude\<close>, \<open>Json\<close>, \<open>Json_Text\<close>, \<open>Digest\<close>: Go's strings, times and 32/64-bit numbers, JSON
    values, \<open>encoding/json\<close>'s reader and printer on bytes, SHA-256, HMAC and Base64.
  \<^item> \<open>Domain\<close>, \<open>Store\<close>, \<open>Store_Laws\<close>, \<open>Rows\<close>: domain/event.go and store/event_repo.go, each
    statement over the list of rows, with a fault before or after the statement as an argument
    (\<open>db_env\<close>, which also orders rows that an ORDER BY leaves tied); the abstract life cycle of a delivery and the refinement; \<open>Rows\<close> scans the
    columns of a row and shows that reading a row as its event is what scanning gives.
  \<^item> \<open>Mq\<close>, \<open>Envelope\<close>, \<open>Memory_Broker\<close>, \<open>RabbitMQ\<close>, \<open>NSQ\<close>: mq/; the requeue policy, the message
    envelope and three backends, which interpret one consumer contract; the memory broker takes
    a message and settles it in two steps, with the handler in between.
  \<^item> \<open>Breaker\<close>, \<open>Limiter\<close>: worker/breaker.go and worker/limiter.go as state machines, with the
    histories of callers and answers that lead to a breaker's state.
  \<^item> \<open>Program\<close>, \<open>Program_Laws\<close>: handlers as programs (\<open>prog\<close>) of the effects they perform
    (database statements, clock, broker, breaker, limiter, provider), so that one definition
    can be run alone or interleaved step by step with any other actor.
  \<^item> \<open>Processor\<close>, \<open>Processor_Laws\<close>, \<open>Publish\<close>, \<open>Compensator\<close>, \<open>Compensator_Laws\<close>, \<open>Service\<close>,
    \<open>Service_Laws\<close>: worker/processor.go, publish/publish.go, worker/compensator.go and
    application/notification/, and what one undisturbed run of each does on every branch.
  \<^item> \<open>System\<close>, \<open>Confirmation\<close>: any number of workers, submissions and compensators
    interleaved, with crashes at every step, database faults and arbitrary redelivery.
  \<^item> \<open>Termination\<close>: how many effects a handler performs at most, and what it can wait for.
  \<^item> \<open>End_To_End\<close>: submission, publication, delivery and status query composed; \<open>Retries\<close>: one
    delivery after the other until the limit, and a confirmation that cannot be stored.
  \<^item> \<open>Vendors\<close>, \<open>Http\<close>, \<open>Provider\<close>, \<open>Provider_Send\<close>, \<open>Adapters\<close>, \<open>Webhook\<close>, \<open>Lark\<close>, \<open>Smtp\<close>,
    \<open>Firebase\<close>, \<open>Loadtest\<close>, \<open>Builtin\<close>: httpclient/, provider/, provider/adapters/ and
    bootstrap/; each adapter interprets the locale \<open>action_adapter\<close>, and the registry built
    from the configuration only holds such adapters.
  \<^item> \<open>Authn\<close>, \<open>Api\<close>, \<open>Endpoints\<close>: authn/, api/, grpcapi/, mcpapi/ and config's token rules:
    handlers, routes, interceptors, recovery and access. The readiness probe is a function of
    what the database and the broker answer while the request is served.
  \<^item> \<open>Connections\<close>: the driver switches of mq/mq.go, connecting, reconnecting and closing of
    mq/rabbitmq.go and mq/nsq.go. The consumer loop is a step relation with one phase per
    place its goroutine can stand at; a select takes any of its ready cases, so a delivery may
    still win against a context that is done.
  \<^item> \<open>Startup\<close>: config/, store/postgres.go, store/database.go, worker/worker.go and the \<open>run\<close>
    functions of cmd/worker and cmd/server: loading, order of the steps, wiring, exit.
  \<^item> \<open>Observability\<close>: logging/, the log lines of the REST and gRPC servers, the Swagger page
    (api/swagger.go) and the \<open>main\<close> functions with their flags and exit codes.
  \<^item> \<open>Witnesses\<close>, \<open>Witnesses_Flow\<close>, \<open>Witnesses_Adapters\<close>: each property with hypotheses
    applied to a concrete input.

  \<^bold>\<open>What is shown.\<close> For the whole system, over every interleaving, crash and fault: provider
  calls are bounded, a success was confirmed, a claim is exclusive, finished rows are final,
  every table is well formed and every write refines the life cycle. For each handler: what
  it answers and stores on every branch, and that it ends; over the
  deliveries of a notification that is never confirmed, that it is FAILED after exactly its
  attempts; what happens to a confirmation the database refuses to store, what a repeated
  submission is answered, and what the two scans repair. For the backends: one redelivery
  contract, bounds and delays of the policy, no loss on a requeue, an orderly consumer loop.
  For the breaker and the limiter: their state machines. For the adapters: what a reported
  success means on the wire, that configurations are safe, that credentials are protected
  and headers cannot be injected. For the interfaces: one meaning of an error on each
  protocol and what a caller without a token can reach. For start-up: every configured action is wired.

  \<^bold>\<open>State and errors.\<close> Go structs are records, enumerations datatypes, unsigned and
  fixed-width integers words (\<open>uint32\<close>, \<open>int64\<close> where overflow matters), strings the bytes
  they are, times and durations integers of nanoseconds. Every returned error is a value
  (\<open>store_error\<close>, \<open>service_error\<close>, \<open>handler_error\<close>, or \<open>Inl\<close> of a sum); nil is \<open>None\<close>.

  \<^bold>\<open>Parameters.\<close> Code outside the repository is an argument: the normalisation of a jsonb
  column (\<open>jsonb\<close>), UUID printing and parsing, \<open>net/url\<close>'s parser and its loopback test, the
  HTTP transport, \<open>ParseFloat\<close> on a language quality, the outcome of \<open>rate.Limiter.Wait\<close>,
  clocks and random bytes; the mail library (\<open>mail_lib\<close>), the SMTP server (\<open>smtp_server\<close>), the
  Firebase library (\<open>fcm_service\<close>), the AMQP broker (\<open>amqp_broker\<close>), the YAML library
  (\<open>yaml_lib\<close> and the decoders of the loaders), the outcomes of the database driver
  (\<open>db_outcomes\<close>) and the dispatch of the gRPC and MCP libraries.

  \<^bold>\<open>Fuel.\<close> The JSON reader runs with twice the input's length plus one, since each step
  either consumes a byte or descends once before one; trimming and splitting run with the
  length of the text. The loops of the compensator run over the list of ticks they see.

  \<^bold>\<open>Not modelled.\<close> The decoding of YAML, the internals of gin, gRPC, the MCP library and the
  vendors' clients; the text of log lines (modelled are the attributes of the provider
  request line, of the access logs and of the gRPC log, and which records are written); the
  generated code under gen/ and docs/; signal handling, listeners and the scheduling of
  goroutines inside one handler. \<open>last_result\<close> is stored as the document the code marshals:
  that PostgreSQL refuses its text is a fault of the environment (\<open>FaultBefore\<close>), while the
  refusal of a payload or of a provider's response is a branch of the model. A text column that
  refuses a NUL byte or broken UTF-8 is such a fault too; that a varchar column cuts surplus
  blanks off an over-long value, instead of refusing it, is left out.
\<close>

section \<open>Every broker keeps the same contract\<close>



end
